(* ===== verification/Prelude.thy ===== *)
theory Prelude
  imports Main "HOL-Library.Word"
begin

text \<open>
  What every component shares: names for the C integer types, the outcome of a C
  function that may return, call \<open>exit\<close> or run into undefined behaviour, the
  sequencing of such functions, a total-correctness judgement on outcomes with its
  rules, and a few facts about lists that are updated in place.
\<close>

unbundle bit_operations_syntax

type_synonym u1 = "1 word"
type_synonym u8 = "8 word"
type_synonym u13 = "13 word"
type_synonym u16 = "16 word"
type_synonym u32 = "32 word"

named_theorems outcome_simps \<open>evaluation of sequenced outcomes\<close>
named_theorems frame_intros \<open>what an operation leaves alone\<close>

section \<open>Outcomes of C functions\<close>

text \<open>
  \<open>Ret x s\<close>: the function returned \<open>x\<close> in state \<open>s\<close>; \<open>Exit c s\<close>: the process called
  \<open>exit(c)\<close> in state \<open>s\<close>; \<open>Undef\<close>: the C standard gives the execution no meaning
  (an access outside an array, a remainder by zero).
\<close>

datatype ('s, 'a) res = Ret 'a 's | Exit int 's | Undef

fun bindR :: "('s, 'a) res \<Rightarrow> ('a \<Rightarrow> 's \<Rightarrow> ('s, 'b) res) \<Rightarrow> ('s, 'b) res" where
  "bindR (Ret x s) k = k x s"
| "bindR (Exit c s) k = Exit c s"
| "bindR Undef k = Undef"

declare bindR.simps [outcome_simps]

lemma bindR_assoc: "bindR (bindR m k) h = bindR m (\<lambda>x s. bindR (k x s) h)"
  by (cases m) simp_all

lemma bindR_Ret_iff:
  "bindR m k = Ret y t \<longleftrightarrow> (\<exists>x s. m = Ret x s \<and> k x s = Ret y t)"
  by (cases m) simp_all

lemma bindR_Undef_iff:
  "bindR m k = Undef \<longleftrightarrow> m = Undef \<or> (\<exists>x s. m = Ret x s \<and> k x s = Undef)"
  by (cases m) simp_all

text \<open>
  The judgement \<open>holds m Q E\<close>: the outcome \<open>m\<close> is defined, and it satisfies \<open>Q\<close> when
  it is a return and \<open>E\<close> when it is an exit.
\<close>

fun holds :: "('s, 'a) res \<Rightarrow> ('a \<Rightarrow> 's \<Rightarrow> bool) \<Rightarrow> (int \<Rightarrow> 's \<Rightarrow> bool) \<Rightarrow> bool" where
  "holds (Ret x s) Q E = Q x s"
| "holds (Exit c s) Q E = E c s"
| "holds Undef Q E = False"

lemma holds_bindR [simp]:
  "holds (bindR m k) Q E = holds m (\<lambda>x s. holds (k x s) Q E) E"
  by (cases m) simp_all

lemma holds_mono:
  "holds m Q E \<Longrightarrow> (\<And>x s. Q x s \<Longrightarrow> Q' x s) \<Longrightarrow> (\<And>c s. E c s \<Longrightarrow> E' c s) \<Longrightarrow> holds m Q' E'"
  by (cases m) simp_all

lemma holds_conj:
  "holds m Q E \<Longrightarrow> holds m Q' E' \<Longrightarrow>
     holds m (\<lambda>x s. Q x s \<and> Q' x s) (\<lambda>c s. E c s \<and> E' c s)"
  by (cases m) simp_all

lemma holds_Ret: "holds m Q E \<Longrightarrow> m = Ret x s \<Longrightarrow> Q x s"
  by simp

lemma holds_defined: "holds m Q E \<Longrightarrow> m \<noteq> Undef"
  by auto

lemma holds_trivial: "m \<noteq> Undef \<longleftrightarrow> holds m (\<lambda>_ _. True) (\<lambda>_ _. True)"
  by (cases m) simp_all

lemma holds_return: "holds m Q (\<lambda>_ _. False) \<longleftrightarrow> (\<exists>x s. m = Ret x s \<and> Q x s)"
  by (cases m) auto

section \<open>Lists updated in place\<close>

lemma list_all_update:
  "list_all P xs \<Longrightarrow> P x \<Longrightarrow> list_all P (xs[i := x])"
  by (auto simp: list_all_iff dest!: set_update_subset_insert [THEN subsetD])

lemma list_all_nthD: "list_all P xs \<Longrightarrow> i < length xs \<Longrightarrow> P (xs ! i)"
  by (simp add: list_all_length)

lemma length_filter_all: "length (filter P xs) = length xs \<longleftrightarrow> (\<forall>x\<in>set xs. P x)"
proof (induction xs)
  case (Cons x xs)
  have "length (filter P xs) \<noteq> Suc (length xs)"
    using length_filter_le [of P xs] by linarith
  with Cons show ?case
    by simp
qed simp

lemma length_filter_upt: "length (filter P [0..<n]) = n \<longleftrightarrow> (\<forall>k<n. P k)"
  using length_filter_all [of P "[0..<n]"] by auto

section \<open>Words, bit by bit\<close>

text \<open>
  An equation between words becomes one equation per bit, at numeral positions, so that
  the simplifier decides identities between masks, shifts and casts.
\<close>

lemma all_less_numeral:
  "(\<forall>n<numeral k. P n) = (P (pred_numeral k) \<and> (\<forall>n<pred_numeral k. P n))"
  by (simp add: numeral_eq_Suc All_less_Suc)

lemma bit_beyond: "LENGTH('a) \<le> n \<Longrightarrow> bit (x :: 'a::len word) n = False"
  using bit_imp_le_length by fastforce

lemma word_eq_bits: "(x :: 'a::len word) = y \<longleftrightarrow> (\<forall>n<LENGTH('a). bit x n = bit y n)"
  by (auto intro: bit_word_eqI)

lemmas bitwise = word_eq_bits all_less_numeral bit_beyond bit_simps

lemma u1_cases: "(x :: u1) = 0 \<or> x = 1"
  by (simp add: bitwise)

end
