(* ===== verification/Btblock.thy ===== *)
theory Btblock
  imports Prelude
begin

text \<open>
  The data of the boot configuration (\<open>src/lowlevel.h\<close>): one boot block as the C
  \<open>struct btblock\<close> and its memory image, the 16 packed bytes that are written to and
  read from NAND.
\<close>

section \<open>struct btinfo and struct btblock\<close>

text \<open>The bit fields of \<open>struct btinfo\<close> at their widths.\<close>

record btinfo =
  reserved :: u13
  partition :: u1
  n_booted :: u1
  n_healthy :: u1

record btblock =
  magic :: "u8 list"
  epoch :: u32
  timestamp :: u32
  kernel :: btinfo
  rootfs :: btinfo

datatype bt_ll_parttype = Kernel | Rootfs

definition KERNEL_START_PARTITION :: int where "KERNEL_START_PARTITION = 2"
definition ROOTFS_START_PARTITION :: int where "ROOTFS_START_PARTITION = 4"

text \<open>The two magics the code compares against: \<open>"Boot"\<close> and \<open>"BAD!"\<close>.\<close>

definition MAGIC_BOOT :: "u8 list" where "MAGIC_BOOT = [0x42, 0x6F, 0x6F, 0x74]"
definition MAGIC_BAD :: "u8 list" where "MAGIC_BAD = [0x42, 0x41, 0x44, 0x21]"

lemma magic_distinct [simp]: "MAGIC_BOOT \<noteq> MAGIC_BAD" "MAGIC_BAD \<noteq> MAGIC_BOOT"
  by (simp_all add: MAGIC_BOOT_def MAGIC_BAD_def)

lemma length_magics [simp]: "length MAGIC_BOOT = 4" "length MAGIC_BAD = 4"
  by (simp_all add: MAGIC_BOOT_def MAGIC_BAD_def)

definition wf_block :: "btblock \<Rightarrow> bool" where
  "wf_block b \<longleftrightarrow> length (magic b) = 4"

definition is_boot :: "btblock \<Rightarrow> bool" where
  "is_boot b \<longleftrightarrow> magic b = MAGIC_BOOT"

section \<open>The memory image\<close>

text \<open>
  The structs are packed and little endian; GCC allots bit fields from the least
  significant bit on, so \<open>n_healthy\<close> is bit 15 of its half word.
\<close>

definition btinfo_word :: "btinfo \<Rightarrow> u16" where
  "btinfo_word i =
     ucast (reserved i) OR push_bit 13 (ucast (partition i))
       OR push_bit 14 (ucast (n_booted i)) OR push_bit 15 (ucast (n_healthy i))"

definition word_btinfo :: "u16 \<Rightarrow> btinfo" where
  "word_btinfo w =
     \<lparr>reserved = ucast w, partition = ucast (drop_bit 13 w),
      n_booted = ucast (drop_bit 14 w), n_healthy = ucast (drop_bit 15 w)\<rparr>"

definition bytes16 :: "u16 \<Rightarrow> u8 list" where
  "bytes16 w = [ucast w, ucast (drop_bit 8 w)]"

definition bytes32 :: "u32 \<Rightarrow> u8 list" where
  "bytes32 w = [ucast w, ucast (drop_bit 8 w), ucast (drop_bit 16 w), ucast (drop_bit 24 w)]"

definition word16 :: "u8 \<Rightarrow> u8 \<Rightarrow> u16" where
  "word16 a b = ucast a OR push_bit 8 (ucast b)"

definition word32 :: "u8 \<Rightarrow> u8 \<Rightarrow> u8 \<Rightarrow> u8 \<Rightarrow> u32" where
  "word32 a b c d =
     ucast a OR push_bit 8 (ucast b) OR push_bit 16 (ucast c) OR push_bit 24 (ucast d)"

definition SIZEOF_BTBLOCK :: nat where "SIZEOF_BTBLOCK = 16"

definition btblock_bytes :: "btblock \<Rightarrow> u8 list" where
  "btblock_bytes b =
     magic b @ bytes32 (epoch b) @ bytes32 (timestamp b)
       @ bytes16 (btinfo_word (kernel b)) @ bytes16 (btinfo_word (rootfs b))"

definition bytes_btblock :: "u8 list \<Rightarrow> btblock" where
  "bytes_btblock x =
     \<lparr>magic = take 4 x,
      epoch = word32 (x ! 4) (x ! 5) (x ! 6) (x ! 7),
      timestamp = word32 (x ! 8) (x ! 9) (x ! 10) (x ! 11),
      kernel = word_btinfo (word16 (x ! 12) (x ! 13)),
      rootfs = word_btinfo (word16 (x ! 14) (x ! 15))\<rparr>"

section \<open>Round trips\<close>

lemma word_btinfo_word [simp]: "word_btinfo (btinfo_word i) = i"
  by (cases i) (simp add: word_btinfo_def btinfo_word_def bitwise)

lemma btinfo_word_btinfo [simp]: "btinfo_word (word_btinfo w) = w"
  by (simp add: word_btinfo_def btinfo_word_def bitwise)

lemma word16_bytes [simp]: "word16 (ucast w) (ucast (drop_bit 8 w)) = w"
  by (simp add: word16_def bitwise)

lemma word32_bytes [simp]:
  "word32 (ucast w) (ucast (drop_bit 8 w)) (ucast (drop_bit 16 w)) (ucast (drop_bit 24 w)) = w"
  by (simp add: word32_def bitwise)

lemma bytes16_word [simp]: "bytes16 (word16 a b) = [a, b]"
  by (simp add: bytes16_def word16_def bitwise)

lemma bytes32_word [simp]: "bytes32 (word32 a b c d) = [a, b, c, d]"
  by (simp add: bytes32_def word32_def bitwise)

lemma length_btblock_bytes [simp]: "wf_block b \<Longrightarrow> length (btblock_bytes b) = SIZEOF_BTBLOCK"
  by (simp add: wf_block_def btblock_bytes_def SIZEOF_BTBLOCK_def bytes16_def bytes32_def)

lemma length4_conv: "length x = 4 \<longleftrightarrow> (\<exists>a b c d. x = [a, b, c, d])"
  by (auto simp: numeral_eq_Suc length_Suc_conv)

lemma bytes_btblock_bytes [simp]: "wf_block b \<Longrightarrow> bytes_btblock (btblock_bytes b @ rest) = b"
  by (cases b)
    (auto simp: wf_block_def btblock_bytes_def bytes_btblock_def length4_conv bytes16_def bytes32_def)

lemma length16_conv:
  "length x = 16 \<longleftrightarrow> (\<exists>a b c d e f g h i j k l m n p q. x = [a,b,c,d,e,f,g,h,i,j,k,l,m,n,p,q])"
  by (auto simp: numeral_eq_Suc length_Suc_conv)

lemma btblock_bytes_btblock [simp]:
  "length x = SIZEOF_BTBLOCK \<Longrightarrow> btblock_bytes (bytes_btblock x) = x"
  by (auto simp: SIZEOF_BTBLOCK_def length16_conv btblock_bytes_def bytes_btblock_def)

lemma wf_bytes_btblock [simp]: "4 \<le> length x \<Longrightarrow> wf_block (bytes_btblock x)"
  by (simp add: wf_block_def bytes_btblock_def)

section \<open>The array of blocks as memory\<close>

text \<open>
  \<open>bc->blocks\<close> points to an array of blocks. \<open>memset(bc->blocks, 0, k)\<close> clears its first
  \<open>k\<close> bytes, which need not be a whole number of blocks.
\<close>

definition zero_btinfo :: btinfo where
  "zero_btinfo = \<lparr>reserved = 0, partition = 0, n_booted = 0, n_healthy = 0\<rparr>"

definition zero_block :: btblock where
  "zero_block =
     \<lparr>magic = [0, 0, 0, 0], epoch = 0, timestamp = 0, kernel = zero_btinfo, rootfs = zero_btinfo\<rparr>"

lemma wf_zero_block [simp]: "wf_block zero_block"
  by (simp add: wf_block_def zero_block_def)

lemma not_boot_zero_block [simp]: "\<not> is_boot zero_block"
  by (simp add: is_boot_def zero_block_def MAGIC_BOOT_def)

definition blocks_bytes :: "btblock list \<Rightarrow> u8 list" where
  "blocks_bytes bs = concat (map btblock_bytes bs)"

definition bytes_blocks :: "nat \<Rightarrow> u8 list \<Rightarrow> btblock list" where
  "bytes_blocks n x =
     map (\<lambda>i. bytes_btblock (take SIZEOF_BTBLOCK (drop (SIZEOF_BTBLOCK * i) x))) [0..<n]"

definition memset_zero :: "nat \<Rightarrow> btblock list \<Rightarrow> btblock list" where
  "memset_zero k bs =
     bytes_blocks (length bs) (replicate k 0 @ drop k (blocks_bytes bs))"

text \<open>What is left of one block when its first \<open>j\<close> bytes are cleared.\<close>

definition clear_prefix :: "nat \<Rightarrow> btblock \<Rightarrow> btblock" where
  "clear_prefix j b = bytes_btblock (replicate j 0 @ drop j (btblock_bytes b))"

lemma length_memset_zero [simp]: "length (memset_zero k bs) = length bs"
  by (simp add: memset_zero_def bytes_blocks_def)

lemma drop_blocks_bytes:
  "list_all wf_block bs \<Longrightarrow> i \<le> length bs \<Longrightarrow>
     drop (SIZEOF_BTBLOCK * i) (blocks_bytes bs) = blocks_bytes (drop i bs)"
proof (induction bs arbitrary: i)
  case Nil
  then show ?case by (simp add: blocks_bytes_def)
next
  case (Cons b bs)
  then show ?case
    by (cases i) (auto simp: blocks_bytes_def)
qed

lemma take_blocks_bytes:
  "list_all wf_block bs \<Longrightarrow> i < length bs \<Longrightarrow>
     take SIZEOF_BTBLOCK (drop (SIZEOF_BTBLOCK * i) (blocks_bytes bs)) = btblock_bytes (bs ! i)"
  by (simp add: drop_blocks_bytes Cons_nth_drop_Suc [symmetric] list_all_nthD)
    (simp add: blocks_bytes_def list_all_nthD)

lemma nth_memset_zero:
  assumes wf: "list_all wf_block bs" and i: "i < length bs"
  shows "memset_zero k bs ! i = clear_prefix (min SIZEOF_BTBLOCK (k - SIZEOF_BTBLOCK * i)) (bs ! i)"
proof -
  let ?m = "SIZEOF_BTBLOCK * i"
  let ?x = "blocks_bytes bs"
  have x: "take SIZEOF_BTBLOCK (drop ?m ?x) = btblock_bytes (bs ! i)"
    using wf i by (rule take_blocks_bytes)
  have "take SIZEOF_BTBLOCK (drop ?m (replicate k 0 @ drop k ?x)) =
    replicate (min SIZEOF_BTBLOCK (k - ?m)) 0 @
      drop (min SIZEOF_BTBLOCK (k - ?m)) (take SIZEOF_BTBLOCK (drop ?m ?x))"
    by (cases "k \<le> ?m"; cases "SIZEOF_BTBLOCK \<le> k - ?m")
      (simp_all add: min_def take_drop add.commute)
  then show ?thesis
    using i by (simp add: memset_zero_def bytes_blocks_def clear_prefix_def x)
qed

lemma clear_prefix_0 [simp]: "wf_block b \<Longrightarrow> clear_prefix 0 b = b"
  using bytes_btblock_bytes [of b "[]"] by (simp add: clear_prefix_def)

lemma clear_prefix_all [simp]: "wf_block b \<Longrightarrow> clear_prefix SIZEOF_BTBLOCK b = zero_block"
  by (simp add: clear_prefix_def SIZEOF_BTBLOCK_def)
    (simp add: zero_block_def zero_btinfo_def bytes_btblock_def word32_def word16_def word_btinfo_def
      numeral_eq_Suc)

lemma wf_clear_prefix [simp]: "wf_block b \<Longrightarrow> wf_block (clear_prefix j b)"
  by (simp add: clear_prefix_def SIZEOF_BTBLOCK_def)

lemma magic_clear_prefix: "4 \<le> j \<Longrightarrow> wf_block b \<Longrightarrow> magic (clear_prefix j b) = [0, 0, 0, 0]"
  by (simp add: clear_prefix_def bytes_btblock_def min_def numeral_eq_Suc)

text \<open>A cleared prefix of at least one byte leaves no boot magic behind.\<close>

lemma not_boot_clear_prefix: "0 < j \<Longrightarrow> wf_block b \<Longrightarrow> \<not> is_boot (clear_prefix j b)"
  by (cases j) (auto simp: is_boot_def clear_prefix_def bytes_btblock_def MAGIC_BOOT_def take_Cons')

lemma wf_memset_zero: "list_all wf_block bs \<Longrightarrow> list_all wf_block (memset_zero k bs)"
  by (auto simp: list_all_length nth_memset_zero [unfolded list_all_length])

lemma memset_zero_cleared:
  "list_all wf_block bs \<Longrightarrow> i < length bs \<Longrightarrow> SIZEOF_BTBLOCK * Suc i \<le> k \<Longrightarrow>
     memset_zero k bs ! i = zero_block"
  by (simp add: nth_memset_zero list_all_nthD min_def)

lemma memset_zero_kept:
  "list_all wf_block bs \<Longrightarrow> i < length bs \<Longrightarrow> k \<le> SIZEOF_BTBLOCK * i \<Longrightarrow>
     memset_zero k bs ! i = bs ! i"
  by (simp add: nth_memset_zero list_all_nthD)



end
