(* ===== verification/Logging.thy ===== *)
theory Logging
  imports Prelude
begin

text \<open>
  The logging abstraction (\<open>src/logging.c\<close>, \<open>src/logging.h\<close>): the two global masks, the
  macro \<open>bc_log\<close> with its three channels, and \<open>printf\<close>. What is written is kept as the
  list of events in the order of the writes: the format string of the source and the
  values of its conversions, not the rendered text.
\<close>

section \<open>Severities, channels and output events\<close>

datatype severity =
  LOG_EMERG | LOG_ALERT | LOG_CRIT | LOG_ERR | LOG_WARNING | LOG_NOTICE | LOG_INFO | LOG_DEBUG

fun severity_num :: "severity \<Rightarrow> nat" where
  "severity_num LOG_EMERG = 0"
| "severity_num LOG_ALERT = 1"
| "severity_num LOG_CRIT = 2"
| "severity_num LOG_ERR = 3"
| "severity_num LOG_WARNING = 4"
| "severity_num LOG_NOTICE = 5"
| "severity_num LOG_INFO = 6"
| "severity_num LOG_DEBUG = 7"

definition LOG_MASK :: "severity \<Rightarrow> u32" where
  "LOG_MASK sev = push_bit (severity_num sev) 1"

definition BC_LOG_STDOUT :: u32 where "BC_LOG_STDOUT = push_bit 0 1"
definition BC_LOG_STDERR :: u32 where "BC_LOG_STDERR = push_bit 1 1"
definition BC_LOG_SYSLOG :: u32 where "BC_LOG_SYSLOG = push_bit 2 1"

text \<open>
  The values of conversions: an integer, a string, \<open>strerror\<close> of an error number, a
  character, \<open>asctime(gmtime(&t))\<close> of a time, and the place of a message in the source, which
  stands for the three values of \<open>__FILE__\<close>, \<open>__func__\<close> and \<open>__LINE__\<close>.
\<close>

datatype fmt_arg = AInt int | AStr string | AErr int | AChr char | ATime int | APlace

datatype out_event =
    Stdout string "fmt_arg list"
  | Stderr string "fmt_arg list"
  | Syslog severity string "fmt_arg list"

record log_state =
  bc_log_channels :: u32
  bc_log_levels :: u32
  outputs :: "out_event list"

definition emit :: "out_event \<Rightarrow> 'a log_state_scheme \<Rightarrow> 'a log_state_scheme" where
  "emit e s = s\<lparr>outputs := outputs s @ [e]\<rparr>"

definition printf :: "string \<Rightarrow> fmt_arg list \<Rightarrow> 'a log_state_scheme \<Rightarrow> 'a log_state_scheme" where
  "printf fmt args = emit (Stdout fmt args)"

section \<open>bc_log\<close>

text \<open>
  On the standard-output channel the macro writes \<open>#format\<close>, the source spelling of the
  literal with its quotes and escapes, where the other channels write \<open>format\<close>.
\<close>

fun escape_char :: "char \<Rightarrow> string" where
  "escape_char c =
     (if c = CHR 0x0A then [CHR 0x5C, CHR ''n'']
      else if c = CHR 0x22 then [CHR 0x5C, CHR 0x22]
      else if c = CHR 0x5C then [CHR 0x5C, CHR 0x5C]
      else [c])"

definition stringify :: "string \<Rightarrow> string" where
  "stringify lit = [CHR 0x22] @ concat (map escape_char lit) @ [CHR 0x22]"

definition place_format :: string where "place_format = ''%s::%s:%d ''"

definition bc_log ::
  "severity \<Rightarrow> string \<Rightarrow> fmt_arg list \<Rightarrow> 'a log_state_scheme \<Rightarrow> 'a log_state_scheme" where
  "bc_log sev fmt args s =
     (let s1 =
        (if bc_log_levels s AND LOG_MASK sev \<noteq> 0 then
           (let s0 = (if bc_log_channels s AND BC_LOG_STDOUT \<noteq> 0
                      then emit (Stdout (place_format @ stringify fmt) (APlace # args)) s else s)
            in if bc_log_channels s0 AND BC_LOG_STDERR \<noteq> 0
               then emit (Stderr (place_format @ fmt) (APlace # args)) s0 else s0)
         else s)
      in if bc_log_channels s1 AND BC_LOG_SYSLOG \<noteq> 0
         then emit (Syslog sev (place_format @ fmt) (APlace # args)) s1 else s1)"

section \<open>The configuration of the log\<close>

definition default_channels :: u32 where
  "default_channels = BC_LOG_SYSLOG"

definition default_levels :: u32 where
  "default_levels =
     LOG_MASK LOG_EMERG OR LOG_MASK LOG_ALERT OR LOG_MASK LOG_CRIT OR LOG_MASK LOG_ERR
       OR LOG_MASK LOG_WARNING OR LOG_MASK LOG_NOTICE OR LOG_MASK LOG_INFO OR LOG_MASK LOG_DEBUG"

definition get_log_config :: "'a log_state_scheme \<Rightarrow> u32 \<times> u32" where
  "get_log_config s = (bc_log_channels s, bc_log_levels s)"

definition set_log_config :: "u32 \<Rightarrow> u32 \<Rightarrow> 'a log_state_scheme \<Rightarrow> 'a log_state_scheme" where
  "set_log_config channels levels s =
     s\<lparr>bc_log_channels := channels, bc_log_levels := levels\<rparr>"

section \<open>What logging does and does not do\<close>

lemma emit_keeps [simp]:
  "bc_log_channels (emit e s) = bc_log_channels s"
  "bc_log_levels (emit e s) = bc_log_levels s"
  "log_state.more (emit e s) = log_state.more s"
  "outputs (emit e s) = outputs s @ [e]"
  by (simp_all add: emit_def)

lemma bc_log_keeps [simp]:
  "bc_log_channels (bc_log sev fmt args s) = bc_log_channels s"
  "bc_log_levels (bc_log sev fmt args s) = bc_log_levels s"
  "log_state.more (bc_log sev fmt args s) = log_state.more s"
  by (simp_all add: bc_log_def Let_def)

lemma printf_keeps [simp]:
  "bc_log_channels (printf fmt args s) = bc_log_channels s"
  "bc_log_levels (printf fmt args s) = bc_log_levels s"
  "log_state.more (printf fmt args s) = log_state.more s"
  "outputs (printf fmt args s) = outputs s @ [Stdout fmt args]"
  by (simp_all add: printf_def)

lemma get_set_log_config [simp]: "get_log_config (set_log_config c l s) = (c, l)"
  by (simp add: get_log_config_def set_log_config_def)

lemma set_get_log_config:
  "set_log_config (fst (get_log_config s)) (snd (get_log_config s)) s = s"
  by (simp add: get_log_config_def set_log_config_def)

lemma default_levels_admit: "default_levels AND LOG_MASK sev \<noteq> 0"
  by (cases sev) (simp_all add: default_levels_def LOG_MASK_def)

text \<open>Which channels one message reaches, for any setting of the two masks.\<close>

lemma outputs_bc_log:
  "outputs (bc_log sev fmt args s) = outputs s
     @ (if bc_log_levels s AND LOG_MASK sev \<noteq> 0 \<and> bc_log_channels s AND BC_LOG_STDOUT \<noteq> 0
        then [Stdout (place_format @ stringify fmt) (APlace # args)] else [])
     @ (if bc_log_levels s AND LOG_MASK sev \<noteq> 0 \<and> bc_log_channels s AND BC_LOG_STDERR \<noteq> 0
        then [Stderr (place_format @ fmt) (APlace # args)] else [])
     @ (if bc_log_channels s AND BC_LOG_SYSLOG \<noteq> 0 then [Syslog sev (place_format @ fmt) (APlace # args)] else [])"
  by (simp add: bc_log_def Let_def)

lemma stringify_differs: "stringify fmt \<noteq> fmt"
proof
  assume eq: "stringify fmt = fmt"
  have "length fmt \<le> length (concat (map escape_char fmt))"
    by (induction fmt) auto
  moreover have "length (stringify fmt) = length fmt"
    using eq by simp
  ultimately show False
    by (simp add: stringify_def)
qed


end
