(* ===== verification/Mtd_Env.thy ===== *)
theory Mtd_Env
  imports Btblock Logging
begin

text \<open>
  What \<open>lowlevel.c\<close> asks of libmtd, the C library and the operating system, as a record
  of functions over an opaque world \<open>'w\<close> (the flash, the heap, the clock, \<open>errno\<close>): every
  definition that uses them takes the record as its argument. Then the state of the
  program, and the laws of a flash device that some properties name as hypotheses.
\<close>

section \<open>The calls\<close>

text \<open>The two fields of \<open>struct mtd_dev_info\<close> the code reads.\<close>

record mtd_dev_info =
  eb_cnt :: nat
  min_io_size :: nat

text \<open>
  Every call returns the C return value and the next world. \<open>mtd_read_op\<close> is given the
  old contents of the buffer and returns its contents after the call; \<open>libmtd_open_op\<close>
  returns \<open>None\<close> for a null pointer; \<open>malloc_op\<close> says whether a pointer was returned;
  \<open>sizeof_ptr\<close> is the size of a pointer, \<open>sscanf_overflow\<close> what \<open>sscanf\<close> stores for a
  number that does not fit, which the C standard leaves open, and \<open>time_t_conv\<close> the
  conversion of an \<open>unsigned int\<close> to \<open>time_t\<close>, whose width is the platform's.
\<close>

record 'w env_ops =
  open_op :: "string \<Rightarrow> 'w \<Rightarrow> int \<times> 'w"
  libmtd_open_op :: "'w \<Rightarrow> nat option \<times> 'w"
  mtd_get_dev_info_op :: "nat \<Rightarrow> string \<Rightarrow> 'w \<Rightarrow> int \<times> mtd_dev_info \<times> 'w"
  mtd_is_bad_op :: "mtd_dev_info \<Rightarrow> int \<Rightarrow> nat \<Rightarrow> 'w \<Rightarrow> int \<times> 'w"
  mtd_read_op :: "mtd_dev_info \<Rightarrow> int \<Rightarrow> nat \<Rightarrow> nat \<Rightarrow> u8 list \<Rightarrow> 'w \<Rightarrow> int \<times> u8 list \<times> 'w"
  mtd_erase_op :: "nat \<Rightarrow> mtd_dev_info \<Rightarrow> int \<Rightarrow> nat \<Rightarrow> 'w \<Rightarrow> int \<times> 'w"
  mtd_write_op :: "nat \<Rightarrow> mtd_dev_info \<Rightarrow> int \<Rightarrow> nat \<Rightarrow> nat \<Rightarrow> u8 list \<Rightarrow> 'w \<Rightarrow> int \<times> 'w"
  malloc_op :: "nat \<Rightarrow> 'w \<Rightarrow> bool \<times> 'w"
  time_op :: "'w \<Rightarrow> int \<times> 'w"
  errno_op :: "'w \<Rightarrow> int"
  sizeof_ptr :: nat
  sscanf_overflow :: "int \<Rightarrow> u32"
  time_t_conv :: "u32 \<Rightarrow> int"

definition EUCLEAN :: int where "EUCLEAN = 117"

section \<open>The state of the program\<close>

text \<open>\<open>struct bootconfig\<close>; the static flag \<open>initialised\<close> and the log join it.\<close>

record bootconfig =
  blocks :: "btblock list"
  dev :: string
  fd :: int
  mtd :: nat
  info :: mtd_dev_info

record 'w st = log_state +
  initialised :: bool
  bc :: bootconfig
  world :: 'w

definition set_world :: "'w \<Rightarrow> 'w st \<Rightarrow> 'w st" where
  "set_world w s = s\<lparr>world := w\<rparr>"

definition set_blocks :: "btblock list \<Rightarrow> 'w st \<Rightarrow> 'w st" where
  "set_blocks bs s = s\<lparr>bc := (bc s)\<lparr>blocks := bs\<rparr>\<rparr>"

abbreviation blks :: "'w st \<Rightarrow> btblock list" where
  "blks s \<equiv> blocks (bc s)"

abbreviation ebs :: "'w st \<Rightarrow> nat" where
  "ebs s \<equiv> eb_cnt (info (bc s))"

text \<open>
  A store to \<open>bc->blocks[i]\<close>; an index outside the array is an access outside the object.
\<close>

definition put_block :: "nat \<Rightarrow> btblock \<Rightarrow> 'w st \<Rightarrow> ('w st, unit) res" where
  "put_block i b s =
     (if i < length (blks s) then Ret () (set_blocks ((blks s)[i := b]) s) else Undef)"

definition get_block :: "nat \<Rightarrow> 'w st \<Rightarrow> ('w st, btblock) res" where
  "get_block i s = (if i < length (blks s) then Ret (blks s ! i) s else Undef)"

lemma set_world_simps [simp]:
  "bc (set_world w s) = bc s" "world (set_world w s) = w"
  "initialised (set_world w s) = initialised s"
  "bc_log_channels (set_world w s) = bc_log_channels s"
  "bc_log_levels (set_world w s) = bc_log_levels s"
  "outputs (set_world w s) = outputs s"
  by (simp_all add: set_world_def)

lemma set_blocks_simps [simp]:
  "blocks (bc (set_blocks bs s)) = bs" "dev (bc (set_blocks bs s)) = dev (bc s)"
  "fd (bc (set_blocks bs s)) = fd (bc s)" "mtd (bc (set_blocks bs s)) = mtd (bc s)"
  "info (bc (set_blocks bs s)) = info (bc s)" "world (set_blocks bs s) = world s"
  "initialised (set_blocks bs s) = initialised s"
  "bc_log_channels (set_blocks bs s) = bc_log_channels s"
  "bc_log_levels (set_blocks bs s) = bc_log_levels s"
  "outputs (set_blocks bs s) = outputs s"
  by (simp_all add: set_blocks_def)

lemma emit_st [simp]:
  "bc (emit e s) = bc s" "world (emit e s) = world s" "initialised (emit e s) = initialised s"
  by (simp_all add: emit_def)

lemma bc_log_st [simp]:
  "bc (bc_log sev fmt args s) = bc s" "world (bc_log sev fmt args s) = world s"
  "initialised (bc_log sev fmt args s) = initialised s"
  by (simp_all add: bc_log_def Let_def)

lemma printf_st [simp]:
  "bc (printf fmt args s) = bc s" "world (printf fmt args s) = world s"
  "initialised (printf fmt args s) = initialised s"
  by (simp_all add: printf_def)

section \<open>The invariant of an initialised configuration\<close>

text \<open>
  The array has one well-formed entry per erase block, there is at least one block, the
  block numbers fit in an \<open>int\<close> as libmtd counts them, and a page holds a whole block
  (on NAND a page has at least 512 bytes).
\<close>

definition wf_bc :: "bootconfig \<Rightarrow> bool" where
  "wf_bc c \<longleftrightarrow> length (blocks c) = eb_cnt (info c) \<and> list_all wf_block (blocks c)
     \<and> 0 < eb_cnt (info c) \<and> eb_cnt (info c) < 2 ^ 31
     \<and> SIZEOF_BTBLOCK \<le> min_io_size (info c)"

lemma wf_bcD:
  "wf_bc c \<Longrightarrow> length (blocks c) = eb_cnt (info c)"
  "wf_bc c \<Longrightarrow> list_all wf_block (blocks c)"
  "wf_bc c \<Longrightarrow> 0 < eb_cnt (info c)"
  "wf_bc c \<Longrightarrow> eb_cnt (info c) < 2 ^ 31"
  "wf_bc c \<Longrightarrow> SIZEOF_BTBLOCK \<le> min_io_size (info c)"
  by (simp_all add: wf_bc_def)

lemma wf_bc_nth: "wf_bc c \<Longrightarrow> i < eb_cnt (info c) \<Longrightarrow> wf_block (blocks c ! i)"
  by (simp add: wf_bc_def list_all_nthD)

text \<open>
  \<open>mtd_read\<close> fills a buffer in place: it does not change its length.
\<close>

definition reads_in_place :: "'w env_ops \<Rightarrow> bool" where
  "reads_in_place ops \<longleftrightarrow>
     (\<forall>i f k off buf w. length (fst (snd (mtd_read_op ops i f k off buf w))) = length buf)"

text \<open>A pointer has four or eight bytes.\<close>

definition ptr_ok :: "'w env_ops \<Rightarrow> bool" where
  "ptr_ok ops \<longleftrightarrow> sizeof_ptr ops \<in> {4, 8}"

end
