(* ===== verification/Block_IO.thy ===== *)
theory Block_IO
  imports Mtd_Env
begin

text \<open>
  The private functions of \<open>src/lowlevel.c\<close>: opening the device, allocating the array,
  and reading and writing one boot block with its bad-block checks. Each returns the C
  return value; their exits and their undefined cases are outcomes.
\<close>

section \<open>Opening the device\<close>

definition open_dev :: "'w env_ops \<Rightarrow> string \<Rightarrow> 'w st \<Rightarrow> ('w st, int) res" where
  "open_dev ops d s =
     (let (f, w) = open_op ops d (world s);
          s = set_world w s
      in if f < 0
         then Exit 1 (bc_log LOG_ERR ''Error %d opening %s: %s.\<newline>''
                [AInt (errno_op ops w), AStr d, AErr (errno_op ops w)] s)
         else Ret f s)"

definition libmtd_init :: "'w env_ops \<Rightarrow> string \<Rightarrow> 'w st \<Rightarrow> ('w st, nat) res" where
  "libmtd_init ops d s =
     (let (h, w) = libmtd_open_op ops (world s);
          s = set_world w s
      in case h of
           None \<Rightarrow>
             (if errno_op ops w = 0
              then Exit 1 (bc_log LOG_ERR
                     ''No MTD support available on this system (libmtd_open returned NULL, errno is 0).\<newline>''
                     [] s)
              else Exit 1 (bc_log LOG_ERR ''Error %d initialising libmtd: %s.\<newline>''
                     [AInt (errno_op ops w), AErr (errno_op ops w)] s))
         | Some ret \<Rightarrow>
             (let (err, i, w) = mtd_get_dev_info_op ops ret d (world s);
                  s = (set_world w s)\<lparr>bc := (bc s)\<lparr>info := i\<rparr>\<rparr>
              in if err < 0
                 then Exit 1 (bc_log LOG_ERR ''Error %d reading device info of %s: %s.\<newline>''
                        [AInt (errno_op ops w), AStr d, AErr (errno_op ops w)] s)
                 else Ret ret s))"

text \<open>
  \<open>num * sizeof( *ret )\<close> is computed in \<open>size_t\<close>, which is as wide as a pointer; the array
  has as many blocks as that size holds.
\<close>

definition alloc_size :: "'w env_ops \<Rightarrow> nat \<Rightarrow> nat" where
  "alloc_size ops num = (num * SIZEOF_BTBLOCK) mod 2 ^ (8 * sizeof_ptr ops)"

definition alloc_blocks :: "'w env_ops \<Rightarrow> nat \<Rightarrow> 'w st \<Rightarrow> ('w st, btblock list) res" where
  "alloc_blocks ops num s =
     (let (ok, w) = malloc_op ops (alloc_size ops num) (world s);
          s = set_world w s
      in if \<not> ok
         then Exit 1 (bc_log LOG_ERR ''Failed to allocate %lu bytes.\<newline>''
                [AInt (int (alloc_size ops num))] s)
         else Ret (replicate (alloc_size ops num div SIZEOF_BTBLOCK) zero_block) s)"

section \<open>Reading one block\<close>

definition check_block :: "'w env_ops \<Rightarrow> nat \<Rightarrow> 'w st \<Rightarrow> ('w st, int) res" where
  "check_block ops block_idx s =
     (let (err, w) = mtd_is_bad_op ops (info (bc s)) (fd (bc s)) block_idx (world s);
          s = set_world w s
      in if err < 0
         then Ret (-1) (bc_log LOG_ERR ''Error %d while bad block checking block %d on %s: %s.\<newline>''
                [AInt (errno_op ops w), AInt (int block_idx), AStr (dev (bc s)),
                 AErr (errno_op ops w)] s)
         else if 0 < err
         then bindR (get_block block_idx
                (bc_log LOG_WARNING ''Block %d on %s is bad. Sorry about that.\<newline>''
                   [AInt (int block_idx), AStr (dev (bc s))] s))
              (\<lambda>b s. bindR (put_block block_idx (b\<lparr>magic := MAGIC_BAD\<rparr>) s)
              (\<lambda>_ s. Ret 1 s))
         else Ret 0 s)"

definition read_bootblock :: "'w env_ops \<Rightarrow> nat \<Rightarrow> 'w st \<Rightarrow> ('w st, int) res" where
  "read_bootblock ops block_idx s =
     bindR (check_block ops block_idx s) (\<lambda>err s.
       if err \<noteq> 0 then Ret err s
       else bindR (get_block block_idx s) (\<lambda>b s.
         let (err, buf, w) = mtd_read_op ops (info (bc s)) (fd (bc s)) block_idx 0
               (btblock_bytes b) (world s)
         in bindR (put_block block_idx (bytes_btblock buf) (set_world w s)) (\<lambda>_ s.
           if err * (-1) = EUCLEAN
           then Ret 0 (bc_log LOG_INFO ''Info: Block %d needs cleaningi\<newline>''
                  [AInt (int block_idx)] s)
           else if err \<noteq> 0
           then Ret (-1) (bc_log LOG_ERR
                  ''Error %d while reading bootinfo block %d from %s: %s.\<newline>''
                  [AInt (errno_op ops w), AInt (int block_idx), AStr (dev (bc s)),
                   AErr (errno_op ops w)] s)
           else Ret 0 s)))"

section \<open>Writing one block\<close>

text \<open>
  The page that is written: \<open>0xFF\<close> everywhere, then the block copied over its beginning.
  The copy runs past a page shorter than the block.
\<close>

definition fill_page :: "nat \<Rightarrow> 'w st \<Rightarrow> ('w st, u8 list) res" where
  "fill_page block_idx s =
     bindR (get_block block_idx s) (\<lambda>b s.
       if min_io_size (info (bc s)) < SIZEOF_BTBLOCK then Undef
       else Ret (btblock_bytes b @ replicate (min_io_size (info (bc s)) - SIZEOF_BTBLOCK) 0xFF) s)"

definition malloc_page :: "'w env_ops \<Rightarrow> 'w st \<Rightarrow> bool \<times> 'w st" where
  "malloc_page ops s =
     (let (ok, w) = malloc_op ops (min_io_size (info (bc s))) (world s);
          s = set_world w s
      in if ok then (True, s)
         else (False, bc_log LOG_ERR ''Error #%d malloc()ing %d bytes: %s.\<newline>''
                [AInt (errno_op ops w), AInt (int (min_io_size (info (bc s)))),
                 AErr (errno_op ops w)] s))"

definition write_page :: "'w env_ops \<Rightarrow> nat \<Rightarrow> u8 list \<Rightarrow> 'w st \<Rightarrow> ('w st, int) res" where
  "write_page ops block_idx page s =
     (let (err, w) = mtd_write_op ops (mtd (bc s)) (info (bc s)) (fd (bc s)) block_idx 0 page (world s)
      in Ret (if err < 0 then 1 else 0) (set_world w s))"

definition do_write_bootblock :: "'w env_ops \<Rightarrow> nat \<Rightarrow> 'w st \<Rightarrow> ('w st, int) res" where
  "do_write_bootblock ops block_idx s =
     (let (err, w) = mtd_erase_op ops (mtd (bc s)) (info (bc s)) (fd (bc s)) block_idx (world s);
          s = set_world w s
      in if err < 0 then Ret 1 s
         else
           (let (ok, s) = malloc_page ops s
            in if \<not> ok then Ret (-1) s
               else bindR (fill_page block_idx s) (\<lambda>page s. write_page ops block_idx page s)))"

definition write_errorcheck_bootblock :: "'w env_ops \<Rightarrow> nat \<Rightarrow> 'w st \<Rightarrow> ('w st, int) res" where
  "write_errorcheck_bootblock ops block_idx s =
     bindR (check_block ops block_idx s) (\<lambda>err s.
       if err \<noteq> 0 then Ret err s
       else bindR (do_write_bootblock ops block_idx s) (\<lambda>err s.
         let no = errno_op ops (world s)
         in bindR (if err = 1
                   then bindR (check_block ops block_idx s) (\<lambda>again s. Ret (again = 1) s)
                   else Ret False s) (\<lambda>went_bad s.
           if went_bad
           then Ret 1 (bc_log LOG_WARNING ''Block #%d went bad while erasing / writing it.\<newline>''
                  [AInt (int block_idx)] s)
           else Ret err
                  (if err \<noteq> 0
                   then bc_log LOG_ERR ''Error #%d while erasing / writing block %d on %s: %s.\<newline>''
                          [AInt no, AInt (int block_idx), AStr (dev (bc s)), AErr no] s
                   else s))))"

section \<open>The next boot block\<close>

definition image_info :: "bt_ll_parttype \<Rightarrow> btblock \<Rightarrow> btinfo" where
  "image_info which b = (case which of Kernel \<Rightarrow> kernel b | Rootfs \<Rightarrow> rootfs b)"

definition set_image_info :: "bt_ll_parttype \<Rightarrow> btinfo \<Rightarrow> btblock \<Rightarrow> btblock" where
  "set_image_info which i b =
     (case which of Kernel \<Rightarrow> b\<lparr>kernel := i\<rparr> | Rootfs \<Rightarrow> b\<lparr>rootfs := i\<rparr>)"

text \<open>What \<open>_update_bootblock\<close> makes of the previous block; \<open>p\<close> is cut to its bit field.\<close>

definition next_block :: "bt_ll_parttype \<Rightarrow> u32 \<Rightarrow> int \<Rightarrow> btblock \<Rightarrow> btblock" where
  "next_block which p now b_old =
     (let b = b_old\<lparr>magic := MAGIC_BOOT, epoch := epoch b_old + 1, timestamp := word_of_int now\<rparr>
      in set_image_info which
           ((image_info which b)\<lparr>partition := ucast p, n_booted := 1, n_healthy := 1\<rparr>) b)"

definition update_bootblock ::
  "'w env_ops \<Rightarrow> bt_ll_parttype \<Rightarrow> u32 \<Rightarrow> nat \<Rightarrow> nat \<Rightarrow> 'w st \<Rightarrow> ('w st, int) res" where
  "update_bootblock ops which p prev_idx idx s =
     bindR (get_block idx s) (\<lambda>b s.
     bindR (get_block prev_idx s) (\<lambda>b_old s.
       if magic b = MAGIC_BAD
       then Ret (-1) (bc_log LOG_INFO ''Skipping bad block #%d.\<newline>'' [AInt (int idx)] s)
       else
         (let (now, w) = time_op ops (world s)
          in bindR (put_block idx (next_block which p now b_old) (set_world w s)) (\<lambda>_ s.
               write_errorcheck_bootblock ops idx s))))"

section \<open>Reading every block\<close>

text \<open>The loop of \<open>_read_bootconfig\<close> over the block numbers, counting the failures.\<close>

fun read_blocks :: "'w env_ops \<Rightarrow> nat list \<Rightarrow> nat \<Rightarrow> 'w st \<Rightarrow> ('w st, nat) res" where
  "read_blocks ops [] broken s = Ret broken s"
| "read_blocks ops (block # bs) broken s =
     bindR (read_bootblock ops block s) (\<lambda>err s.
       read_blocks ops bs (if err \<noteq> 0 then Suc broken else broken) s)"

definition read_bootconfig :: "'w env_ops \<Rightarrow> 'w st \<Rightarrow> ('w st, int) res" where
  "read_bootconfig ops s =
     bindR (read_blocks ops [0..<ebs s] 0 s) (\<lambda>broken s.
       Ret (if broken = ebs s then -1 else 0) s)"

end
