(* ===== verification/Lowlevel.thy ===== *)
theory Lowlevel
  imports Block_IO
begin

text \<open>
  The public interface of \<open>src/lowlevel.c\<close>: initialising the configuration, reading it
  again, finding the current block, setting a partition and marking an image healthy.
\<close>

section \<open>Initialisation and reading again\<close>

definition zero_bootconfig :: bootconfig where
  "zero_bootconfig =
     \<lparr>blocks = [], dev = [], fd = 0, mtd = 0, info = \<lparr>eb_cnt = 0, min_io_size = 0\<rparr>\<rparr>"

definition bc_ll_init :: "'w env_ops \<Rightarrow> string \<Rightarrow> 'w st \<Rightarrow> ('w st, unit) res" where
  "bc_ll_init ops d s =
     bindR (open_dev ops d (s\<lparr>bc := zero_bootconfig\<rparr>)) (\<lambda>f s.
     bindR (libmtd_init ops d (s\<lparr>bc := (bc s)\<lparr>fd := f, dev := d\<rparr>\<rparr>)) (\<lambda>m s.
     bindR (alloc_blocks ops (ebs s) (s\<lparr>bc := (bc s)\<lparr>mtd := m\<rparr>\<rparr>)) (\<lambda>bs s.
     bindR (read_bootconfig ops (set_blocks bs s)) (\<lambda>r s.
       if r < 0 then Exit 1 s
       else Ret ()
         ((bc_log LOG_INFO ''bootconfig initialised for %s with a total of %u config blocks.\<newline>''
            [AStr (dev (bc s)), AInt (int (ebs s))] s)\<lparr>initialised := True\<rparr>)))))"

definition not_initialised :: "'w st \<Rightarrow> ('w st, 'a) res" where
  "not_initialised s =
     Exit 1 (bc_log LOG_ERR ''Internal error: called before initialisation!\<newline>'' [] s)"

text \<open>\<open>sizeof( bc->blocks )\<close> is the size of a pointer.\<close>

definition bc_ll_reread :: "'w env_ops \<Rightarrow> 'w st \<Rightarrow> ('w st, int) res" where
  "bc_ll_reread ops s =
     (if \<not> initialised s then not_initialised s
      else if SIZEOF_BTBLOCK * length (blks s) < ebs s * sizeof_ptr ops then Undef
      else read_bootconfig ops (set_blocks (memset_zero (ebs s * sizeof_ptr ops) (blks s)) s))"

section \<open>The current block\<close>

text \<open>
  The loop of \<open>bc_ll_get_current\<close> from block number \<open>block\<close> on, with its two variables.
\<close>

fun scan_current :: "nat \<Rightarrow> nat \<Rightarrow> u32 \<Rightarrow> btblock list \<Rightarrow> nat \<times> u32" where
  "scan_current block idx epoch_max [] = (idx, epoch_max)"
| "scan_current block idx epoch_max (b # bs) =
     (if magic b \<noteq> MAGIC_BOOT then scan_current (Suc block) idx epoch_max bs
      else if epoch b > epoch_max then scan_current (Suc block) block (epoch b) bs
      else scan_current (Suc block) idx epoch_max bs)"

definition current_index :: "btblock list \<Rightarrow> nat option" where
  "current_index bs =
     (let (idx, epoch_max) = scan_current 0 0 0 bs
      in if epoch_max \<noteq> 0 then Some idx else None)"

text \<open>The result is the index of the block the C function returns a pointer to.\<close>

definition bc_ll_get_current :: "'w st \<Rightarrow> ('w st, nat option) res" where
  "bc_ll_get_current s =
     (if \<not> initialised s then not_initialised s
      else if length (blks s) < ebs s then Undef
      else Ret (current_index (take (ebs s) (blks s))) s)"

section \<open>Setting a partition\<close>

text \<open>The block the code makes up when there is no boot configuration at all.\<close>

definition dummy_block :: btblock where
  "dummy_block =
     zero_block\<lparr>kernel := zero_btinfo\<lparr>n_booted := 1, n_healthy := 1\<rparr>,
                rootfs := zero_btinfo\<lparr>n_booted := 1, n_healthy := 1\<rparr>\<rparr>"

text \<open>How far \<open>new\<close> has to go round the ring of \<open>n\<close> blocks to reach \<open>cur\<close>.\<close>

definition ring_dist :: "nat \<Rightarrow> nat \<Rightarrow> nat \<Rightarrow> nat" where
  "ring_dist n cur new = (cur + n - new) mod n"

lemma ring_dist_step:
  assumes "cur < n" "new < n" "new \<noteq> cur"
  shows "ring_dist n cur ((new + 1) mod n) = ring_dist n cur new - 1"
    and "0 < ring_dist n cur new"
proof -
  have d: "ring_dist n cur new = (if new \<le> cur then cur - new else cur + n - new)"
    using assms by (auto simp: ring_dist_def le_mod_geq)
  show "0 < ring_dist n cur new"
    using assms by (simp add: d)
  show "ring_dist n cur ((new + 1) mod n) = ring_dist n cur new - 1"
  proof (cases "new + 1 = n")
    case True
    then show ?thesis
      using assms unfolding d by (simp add: ring_dist_def)
  next
    case False
    then show ?thesis
      using assms unfolding d by (auto simp: ring_dist_def le_mod_geq)
  qed
qed

lemma ring_dist_less:
  "cur < n \<Longrightarrow> new < n \<Longrightarrow> new \<noteq> cur \<Longrightarrow>
     ring_dist n cur (Suc new mod n) < ring_dist n cur new"
  using ring_dist_step [of cur n new] by simp

text \<open>
  The loop over the blocks that follow the current one, round the end of the array. With
  an index outside the \<open>n\<close> blocks the first store of its body is outside the array.
\<close>

function set_loop ::
  "'w env_ops \<Rightarrow> bt_ll_parttype \<Rightarrow> u32 \<Rightarrow> nat \<Rightarrow> nat \<Rightarrow> nat \<Rightarrow> 'w st \<Rightarrow> ('w st, nat) res" where
  "set_loop ops which p n cur new s =
     (if new = cur then Ret new s
      else if n \<le> cur \<or> n \<le> new then Undef
      else bindR (update_bootblock ops which p cur new s) (\<lambda>r s.
        if r = 0 then Ret new s else set_loop ops which p n cur ((new + 1) mod n) s))"
  by pat_completeness auto

termination
  by (relation "measure (\<lambda>(ops, which, p, n, cur, new, s). ring_dist n cur new)")
    (auto intro!: ring_dist_less)

declare set_loop.simps [simp del]

definition bc_ll_set_partition ::
  "'w env_ops \<Rightarrow> bt_ll_parttype \<Rightarrow> u32 \<Rightarrow> 'w st \<Rightarrow> ('w st, int) res" where
  "bc_ll_set_partition ops which p s =
     (if \<not> initialised s then not_initialised s
      else if p > 1
      then Exit 1 (bc_log LOG_ERR ''Internal error: illegal partition #%d!\<newline>'' [AInt (sint p)] s)
      else bindR (bc_ll_get_current s) (\<lambda>curr s.
        if ebs s = 0 then Undef
        else bindR (case curr of
               None \<Rightarrow> bindR (put_block (ebs s - 1) dummy_block s) (\<lambda>_ s. Ret (ebs s - 1) s)
             | Some i \<Rightarrow> Ret i s) (\<lambda>curr_bc_idx s.
          bindR (set_loop ops which p (ebs s) curr_bc_idx ((curr_bc_idx + 1) mod ebs s) s)
            (\<lambda>new_bc_idx s.
              if new_bc_idx = curr_bc_idx
              then Ret (-1) (bc_log LOG_ERR ''Error writing new boot block.\<newline>'' [] s)
              else bindR (bc_ll_reread ops s) (\<lambda>_ s. Ret 0 s)))))"

section \<open>Marking an image healthy\<close>

definition bc_ll_set_kernel_healthy :: "'w env_ops \<Rightarrow> nat \<Rightarrow> 'w st \<Rightarrow> ('w st, int) res" where
  "bc_ll_set_kernel_healthy ops block s =
     (if \<not> initialised s then not_initialised s
      else bindR (get_block block s) (\<lambda>curr s.
        if n_healthy (kernel curr) = 1
        then bindR (put_block block (curr\<lparr>kernel := (kernel curr)\<lparr>n_healthy := 0\<rparr>\<rparr>) s) (\<lambda>_ s.
          let (ok, s) = malloc_page ops s
          in if \<not> ok then Ret (-1) s
             else bindR (fill_page block s) (\<lambda>page s. write_page ops block page s))
        else Ret 0 s))"

definition bc_ll_set_rootfs_healthy :: "'w env_ops \<Rightarrow> nat \<Rightarrow> 'w st \<Rightarrow> ('w st, int) res" where
  "bc_ll_set_rootfs_healthy ops block s =
     (if \<not> initialised s then not_initialised s
      else bindR (get_block block s) (\<lambda>curr s.
        if n_healthy (rootfs curr) = 1
        then bindR (put_block block (curr\<lparr>rootfs := (rootfs curr)\<lparr>n_healthy := 0\<rparr>\<rparr>) s) (\<lambda>_ s.
          let (ok, s) = malloc_page ops s
          in if \<not> ok then Ret (-1) s
             else bindR (fill_page block s) (\<lambda>page s. write_page ops block page s))
        else Ret 0 s))"

end
