(* ===== verification/Bootconfig_Main.thy ===== *)
theory Bootconfig_Main
  imports Lowlevel
begin

text \<open>
  The command line tool (\<open>src/main.c\<close>): printing the configuration, the four commands that
  change it, and \<open>main\<close>. Every call of \<open>exit\<close> is an \<open>Exit\<close> outcome; a return from \<open>main\<close>
  is \<open>Ret\<close> with its value.
\<close>

section \<open>Printing\<close>

definition flag_char :: "u1 \<Rightarrow> char \<Rightarrow> char" where
  "flag_char b c = (if b = 0 then c else CHR ''-'')"

definition print_block :: "'w env_ops \<Rightarrow> btblock \<Rightarrow> 'w st \<Rightarrow> 'w st" where
  "print_block ops bt s =
     (let s = printf ''   epoch: %d\<newline>'' [AInt (sint (epoch bt))] s;
          s = printf ''   written: %s'' [ATime (time_t_conv ops (timestamp bt))] s;
          s = printf ''   image type      MTD   Flags\<newline>'' [] s;
          s = printf ''   kernel           %1.1d     %c %c\<newline>''
                [AInt (uint (partition (kernel bt)) + KERNEL_START_PARTITION),
                 AChr (flag_char (n_booted (kernel bt)) CHR ''B''),
                 AChr (flag_char (n_healthy (kernel bt)) CHR ''H'')] s
      in printf ''   rootfs           %1.1d     %c %c\<newline>''
           [AInt (uint (partition (rootfs bt)) + ROOTFS_START_PARTITION),
            AChr (flag_char (n_booted (rootfs bt)) CHR ''B''),
            AChr (flag_char (n_healthy (rootfs bt)) CHR ''H'')] s)"

definition print_config :: "'w env_ops \<Rightarrow> 'w st \<Rightarrow> ('w st, unit) res" where
  "print_config ops s =
     bindR (bc_ll_get_current s) (\<lambda>bt s.
       case bt of
         None \<Rightarrow> Ret () (printf ''No current boot config.\<newline>'' [] s)
       | Some i \<Rightarrow> bindR (get_block i s) (\<lambda>bt s. Ret () (print_block ops bt s)))"

text \<open>The loop of \<open>_print_info\<close> over the given block numbers.\<close>

fun print_blocks :: "'w env_ops \<Rightarrow> nat list \<Rightarrow> 'w st \<Rightarrow> ('w st, unit) res" where
  "print_blocks ops [] s = Ret () s"
| "print_blocks ops (block # rest) s =
     bindR (get_block block s) (\<lambda>bt s.
       let s = printf ''    ---\<newline>'' [] s
       in print_blocks ops rest
            (if MAGIC_BOOT = magic bt
             then print_block ops bt (printf ''   Boot block #%d\<newline>'' [AInt (int block)] s)
             else if MAGIC_BAD = magic bt
             then printf ''   #%d BAD BLOCK\<newline>'' [AInt (int block)] s
             else printf ''   #%d NO MAGIC FOUND\<newline>'' [AInt (int block)] s))"

definition print_info :: "'w env_ops \<Rightarrow> 'w st \<Rightarrow> ('w st, unit) res" where
  "print_info ops s =
     print_blocks ops [0..<ebs s]
       (printf ''There are %d boot config blocks.\<newline>'' [AInt (int (ebs s))] s)"

definition help_lines :: "string list" where
  "help_lines =
     [''  bootconfig - show and set HIPOS boot configuration\<newline>'',
      ''  Usage:\<newline>'',
      ''  bootconfig                      Show current boot configuration\<newline>'',
      ''  bootconfig info                 Show detailed / raw boot config information\<newline>'',
      ''  bootconfig set-kernel <mtd>     Generate new boot configuration which sets <mtd>\<newline>'',
      ''                                   to contain the latest kernel image. Clear all flags.\<newline>'',
      ''                                   Write results to boot config partition.\<newline>'',
      ''  bootconfig set-rootfs <mtd>     Generate new boot configuration which sets <mtd>\<newline>'',
      ''                                   to contain the latest root FS image. Clear all flags.\<newline>'',
      ''                                   Write results to boot config partition.\<newline>'',
      ''  bootconfig set-kernel-healthy   Set currently used kernel healthy flag\<newline>'',
      ''  bootconfig set-rootfs-healthy   Set currently used rootfs healthy flag\<newline>'']"

definition print_help :: "'w st \<Rightarrow> 'w st" where
  "print_help s = fold (\<lambda>l. printf l []) help_lines s"

section \<open>The healthy commands\<close>

definition cmd_set_kernel_healthy :: "'w env_ops \<Rightarrow> 'w st \<Rightarrow> ('w st, unit) res" where
  "cmd_set_kernel_healthy ops s =
     bindR (bc_ll_get_current s) (\<lambda>bt s.
       case bt of
         None \<Rightarrow> Ret () (printf ''No current boot config.\<newline>'' [] s)
       | Some block_idx \<Rightarrow> bindR (get_block block_idx s) (\<lambda>bt s.
           if n_healthy (kernel bt) = 1
           then bindR (bc_ll_set_kernel_healthy ops block_idx s) (\<lambda>_ s. Ret () s)
           else Ret () s))"

definition cmd_set_rootfs_healthy :: "'w env_ops \<Rightarrow> 'w st \<Rightarrow> ('w st, unit) res" where
  "cmd_set_rootfs_healthy ops s =
     bindR (bc_ll_get_current s) (\<lambda>bt s.
       case bt of
         None \<Rightarrow> Ret () (printf ''No current boot config.\<newline>'' [] s)
       | Some block_idx \<Rightarrow> bindR (get_block block_idx s) (\<lambda>bt s.
           if n_healthy (rootfs bt) = 1
           then bindR (bc_ll_set_rootfs_healthy ops block_idx s) (\<lambda>_ s. Ret () s)
           else Ret () s))"

section \<open>Parsing a partition name\<close>

text \<open>
  \<open>sscanf(s, "mtd%u", &part)\<close>: the three letters, then white space, a sign and at least
  one digit; what follows is ignored. A number whose magnitude does not fit is what
  \<open>sscanf_overflow\<close> says, a negative one is negated as \<open>strtoul\<close> does.
\<close>

definition is_space :: "char \<Rightarrow> bool" where
  "is_space c \<longleftrightarrow> c \<in> {CHR 0x20, CHR 0x09, CHR 0x0A, CHR 0x0B, CHR 0x0C, CHR 0x0D}"

definition digit_val :: "char \<Rightarrow> int option" where
  "digit_val c =
     (let v = of_char c - (48 :: int) in if 0 \<le> v \<and> v \<le> 9 then Some v else None)"

definition decimal :: "string \<Rightarrow> int option" where
  "decimal s =
     (let ds = takeWhile (\<lambda>c. digit_val c \<noteq> None) s
      in if ds = [] then None else Some (foldl (\<lambda>v c. 10 * v + the (digit_val c)) 0 ds))"

definition scan_u :: "string \<Rightarrow> int option" where
  "scan_u s =
     (case dropWhile is_space s of
        [] \<Rightarrow> None
      | c # r \<Rightarrow>
          (if c = CHR ''-'' then map_option uminus (decimal r)
           else if c = CHR ''+'' then decimal r
           else decimal (c # r)))"

definition sscanf_mtd :: "'w env_ops \<Rightarrow> string \<Rightarrow> u32 option" where
  "sscanf_mtd ops s =
     (if take 3 s = ''mtd''
      then map_option (\<lambda>v. if \<bar>v\<bar> < 2 ^ 32 then word_of_int v else sscanf_overflow ops v)
             (scan_u (drop 3 s))
      else None)"

section \<open>The set commands and main\<close>

definition cmd_set ::
  "'w env_ops \<Rightarrow> string \<Rightarrow> string \<Rightarrow> int \<Rightarrow> bt_ll_parttype \<Rightarrow> 'w st \<Rightarrow> ('w st, int) res" where
  "cmd_set ops desc part_string part_mod what s =
     (case sscanf_mtd ops part_string of
        None \<Rightarrow>
          Exit 1 (bc_log LOG_ERR ''Unable to parse partition string %s.\<newline>'' [AStr part_string] s)
      | Some part0 \<Rightarrow>
          (let part = part0 + word_of_int part_mod
           in if part > 1
              then Exit 1 (printf ''Illegal partition %s. Valid: mtd%d, mtd%d.\<newline>''
                     [AStr part_string, AInt (0 - part_mod), AInt (0 - part_mod + 1)] s)
              else
                (let s = printf ''   Setting current %s to %s (%s partition #%u).\<newline>''
                           [AStr desc, AStr part_string, AStr desc, AInt (uint part)] s;
                     s = printf ''   Writing to NAND...\<newline>'' [] s
                 in bindR (bc_ll_set_partition ops what part s) (\<lambda>_ s.
                    bindR (bc_ll_reread ops s) (\<lambda>_ s.
                    bindR (print_config ops s) (\<lambda>_ s. Exit 0 s))))))"

definition bootconfig_main :: "'w env_ops \<Rightarrow> string list \<Rightarrow> 'w st \<Rightarrow> ('w st, int) res" where
  "bootconfig_main ops argv s =
     bindR (bc_ll_init ops ''/dev/mtd1'' s) (\<lambda>_ s.
       if length argv < 2 then bindR (print_config ops s) (\<lambda>_ s. Exit 0 s)
       else if argv ! 1 = ''info'' then bindR (print_info ops s) (\<lambda>_ s. Exit 0 s)
       else
         (let ret = (if argv ! 1 = ''help'' then 0 else - 1)
          in if argv ! 1 = ''set-kernel-healthy''
             then bindR (cmd_set_kernel_healthy ops s) (\<lambda>_ s.
                  bindR (print_config ops s) (\<lambda>_ s. Exit 0 s))
             else if argv ! 1 = ''set-rootfs-healthy''
             then bindR (cmd_set_rootfs_healthy ops s) (\<lambda>_ s.
                  bindR (print_config ops s) (\<lambda>_ s. Exit 0 s))
             else if length argv = 3 \<and> argv ! 1 = ''set-kernel''
             then cmd_set ops ''kernel'' (argv ! 2) (- 2) Kernel s
             else if length argv = 3 \<and> argv ! 1 = ''set-rootfs''
             then cmd_set ops ''rootfs'' (argv ! 2) (- 4) Rootfs s
             else Ret ret (print_help s)))"

end
