(* ===== verification/Current.thy ===== *)
theory Current
  imports Lowlevel
begin

text \<open>
  Which block \<open>bc_ll_get_current\<close> finds: the reference definition is a property of the
  array of blocks, and the scan of the code computes it.
\<close>

section \<open>The reference definition\<close>

definition is_current :: "btblock list \<Rightarrow> nat \<Rightarrow> bool" where
  "is_current bs i \<longleftrightarrow> i < length bs \<and> is_boot (bs ! i) \<and> 0 < epoch (bs ! i)
     \<and> (\<forall>j<length bs. is_boot (bs ! j) \<longrightarrow> epoch (bs ! j) \<le> epoch (bs ! i))
     \<and> (\<forall>j<i. is_boot (bs ! j) \<longrightarrow> epoch (bs ! j) < epoch (bs ! i))"

lemma is_current_unique: "is_current bs i \<Longrightarrow> is_current bs j \<Longrightarrow> i = j"
  unfolding is_current_def by (metis leD linorder_neqE_nat)

section \<open>The scan\<close>

lemma scan_current_spec:
  "scan_current block idx emax bs = (i, e) \<Longrightarrow>
     emax \<le> e \<and> (\<forall>j<length bs. is_boot (bs ! j) \<longrightarrow> epoch (bs ! j) \<le> e)
     \<and> (i = idx \<and> e = emax \<or>
        (\<exists>j<length bs. i = block + j \<and> is_boot (bs ! j) \<and> e = epoch (bs ! j) \<and> emax < e
           \<and> (\<forall>k<j. is_boot (bs ! k) \<longrightarrow> epoch (bs ! k) < e)))"
proof (induction block idx emax bs rule: scan_current.induct)
  case (1 block idx emax)
  then show ?case by simp
next
  case (2 block idx emax b bs)
  consider (skip) "magic b \<noteq> MAGIC_BOOT" | (take) "magic b = MAGIC_BOOT" "emax < epoch b"
    | (drop) "magic b = MAGIC_BOOT" "\<not> emax < epoch b" by blast
  then show ?case
  proof cases
    case skip
    with "2.IH"(1) "2.prems" show ?thesis
      by (auto simp: All_less_Suc2 Ex_less_Suc2 is_boot_def)
  next
    case take
    have scan: "scan_current (Suc block) block (epoch b) bs = (i, e)"
      using "2.prems" take by simp
    note ih = "2.IH"(2) [OF _ take(2) scan]
    have "emax < e"
      using ih take by (auto intro: order.strict_trans2)
    then show ?thesis
      using ih take by (auto simp: All_less_Suc2 Ex_less_Suc2 is_boot_def)
  next
    case drop
    have scan: "scan_current (Suc block) idx emax bs = (i, e)"
      using "2.prems" drop by simp
    note ih = "2.IH"(3) [OF _ drop(2) scan]
    have "epoch b \<le> e"
      using ih drop by auto
    moreover have "epoch b < e" if "emax < e"
      using that drop by auto
    ultimately show ?thesis
      using ih drop by (auto simp: All_less_Suc2 Ex_less_Suc2 is_boot_def)
  qed
qed

lemma is_current_index:
  assumes "current_index bs = Some i"
  shows "is_current bs i"
proof -
  obtain e where e: "scan_current 0 0 0 bs = (i, e)" "e \<noteq> 0"
    using assms by (auto simp: current_index_def split: prod.splits if_splits)
  then show ?thesis
    using scan_current_spec [OF e(1)] by (auto simp: is_current_def)
qed

lemma current_index_None:
  assumes "current_index bs = None" "j < length bs" "is_boot (bs ! j)"
  shows "epoch (bs ! j) = 0"
proof -
  obtain i where e: "scan_current 0 0 0 bs = (i, 0)"
    using assms(1) by (auto simp: current_index_def split: prod.splits if_splits)
  show ?thesis
    using scan_current_spec [OF e] assms(2,3) by simp
qed

lemma current_index_iff: "current_index bs = Some i \<longleftrightarrow> is_current bs i"
proof
  assume i: "is_current bs i"
  then have "current_index bs \<noteq> None"
    using current_index_None [of bs i] unfolding is_current_def by fastforce
  then obtain j where "current_index bs = Some j"
    by blast
  then show "current_index bs = Some i"
    using is_current_index [of bs j] is_current_unique [OF i] by simp
qed (rule is_current_index)

lemma current_index_None_iff:
  "current_index bs = None \<longleftrightarrow> (\<forall>j<length bs. is_boot (bs ! j) \<longrightarrow> epoch (bs ! j) = 0)"
  using current_index_None [of bs] is_current_index [of bs]
  by (cases "current_index bs") (auto simp: is_current_def)

lemma current_index_less: "current_index bs = Some i \<Longrightarrow> i < length bs"
  by (simp add: current_index_iff is_current_def)

text \<open>The block the next configuration is derived from: the current one, or the last.\<close>

definition base_index :: "btblock list \<Rightarrow> nat" where
  "base_index bs = (case current_index bs of Some i \<Rightarrow> i | None \<Rightarrow> length bs - 1)"

lemma base_index_less: "bs \<noteq> [] \<Longrightarrow> base_index bs < length bs"
  by (auto simp: base_index_def current_index_less split: option.splits)

text \<open>An entry that is no boot block, or has a smaller epoch, does not matter.\<close>

lemma is_current_update:
  assumes i: "is_current bs i" and j: "j < length bs" and b: "is_boot b"
    and e: "epoch (bs ! i) < epoch b"
  shows "is_current (bs[j := b]) j"
proof -
  have le: "epoch (bs ! k) < epoch b" if "k < length bs" "is_boot (bs ! k)" for k
    using i that e by (auto simp: is_current_def intro: order.strict_trans1)
  then have "\<forall>k<length bs. is_boot (bs ! k) \<longrightarrow> epoch (bs ! k) \<le> epoch b"
    by (auto intro: less_imp_le)
  moreover have "0 < epoch b"
    using le [of i] i by (auto simp: is_current_def)
  ultimately show ?thesis
    using le j b by (auto simp: is_current_def nth_list_update)
qed

end
