(* ===== verification/Frame.thy ===== *)
theory Frame
  imports Current
begin

text \<open>
  What the operations leave alone. A property \<open>P\<close> of the world is tracked through the
  calls; \<open>A\<close> says which erase blocks may be erased or written. As \<open>P\<close> is arbitrary (it
  may speak of a history the world records), preservation of every such \<open>P\<close> is the
  statement that no call outside \<open>A\<close> is made.
\<close>

section \<open>Calls that preserve a property of the world\<close>

definition ops_keep :: "'w env_ops \<Rightarrow> ('w \<Rightarrow> bool) \<Rightarrow> (nat \<Rightarrow> bool) \<Rightarrow> bool" where
  "ops_keep ops P A \<longleftrightarrow>
     (\<forall>d w. P w \<longrightarrow> P (snd (open_op ops d w)))
   \<and> (\<forall>w. P w \<longrightarrow> P (snd (libmtd_open_op ops w)))
   \<and> (\<forall>h d w. P w \<longrightarrow> P (snd (snd (mtd_get_dev_info_op ops h d w))))
   \<and> (\<forall>i f k w. P w \<longrightarrow> P (snd (mtd_is_bad_op ops i f k w)))
   \<and> (\<forall>i f k off buf w. P w \<longrightarrow> P (snd (snd (mtd_read_op ops i f k off buf w))))
   \<and> (\<forall>h i f k w. A k \<longrightarrow> P w \<longrightarrow> P (snd (mtd_erase_op ops h i f k w)))
   \<and> (\<forall>h i f k off page w. A k \<longrightarrow> P w \<longrightarrow> P (snd (mtd_write_op ops h i f k off page w)))
   \<and> (\<forall>n w. P w \<longrightarrow> P (snd (malloc_op ops n w)))
   \<and> (\<forall>w. P w \<longrightarrow> P (snd (time_op ops w)))"

lemma ops_keepD:
  assumes "ops_keep ops P A"
  shows "P w \<Longrightarrow> open_op ops d w = (x, w1) \<Longrightarrow> P w1"
    and "P w \<Longrightarrow> libmtd_open_op ops w = (h', w1) \<Longrightarrow> P w1"
    and "P w \<Longrightarrow> mtd_get_dev_info_op ops h d w = (x, i', w1) \<Longrightarrow> P w1"
    and "P w \<Longrightarrow> mtd_is_bad_op ops i f k w = (x, w1) \<Longrightarrow> P w1"
    and "P w \<Longrightarrow> mtd_read_op ops i f k off buf w = (x, buf', w1) \<Longrightarrow> P w1"
    and "A k \<Longrightarrow> P w \<Longrightarrow> mtd_erase_op ops h i f k w = (x, w1) \<Longrightarrow> P w1"
    and "A k \<Longrightarrow> P w \<Longrightarrow> mtd_write_op ops h i f k off page w = (x, w1) \<Longrightarrow> P w1"
    and "P w \<Longrightarrow> malloc_op ops n w = (ok, w1) \<Longrightarrow> P w1"
    and "P w \<Longrightarrow> time_op ops w = (x, w1) \<Longrightarrow> P w1"
  using assms unfolding ops_keep_def by (metis snd_conv)+

lemma ops_keep_mono: "ops_keep ops P A \<Longrightarrow> (\<And>k. B k \<Longrightarrow> A k) \<Longrightarrow> ops_keep ops P B"
  by (simp add: ops_keep_def)

lemma ops_keep_True: "ops_keep ops (\<lambda>_. True) A"
  by (simp add: ops_keep_def)

section \<open>States that agree but for some blocks\<close>

text \<open>
  \<open>keeps P M s t\<close>: from \<open>s\<close> to \<open>t\<close> the device description and the handles are the same,
  the array has kept its length and its well-formedness, only the blocks numbered in \<open>M\<close>
  may differ in memory, output has only been added, and \<open>P\<close> has been kept.
\<close>

definition keeps :: "('w \<Rightarrow> bool) \<Rightarrow> nat set \<Rightarrow> 'w st \<Rightarrow> 'w st \<Rightarrow> bool" where
  "keeps P M s t \<longleftrightarrow>
     info (bc t) = info (bc s) \<and> fd (bc t) = fd (bc s) \<and> mtd (bc t) = mtd (bc s)
   \<and> dev (bc t) = dev (bc s) \<and> initialised t = initialised s
   \<and> length (blks t) = length (blks s)
   \<and> (list_all wf_block (blks s) \<longrightarrow> list_all wf_block (blks t))
   \<and> (\<forall>j. j \<notin> M \<longrightarrow> blks t ! j = blks s ! j)
   \<and> bc_log_channels t = bc_log_channels s \<and> bc_log_levels t = bc_log_levels s
   \<and> (\<exists>es. outputs t = outputs s @ es)
   \<and> (P (world s) \<longrightarrow> P (world t))"

lemma keeps_refl [frame_intros]: "keeps P M s s"
  by (simp add: keeps_def)

lemma keeps_trans:
  "keeps P M s t \<Longrightarrow> keeps P N t u \<Longrightarrow> keeps P (M \<union> N) s u"
  by (auto simp: keeps_def)

lemma keeps_trans_same: "keeps P M s t \<Longrightarrow> keeps P M t u \<Longrightarrow> keeps P M s u"
  using keeps_trans [of P M s t M u] by simp

lemma keeps_mono: "keeps P M s t \<Longrightarrow> M \<subseteq> N \<Longrightarrow> keeps P N s t"
  by (auto simp: keeps_def)

lemma keeps_wf: "keeps P M s t \<Longrightarrow> wf_bc (bc s) \<Longrightarrow> wf_bc (bc t)"
  by (simp add: keeps_def wf_bc_def)

lemma keeps_simps:
  assumes "keeps P M s t"
  shows "info (bc t) = info (bc s)" "length (blks t) = length (blks s)"
    "initialised t = initialised s" "fd (bc t) = fd (bc s)" "mtd (bc t) = mtd (bc s)"
    "dev (bc t) = dev (bc s)" "bc_log_channels t = bc_log_channels s"
    "bc_log_levels t = bc_log_levels s"
    "j \<notin> M \<Longrightarrow> blks t ! j = blks s ! j" "P (world s) \<Longrightarrow> P (world t)"
  using assms by (simp_all add: keeps_def)

lemma keeps_bc_log [frame_intros]: "keeps P M s t \<Longrightarrow> keeps P M s (bc_log sev fmt args t)"
  by (simp add: keeps_def outputs_bc_log) (metis append_assoc)

lemma keeps_set_world [frame_intros]:
  "keeps P M s t \<Longrightarrow> (P (world t) \<Longrightarrow> P w) \<Longrightarrow> keeps P M s (set_world w t)"
  by (simp add: keeps_def)

lemma keeps_store [frame_intros]:
  assumes "keeps P M s t" and bs: "bs = (blks t)[i := b]" and "i \<in> M"
    and "list_all wf_block (blks t) \<Longrightarrow> wf_block b"
  shows "keeps P M s (set_blocks bs t)"
proof -
  have "(blks t)[i := b] ! j = blks t ! j" if "j \<notin> M" for j
    using that \<open>i \<in> M\<close> by (metis nth_list_update_neq)
  then show ?thesis
    using assms by (simp add: keeps_def list_all_update)
qed

text \<open>The contract of an operation on a state.\<close>

abbreviation framed :: "('w \<Rightarrow> bool) \<Rightarrow> nat set \<Rightarrow> 'w st \<Rightarrow> ('w st, 'a) res \<Rightarrow> bool" where
  "framed P M s m \<equiv> holds m (\<lambda>_ t. keeps P M s t) (\<lambda>_ t. False)"

lemma framed_bindR:
  assumes m: "framed P M s m"
    and k: "\<And>x t. m = Ret x t \<Longrightarrow> keeps P M s t \<Longrightarrow> framed P M t (k x t)"
  shows "framed P M s (bindR m k)"
  using assms
  by (cases m) (auto elim!: holds_mono intro: keeps_trans_same)

lemma framed_Ret: "keeps P M s t \<Longrightarrow> framed P M s (Ret x t)"
  by simp

lemma framed_put_block:
  "i < length (blks s) \<Longrightarrow> i \<in> M \<Longrightarrow> (list_all wf_block (blks s) \<Longrightarrow> wf_block b) \<Longrightarrow>
     framed P M s (put_block i b s)"
  by (simp add: put_block_def frame_intros)

section \<open>The private operations\<close>

lemma framed_check_block:
  assumes ops: "ops_keep ops P A" and i: "i < length (blks s)" "i \<in> M"
  shows "framed P M s (check_block ops i s)"
  using i
  by (auto simp: check_block_def get_block_def put_block_def wf_block_def list_all_nthD Let_def
      split: prod.splits intro!: frame_intros dest: ops_keepD [OF ops])

lemma framed_read_bootblock:
  assumes ops: "ops_keep ops P A" and inplace: "reads_in_place ops"
    and i: "i < length (blks s)" "i \<in> M"
  shows "framed P M s (read_bootblock ops i s)"
  unfolding read_bootblock_def
proof (rule framed_bindR, goal_cases)
  case 1
  show ?case using ops i by (rule framed_check_block)
next
  case (2 err t)
  then have i': "i < length (blks t)"
    using i by (simp add: keeps_simps)
  have "4 \<le> length buf"
    if "list_all wf_block (blks t)"
      and "mtd_read_op ops (info (bc t)) (fd (bc t)) i 0 (btblock_bytes (blks t ! i)) (world t) = (e, buf, w)"
    for e buf w
    using that i' inplace [unfolded reads_in_place_def, rule_format, of "info (bc t)" "fd (bc t)" i 0
        "btblock_bytes (blks t ! i)" "world t"]
    by (simp add: list_all_nthD SIZEOF_BTBLOCK_def)
  then show ?case
    using i i'
    by (auto simp: get_block_def put_block_def split: prod.splits
        intro!: frame_intros dest: ops_keepD [OF ops])
qed

lemma framed_malloc_page:
  "ops_keep ops P A \<Longrightarrow> malloc_page ops s = (ok, t) \<Longrightarrow> keeps P {} s t"
  by (auto simp: malloc_page_def Let_def split: prod.splits if_splits
      intro!: frame_intros dest: ops_keepD)

lemma framed_write_page:
  "ops_keep ops P A \<Longrightarrow> A i \<Longrightarrow> framed P M s (write_page ops i page s)"
  by (auto simp: write_page_def split: prod.splits intro!: frame_intros dest: ops_keepD)

lemma fill_page_Ret:
  "i < length (blks s) \<Longrightarrow> SIZEOF_BTBLOCK \<le> min_io_size (info (bc s)) \<Longrightarrow>
     fill_page i s = Ret (btblock_bytes (blks s ! i)
       @ replicate (min_io_size (info (bc s)) - SIZEOF_BTBLOCK) 0xFF) s"
  by (simp add: fill_page_def get_block_def)

lemma framed_write_filled:
  assumes "ops_keep ops P A" "A i" "i < length (blks s)"
    and "SIZEOF_BTBLOCK \<le> min_io_size (info (bc s))"
  shows "framed P M s (bindR (fill_page i s) (\<lambda>page s. write_page ops i page s))"
  using assms framed_write_page [OF assms(1,2)] by (simp add: fill_page_Ret)

lemma framed_do_write:
  assumes ops: "ops_keep ops P A" "A i" and i: "i < length (blks s)"
    and page: "SIZEOF_BTBLOCK \<le> min_io_size (info (bc s))"
  shows "framed P {} s (do_write_bootblock ops i s)"
proof -
  obtain e w where e: "mtd_erase_op ops (mtd (bc s)) (info (bc s)) (fd (bc s)) i (world s) = (e, w)"
    by fastforce
  let ?s = "set_world w s"
  have s: "keeps P {} s ?s"
    using ops_keepD(6) [OF ops(1,2) _ e] by (auto intro!: frame_intros)
  obtain ok u where u: "malloc_page ops ?s = (ok, u)"
    by fastforce
  have su: "keeps P {} s u"
    using s framed_malloc_page [OF ops(1) u] by (rule keeps_trans_same)
  have "framed P {} u (bindR (fill_page i u) (\<lambda>page s. write_page ops i page s))"
    using i page su by (intro framed_write_filled [OF ops]) (simp_all add: keeps_simps)
  then have "framed P {} s (bindR (fill_page i u) (\<lambda>page s. write_page ops i page s))"
    by (rule holds_mono) (auto intro: keeps_trans_same [OF su])
  then show ?thesis
    using s su by (auto simp: do_write_bootblock_def e u Let_def simp del: holds_bindR)
qed

lemma framed_write_errorcheck:
  assumes ops: "ops_keep ops P A" "A i" and i: "i < length (blks s)" "i \<in> M"
    and page: "SIZEOF_BTBLOCK \<le> min_io_size (info (bc s))"
  shows "framed P M s (write_errorcheck_bootblock ops i s)"
  unfolding write_errorcheck_bootblock_def
proof (rule framed_bindR, goal_cases)
  case 1
  show ?case using ops(1) i by (rule framed_check_block)
next
  case (2 err t)
  show ?case
  proof (cases "err = 0")
    case True
    have "framed P M t (do_write_bootblock ops i t)"
      using framed_do_write [OF ops, of t] 2(2) i page
      by (auto simp: keeps_simps elim!: holds_mono intro: keeps_mono)
    moreover have "framed P M u (check_block ops i u)" if "keeps P M t u" for u
      using framed_check_block [OF ops(1), of i u M] i that 2(2) by (simp add: keeps_simps)
    ultimately show ?thesis
      using True by (auto simp: Let_def frame_intros intro!: framed_bindR simp del: holds_bindR)
  qed (simp add: keeps_refl)
qed

lemma wf_next_block [simp]: "wf_block b \<Longrightarrow> wf_block (next_block which p now b)"
  by (cases which) (simp_all add: wf_block_def next_block_def set_image_info_def Let_def)

lemma framed_update:
  assumes ops: "ops_keep ops P A" and i: "i < length (blks s)" "i \<in> M" "prev < length (blks s)"
    and A: "magic (blks s ! i) \<noteq> MAGIC_BAD \<Longrightarrow> A i"
    and page: "SIZEOF_BTBLOCK \<le> min_io_size (info (bc s))"
  shows "framed P M s (update_bootblock ops which p prev i s)"
proof (cases "magic (blks s ! i) = MAGIC_BAD")
  case True
  then show ?thesis
    using i by (simp add: update_bootblock_def get_block_def frame_intros)
next
  case False
  obtain now w where now: "time_op ops (world s) = (now, w)"
    by fastforce
  let ?t = "set_blocks ((blks s)[i := next_block which p now (blks s ! prev)]) (set_world w s)"
  have t: "keeps P M s ?t"
    using i by (auto intro!: frame_intros dest: ops_keepD(9) [OF ops _ now] simp: list_all_nthD)
  have "framed P M ?t (write_errorcheck_bootblock ops i ?t)"
    using i page by (intro framed_write_errorcheck [OF ops A]) (simp_all add: False)
  then have "framed P M s (write_errorcheck_bootblock ops i ?t)"
    by (rule holds_mono) (auto intro: keeps_trans_same [OF t])
  then show ?thesis
    using False i by (simp add: update_bootblock_def get_block_def put_block_def now)
qed

section \<open>The loops and the public operations\<close>

lemma framed_read_blocks:
  assumes ops: "ops_keep ops P A" and inplace: "reads_in_place ops"
  shows "set is \<subseteq> M \<Longrightarrow> \<forall>i\<in>set is. i < length (blks s) \<Longrightarrow> framed P M s (read_blocks ops is n s)"
proof (induction "is" arbitrary: n s)
  case Nil
  then show ?case by (simp add: keeps_refl)
next
  case (Cons i "is")
  have "framed P M s (read_bootblock ops i s)"
    using Cons.prems by (intro framed_read_bootblock [OF ops inplace]) auto
  then show ?case
    using Cons.prems by (auto intro!: framed_bindR Cons.IH simp: keeps_simps simp del: holds_bindR)
qed

lemma framed_read_bootconfig:
  assumes ops: "ops_keep ops P A" and inplace: "reads_in_place ops"
    and n: "ebs s \<le> length (blks s)"
  shows "framed P UNIV s (read_bootconfig ops s)"
  unfolding read_bootconfig_def
  using framed_read_blocks [OF ops inplace, of "[0..<ebs s]" UNIV s 0] n
  by (auto intro!: framed_bindR simp: keeps_refl simp del: holds_bindR)

lemma framed_reread:
  assumes ops: "ops_keep ops P A" and inplace: "reads_in_place ops" and ptr: "ptr_ok ops"
    and init: "initialised s" and wf: "wf_bc (bc s)"
  shows "framed P UNIV s (bc_ll_reread ops s)"
proof -
  let ?t = "set_blocks (memset_zero (ebs s * sizeof_ptr ops) (blks s)) s"
  have t: "keeps P UNIV s ?t"
    by (simp add: keeps_def wf_memset_zero)
  have "framed P UNIV ?t (read_bootconfig ops ?t)"
    using wf by (intro framed_read_bootconfig [OF ops inplace]) (simp add: wf_bcD)
  then have "framed P UNIV s (read_bootconfig ops ?t)"
    by (rule holds_mono) (auto intro: keeps_trans_same [OF t])
  then show ?thesis
    using init wf ptr by (auto simp: bc_ll_reread_def ptr_ok_def wf_bcD SIZEOF_BTBLOCK_def)
qed

lemma ring_dist_inj:
  "cur < n \<Longrightarrow> a < n \<Longrightarrow> b < n \<Longrightarrow> ring_dist n cur a = ring_dist n cur b \<Longrightarrow> a = b"
  by (auto simp: ring_dist_def le_mod_geq mod_if split: if_splits)

lemma set_loop_stop [simp]: "set_loop ops which p n cur cur s = Ret cur s"
  by (subst set_loop.simps) simp

lemma set_loop_next:
  "new \<noteq> cur \<Longrightarrow> cur < n \<Longrightarrow> new < n \<Longrightarrow>
     set_loop ops which p n cur new s =
       bindR (update_bootblock ops which p cur new s) (\<lambda>r s.
         if r = 0 then Ret new s else set_loop ops which p n cur ((new + 1) mod n) s)"
  by (subst set_loop.simps) simp

lemma framed_set_loop:
  "ops_keep ops P A \<Longrightarrow> wf_bc (bc s) \<Longrightarrow> n = ebs s \<Longrightarrow> cur < n \<Longrightarrow> new < n \<Longrightarrow>
     (\<And>k. k < n \<Longrightarrow> k \<noteq> cur \<Longrightarrow> ring_dist n cur k \<le> ring_dist n cur new \<Longrightarrow>
        magic (blks s ! k) \<noteq> MAGIC_BAD \<Longrightarrow> A k) \<Longrightarrow>
     holds (set_loop ops which p n cur new s)
       (\<lambda>r t. keeps P (- {cur}) s t \<and> r < n) (\<lambda>_ _. False)"
proof (induction ops which p n cur new s rule: set_loop.induct)
  case (1 ops which p n cur new s)
  show ?case
  proof (cases "new = cur")
    case True
    then show ?thesis
      using "1.prems" by (simp add: keeps_refl)
  next
    case new: False
    let ?next = "(new + 1) mod n"
    have lt: "?next < n"
      using "1.prems" by simp
    have upd: "framed P {new} s (update_bootblock ops which p cur new s)"
      using "1.prems" new by (intro framed_update [OF "1.prems"(1)]) (simp_all add: wf_bcD)
    have rest: "holds (if r = 0 then Ret new t else set_loop ops which p n cur ?next t)
        (\<lambda>r t. keeps P (- {cur}) s t \<and> r < n) (\<lambda>_ _. False)"
      if ret: "update_bootblock ops which p cur new s = Ret r t" and k: "keeps P {new} s t" for r t
    proof (cases "r = 0")
      case True
      then show ?thesis
        using k new "1.prems" by (auto intro: keeps_mono)
    next
      case False
      have "A j" if "j < n" "j \<noteq> cur" "ring_dist n cur j \<le> ring_dist n cur ?next"
        "magic (blks t ! j) \<noteq> MAGIC_BAD" for j
      proof -
        have "ring_dist n cur j < ring_dist n cur new"
          using that ring_dist_less [of cur n new] "1.prems" new by simp
        then show ?thesis
          using that "1.prems"(6) [of j] keeps_simps(9) [OF k, of j] by (cases "j = new") auto
      qed
      then have "holds (set_loop ops which p n cur ?next t)
          (\<lambda>r u. keeps P (- {cur}) t u \<and> r < n) (\<lambda>_ _. False)"
        using "1.prems" new lt k False
        by (intro "1.IH") (simp_all add: keeps_simps keeps_wf)
      then show ?thesis
        using False new keeps_mono [OF k, of "- {cur}"]
        by (auto elim!: holds_mono intro: keeps_trans_same)
    qed
    show ?thesis
      unfolding set_loop_next [OF new "1.prems"(4,5)] holds_bindR
      using upd rest by (cases "update_bootblock ops which p cur new s") auto
  qed
qed

text \<open>
  The start of \<open>bc_ll_set_partition\<close>: the block the new one is derived from, and the
  state in which the loop begins.
\<close>

definition base_state :: "'w st \<Rightarrow> 'w st" where
  "base_state s =
     (case current_index (blks s) of
        None \<Rightarrow> set_blocks ((blks s)[ebs s - 1 := dummy_block]) s
      | Some _ \<Rightarrow> s)"

lemma wf_dummy_block [simp]: "wf_block dummy_block"
  by (simp add: dummy_block_def zero_block_def wf_block_def)

lemma keeps_base_state:
  "wf_bc (bc s) \<Longrightarrow> keeps P {base_index (blks s)} s (base_state s)"
  by (auto simp: base_state_def base_index_def wf_bcD split: option.splits intro!: frame_intros)

lemma set_partition_eq:
  assumes "initialised s" "wf_bc (bc s)" "p \<le> 1"
  shows "bc_ll_set_partition ops which p s =
    bindR (set_loop ops which p (ebs s) (base_index (blks s))
        ((base_index (blks s) + 1) mod ebs s) (base_state s)) (\<lambda>new t.
      if new = base_index (blks s)
      then Ret (-1) (bc_log LOG_ERR ''Error writing new boot block.\<newline>'' [] t)
      else bindR (bc_ll_reread ops t) (\<lambda>_ u. Ret 0 u))"
  using assms wf_bcD(1,3) [OF assms(2)]
  by (auto simp: bc_ll_set_partition_def bc_ll_get_current_def base_state_def base_index_def
      put_block_def not_less split: option.splits)

lemma framed_set_partition:
  assumes ops: "ops_keep ops P A" and inplace: "reads_in_place ops" and ptr: "ptr_ok ops"
    and init: "initialised s" and wf: "wf_bc (bc s)" and p: "p \<le> 1"
    and A: "\<And>k. k < ebs s \<Longrightarrow> k \<noteq> base_index (blks s) \<Longrightarrow> magic (blks s ! k) \<noteq> MAGIC_BAD \<Longrightarrow> A k"
  shows "framed P UNIV s (bc_ll_set_partition ops which p s)"
proof -
  let ?cur = "base_index (blks s)" and ?s = "base_state s"
  have cur: "?cur < ebs s"
    using wf base_index_less [of "blks s"] wf_bcD [OF wf] by (simp add: length_greater_0_conv [symmetric])
  have k: "keeps P {?cur} s ?s"
    using wf by (rule keeps_base_state)
  have "holds (set_loop ops which p (ebs s) ?cur ((?cur + 1) mod ebs s) ?s)
      (\<lambda>r t. keeps P (- {?cur}) ?s t \<and> r < ebs s) (\<lambda>_ _. False)"
    using cur A by (intro framed_set_loop [OF ops keeps_wf [OF k wf]]) (simp_all add: keeps_simps [OF k])
  then have "framed P UNIV s (set_loop ops which p (ebs s) ?cur ((?cur + 1) mod ebs s) ?s)"
    by (rule holds_mono) (auto intro: keeps_trans [THEN keeps_mono] k)
  moreover have "framed P UNIV t (if r = ?cur
      then Ret (-1) (bc_log LOG_ERR ''Error writing new boot block.\<newline>'' [] t)
      else bindR (bc_ll_reread ops t) (\<lambda>_ u. Ret 0 u))" if "keeps P UNIV s t" for r t
    using framed_reread [OF ops inplace ptr, of t] that init keeps_wf [OF that wf]
    by (simp add: frame_intros keeps_simps)
  ultimately show ?thesis
    unfolding set_partition_eq [OF init wf p] by (rule framed_bindR)
qed

end
