(* ===== verification/Flash.thy ===== *)
theory Flash
  imports Frame
begin

text \<open>
  The configuration on a flash device that works: the laws such a device obeys, the
  agreement of the array in memory with the flash, and what reading again and setting a
  partition then achieve.
\<close>

section \<open>A working device\<close>

text \<open>
  \<open>view w k\<close> is the first page of erase block \<open>k\<close> and \<open>bad w k\<close> says whether the block is
  marked bad. Erasing sets every bit of the page; programming can only clear bits. A good
  block can be read, erased and written; memory can be had.
\<close>

definition steady :: "('w \<Rightarrow> nat \<Rightarrow> u8 list) \<Rightarrow> ('w \<Rightarrow> nat \<Rightarrow> bool) \<Rightarrow> 'w \<Rightarrow> 'w \<Rightarrow> bool" where
  "steady view bad w w1 \<longleftrightarrow> view w1 = view w \<and> bad w1 = bad w"

definition program_page :: "u8 list \<Rightarrow> u8 list \<Rightarrow> u8 list" where
  "program_page page old = map2 (AND) page old"

definition works :: "'w env_ops \<Rightarrow> ('w \<Rightarrow> nat \<Rightarrow> u8 list) \<Rightarrow> ('w \<Rightarrow> nat \<Rightarrow> bool) \<Rightarrow> bool" where
  "works ops view bad \<longleftrightarrow>
     (\<forall>i f k w e w1. mtd_is_bad_op ops i f k w = (e, w1) \<longrightarrow>
        (if bad w k then 0 < e else e = 0) \<and> steady view bad w w1)
   \<and> (\<forall>i f k buf w e buf1 w1. mtd_read_op ops i f k 0 buf w = (e, buf1, w1) \<longrightarrow>
        \<not> bad w k \<longrightarrow> length buf \<le> length (view w k) \<longrightarrow>
        e = 0 \<and> buf1 = take (length buf) (view w k) \<and> steady view bad w w1)
   \<and> (\<forall>h i f k w e w1. mtd_erase_op ops h i f k w = (e, w1) \<longrightarrow> \<not> bad w k \<longrightarrow>
        e = 0 \<and> bad w1 = bad w \<and>
        view w1 = (view w)(k := replicate (length (view w k)) 0xFF))
   \<and> (\<forall>h i f k page w e w1. mtd_write_op ops h i f k 0 page w = (e, w1) \<longrightarrow> \<not> bad w k \<longrightarrow>
        length page = length (view w k) \<longrightarrow>
        e = 0 \<and> bad w1 = bad w \<and> view w1 = (view w)(k := program_page page (view w k)))
   \<and> (\<forall>n w ok w1. malloc_op ops n w = (ok, w1) \<longrightarrow> ok \<and> steady view bad w w1)
   \<and> (\<forall>w now w1. time_op ops w = (now, w1) \<longrightarrow> steady view bad w w1)"

lemma worksD:
  assumes "works ops view bad"
  shows "mtd_is_bad_op ops i f k w = (e, w1) \<Longrightarrow> \<not> bad w k \<Longrightarrow> e = 0 \<and> steady view bad w w1"
    and "mtd_is_bad_op ops i f k w = (e, w1) \<Longrightarrow> bad w k \<Longrightarrow> 0 < e \<and> steady view bad w w1"
    and "mtd_read_op ops i f k 0 buf w = (e, buf1, w1) \<Longrightarrow> \<not> bad w k \<Longrightarrow>
      length buf \<le> length (view w k) \<Longrightarrow>
      e = 0 \<and> buf1 = take (length buf) (view w k) \<and> steady view bad w w1"
    and "mtd_erase_op ops h i f k w = (e, w1) \<Longrightarrow> \<not> bad w k \<Longrightarrow>
      e = 0 \<and> bad w1 = bad w \<and> view w1 = (view w)(k := replicate (length (view w k)) 0xFF)"
    and "mtd_write_op ops h i f k 0 page w = (e, w1) \<Longrightarrow> \<not> bad w k \<Longrightarrow>
      length page = length (view w k) \<Longrightarrow>
      e = 0 \<and> bad w1 = bad w \<and> view w1 = (view w)(k := program_page page (view w k))"
    and "malloc_op ops n w = (ok, w1) \<Longrightarrow> ok \<and> steady view bad w w1"
    and "time_op ops w = (now, w1) \<Longrightarrow> steady view bad w w1"
  using assms unfolding works_def by (metis, metis, metis, metis, metis, metis, metis)

text \<open>What reading relies on alone: the bad-block check, reading a good block, memory.\<close>

definition reads_right :: "'w env_ops \<Rightarrow> ('w \<Rightarrow> nat \<Rightarrow> u8 list) \<Rightarrow> ('w \<Rightarrow> nat \<Rightarrow> bool) \<Rightarrow> bool" where
  "reads_right ops view bad \<longleftrightarrow>
     (\<forall>i f k w e w1. mtd_is_bad_op ops i f k w = (e, w1) \<longrightarrow>
        (if bad w k then 0 < e else e = 0) \<and> steady view bad w w1)
   \<and> (\<forall>i f k buf w e buf1 w1. mtd_read_op ops i f k 0 buf w = (e, buf1, w1) \<longrightarrow>
        \<not> bad w k \<longrightarrow> length buf \<le> length (view w k) \<longrightarrow>
        e = 0 \<and> buf1 = take (length buf) (view w k) \<and> steady view bad w w1)
   \<and> (\<forall>n w ok w1. malloc_op ops n w = (ok, w1) \<longrightarrow> ok \<and> steady view bad w w1)"

lemma works_reads: "works ops view bad \<Longrightarrow> reads_right ops view bad"
  unfolding works_def reads_right_def by (elim conjE, intro conjI)

lemma reads_rightD:
  assumes "reads_right ops view bad"
  shows "mtd_is_bad_op ops i f k w = (e, w1) \<Longrightarrow> \<not> bad w k \<Longrightarrow> e = 0 \<and> steady view bad w w1"
    and "mtd_is_bad_op ops i f k w = (e, w1) \<Longrightarrow> bad w k \<Longrightarrow> 0 < e \<and> steady view bad w w1"
    and "mtd_read_op ops i f k 0 buf w = (e, buf1, w1) \<Longrightarrow> \<not> bad w k \<Longrightarrow>
      length buf \<le> length (view w k) \<Longrightarrow>
      e = 0 \<and> buf1 = take (length buf) (view w k) \<and> steady view bad w w1"
    and "malloc_op ops n w = (ok, w1) \<Longrightarrow> ok \<and> steady view bad w w1"
  using assms unfolding reads_right_def by (metis, metis, metis, metis)

lemma program_erased [simp]: "program_page page (replicate (length page) 0xFF) = page"
proof (induction page)
  case (Cons x xs)
  have "x AND 0xFF = x"
    by (simp add: bitwise)
  with Cons show ?case
    by (simp add: program_page_def)
qed (simp add: program_page_def)

lemma length_program_page [simp]:
  "length (program_page page old) = min (length page) (length old)"
  by (simp add: program_page_def)

section \<open>Memory and flash agree\<close>

text \<open>The block a page holds.\<close>

definition page_block :: "u8 list \<Rightarrow> btblock" where
  "page_block page = bytes_btblock (take SIZEOF_BTBLOCK page)"

definition pages_ok :: "('w \<Rightarrow> nat \<Rightarrow> u8 list) \<Rightarrow> 'w st \<Rightarrow> bool" where
  "pages_ok view s \<longleftrightarrow> (\<forall>k<ebs s. length (view (world s) k) = min_io_size (info (bc s)))"

definition synced_at ::
  "('w \<Rightarrow> nat \<Rightarrow> u8 list) \<Rightarrow> ('w \<Rightarrow> nat \<Rightarrow> bool) \<Rightarrow> 'w st \<Rightarrow> nat \<Rightarrow> bool" where
  "synced_at view bad s k \<longleftrightarrow>
     (if bad (world s) k then magic (blks s ! k) = MAGIC_BAD
      else blks s ! k = page_block (view (world s) k))"

definition synced ::
  "('w \<Rightarrow> nat \<Rightarrow> u8 list) \<Rightarrow> ('w \<Rightarrow> nat \<Rightarrow> bool) \<Rightarrow> 'w st \<Rightarrow> bool" where
  "synced view bad s \<longleftrightarrow> (\<forall>k<ebs s. synced_at view bad s k)"

lemma wf_page_block [simp]: "SIZEOF_BTBLOCK \<le> length page \<Longrightarrow> wf_block (page_block page)"
  by (simp add: page_block_def SIZEOF_BTBLOCK_def)

lemma page_block_write [simp]: "wf_block b \<Longrightarrow> page_block (btblock_bytes b @ rest) = b"
  using bytes_btblock_bytes [of b "[]"] by (simp add: page_block_def)

section \<open>Reading\<close>

abbreviation same_flash ::
  "('w \<Rightarrow> nat \<Rightarrow> u8 list) \<Rightarrow> ('w \<Rightarrow> nat \<Rightarrow> bool) \<Rightarrow> nat set \<Rightarrow> 'w st \<Rightarrow> 'w st \<Rightarrow> bool" where
  "same_flash view bad M s t \<equiv> keeps (steady view bad (world s)) M s t"

lemma steady_refl [simp]: "steady view bad w w"
  by (simp add: steady_def)

lemma steady_trans: "steady view bad u v \<Longrightarrow> steady view bad v w \<Longrightarrow> steady view bad u w"
  by (simp add: steady_def)

lemma same_flash_trans:
  "same_flash view bad M s t \<Longrightarrow> same_flash view bad M t u \<Longrightarrow> same_flash view bad M s u"
  by (auto simp: keeps_def steady_def)

lemma same_flash_Un:
  "same_flash view bad M s t \<Longrightarrow> same_flash view bad N t u \<Longrightarrow> same_flash view bad (M \<union> N) s u"
  by (auto simp: keeps_def steady_def)

lemma same_flashD:
  "same_flash view bad M s t \<Longrightarrow> view (world t) = view (world s)"
  "same_flash view bad M s t \<Longrightarrow> bad (world t) = bad (world s)"
  by (auto simp: keeps_def steady_def)

lemma check_block_good:
  assumes "reads_right ops view bad" "\<not> bad (world s) i"
  obtains t where "check_block ops i s = Ret 0 t" "same_flash view bad M s t"
proof -
  obtain e w where e: "mtd_is_bad_op ops (info (bc s)) (fd (bc s)) i (world s) = (e, w)"
    by fastforce
  then show ?thesis
    using reads_rightD(1) [OF assms(1) e assms(2)]
    by (intro that [of "set_world w s"]) (auto simp: check_block_def intro!: frame_intros)
qed

lemma check_block_bad:
  assumes "reads_right ops view bad" "bad (world s) i" "i < length (blks s)" "i \<in> M"
  obtains t where "check_block ops i s = Ret 1 t" "same_flash view bad M s t"
    "magic (blks t ! i) = MAGIC_BAD"
proof -
  obtain e w where e: "mtd_is_bad_op ops (info (bc s)) (fd (bc s)) i (world s) = (e, w)"
    by fastforce
  let ?l = "bc_log LOG_WARNING ''Block %d on %s is bad. Sorry about that.\<newline>''
    [AInt (int i), AStr (dev (bc s))] (set_world w s)"
  let ?t = "set_blocks ((blks s)[i := (blks s ! i)\<lparr>magic := MAGIC_BAD\<rparr>]) ?l"
  have "same_flash view bad M s ?t"
    using reads_rightD(2) [OF assms(1) e assms(2)] assms(3,4)
    by (auto intro!: frame_intros simp: list_all_nthD wf_block_def)
  then show ?thesis
    using reads_rightD(2) [OF assms(1) e assms(2)] assms(3) e
    by (intro that [of ?t]) (auto simp: check_block_def get_block_def put_block_def)
qed

lemma read_bootblock_synced:
  assumes reads: "reads_right ops view bad" and wf: "wf_bc (bc s)" and i: "i < ebs s"
    and pages: "pages_ok view s"
  obtains t where "read_bootblock ops i s = Ret (if bad (world s) i then 1 else 0) t"
    "same_flash view bad {i} s t" "synced_at view bad t i"
proof (cases "bad (world s) i")
  case True
  then obtain t where t: "check_block ops i s = Ret 1 t" "same_flash view bad {i} s t"
    "magic (blks t ! i) = MAGIC_BAD"
    using check_block_bad [OF reads, of s i "{i}"] i wf_bcD(1) [OF wf] by auto
  then show ?thesis
    using True by (intro that [of t]) (simp_all add: read_bootblock_def synced_at_def same_flashD)
next
  case False
  then obtain t where t: "check_block ops i s = Ret 0 t" "same_flash view bad {i} s t"
    using check_block_good [OF reads] by blast
  have wft: "wf_bc (bc t)" and it: "i < ebs t"
    using keeps_wf [OF t(2) wf] i by (simp_all add: keeps_simps [OF t(2)])
  obtain e buf w where e: "mtd_read_op ops (info (bc t)) (fd (bc t)) i 0
      (btblock_bytes (blks t ! i)) (world t) = (e, buf, w)"
    by (metis prod.exhaust)
  have len: "length (btblock_bytes (blks t ! i)) = SIZEOF_BTBLOCK"
    using wft it by (simp add: wf_bc_nth)
  have "SIZEOF_BTBLOCK \<le> length (view (world t) i)"
    using pages i wf_bcD(5) [OF wf] same_flashD(1) [OF t(2)] by (simp add: pages_ok_def)
  then have r: "e = 0" "buf = take SIZEOF_BTBLOCK (view (world t) i)" "steady view bad (world t) w"
    "4 \<le> length buf"
    using reads_rightD(3) [OF reads e] len False same_flashD(2) [OF t(2)] by (auto simp: SIZEOF_BTBLOCK_def)
  let ?u = "set_blocks ((blks t)[i := bytes_btblock buf]) (set_world w t)"
  have "same_flash view bad {i} t ?u"
    using r by (auto intro!: frame_intros)
  then have u: "same_flash view bad {i} s ?u"
    by (rule same_flash_trans [OF t(2)])
  show ?thesis
    using e r t u it False wf_bcD(1) [OF wft] same_flashD [OF u]
    by (intro that [of ?u])
      (simp_all add: read_bootblock_def get_block_def put_block_def synced_at_def page_block_def
        steady_def EUCLEAN_def)
qed

lemma synced_at_frame:
  "same_flash view bad M s t \<Longrightarrow> k \<notin> M \<Longrightarrow> synced_at view bad t k = synced_at view bad s k"
  by (simp add: synced_at_def same_flashD keeps_simps)

lemma pages_ok_frame: "same_flash view bad M s t \<Longrightarrow> pages_ok view t = pages_ok view s"
  by (simp add: pages_ok_def same_flashD keeps_simps)

lemma read_blocks_synced:
  assumes reads: "reads_right ops view bad"
  shows "wf_bc (bc s) \<Longrightarrow> pages_ok view s \<Longrightarrow> distinct is \<Longrightarrow> \<forall>i\<in>set is. i < ebs s \<Longrightarrow>
    \<exists>t. read_blocks ops is n s = Ret (n + length (filter (bad (world s)) is)) t
      \<and> same_flash view bad (set is) s t \<and> (\<forall>i\<in>set is. synced_at view bad t i)"
proof (induction "is" arbitrary: n s)
  case Nil
  then show ?case by (simp add: keeps_refl)
next
  case (Cons i "is")
  obtain u where u: "read_bootblock ops i s = Ret (if bad (world s) i then 1 else 0) u"
    "same_flash view bad {i} s u" "synced_at view bad u i"
    using read_bootblock_synced [OF reads Cons.prems(1) _ Cons.prems(2)] Cons.prems(4) by auto
  let ?n = "if bad (world s) i then Suc n else n"
  obtain t where t: "read_blocks ops is ?n u = Ret (?n + length (filter (bad (world u)) is)) t"
    "same_flash view bad (set is) u t" "\<forall>i\<in>set is. synced_at view bad t i"
    using Cons.IH [of u ?n] Cons.prems u(2) keeps_wf [OF u(2)]
    by (auto simp: keeps_simps pages_ok_frame)
  have "same_flash view bad (set (i # is)) s t"
    using same_flash_Un [OF u(2) t(2)] by simp
  moreover have "synced_at view bad t i"
    using u(3) synced_at_frame [OF t(2)] Cons.prems(3) by simp
  moreover have "bad (world u) = bad (world s)"
    by (rule same_flashD [OF u(2)])
  ultimately show ?case
    using u(1) t(1,3) by (intro exI [of _ t]) auto
qed

lemma read_bootconfig_synced:
  assumes reads: "reads_right ops view bad" and wf: "wf_bc (bc s)" and pages: "pages_ok view s"
  obtains t where
    "read_bootconfig ops s = Ret (if \<forall>k<ebs s. bad (world s) k then -1 else 0) t"
    "same_flash view bad UNIV s t" "synced view bad t"
proof -
  obtain t where t: "read_blocks ops [0..<ebs s] 0 s
      = Ret (length (filter (bad (world s)) [0..<ebs s])) t"
    "same_flash view bad {0..<ebs s} s t" "\<forall>i<ebs s. synced_at view bad t i"
    using read_blocks_synced [OF reads wf pages, of "[0..<ebs s]" 0] by auto
  then show ?thesis
    using length_filter_upt [of "bad (world s)" "ebs s"]
    by (intro that [of t]) (auto simp: read_bootconfig_def synced_def keeps_simps
        intro: keeps_mono)
qed

lemma reread_synced:
  assumes reads: "reads_right ops view bad" and wf: "wf_bc (bc s)" and pages: "pages_ok view s"
    and init: "initialised s" and ptr: "ptr_ok ops"
  obtains t where
    "bc_ll_reread ops s = Ret (if \<forall>k<ebs s. bad (world s) k then -1 else 0) t"
    "same_flash view bad UNIV s t" "synced view bad t"
proof -
  let ?z = "set_blocks (memset_zero (ebs s * sizeof_ptr ops) (blks s)) s"
  have z: "same_flash view bad UNIV s ?z"
    by (simp add: keeps_def wf_memset_zero)
  obtain t where t:
    "read_bootconfig ops ?z = Ret (if \<forall>k<ebs s. bad (world s) k then -1 else 0) t"
    "same_flash view bad UNIV ?z t" "synced view bad t"
    using read_bootconfig_synced [OF reads keeps_wf [OF z wf]] pages by (auto simp: pages_ok_def)
  then show ?thesis
    using init wf ptr same_flash_trans [OF z]
    by (intro that [of t]) (auto simp: bc_ll_reread_def ptr_ok_def wf_bcD SIZEOF_BTBLOCK_def)
qed

section \<open>Writing\<close>

definition block_page :: "'w st \<Rightarrow> btblock \<Rightarrow> u8 list" where
  "block_page s b =
     btblock_bytes b @ replicate (min_io_size (info (bc s)) - SIZEOF_BTBLOCK) 0xFF"

text \<open>From \<open>s\<close> to \<open>t\<close> only the page of block \<open>i\<close> has changed on the flash, to \<open>page\<close>.\<close>

definition flash_update ::
  "('w \<Rightarrow> nat \<Rightarrow> u8 list) \<Rightarrow> ('w \<Rightarrow> nat \<Rightarrow> bool) \<Rightarrow> nat \<Rightarrow> u8 list \<Rightarrow> 'w st \<Rightarrow> 'w st \<Rightarrow> bool" where
  "flash_update view bad i page s t \<longleftrightarrow>
     view (world t) = (view (world s))(i := page) \<and> bad (world t) = bad (world s)"

lemma length_block_page:
  "wf_bc (bc s) \<Longrightarrow> wf_block b \<Longrightarrow> length (block_page s b) = min_io_size (info (bc s))"
  using wf_bcD(5) [of "bc s"] by (simp add: block_page_def)

lemma page_block_page [simp]: "wf_block b \<Longrightarrow> page_block (block_page s b) = b"
  by (simp add: block_page_def)

lemma do_write_works:
  assumes works: "works ops view bad" and good: "\<not> bad (world s) i" and wf: "wf_bc (bc s)"
    and i: "i < ebs s" and pages: "pages_ok view s"
  obtains t where "do_write_bootblock ops i s = Ret 0 t" "keeps (\<lambda>_. True) {} s t"
    "flash_update view bad i (block_page s (blks s ! i)) s t"
proof -
  let ?page = "block_page s (blks s ! i)" and ?len = "length (view (world s) i)"
  have len: "?len = min_io_size (info (bc s))"
    using pages i by (simp add: pages_ok_def)
  have plen: "length ?page = min_io_size (info (bc s))"
    using wf i by (simp add: length_block_page wf_bc_nth)
  obtain e w where e: "mtd_erase_op ops (mtd (bc s)) (info (bc s)) (fd (bc s)) i (world s) = (e, w)"
    by fastforce
  note e' = worksD(4) [OF works e good]
  obtain ok w2 where m: "malloc_op ops (min_io_size (info (bc s))) w = (ok, w2)"
    by fastforce
  note m' = worksD(6) [OF works m, unfolded steady_def]
  obtain e3 w3 where wr:
    "mtd_write_op ops (mtd (bc s)) (info (bc s)) (fd (bc s)) i 0 ?page w2 = (e3, w3)"
    by fastforce
  have "e3 = 0 \<and> bad w3 = bad w2 \<and> view w3 = (view w2)(i := program_page ?page (view w2 i))"
    using e' m' good len plen by (intro worksD(5) [OF works wr]) simp_all
  moreover have "program_page ?page (view w2 i) = ?page"
    using e' m' len plen program_erased [of ?page] by simp
  ultimately have "flash_update view bad i ?page s (set_world w3 s)" "e3 = 0"
    using e' m' by (simp_all add: flash_update_def)
  moreover have "do_write_bootblock ops i s = Ret (if e3 < 0 then 1 else 0) (set_world w3 s)"
    using e' m' e m wr i wf_bcD(1,5) [OF wf]
    by (simp add: do_write_bootblock_def malloc_page_def fill_page_Ret write_page_def block_page_def
        Let_def set_world_def)
  ultimately show ?thesis
    by (intro that [of "set_world w3 s"]) (simp_all add: frame_intros)
qed

lemma write_errorcheck_works:
  assumes works: "works ops view bad" and good: "\<not> bad (world s) i" and wf: "wf_bc (bc s)"
    and i: "i < ebs s" and pages: "pages_ok view s"
  obtains t where "write_errorcheck_bootblock ops i s = Ret 0 t" "keeps (\<lambda>_. True) {} s t"
    "flash_update view bad i (block_page s (blks s ! i)) s t"
proof -
  obtain u where u: "check_block ops i s = Ret 0 u" "same_flash view bad {} s u"
    using check_block_good [OF works_reads [OF works] good] by blast
  have u': "\<not> bad (world u) i" "wf_bc (bc u)" "i < ebs u" "pages_ok view u"
    using good pages i keeps_wf [OF u(2) wf] u(2)
    by (simp_all add: pages_ok_frame same_flashD keeps_simps)
  obtain t where t: "do_write_bootblock ops i u = Ret 0 t" "keeps (\<lambda>_. True) {} u t"
    "flash_update view bad i (block_page u (blks u ! i)) u t"
    using do_write_works [OF works u'] by blast
  have "keeps (\<lambda>_. True) {} s t"
    using u(2) t(2) by (auto simp: keeps_def)
  moreover have "flash_update view bad i (block_page s (blks s ! i)) s t"
    using t(3) u(2) by (simp add: flash_update_def block_page_def same_flashD keeps_simps)
  ultimately show ?thesis
    using u t by (intro that [of t]) (simp_all add: write_errorcheck_bootblock_def Let_def)
qed

section \<open>The loop over the following blocks\<close>

lemma update_works:
  assumes works: "works ops view bad" and wf: "wf_bc (bc s)" and i: "i < ebs s"
    and prev: "prev < ebs s" and pages: "pages_ok view s"
    and good: "\<not> bad (world s) i" "magic (blks s ! i) \<noteq> MAGIC_BAD"
  obtains t now where "update_bootblock ops which p prev i s = Ret 0 t"
    "keeps (\<lambda>_. True) {i} s t" "blks t ! i = next_block which p now (blks s ! prev)"
    "flash_update view bad i (block_page s (next_block which p now (blks s ! prev))) s t"
proof -
  obtain now w where now: "time_op ops (world s) = (now, w)"
    by fastforce
  note steady = worksD(7) [OF works now, unfolded steady_def]
  let ?b = "next_block which p now (blks s ! prev)"
  let ?u = "set_blocks ((blks s)[i := ?b]) (set_world w s)"
  have u: "keeps (\<lambda>_. True) {i} s ?u"
    using prev wf_bcD(1) [OF wf] by (auto intro!: frame_intros simp: list_all_nthD)
  have u': "\<not> bad (world ?u) i" "wf_bc (bc ?u)" "i < ebs ?u" "pages_ok view ?u"
    using good i pages steady keeps_wf [OF u wf] by (simp_all add: pages_ok_def)
  obtain t where t: "write_errorcheck_bootblock ops i ?u = Ret 0 t" "keeps (\<lambda>_. True) {} ?u t"
    "flash_update view bad i (block_page ?u (blks ?u ! i)) ?u t"
    using write_errorcheck_works [OF works u'] by blast
  have len: "i < length (blks s)" "prev < length (blks s)"
    using i prev wf_bcD(1) [OF wf] by simp_all
  show ?thesis
  proof (rule that)
    show "update_bootblock ops which p prev i s = Ret 0 t"
      using t(1) now len good(2) by (simp add: update_bootblock_def get_block_def put_block_def)
    show "keeps (\<lambda>_. True) {i} s t"
      using keeps_trans [OF u t(2)] by simp
    show "blks t ! i = ?b"
      using keeps_simps(9) [OF t(2), of i] len by simp
    show "flash_update view bad i (block_page s ?b) s t"
      using t(3) steady len by (simp add: flash_update_def block_page_def)
  qed
qed

lemma update_skips:
  assumes "magic (blks s ! i) = MAGIC_BAD" "i < length (blks s)" "prev < length (blks s)"
  obtains t where "update_bootblock ops which p prev i s = Ret (-1) t" "keeps P {} s t"
  using assms by (auto simp: update_bootblock_def get_block_def intro: that frame_intros)

text \<open>
  \<open>next_good bad n cur r\<close>: going round the ring from the block after \<open>cur\<close>, \<open>r\<close> is the
  first good block.
\<close>

definition next_good :: "(nat \<Rightarrow> bool) \<Rightarrow> nat \<Rightarrow> nat \<Rightarrow> nat \<Rightarrow> bool" where
  "next_good isbad n cur r \<longleftrightarrow> r < n \<and> r \<noteq> cur \<and> \<not> isbad r
     \<and> (\<forall>k<n. ring_dist n cur r < ring_dist n cur k \<longrightarrow> isbad k)"

definition from_here :: "nat \<Rightarrow> nat \<Rightarrow> nat \<Rightarrow> nat \<Rightarrow> bool" where
  "from_here n cur new k \<longleftrightarrow> k < n \<and> k \<noteq> cur \<and> ring_dist n cur k \<le> ring_dist n cur new"

lemma from_here_split:
  assumes "cur < n" "new < n" "new \<noteq> cur"
  shows "from_here n cur new k \<longleftrightarrow> k = new \<or> from_here n cur ((new + 1) mod n) k"
proof -
  have "ring_dist n cur k < ring_dist n cur new \<longleftrightarrow>
      ring_dist n cur k \<le> ring_dist n cur ((new + 1) mod n)" 
    using ring_dist_step [OF assms] by linarith
  then show ?thesis
    using assms ring_dist_inj [of cur n k new] by (auto simp: from_here_def le_less)
qed

lemma from_here_all:
  assumes "cur < n"
  shows "from_here n cur ((cur + 1) mod n) k \<longleftrightarrow> k < n \<and> k \<noteq> cur"
proof -
  have "ring_dist n cur k \<le> n - 1" for k
    using assms by (simp add: ring_dist_def) (metis Suc_pred less_Suc_eq_le mod_less_divisor zero_less_iff_neq_zero not_less0)
  moreover have "ring_dist n cur ((cur + 1) mod n) = n - 1" if "n \<noteq> 1"
    using assms that by (auto simp: ring_dist_def mod_if le_mod_geq)
  ultimately show ?thesis
    using assms by (cases "n = 1") (auto simp: from_here_def)
qed

text \<open>A block the code skips: its entry in memory carries the magic of a bad block.\<close>

definition skipped :: "'w st \<Rightarrow> nat \<Rightarrow> bool" where
  "skipped s k \<longleftrightarrow> magic (blks s ! k) = MAGIC_BAD"

definition stored ::
  "('w \<Rightarrow> nat \<Rightarrow> u8 list) \<Rightarrow> ('w \<Rightarrow> nat \<Rightarrow> bool) \<Rightarrow> bt_ll_parttype \<Rightarrow> u32 \<Rightarrow> btblock \<Rightarrow>
     nat \<Rightarrow> 'w st \<Rightarrow> 'w st \<Rightarrow> bool" where
  "stored view bad which p b_old r s t \<longleftrightarrow>
     (\<exists>now. keeps (\<lambda>_. True) {r} s t \<and> blks t ! r = next_block which p now b_old
        \<and> flash_update view bad r (block_page s (next_block which p now b_old)) s t)"

lemma stored_after:
  assumes "same_flash view bad {} s u" "stored view bad which p b_old r u t"
  shows "stored view bad which p b_old r s t"
proof -
  from assms(2) obtain now where now: "keeps (\<lambda>_. True) {r} u t"
      "blks t ! r = next_block which p now b_old"
      "flash_update view bad r (block_page u (next_block which p now b_old)) u t"
    unfolding stored_def by blast
  have "keeps (\<lambda>_. True) {r} s t"
    using assms(1) now(1) by (auto simp: keeps_def)
  moreover have "flash_update view bad r (block_page s (next_block which p now b_old)) s t"
    using now(3) assms(1) by (simp add: flash_update_def same_flashD block_page_def keeps_simps)
  ultimately show ?thesis
    using now(2) unfolding stored_def by blast
qed

lemma set_loop_works:
  "works ops view bad \<Longrightarrow> wf_bc (bc s) \<Longrightarrow> pages_ok view s \<Longrightarrow> n = ebs s \<Longrightarrow> cur < n \<Longrightarrow> new < n \<Longrightarrow>
     (\<forall>k. from_here n cur new k \<longrightarrow> bad (world s) k \<longrightarrow> skipped s k) \<Longrightarrow>
     (\<exists>r t. set_loop ops which p n cur new s = Ret r t \<and> from_here n cur new r \<and> \<not> skipped s r
        \<and> (\<forall>k. from_here n cur new k \<longrightarrow> ring_dist n cur r < ring_dist n cur k \<longrightarrow> skipped s k)
        \<and> stored view bad which p (blks s ! cur) r s t)
   \<or> (\<exists>t. set_loop ops which p n cur new s = Ret cur t
        \<and> (\<forall>k. from_here n cur new k \<longrightarrow> skipped s k) \<and> same_flash view bad {} s t)"
proof (induction ops which p n cur new s rule: set_loop.induct)
  case (1 ops which p n cur new s)
  let ?next = "(new + 1) mod n"
  show ?case
  proof (cases "new = cur")
    case True
    have "\<not> from_here n cur cur k" for k
      using ring_dist_inj [of cur n k cur] "1.prems" by (auto simp: from_here_def ring_dist_def)
    with True show ?thesis
      by (intro disjI2 exI [of _ s]) (simp add: keeps_refl)
  next
    case new: False
    note split = from_here_split [OF "1.prems"(5,6) new]
    note step = set_loop_next [OF new "1.prems"(5,6), of ops which p s]
    have len: "new < length (blks s)" "cur < length (blks s)"
      using "1.prems" by (simp_all add: wf_bcD)
    show ?thesis
    proof (cases "skipped s new")
      case False
      then have good: "\<not> bad (world s) new"
        using "1.prems"(7) split by blast
      obtain t now where t: "update_bootblock ops which p cur new s = Ret 0 t"
        "keeps (\<lambda>_. True) {new} s t" "blks t ! new = next_block which p now (blks s ! cur)"
        "flash_update view bad new (block_page s (next_block which p now (blks s ! cur))) s t"
        using update_works [OF "1.prems"(1,2) _ _ "1.prems"(3) good, of cur which p] "1.prems"(4-6) False
        by (auto simp: skipped_def)
      have "stored view bad which p (blks s ! cur) new s t"
        using t unfolding stored_def by blast
      then show ?thesis
        using False t(1) split[of new] by (intro disjI1 exI [of _ new] exI [of _ t])
          (auto simp: step from_here_def)
    next
      case True
      obtain u where u: "update_bootblock ops which p cur new s = Ret (-1) u"
        "same_flash view bad {} s u"
        using update_skips [of s new cur ops which p "steady view bad (world s)"] len True
        by (auto simp: skipped_def)
      have sk: "skipped u k = skipped s k" for k
        using keeps_simps(9) [OF u(2)] by (simp add: skipped_def)
      have eq: "set_loop ops which p n cur new s = set_loop ops which p n cur ?next u"
        by (simp add: step u)
      have prems: "wf_bc (bc u)" "pages_ok view u" "n = ebs u" "?next < n"
          "\<forall>k. from_here n cur ?next k \<longrightarrow> bad (world u) k \<longrightarrow> skipped u k"
        using "1.prems" u(2) split
        by (auto simp: keeps_wf pages_ok_frame keeps_simps same_flashD sk)
      have ih: "(\<exists>r t. set_loop ops which p n cur ?next u = Ret r t \<and> from_here n cur ?next r
          \<and> \<not> skipped u r
          \<and> (\<forall>k. from_here n cur ?next k \<longrightarrow> ring_dist n cur r < ring_dist n cur k \<longrightarrow> skipped u k)
          \<and> stored view bad which p (blks u ! cur) r u t)
        \<or> (\<exists>t. set_loop ops which p n cur ?next u = Ret cur t
          \<and> (\<forall>k. from_here n cur ?next k \<longrightarrow> skipped u k) \<and> same_flash view bad {} u t)"
        using "1.prems"(1,5,6) prems new by (intro "1.IH" [of "- 1"]) simp_all
      have cur: "blks u ! cur = blks s ! cur"
        using keeps_simps(9) [OF u(2)] by simp
      show ?thesis
        using ih unfolding eq sk cur split
        using stored_after [OF u(2)] same_flash_trans [OF u(2)] True by metis
    qed
  qed
qed

end
