(* ===== verification/Set_Partition.thy ===== *)
theory Set_Partition
  imports Flash
begin

text \<open>
  What \<open>bc_ll_set_partition\<close> achieves on a working device, from the loop's result and
  the reading that follows it, and the abstract configuration it updates.
\<close>

section \<open>The block the new one is derived from\<close>

definition base_block :: "'w st \<Rightarrow> btblock" where
  "base_block s =
     (case current_index (blks s) of None \<Rightarrow> dummy_block | Some i \<Rightarrow> blks s ! i)"

lemma base_index_lt: "wf_bc (bc s) \<Longrightarrow> base_index (blks s) < ebs s"
  using base_index_less [of "blks s"] wf_bcD(1,3) [of "bc s"]
  by (simp add: length_greater_0_conv [symmetric])

lemma base_state_block: "wf_bc (bc s) \<Longrightarrow> blks (base_state s) ! base_index (blks s) = base_block s"
  using wf_bcD(1,3) [of "bc s"]
  by (auto simp: base_state_def base_index_def base_block_def split: option.splits)

lemma wf_base_block: "wf_bc (bc s) \<Longrightarrow> wf_block (base_block s)"
  using wf_bcD(1) [of "bc s"] current_index_less [of "blks s"] wf_bc_nth [of "bc s"]
  by (auto simp: base_block_def split: option.splits)

lemma base_state_other: "k \<noteq> base_index (blks s) \<Longrightarrow> wf_bc (bc s) \<Longrightarrow> blks (base_state s) ! k = blks s ! k"
  by (rule keeps_simps(9) [OF keeps_base_state [where P = "\<lambda>_. True"]]) simp_all

lemma base_epoch_max:
  assumes "j < length (blks s)" "is_boot (blks s ! j)"
  shows "epoch (blks s ! j) \<le> epoch (base_block s)"
  using assms is_current_index [of "blks s"] current_index_None [of "blks s" j]
  by (auto simp: base_block_def is_current_def split: option.splits)

lemma next_block_simps [simp]:
  "magic (next_block which p now b) = MAGIC_BOOT"
  "epoch (next_block which p now b) = epoch b + 1"
  "timestamp (next_block which p now b) = word_of_int now"
  "is_boot (next_block which p now b)"
  by (cases which; simp add: next_block_def set_image_info_def is_boot_def Let_def)+

lemma epoch_succ: "(e :: u32) \<noteq> - 1 \<Longrightarrow> e < e + 1"
proof -
  assume "e \<noteq> - 1"
  then have "1 + e \<noteq> 0"
    by (metis add.commute eq_neg_iff_add_eq_0)
  then have "unat (1 + e) = Suc (unat e)"
    by (rule unatSuc)
  then show ?thesis
    by (simp add: word_less_nat_alt add.commute)
qed

section \<open>On a working device\<close>

lemma synced_keeps_pages:
  "flash_update view bad r page s t \<Longrightarrow> keeps (\<lambda>_. True) M s t \<Longrightarrow>
     length page = min_io_size (info (bc s)) \<Longrightarrow> pages_ok view s \<Longrightarrow> pages_ok view t"
  by (simp add: pages_ok_def flash_update_def keeps_simps)

text \<open>
  The outcome on a device that works: the first block after the base that is not marked
  bad has received the new block and the array agrees with the flash again; or every
  other block is marked bad and nothing has changed on the flash.
\<close>

lemma set_partition_works:
  assumes works: "works ops view bad" and ptr: "ptr_ok ops" and init: "initialised s"
    and wf: "wf_bc (bc s)" and pages: "pages_ok view s" and synced: "synced view bad s" and p: "p \<le> 1"
  shows "(\<exists>r t now. bc_ll_set_partition ops which p s = Ret 0 t
        \<and> next_good (skipped s) (ebs s) (base_index (blks s)) r
        \<and> keeps (\<lambda>_. True) UNIV s t \<and> pages_ok view t \<and> synced view bad t
        \<and> flash_update view bad r (block_page s (next_block which p now (base_block s))) s t)
    \<or> (\<exists>t. bc_ll_set_partition ops which p s = Ret (-1) t
        \<and> (\<forall>k<ebs s. k \<noteq> base_index (blks s) \<longrightarrow> skipped s k) \<and> same_flash view bad UNIV s t)"
proof -
  let ?cur = "base_index (blks s)" and ?b = "base_state s" and ?n = "ebs s"
  note eq = set_partition_eq [OF init wf p, of ops which]
  have cur: "?cur < ?n"
    using wf by (rule base_index_lt)
  have kb: "same_flash view bad {?cur} s ?b"
    using wf by (rule keeps_base_state)
  note kbs = keeps_simps [OF kb]
  have "(\<forall>k. from_here ?n ?cur ((?cur + 1) mod ?n) k \<longrightarrow> bad (world ?b) k \<longrightarrow> skipped ?b k)"
    using synced base_state_other [OF _ wf] same_flashD(2) [OF kb]
    by (auto simp: from_here_def skipped_def synced_def synced_at_def)
  then have loop: "(\<exists>r t. set_loop ops which p ?n ?cur ((?cur + 1) mod ?n) ?b = Ret r t
      \<and> from_here ?n ?cur ((?cur + 1) mod ?n) r \<and> \<not> skipped ?b r
      \<and> (\<forall>k. from_here ?n ?cur ((?cur + 1) mod ?n) k \<longrightarrow>
           ring_dist ?n ?cur r < ring_dist ?n ?cur k \<longrightarrow> skipped ?b k)
      \<and> stored view bad which p (blks ?b ! ?cur) r ?b t)
    \<or> (\<exists>t. set_loop ops which p ?n ?cur ((?cur + 1) mod ?n) ?b = Ret ?cur t
      \<and> (\<forall>k. from_here ?n ?cur ((?cur + 1) mod ?n) k \<longrightarrow> skipped ?b k) \<and> same_flash view bad {} ?b t)"
    using cur keeps_wf [OF kb wf] pages
    by (intro set_loop_works [OF works]) (simp_all add: kbs pages_ok_frame [OF kb])
  have sk: "skipped ?b k = skipped s k" if "k \<noteq> ?cur" for k
    using base_state_other [OF that wf] by (simp add: skipped_def)
  show ?thesis
    using loop unfolding from_here_all [OF cur]
  proof (elim disjE exE conjE)
    fix r t
    assume t: "set_loop ops which p ?n ?cur ((?cur + 1) mod ?n) ?b = Ret r t"
      and r: "r < ?n" "r \<noteq> ?cur" "\<not> skipped ?b r"
      and before: "\<forall>k. k < ?n \<and> k \<noteq> ?cur \<longrightarrow>
        ring_dist ?n ?cur r < ring_dist ?n ?cur k \<longrightarrow> skipped ?b k"
      and st: "stored view bad which p (blks ?b ! ?cur) r ?b t"
    have "\<not> ring_dist ?n ?cur r < ring_dist ?n ?cur ?cur"
      using cur by (simp add: ring_dist_def)
    then have ng: "next_good (skipped s) ?n ?cur r"
      using r before sk by (auto simp: next_good_def)
    obtain now where now: "keeps (\<lambda>_. True) {r} ?b t"
      "flash_update view bad r (block_page s (next_block which p now (base_block s))) s t"
      using st same_flashD [OF kb] unfolding stored_def
      by (auto simp: base_state_block [OF wf] flash_update_def block_page_def kbs)
    let ?page = "block_page s (next_block which p now (base_block s))"
    have kt: "keeps (\<lambda>_. True) UNIV s t"
      using kb now(1) by (auto simp: keeps_def)
    have pt: "pages_ok view t"
      using synced_keeps_pages [OF now(2) kt _ pages] wf wf_base_block [OF wf]
      by (simp add: length_block_page)
    obtain u where u: "bc_ll_reread ops t = Ret (if \<forall>k<ebs t. bad (world t) k then -1 else 0) u"
      "same_flash view bad UNIV t u" "synced view bad u"
      using reread_synced [OF works_reads [OF works] keeps_wf [OF kt wf] pt _ ptr] init kt by (auto simp: keeps_simps)
    have "keeps (\<lambda>_. True) UNIV s u"
      using kt u(2) by (auto simp: keeps_def)
    moreover have "flash_update view bad r ?page s u"
      using now(2) same_flashD [OF u(2)] by (simp add: flash_update_def)
    moreover have "bc_ll_set_partition ops which p s = Ret 0 u"
      unfolding eq using t r(2) u(1) by simp
    ultimately show ?thesis
      using ng u(3) pt pages_ok_frame [OF u(2)] by blast
  next
    fix t
    assume t: "set_loop ops which p ?n ?cur ((?cur + 1) mod ?n) ?b = Ret ?cur t"
      and all: "\<forall>k. k < ?n \<and> k \<noteq> ?cur \<longrightarrow> skipped ?b k" and same: "same_flash view bad {} ?b t"
    let ?u = "bc_log LOG_ERR ''Error writing new boot block.\<newline>'' [] t"
    have "same_flash view bad UNIV s ?u"
      using same_flash_Un [OF kb same] by (auto intro: frame_intros keeps_mono)
    moreover have "bc_ll_set_partition ops which p s = Ret (-1) ?u"
      unfolding eq using t by simp
    ultimately show ?thesis
      using all sk by blast
  qed
qed

text \<open>After an update of one block, reading back gives that block and the old others.\<close>

lemma synced_update:
  assumes t: "synced view bad t" and s: "synced view bad s" and k: "keeps (\<lambda>_. True) UNIV s t"
    and f: "flash_update view bad r (block_page s b) s t" and b: "wf_block b"
    and r: "r < ebs s" "\<not> bad (world s) r"
  shows "blks t ! r = b"
    and "j < ebs s \<Longrightarrow> j \<noteq> r \<Longrightarrow> \<not> bad (world s) j \<Longrightarrow> blks t ! j = blks s ! j"
    and "j < ebs s \<Longrightarrow> is_boot (blks t ! j) \<Longrightarrow> \<not> bad (world s) j"
proof -
  have at: "synced_at view bad t j" "synced_at view bad s j" if "j < ebs s" for j
    using that s t k by (simp_all add: synced_def keeps_simps)
  show "blks t ! r = b"
    using at(1) [OF r(1)] r f b by (simp add: synced_at_def flash_update_def)
  show "j < ebs s \<Longrightarrow> j \<noteq> r \<Longrightarrow> \<not> bad (world s) j \<Longrightarrow> blks t ! j = blks s ! j"
    using at [of j] f by (simp add: synced_at_def flash_update_def)
  show "j < ebs s \<Longrightarrow> is_boot (blks t ! j) \<Longrightarrow> \<not> bad (world s) j"
    using at(1) [of j] f by (auto simp: synced_at_def flash_update_def is_boot_def)
qed

lemma skipped_bad:
  "synced view bad s \<Longrightarrow> k < ebs s \<Longrightarrow> \<not> skipped s k \<Longrightarrow> \<not> bad (world s) k"
  by (auto simp: synced_def synced_at_def skipped_def split: if_splits)

text \<open>The new block is the current one unless the epoch wrapped round to zero.\<close>

lemma new_block_current:
  assumes synced: "synced view bad t" "synced view bad s" and k: "keeps (\<lambda>_. True) UNIV s t"
    and f: "flash_update view bad r (block_page s (next_block which p now (base_block s))) s t"
    and wf: "wf_bc (bc s)" and r: "r < ebs s" "\<not> bad (world s) r"
    and max: "epoch (base_block s) \<noteq> - 1"
  shows "current_index (blks t) = Some r" "blks t ! r = next_block which p now (base_block s)"
proof -
  let ?b = "next_block which p now (base_block s)"
  note upd = synced_update [OF synced k f wf_next_block [OF wf_base_block [OF wf]] r]
  show r': "blks t ! r = ?b"
    by (rule upd(1))
  have len: "length (blks t) = ebs s" "length (blks s) = ebs s"
    using wf k by (simp_all add: keeps_simps wf_bcD)
  have less: "epoch (base_block s) < epoch ?b"
    using epoch_succ [OF max] by simp
  have lt: "epoch (blks t ! j) < epoch ?b" if "j < ebs s" "j \<noteq> r" "is_boot (blks t ! j)" for j
  proof -
    have "blks t ! j = blks s ! j"
      using upd(2,3) that by blast
    then have "epoch (blks t ! j) \<le> epoch (base_block s)"
      using base_epoch_max [of j s] that len by simp
    then show ?thesis
      using less by (rule order.strict_trans1)
  qed
  have "epoch (blks t ! j) \<le> epoch ?b" if "j < ebs s" "is_boot (blks t ! j)" for j
    using lt [OF that(1) _ that(2)] r' by (cases "j = r") (auto intro: less_imp_le)
  moreover have "0 < epoch ?b"
    using less by (rule order.strict_trans1 [OF word_coorder.extremum])
  ultimately have "is_current (blks t) r"
    using r r' len lt unfolding is_current_def by auto
  then show "current_index (blks t) = Some r"
    by (simp add: current_index_iff)
qed

section \<open>The abstract configuration\<close>

text \<open>
  What the boot loader reads off the current block: the two images' entries. Without a
  current block it is the entry of the dummy block.
\<close>

definition active :: "'w st \<Rightarrow> bt_ll_parttype \<Rightarrow> btinfo" where
  "active s which = image_info which (base_block s)"

text \<open>The promise of \<open>bc_ll_set_partition\<close>: one image gets a fresh entry, the other keeps its own.\<close>

definition spec_set_partition ::
  "bt_ll_parttype \<Rightarrow> u32 \<Rightarrow> (bt_ll_parttype \<Rightarrow> btinfo) \<Rightarrow> bt_ll_parttype \<Rightarrow> btinfo" where
  "spec_set_partition which p c =
     c(which := (c which)\<lparr>partition := ucast p, n_booted := 1, n_healthy := 1\<rparr>)"

lemma image_info_next:
  "(\<lambda>i. image_info i (next_block which p now b)) = spec_set_partition which p (\<lambda>i. image_info i b)"
  by (rule ext, case_tac i; cases which)
    (simp_all add: spec_set_partition_def next_block_def image_info_def set_image_info_def Let_def)

end
