(* ===== verification/Init.thy ===== *)
theory Init
  imports Set_Partition
begin

text \<open>
  \<open>bc_ll_init\<close>: from any state it either leaves the process with status 1 or establishes
  the invariant every other operation starts from, and on a working device it returns
  with the array in agreement with the flash.
\<close>

section \<open>The invariant is established\<close>

text \<open>
  What libmtd documents of a device it describes: the number of erase blocks is an
  \<open>int\<close>, and a page holds more than a boot block; and the address space holds one boot
  block per erase block.
\<close>

definition dev_info_ok :: "'w env_ops \<Rightarrow> bool" where
  "dev_info_ok ops \<longleftrightarrow>
     (\<forall>h d w e i w1. mtd_get_dev_info_op ops h d w = (e, i, w1) \<longrightarrow> 0 \<le> e \<longrightarrow>
        eb_cnt i < 2 ^ 31 \<and> eb_cnt i * SIZEOF_BTBLOCK < 2 ^ (8 * sizeof_ptr ops)
        \<and> SIZEOF_BTBLOCK \<le> min_io_size i)"

text \<open>The state before the blocks are read: the array is allocated and zeroed.\<close>

definition set_up :: "'w st \<Rightarrow> bool" where
  "set_up s \<longleftrightarrow> blks s = replicate (ebs s) zero_block \<and> ebs s < 2 ^ 31
     \<and> SIZEOF_BTBLOCK \<le> min_io_size (info (bc s))"

lemma set_up_wf: "set_up s \<Longrightarrow> 0 < ebs s \<Longrightarrow> wf_bc (bc s)"
  by (simp add: set_up_def wf_bc_def list_all_length)

lemma read_none: "ebs s = 0 \<Longrightarrow> read_bootconfig ops s = Ret (-1) s"
  by (simp add: read_bootconfig_def)

lemma init_alloc:
  assumes "num * SIZEOF_BTBLOCK < 2 ^ (8 * sizeof_ptr ops)"
  shows "alloc_blocks ops num s =
    (let (ok, w) = malloc_op ops (num * SIZEOF_BTBLOCK) (world s); s = set_world w s
     in if \<not> ok
        then Exit 1 (bc_log LOG_ERR ''Failed to allocate %lu bytes.\<newline>''
               [AInt (int (num * SIZEOF_BTBLOCK))] s)
        else Ret (replicate num zero_block) s)"
proof -
  have "alloc_size ops num = num * SIZEOF_BTBLOCK" "SIZEOF_BTBLOCK \<noteq> 0"
    using assms by (simp_all add: alloc_size_def SIZEOF_BTBLOCK_def)
  then show ?thesis
    by (simp add: alloc_blocks_def Let_def split: prod.split)
qed

text \<open>\<open>bc_ll_init\<close> up to the reading of the blocks.\<close>

definition init_prefix :: "'w env_ops \<Rightarrow> string \<Rightarrow> 'w st \<Rightarrow> ('w st, unit) res" where
  "init_prefix ops d s =
     bindR (open_dev ops d (s\<lparr>bc := zero_bootconfig\<rparr>)) (\<lambda>f s.
     bindR (libmtd_init ops d (s\<lparr>bc := (bc s)\<lparr>fd := f, dev := d\<rparr>\<rparr>)) (\<lambda>m s.
     bindR (alloc_blocks ops (ebs s) (s\<lparr>bc := (bc s)\<lparr>mtd := m\<rparr>\<rparr>)) (\<lambda>bs s.
     Ret () (set_blocks bs s))))"

lemma init_split:
  "bc_ll_init ops d s = bindR (init_prefix ops d s) (\<lambda>_ s.
     bindR (read_bootconfig ops s) (\<lambda>r s.
       if r < 0 then Exit 1 s
       else Ret () ((bc_log LOG_INFO
              ''bootconfig initialised for %s with a total of %u config blocks.\<newline>''
              [AStr (dev (bc s)), AInt (int (ebs s))] s)\<lparr>initialised := True\<rparr>)))"
  by (simp add: bc_ll_init_def init_prefix_def bindR_assoc)

lemma init_prefix_holds:
  assumes ops: "ops_keep ops P A" and info: "dev_info_ok ops" and P: "P (world s)"
  shows "holds (init_prefix ops d s)
    (\<lambda>_ t. set_up t \<and> dev (bc t) = d \<and> P (world t) \<and> bc_log_channels t = bc_log_channels s
       \<and> bc_log_levels t = bc_log_levels s)
    (\<lambda>c t. c = 1 \<and> P (world t))"
proof -
  obtain f w1 where o: "open_op ops d (world s) = (f, w1)"
    by fastforce
  obtain h w2 where l: "libmtd_open_op ops w1 = (h, w2)"
    by fastforce
  obtain e i w3 where g: "mtd_get_dev_info_op ops (the h) d w2 = (e, i, w3)"
    by (metis surj_pair)
  obtain ok w4 where m: "malloc_op ops (eb_cnt i * SIZEOF_BTBLOCK) w3 = (ok, w4)"
    by fastforce
  have P1: "P w1" "P w2" "P w3" "P w4"
    using ops_keepD [OF ops] P o l g m by metis+
  have i: "0 \<le> e \<Longrightarrow> eb_cnt i < 2 ^ 31 \<and> eb_cnt i * SIZEOF_BTBLOCK < 2 ^ (8 * sizeof_ptr ops)
        \<and> SIZEOF_BTBLOCK \<le> min_io_size i"
    using info g unfolding dev_info_ok_def by blast
  show ?thesis
  proof (cases "f < 0 \<or> h = None \<or> e < 0")
    case True
    then show ?thesis
      using o l g P1 by (auto simp: init_prefix_def open_dev_def libmtd_init_def Let_def split: option.splits)
  next
    case False
    then show ?thesis
      using o l g m P1 i
      by (auto simp: init_prefix_def open_dev_def libmtd_init_def init_alloc set_up_def Let_def)
  qed
qed

lemma init_holds:
  assumes ops: "ops_keep ops P A" and inplace: "reads_in_place ops" and info: "dev_info_ok ops"
    and P: "P (world s)"
  shows "holds (bc_ll_init ops d s)
    (\<lambda>_ t. initialised t \<and> wf_bc (bc t) \<and> dev (bc t) = d \<and> P (world t))
    (\<lambda>c t. c = 1 \<and> P (world t))"
proof -
  have "holds (read_bootconfig ops t) (\<lambda>r u. (0 \<le> r \<longrightarrow> wf_bc (bc u)) \<and> dev (bc u) = d \<and> P (world u))
      (\<lambda>_ _. False)" if t: "set_up t" "dev (bc t) = d" "P (world t)" for t
  proof (cases "ebs t = 0")
    case True
    then show ?thesis
      using t by (simp add: read_none)
  next
    case False
    then have wf: "wf_bc (bc t)"
      using set_up_wf [OF t(1)] by simp
    then have "framed P UNIV t (read_bootconfig ops t)"
      by (intro framed_read_bootconfig [OF ops inplace]) (simp add: wf_bcD)
    then show ?thesis
      by (rule holds_mono) (use keeps_wf wf t in \<open>auto simp: keeps_simps\<close>)
  qed
  then show ?thesis
    unfolding init_split holds_bindR
    by (intro holds_mono [OF init_prefix_holds [OF ops info P]])
      (force elim!: holds_mono)+
qed

section \<open>On a working device\<close>

text \<open>
  The device opens as long as its pages and bad blocks are those of \<open>w0\<close>, and it has \<open>n\<close>
  blocks whose pages have the size its description says.
\<close>

definition opens ::
  "'w env_ops \<Rightarrow> ('w \<Rightarrow> nat \<Rightarrow> u8 list) \<Rightarrow> ('w \<Rightarrow> nat \<Rightarrow> bool) \<Rightarrow> nat \<Rightarrow> 'w \<Rightarrow> bool" where
  "opens ops view bad n w0 \<longleftrightarrow>
     (\<forall>d w f w1. steady view bad w0 w \<longrightarrow> open_op ops d w = (f, w1) \<longrightarrow>
        0 \<le> f \<and> steady view bad w w1)
   \<and> (\<forall>w h w1. steady view bad w0 w \<longrightarrow> libmtd_open_op ops w = (h, w1) \<longrightarrow>
        h \<noteq> None \<and> steady view bad w w1)
   \<and> (\<forall>h d w e i w1. steady view bad w0 w \<longrightarrow> mtd_get_dev_info_op ops h d w = (e, i, w1) \<longrightarrow>
        e = 0 \<and> eb_cnt i = n \<and> steady view bad w w1
        \<and> (\<forall>k<n. length (view w k) = min_io_size i))"

lemma init_reads:
  assumes reads: "reads_right ops view bad" and opens: "opens ops view bad n (world s)"
    and info: "dev_info_ok ops"
  shows "if \<forall>k<n. bad (world s) k
    then \<exists>t. bc_ll_init ops d s = Exit 1 t \<and> steady view bad (world s) (world t)
    else \<exists>t. bc_ll_init ops d s = Ret () t \<and> initialised t \<and> wf_bc (bc t) \<and> ebs t = n
       \<and> pages_ok view t \<and> synced view bad t \<and> steady view bad (world s) (world t)"
proof -
  obtain f w1 where o: "open_op ops d (world s) = (f, w1)"
    by fastforce
  obtain h w2 where l: "libmtd_open_op ops w1 = (h, w2)"
    by fastforce
  obtain e i w3 where g: "mtd_get_dev_info_op ops (the h) d w2 = (e, i, w3)"
    by (metis surj_pair)
  obtain ok w4 where m: "malloc_op ops (eb_cnt i * SIZEOF_BTBLOCK) w3 = (ok, w4)"
    by fastforce
  have o': "0 \<le> f" "steady view bad (world s) w1"
    using opens o unfolding opens_def by (metis steady_refl)+
  have l': "h \<noteq> None" "steady view bad w1 w2"
    using opens l o'(2) unfolding opens_def by metis+
  have w2: "steady view bad (world s) w2"
    using o'(2) l'(2) by (rule steady_trans)
  have g': "e = 0" "eb_cnt i = n" "steady view bad w2 w3" "\<forall>k<n. length (view w2 k) = min_io_size i"
    using opens g w2 unfolding opens_def by metis+
  have m': "ok" "steady view bad w3 w4"
    using reads_rightD(4) [OF reads m] by simp_all
  have i: "eb_cnt i < 2 ^ 31" "eb_cnt i * SIZEOF_BTBLOCK < 2 ^ (8 * sizeof_ptr ops)"
        "SIZEOF_BTBLOCK \<le> min_io_size i"
    using info g g'(1) unfolding dev_info_ok_def by (metis order.refl)+
  have st: "steady view bad (world s) w4" "view w4 = view w2"
    using o' l' g' m' by (simp_all add: steady_def)
  obtain t where t: "init_prefix ops d s = Ret () t" "world t = w4" "info (bc t) = i" "set_up t"
    using o o' l l' g g' m m' i
    by (auto simp: init_prefix_def open_dev_def libmtd_init_def init_alloc set_up_def Let_def)
  show ?thesis
  proof (cases "ebs t = 0")
    case True
    then show ?thesis
      using t st g'(2) by (simp add: init_split read_none)
  next
    case False
    have wf: "wf_bc (bc t)"
      using set_up_wf [OF t(4)] False by simp
    have pages: "pages_ok view t"
      using g' st t by (simp add: pages_ok_def)
    obtain u where u: "read_bootconfig ops t = Ret (if \<forall>k<ebs t. bad (world t) k then -1 else 0) u"
      "same_flash view bad UNIV t u" "synced view bad u"
      using read_bootconfig_synced [OF reads wf pages] .
    have k: "wf_bc (bc u)" "ebs u = ebs t" "pages_ok view u" "steady view bad (world s) (world u)"
        "bad (world u) = bad (world t)"
      using keeps_wf [OF u(2) wf] pages st t u(2)
      by (simp_all add: keeps_simps pages_ok_frame [OF u(2)] same_flashD [OF u(2)] steady_def)
    have "ebs t = n" "bad (world t) = bad (world s)"
      using t g'(2) st by (simp_all add: steady_def)
    then show ?thesis
      using t u k by (auto simp: init_split pages_ok_def synced_def synced_at_def)
  qed
qed

lemma init_works:
  assumes "works ops view bad" and "opens ops view bad n (world s)" and "dev_info_ok ops"
  shows "if \<forall>k<n. bad (world s) k
    then \<exists>t. bc_ll_init ops d s = Exit 1 t \<and> steady view bad (world s) (world t)
    else \<exists>t. bc_ll_init ops d s = Ret () t \<and> initialised t \<and> wf_bc (bc t) \<and> ebs t = n
       \<and> pages_ok view t \<and> synced view bad t \<and> steady view bad (world s) (world t)"
  using assms(2,3) by (rule init_reads [OF works_reads [OF assms(1)]])

end
