(* ===== verification/Flash_Config.thy ===== *)
theory Flash_Config
  imports Init
begin

text \<open>
  The boot configuration as the flash holds it, without the program: what the boot loader
  finds there. A state in agreement with the flash shows the same configuration.
\<close>

definition flash_blocks ::
  "('w \<Rightarrow> nat \<Rightarrow> u8 list) \<Rightarrow> ('w \<Rightarrow> nat \<Rightarrow> bool) \<Rightarrow> nat \<Rightarrow> 'w \<Rightarrow> btblock list" where
  "flash_blocks view bad n w =
     map (\<lambda>k. if bad w k then zero_block\<lparr>magic := MAGIC_BAD\<rparr> else page_block (view w k)) [0..<n]"

definition config_block :: "btblock list \<Rightarrow> btblock" where
  "config_block bs = (case current_index bs of None \<Rightarrow> dummy_block | Some i \<Rightarrow> bs ! i)"

definition flash_config ::
  "('w \<Rightarrow> nat \<Rightarrow> u8 list) \<Rightarrow> ('w \<Rightarrow> nat \<Rightarrow> bool) \<Rightarrow> nat \<Rightarrow> 'w \<Rightarrow> bt_ll_parttype \<Rightarrow> btinfo" where
  "flash_config view bad n w i = image_info i (config_block (flash_blocks view bad n w))"

lemma length_flash_blocks [simp]: "length (flash_blocks view bad n w) = n"
  by (simp add: flash_blocks_def)

section \<open>Entries that are no boot blocks do not matter\<close>

lemma is_current_cong:
  assumes "length a = length b" and "\<And>j. j < length b \<Longrightarrow> is_boot (a ! j) \<longleftrightarrow> is_boot (b ! j)"
    and "\<And>j. j < length b \<Longrightarrow> is_boot (b ! j) \<Longrightarrow> a ! j = b ! j" and "is_current b i"
  shows "is_current a i"
proof -
  have i: "i < length b" "is_boot (b ! i)"
    using assms(4) by (simp_all add: is_current_def)
  then have "j < length b" if "j < i" for j
    using that by simp
  then show ?thesis
    using assms i unfolding is_current_def by metis
qed

lemma current_index_cong:
  assumes "length a = length b" and "\<And>j. j < length b \<Longrightarrow> is_boot (a ! j) \<longleftrightarrow> is_boot (b ! j)"
    and "\<And>j. j < length b \<Longrightarrow> is_boot (b ! j) \<Longrightarrow> a ! j = b ! j"
  shows "current_index a = current_index b"
proof -
  have "is_current a i \<longleftrightarrow> is_current b i" for i
    using is_current_cong [of a b i] is_current_cong [of b a i] assms by metis
  then show ?thesis
    by (metis current_index_iff option.exhaust)
qed

section \<open>Agreement\<close>

lemma synced_flash:
  assumes synced: "synced view bad s" and wf: "wf_bc (bc s)"
  shows "current_index (flash_blocks view bad (ebs s) (world s)) = current_index (blks s)"
    and "config_block (flash_blocks view bad (ebs s) (world s)) = base_block s"
    and "k < ebs s \<Longrightarrow> magic (flash_blocks view bad (ebs s) (world s) ! k) = magic (blks s ! k)"
proof -
  let ?f = "flash_blocks view bad (ebs s) (world s)"
  have len: "length (blks s) = ebs s"
    using wf by (rule wf_bcD)
  have at: "if bad (world s) k then magic (blks s ! k) = MAGIC_BAD \<and> magic (?f ! k) = MAGIC_BAD
      else ?f ! k = blks s ! k" if "k < ebs s" for k
    using synced that by (simp add: synced_def synced_at_def flash_blocks_def)
  show m: "k < ebs s \<Longrightarrow> magic (?f ! k) = magic (blks s ! k)" for k
    using at [of k] by (auto split: if_splits)
  have same: "?f ! k = blks s ! k" if "k < ebs s" "is_boot (blks s ! k)" for k
    using at [OF that(1)] that(2) by (auto simp: is_boot_def split: if_splits)
  show c: "current_index ?f = current_index (blks s)"
    using m same len by (intro current_index_cong) (simp_all add: is_boot_def)
  show "config_block ?f = base_block s"
    using same len is_current_index [of "blks s"] unfolding config_block_def base_block_def c
    by (cases "current_index (blks s)") (simp_all add: is_current_def)
qed

lemma flash_config_synced:
  "synced view bad s \<Longrightarrow> wf_bc (bc s) \<Longrightarrow> flash_config view bad (ebs s) (world s) = active s"
  by (simp add: flash_config_def active_def synced_flash fun_eq_iff)

lemma flash_config_cong:
  "view w' = view w \<Longrightarrow> bad w' = bad w \<Longrightarrow> flash_blocks view bad n w' = flash_blocks view bad n w"
  by (simp add: flash_blocks_def)

end
