(* ===== verification/Faults.thy ===== *)
theory Faults
  imports Set_Partition
begin

text \<open>
  What the operations of \<open>src/lowlevel.c\<close> do when the device does not work: a block whose
  bad-block check fails, and a device that cannot be programmed.
\<close>

section \<open>A block that cannot be checked\<close>

definition uncheckable :: "'w env_ops \<Rightarrow> nat \<Rightarrow> bool" where
  "uncheckable ops i \<longleftrightarrow> (\<forall>j f w. fst (mtd_is_bad_op ops j f i w) < 0)"

lemma check_block_uncheckable:
  assumes "uncheckable ops i"
  obtains t where "check_block ops i s = Ret (-1) t" "keeps (\<lambda>_. True) {} s t"
proof -
  obtain e w where e: "mtd_is_bad_op ops (info (bc s)) (fd (bc s)) i (world s) = (e, w)"
    by fastforce
  moreover have "e < 0"
    using assms e unfolding uncheckable_def by (metis fst_conv)
  ultimately show ?thesis
    by (auto simp: check_block_def Let_def intro!: that frame_intros)
qed

lemma read_bootblock_uncheckable:
  assumes "uncheckable ops i"
  obtains t where "read_bootblock ops i s = Ret (-1) t" "keeps (\<lambda>_. True) {} s t"
proof -
  obtain t where t: "check_block ops i s = Ret (-1) t" "keeps (\<lambda>_. True) {} s t"
    using check_block_uncheckable [OF assms] .
  then show ?thesis
    by (intro that [of t]) (simp_all add: read_bootblock_def)
qed

lemma framed_read_others:
  assumes inplace: "reads_in_place ops" and u: "uncheckable ops i" and k: "k < length (blks s)"
  shows "framed (\<lambda>_. True) (- {i}) s (read_bootblock ops k s)"
proof (cases "k = i")
  case True
  obtain t where "read_bootblock ops i s = Ret (-1) t" "keeps (\<lambda>_. True) {} s t"
    using read_bootblock_uncheckable [OF u] .
  with True show ?thesis
    by (auto elim: keeps_mono)
next
  case False
  then show ?thesis
    using k by (intro framed_read_bootblock [OF ops_keep_True inplace]) auto
qed

lemma framed_read_blocks_others:
  assumes inplace: "reads_in_place ops" and u: "uncheckable ops i"
  shows "\<forall>k\<in>set is. k < length (blks s) \<Longrightarrow>
    framed (\<lambda>_. True) (- {i}) s (read_blocks ops is n s)"
proof (induction "is" arbitrary: n s)
  case Nil
  then show ?case by (simp add: keeps_refl)
next
  case (Cons k "is")
  then show ?case
    unfolding read_blocks.simps
    by (intro framed_bindR framed_read_others [OF inplace u]) (auto simp: keeps_simps)
qed

text \<open>After reading again it holds what the clearing of the array has left of it.\<close>

lemma reread_uncheckable:
  assumes inplace: "reads_in_place ops" and ptr: "ptr_ok ops" and u: "uncheckable ops i"
    and init: "initialised s" and wf: "wf_bc (bc s)" and i: "i < ebs s"
  shows "holds (bc_ll_reread ops s)
    (\<lambda>r t. blks t ! i =
       clear_prefix (min SIZEOF_BTBLOCK (ebs s * sizeof_ptr ops - SIZEOF_BTBLOCK * i)) (blks s ! i))
    (\<lambda>_ _. False)"
proof -
  let ?t = "set_blocks (memset_zero (ebs s * sizeof_ptr ops) (blks s)) s"
  have "framed (\<lambda>_. True) (- {i}) ?t (read_blocks ops [0..<ebs ?t] 0 ?t)"
    using framed_read_blocks_others [OF inplace u, of "[0..<ebs ?t]" ?t] wf by (simp add: wf_bcD)
  then have "framed (\<lambda>_. True) (- {i}) ?t (read_bootconfig ops ?t)"
    by (simp add: read_bootconfig_def)
  moreover have "ebs s * sizeof_ptr ops \<le> SIZEOF_BTBLOCK * length (blks s)"
    using ptr wf by (auto simp: ptr_ok_def wf_bcD SIZEOF_BTBLOCK_def)
  ultimately show ?thesis
    using init i wf
    by (auto simp: bc_ll_reread_def wf_bcD nth_memset_zero keeps_simps elim!: holds_mono)
qed

section \<open>A device that cannot be programmed\<close>

definition unwritable :: "'w env_ops \<Rightarrow> bool" where
  "unwritable ops \<longleftrightarrow> (\<forall>h i f k off page w. fst (mtd_write_op ops h i f k off page w) < 0)"

lemma write_page_unwritable:
  assumes "unwritable ops"
  shows "write_page ops i page s \<noteq> Ret 0 t"
proof -
  obtain e w where e: "mtd_write_op ops (mtd (bc s)) (info (bc s)) (fd (bc s)) i 0 page (world s) = (e, w)"
    by fastforce
  moreover have "e < 0"
    using assms e unfolding unwritable_def by (metis fst_conv)
  ultimately show ?thesis
    by (simp add: write_page_def)
qed

text \<open>Then no block is ever reported as written.\<close>

lemma do_write_unwritable:
  "unwritable ops \<Longrightarrow> do_write_bootblock ops i s \<noteq> Ret 0 t"
  by (auto simp: do_write_bootblock_def Let_def fill_page_def get_block_def bindR_Ret_iff
      write_page_unwritable split: prod.splits if_splits)

lemma update_unwritable:
  assumes w: "unwritable ops" and wf: "wf_bc (bc s)" and i: "i < ebs s" "prev < ebs s"
  shows "holds (update_bootblock ops which p prev i s)
    (\<lambda>r t. r \<noteq> 0 \<and> keeps (\<lambda>_. True) {i} s t) (\<lambda>_ _. False)"
proof -
  have len: "i < length (blks s)" "prev < length (blks s)"
    using wf i by (simp_all add: wf_bcD)
  have fr: "framed (\<lambda>_. True) {i} s (update_bootblock ops which p prev i s)"
    using len wf by (intro framed_update [OF ops_keep_True]) (simp_all add: wf_bcD)
  have "update_bootblock ops which p prev i s \<noteq> Ret 0 t" for t
  proof
    assume "update_bootblock ops which p prev i s = Ret 0 t"
    then obtain u where u: "write_errorcheck_bootblock ops i u = Ret 0 t"
      using len by (auto simp: update_bootblock_def get_block_def put_block_def split: if_splits prod.splits)
    then obtain v v' where "do_write_bootblock ops i v = Ret 0 v'"
      by (auto simp: write_errorcheck_bootblock_def bindR_Ret_iff Let_def split: if_splits)
    then show False
      using do_write_unwritable [OF w] by blast
  qed
  with fr show ?thesis
    by (cases "update_bootblock ops which p prev i s") auto
qed

lemma set_loop_unwritable:
  "unwritable ops \<Longrightarrow> wf_bc (bc s) \<Longrightarrow> n = ebs s \<Longrightarrow> cur < n \<Longrightarrow> new < n \<Longrightarrow>
     holds (set_loop ops which p n cur new s) (\<lambda>r t. r = cur) (\<lambda>_ _. False)"
proof (induction ops which p n cur new s rule: set_loop.induct)
  case (1 ops which p n cur new s)
  show ?case
  proof (cases "new = cur")
    case False
    have up: "holds (update_bootblock ops which p cur new s)
        (\<lambda>r t. r \<noteq> 0 \<and> keeps (\<lambda>_. True) {new} s t) (\<lambda>_ _. False)"
      using 1 by (intro update_unwritable) auto
    then obtain r t where rt: "update_bootblock ops which p cur new s = Ret r t" "r \<noteq> 0"
        "keeps (\<lambda>_. True) {new} s t"
      unfolding holds_return by blast
    have "ebs t = ebs s"
      by (simp add: keeps_simps(1) [OF rt(3)])
    then have "holds (set_loop ops which p n cur ((new + 1) mod n) t) (\<lambda>r t. r = cur) (\<lambda>_ _. False)"
      using "1.prems" keeps_wf [OF rt(3)] by (intro "1.IH" [OF False _ rt(2)]) simp_all
    then show ?thesis
      using False "1.prems" rt by (simp add: set_loop_next)
  qed simp
qed

lemma set_partition_unwritable:
  assumes w: "unwritable ops" and init: "initialised s" and wf: "wf_bc (bc s)" and p: "p \<le> 1"
  obtains t where "bc_ll_set_partition ops which p s = Ret (-1) t"
proof -
  let ?cur = "base_index (blks s)"
  have kb: "keeps (\<lambda>_. True) {?cur} s (base_state s)"
    using wf by (rule keeps_base_state)
  have cur: "?cur < ebs s"
    using wf by (rule base_index_lt)
  have "holds (set_loop ops which p (ebs s) ?cur ((?cur + 1) mod ebs s) (base_state s))
      (\<lambda>r t. r = ?cur) (\<lambda>_ _. False)"
    using cur keeps_wf [OF kb wf] by (intro set_loop_unwritable [OF w]) (simp_all add: keeps_simps [OF kb])
  then show ?thesis
    using that unfolding set_partition_eq [OF init wf p] holds_return by auto
qed

section \<open>The epoch wraps round\<close>

text \<open>After the largest epoch the new block has epoch 0 and the old one stays current.\<close>

lemma wrapped_block_not_current:
  assumes synced: "synced view bad t" "synced view bad s" and k: "keeps (\<lambda>_. True) UNIV s t"
    and f: "flash_update view bad r (block_page s (next_block which p now (base_block s))) s t"
    and wf: "wf_bc (bc s)" and r: "r < ebs s" "\<not> bad (world s) r" "r \<noteq> c"
    and c: "is_current (blks s) c" and max: "epoch (blks s ! c) = - 1"
  shows "current_index (blks t) = Some c" "blks t ! c = blks s ! c"
proof -
  let ?b = "next_block which p now (base_block s)"
  note upd = synced_update [OF synced k f wf_next_block [OF wf_base_block [OF wf]] r(1,2)]
  have len: "length (blks t) = ebs s" "length (blks s) = ebs s"
    using wf k by (simp_all add: keeps_simps wf_bcD)
  have bb: "base_block s = blks s ! c"
    using c by (simp add: base_block_def current_index_iff [symmetric])
  have c': "c < ebs s" "is_boot (blks s ! c)"
    using c len by (simp_all add: is_current_def)
  have good: "\<not> bad (world s) c"
    using synced(2) c' by (auto simp: synced_def synced_at_def is_boot_def)
  show same: "blks t ! c = blks s ! c"
    using upd(2) c'(1) r(3) good by simp
  have e: "epoch (blks t ! j) = 0 \<or> epoch (blks t ! j) = epoch (blks s ! j) \<and> is_boot (blks s ! j)"
    if "j < ebs s" "is_boot (blks t ! j)" for j
    using upd(1) upd(2,3) [OF that(1)] that max bb by (cases "j = r") auto
  have le: "epoch (blks t ! j) \<le> - 1" for j
    by simp
  have lt: "epoch (blks t ! j) < - 1" if "j < c" "is_boot (blks t ! j)" for j
    using e [of j] that c' c max by (auto simp: is_current_def)
  show "current_index (blks t) = Some c"
    unfolding current_index_iff is_current_def same
    using c' len le lt max by (simp add: word_greater_zero_iff)
qed

end
