(* ===== verification/Healthy.thy ===== *)
theory Healthy
  imports Set_Partition
begin

text \<open>
  Marking an image healthy. \<open>bc_ll_set_kernel_healthy\<close> and \<open>bc_ll_set_rootfs_healthy\<close> are
  the same code on two members of the block: the locale \<open>healthy_flag\<close> states what they
  share and carries the lemmas, and it is interpreted on both functions.
\<close>

section \<open>Clearing one bit of a programmed page\<close>

text \<open>
  NAND programming only clears bits, so a page can be programmed again without erasing it
  when the new contents have no bit set that the old ones have cleared.
\<close>

lemma clear_healthy_word:
  "btinfo_word (i\<lparr>n_healthy := 0\<rparr>) AND btinfo_word i = btinfo_word (i\<lparr>n_healthy := 0\<rparr>)"
  by (cases i) (simp add: btinfo_word_def bitwise)

lemma bytes16_and:
  "x AND y = x \<Longrightarrow> map2 (AND) (bytes16 x) (bytes16 y) = bytes16 x"
  by (simp add: bytes16_def) (metis unsigned_and_eq drop_bit_and)

lemma program_same [simp]: "program_page x x = x"
  by (simp add: program_page_def map2_map_map [symmetric]) (induction x; simp)

lemma program_append [simp]:
  "length a = length c \<Longrightarrow> program_page (a @ b) (c @ d) = program_page a c @ program_page b d"
  by (simp add: program_page_def)

lemma program_kernel_healthy:
  "wf_block b \<Longrightarrow>
     program_page (btblock_bytes (b\<lparr>kernel := (kernel b)\<lparr>n_healthy := 0\<rparr>\<rparr>)) (btblock_bytes b)
       = btblock_bytes (b\<lparr>kernel := (kernel b)\<lparr>n_healthy := 0\<rparr>\<rparr>)"
  using bytes16_and [OF clear_healthy_word]
  by (simp add: btblock_bytes_def bytes16_def) (simp add: program_page_def)

lemma program_rootfs_healthy:
  "wf_block b \<Longrightarrow>
     program_page (btblock_bytes (b\<lparr>rootfs := (rootfs b)\<lparr>n_healthy := 0\<rparr>\<rparr>)) (btblock_bytes b)
       = btblock_bytes (b\<lparr>rootfs := (rootfs b)\<lparr>n_healthy := 0\<rparr>\<rparr>)"
  using bytes16_and [OF clear_healthy_word]
  by (simp add: btblock_bytes_def bytes16_def) (simp add: program_page_def)

section \<open>The shared contract\<close>

locale healthy_flag =
  fixes setter :: "'w env_ops \<Rightarrow> nat \<Rightarrow> 'w st \<Rightarrow> ('w st, int) res"
    and flag :: "btblock \<Rightarrow> u1"
    and cleared :: "btblock \<Rightarrow> btblock"
  assumes setter_code: "setter ops block s =
     (if \<not> initialised s then not_initialised s
      else bindR (get_block block s) (\<lambda>curr s.
        if flag curr = 1
        then bindR (put_block block (cleared curr) s) (\<lambda>_ s.
          let (ok, s) = malloc_page ops s
          in if \<not> ok then Ret (-1) s
             else bindR (fill_page block s) (\<lambda>page s. write_page ops block page s))
        else Ret 0 s))"
    and flag_cleared [simp]: "flag (cleared b) = 0"
    and wf_cleared [simp]: "wf_block b \<Longrightarrow> wf_block (cleared b)"
    and cleared_keeps [simp]: "magic (cleared b) = magic b" "epoch (cleared b) = epoch b"
    and program_cleared:
      "wf_block b \<Longrightarrow> program_page (btblock_bytes (cleared b)) (btblock_bytes b) = btblock_bytes (cleared b)"
begin

text \<open>Nothing is done for an image already marked, nor before initialisation.\<close>

lemma already_healthy:
  "initialised s \<Longrightarrow> block < length (blks s) \<Longrightarrow> flag (blks s ! block) = 0 \<Longrightarrow> setter ops block s = Ret 0 s"
  by (simp add: setter_code get_block_def)

lemma uninitialised: "\<not> initialised s \<Longrightarrow> setter ops block s = not_initialised s"
  by (simp add: setter_code)

text \<open>
  Whatever the device does, only the one entry of the array changes, and it ends up
  marked; the return value is 0, or \<open>-1\<close> without memory, or \<open>1\<close> when the write failed.
\<close>

lemma setter_frame:
  assumes ops: "ops_keep ops P A" "A block" and init: "initialised s" and wf: "wf_bc (bc s)"
    and b: "block < ebs s" and f: "flag (blks s ! block) = 1"
  shows "holds (setter ops block s)
    (\<lambda>r t. r \<in> {0, 1, -1} \<and> keeps P {block} s t \<and> blks t ! block = cleared (blks s ! block))
    (\<lambda>_ _. False)"
proof -
  have len: "block < length (blks s)"
    using b wf by (simp add: wf_bcD)
  let ?u = "set_blocks ((blks s)[block := cleared (blks s ! block)]) s"
  have ku: "keeps P {block} s ?u"
    using len by (auto intro!: frame_intros simp: list_all_nthD)
  obtain ok v where v: "malloc_page ops ?u = (ok, v)"
    by fastforce
  have kv: "keeps P {} ?u v"
    using framed_malloc_page [OF ops(1) v] .
  have bv: "blks v = blks ?u" "info (bc v) = info (bc s)"
    using kv by (auto simp: keeps_def intro: nth_equalityI)
  have kt: "keeps P {block} s t" if "keeps P {} v t" for t
    using keeps_trans [OF ku keeps_trans [OF kv that]] by simp
  have wr: "holds (write_page ops block page v)
      (\<lambda>r t. r \<in> {0, 1} \<and> keeps P {} v t \<and> blks t = blks v) (\<lambda>_ _. False)" for page
    using framed_write_page [OF ops, where M = "{}" and page = page and s = v]
    by (auto simp: write_page_def split: prod.splits)
  have "holds (write_page ops block page v)
      (\<lambda>r t. r \<in> {0, 1, -1} \<and> keeps P {block} s t \<and> blks t ! block = cleared (blks s ! block))
      (\<lambda>_ _. False)" for page
    using wr by (rule holds_mono) (use bv len in \<open>auto intro: kt\<close>)
  then show ?thesis
    using init f len v bv wf_bcD(5) [OF wf] kt [OF keeps_refl]
    by (simp add: setter_code get_block_def put_block_def fill_page_Ret)
qed

text \<open>The failure of a first call is forgotten by a second one: it writes nothing and returns 0.\<close>

lemma retry_returns_0:
  assumes init: "initialised s" and wf: "wf_bc (bc s)" and b: "block < ebs s"
    and f: "flag (blks s ! block) = 1" and r: "setter ops block s = Ret r t"
  shows "setter ops block t = Ret 0 t"
proof -
  have k: "keeps (\<lambda>_. True) {block} s t" and t: "blks t ! block = cleared (blks s ! block)"
    using setter_frame [OF ops_keep_True [of ops "\<lambda>_. True"] _ init wf b f] r by simp_all
  show ?thesis
    using init b wf t by (intro already_healthy) (simp_all add: keeps_simps [OF k] wf_bcD)
qed

text \<open>A synchronised page programmed with the marked block keeps what follows the block.\<close>

lemma program_cleared_page:
  assumes wf: "wf_bc (bc s)" and pages: "pages_ok view s" and synced: "synced view bad s" and b: "block < ebs s"
    and good: "\<not> bad (world s) block"
  shows "view (world s) block = btblock_bytes (blks s ! block) @ drop SIZEOF_BTBLOCK (view (world s) block)"
    and "length (block_page s (cleared (blks s ! block))) = length (view (world s) block)"
    and "program_page (block_page s (cleared (blks s ! block))) (view (world s) block)
      = btblock_bytes (cleared (blks s ! block)) @ drop SIZEOF_BTBLOCK (view (world s) block)"
proof -
  let ?b = "blks s ! block" and ?old = "view (world s) block"
  have wfb: "wf_block ?b"
    using wf b by (rule wf_bc_nth)
  have oldlen: "length ?old = min_io_size (info (bc s))" "SIZEOF_BTBLOCK \<le> length ?old"
    using pages b wf_bcD(5) [OF wf] by (simp_all add: pages_ok_def)
  have "?b = page_block ?old"
    using synced b good by (simp add: synced_def synced_at_def)
  then have "btblock_bytes ?b = take SIZEOF_BTBLOCK ?old"
    using oldlen by (simp add: page_block_def)
  then show old: "?old = btblock_bytes ?b @ drop SIZEOF_BTBLOCK ?old"
    by simp
  show "length (block_page s (cleared ?b)) = length ?old"
    using oldlen wf wfb by (simp add: length_block_page)
  have ff: "program_page (replicate n 0xFF) x = x" if "length x = n" for n x
    using that by (induction x arbitrary: n) (auto simp: program_page_def bitwise)
  have "program_page (block_page s (cleared ?b)) ?old = program_page (btblock_bytes (cleared ?b)) (btblock_bytes ?b)
      @ program_page (replicate (min_io_size (info (bc s)) - SIZEOF_BTBLOCK) 0xFF)
          (drop SIZEOF_BTBLOCK ?old)"
    unfolding block_page_def by (subst old, rule program_append) (simp add: wfb)
  then show "program_page (block_page s (cleared ?b)) ?old
      = btblock_bytes (cleared ?b) @ drop SIZEOF_BTBLOCK ?old"
    using oldlen by (simp add: program_cleared [OF wfb] ff)
qed

text \<open>On a working device the flag is cleared on the flash and nothing else changes.\<close>

lemma setter_works:
  assumes works: "works ops view bad" and init: "initialised s" and wf: "wf_bc (bc s)"
    and pages: "pages_ok view s" and synced: "synced view bad s" and b: "block < ebs s"
    and good: "\<not> bad (world s) block" and f: "flag (blks s ! block) = 1"
  obtains t where "setter ops block s = Ret 0 t" "synced view bad t"
    "keeps (\<lambda>_. True) {block} s t" "blks t ! block = cleared (blks s ! block)"
    "flash_update view bad block
       (btblock_bytes (cleared (blks s ! block)) @ drop SIZEOF_BTBLOCK (view (world s) block)) s t"
proof -
  let ?b = "blks s ! block" and ?old = "view (world s) block"
  have len: "block < length (blks s)"
    using b wf by (simp add: wf_bcD)
  have wfb: "wf_block ?b"
    using wf b by (rule wf_bc_nth)
  note old = program_cleared_page [OF wf pages synced b good]
  let ?u = "set_blocks ((blks s)[block := cleared ?b]) s"
  obtain ok w where m: "malloc_op ops (min_io_size (info (bc s))) (world s) = (ok, w)"
    by fastforce
  note m' = worksD(6) [OF works m, unfolded steady_def]
  let ?page = "block_page s (cleared ?b)"
  obtain e w3 where wr:
    "mtd_write_op ops (mtd (bc s)) (info (bc s)) (fd (bc s)) block 0 ?page w = (e, w3)"
    by fastforce
  have wr': "e = 0 \<and> bad w3 = bad w \<and> view w3 = (view w)(block := program_page ?page (view w block))"
    using m' good old(2) by (intro worksD(5) [OF works wr]) simp_all
  note page = old(3)
  let ?t = "set_world w3 ?u"
  have "setter ops block s = Ret 0 ?t"
    using init f len m m' wr wr' wf_bcD(5) [OF wf]
    by (simp add: setter_code get_block_def put_block_def malloc_page_def fill_page_Ret
        write_page_def block_page_def Let_def set_world_def set_blocks_def)
  moreover have kt: "keeps (\<lambda>_. True) {block} s ?t"
    using len wfb by (auto intro!: frame_intros)
  moreover have fl: "flash_update view bad block
      (btblock_bytes (cleared ?b) @ drop SIZEOF_BTBLOCK ?old) s ?t"
    using m' wr' page by (simp add: flash_update_def)
  moreover have "synced_at view bad ?t k" if "k < ebs s" for k
    using synced that good len wfb fl
    by (cases "k = block") (auto simp: synced_def synced_at_def flash_update_def)
  then have "synced view bad ?t"
    by (simp add: synced_def)
  ultimately show ?thesis
    using len by (intro that [of ?t]) simp_all
qed

end

section \<open>The two functions\<close>

interpretation kernel_flag: healthy_flag bc_ll_set_kernel_healthy "\<lambda>b. n_healthy (kernel b)"
    "\<lambda>b. b\<lparr>kernel := (kernel b)\<lparr>n_healthy := 0\<rparr>\<rparr>"
  by unfold_locales
    (simp_all add: bc_ll_set_kernel_healthy_def wf_block_def program_kernel_healthy)

interpretation rootfs_flag: healthy_flag bc_ll_set_rootfs_healthy "\<lambda>b. n_healthy (rootfs b)"
    "\<lambda>b. b\<lparr>rootfs := (rootfs b)\<lparr>n_healthy := 0\<rparr>\<rparr>"
  by unfold_locales
    (simp_all add: bc_ll_set_rootfs_healthy_def wf_block_def program_rootfs_healthy)

end
