(* ===== verification/Sim_Nand.thy ===== *)
theory Sim_Nand
  imports Set_Partition
begin

text \<open>
  A concrete NAND device with concrete calls, on which the hypotheses about libmtd hold:
  it instantiates the parameter \<open>ops\<close> in the witnesses. Its arguments name blocks on
  which the bad-block check, or erasing and writing, fail.
\<close>

record nand =
  pages :: "u8 list list"
  bads :: "nat list"
  clock :: int

definition nand_view :: "nand \<Rightarrow> nat \<Rightarrow> u8 list" where
  "nand_view w k = (if k < length (pages w) then pages w ! k else [])"

definition nand_bad :: "nand \<Rightarrow> nat \<Rightarrow> bool" where
  "nand_bad w k \<longleftrightarrow> k \<in> set (bads w)"

definition sim_ops :: "nat list \<Rightarrow> nat list \<Rightarrow> nand env_ops" where
  "sim_ops unreadable unwritable =
     \<lparr>open_op = (\<lambda>d w. (3, w)),
      libmtd_open_op = (\<lambda>w. (Some 7, w)),
      mtd_get_dev_info_op = (\<lambda>h d w.
        (0, \<lparr>eb_cnt = min 1024 (length (takeWhile (\<lambda>p. length p = 32) (pages w))), min_io_size = 32\<rparr>, w)),
      mtd_is_bad_op = (\<lambda>i f k w.
        (if k \<in> set unreadable then -1 else if nand_bad w k then 1 else 0, w)),
      mtd_read_op = (\<lambda>i f k off buf w.
        (0, take (length buf) (nand_view w k) @ drop (length (nand_view w k)) buf, w)),
      mtd_erase_op = (\<lambda>h i f k w.
        if k \<in> set unwritable then (-1, w)
        else (0, w\<lparr>pages := (pages w)[k := replicate (length (nand_view w k)) 0xFF]\<rparr>)),
      mtd_write_op = (\<lambda>h i f k off page w.
        if k \<in> set unwritable then (-1, w)
        else (0, w\<lparr>pages := (pages w)[k := program_page page (nand_view w k)]\<rparr>)),
      malloc_op = (\<lambda>n w. (True, w)),
      time_op = (\<lambda>w. (clock w, w)),
      errno_op = (\<lambda>w. 5),
      sizeof_ptr = 4,
      sscanf_overflow = (\<lambda>v. - 1),
      time_t_conv = uint\<rparr>"

lemma sim_works: "works (sim_ops [] []) nand_view nand_bad"
  by (auto simp: works_def sim_ops_def steady_def nand_view_def nand_bad_def fun_eq_iff
      nth_list_update program_page_def)

lemma sim_reads_in_place [simp]: "reads_in_place (sim_ops a b)"
  by (auto simp: reads_in_place_def sim_ops_def min_def)

lemma sim_ptr_ok [simp]: "ptr_ok (sim_ops a b)"
  by (simp add: ptr_ok_def sim_ops_def)

text \<open>The pages outside \<open>A\<close> are the same as in a given device.\<close>

lemma sim_ops_keep:
  "ops_keep (sim_ops a b) (\<lambda>w. nand_view w c = v) (\<lambda>k. k \<noteq> c)"
  by (simp add: ops_keep_def sim_ops_def nand_view_def)

text \<open>A device with four blocks: block 1 holds epoch 5, block 0 epoch 4, block 2 is marked bad.\<close>

definition sim_info :: "u1 \<Rightarrow> btinfo" where
  "sim_info p = \<lparr>reserved = 0, partition = p, n_booted = 0, n_healthy = 0\<rparr>"

definition sim_block :: "u32 \<Rightarrow> btblock" where
  "sim_block e =
     \<lparr>magic = MAGIC_BOOT, epoch = e, timestamp = 100, kernel = sim_info 0, rootfs = sim_info 1\<rparr>"

definition sim_page :: "btblock \<Rightarrow> u8 list" where
  "sim_page b = btblock_bytes b @ replicate 16 0xFF"

definition sim_world :: "u32 \<Rightarrow> nand" where
  "sim_world e =
     \<lparr>pages = [sim_page (sim_block 4), sim_page (sim_block e), replicate 32 0xFF,
        replicate 32 0xFF],
      bads = [2], clock = 200\<rparr>"

definition sim_state :: "u32 \<Rightarrow> nand st" where
  "sim_state e =
     \<lparr>bc_log_channels = default_channels, bc_log_levels = default_levels, outputs = [],
      initialised = True,
      bc = \<lparr>blocks = [sim_block 4, sim_block e, (page_block (replicate 32 0xFF))\<lparr>magic := MAGIC_BAD\<rparr>,
              page_block (replicate 32 0xFF)],
            dev = ''/dev/mtd1'', fd = 3, mtd = 7, info = \<lparr>eb_cnt = 4, min_io_size = 32\<rparr>\<rparr>,
      world = sim_world e\<rparr>"

lemma wf_sim_block [simp]: "wf_block (sim_block e)"
  by (simp add: sim_block_def wf_block_def)

lemma length_sim_page [simp]: "length (sim_page (sim_block e)) = 32"
  by (simp add: sim_page_def SIZEOF_BTBLOCK_def)

lemma page_block_sim_page [simp]: "page_block (sim_page (sim_block e)) = sim_block e"
  by (simp add: sim_page_def)

lemma sim_state_simps [simp]:
  "initialised (sim_state e)" "info (bc (sim_state e)) = \<lparr>eb_cnt = 4, min_io_size = 32\<rparr>"
  "world (sim_state e) = sim_world e" "length (blks (sim_state e)) = 4"
  by (simp_all add: sim_state_def)

lemma wf_blank: "wf_block (page_block (replicate 32 0xFF))"
  by (simp add: SIZEOF_BTBLOCK_def)

lemma wf_sim_state [simp]: "wf_bc (bc (sim_state e))"
  using wf_blank wf_sim_block [of 4] wf_sim_block [of e]
  unfolding wf_block_def by (simp add: wf_bc_def sim_state_def SIZEOF_BTBLOCK_def wf_block_def)

lemma all_less_4: "(\<forall>k<(4::nat). Q k) \<longleftrightarrow> Q 0 \<and> Q 1 \<and> Q 2 \<and> Q 3"
  by (simp add: all_less_numeral) auto

lemma sim_pages_ok [simp]: "pages_ok nand_view (sim_state e)"
  by (simp add: pages_ok_def all_less_4 nand_view_def sim_world_def)

lemma sim_synced [simp]: "synced nand_view nand_bad (sim_state e)"
  by (simp add: synced_def synced_at_def all_less_4 nand_view_def nand_bad_def sim_world_def)
    (simp add: sim_state_def)

lemma blank_not_boot: "magic (page_block (replicate 32 0xFF)) = [0xFF, 0xFF, 0xFF, 0xFF]"
  by (simp add: page_block_def SIZEOF_BTBLOCK_def bytes_btblock_def numeral_eq_Suc)

lemma sim_current [simp]: "4 < e \<Longrightarrow> current_index (blks (sim_state e)) = Some 1"
proof -
  assume "4 < e"
  moreover from this have "e \<noteq> 0"
    by auto
  ultimately show ?thesis
    by (simp add: current_index_def sim_state_def sim_block_def blank_not_boot MAGIC_BOOT_def
        MAGIC_BAD_def)
qed

end
