(* ===== verification/Lowlevel_Correct.thy ===== *)
theory Lowlevel_Correct
  imports Faults Init Healthy Sim_Nand
begin

text \<open>
  The properties of \<open>src/lowlevel.c\<close>, each with the witness that its hypotheses can hold,
  on the concrete device of \<open>Sim_Nand\<close>.
\<close>

section \<open>Setting a partition\<close>

text \<open>
  C3: Setting a partition never erases or programs the block that is current, nor one that
  is marked bad. Whatever property \<open>P\<close> of the device the calls keep as long as only other
  blocks are erased and programmed, it is kept; and this holds for every behaviour of the
  device, with reads and writes that fail at any point. The function always returns.
\<close>

theorem set_partition_protects_current:
  assumes "reads_in_place ops" "ptr_ok ops" "initialised s" "wf_bc (bc s)" "p \<le> 1"
    and cur: "current_index (blks s) = Some c" and P: "P (world s)"
    and ops: "ops_keep ops P (\<lambda>k. k < ebs s \<and> k \<noteq> c \<and> magic (blks s ! k) \<noteq> MAGIC_BAD)"
  shows "\<exists>r t. bc_ll_set_partition ops which p s = Ret r t \<and> P (world t) \<and> wf_bc (bc t)"
proof -
  have "base_index (blks s) = c"
    using cur by (simp add: base_index_def)
  then have "framed P UNIV s (bc_ll_set_partition ops which p s)"
    by (intro framed_set_partition [OF ops assms(1-5)]) simp
  then show ?thesis
    using P keeps_wf [OF _ assms(4)] unfolding holds_return by (auto simp: keeps_simps)
qed

theorem set_partition_protects_current_witness:
  "\<exists>r t. bc_ll_set_partition (sim_ops [3] [0]) Kernel 1 (sim_state 5) = Ret r t
     \<and> nand_view (world t) 1 = sim_page (sim_block 5) \<and> wf_bc (bc t)"
proof -
  have "ops_keep (sim_ops [3] [0]) (\<lambda>w. nand_view w 1 = sim_page (sim_block 5))
      (\<lambda>k. k < ebs (sim_state 5) \<and> k \<noteq> 1 \<and> magic (blks (sim_state 5) ! k) \<noteq> MAGIC_BAD)"
    by (rule ops_keep_mono [OF sim_ops_keep]) simp
  then show ?thesis
    by (intro set_partition_protects_current [where c = 1])
      (simp_all add: nand_view_def sim_world_def)
qed

text \<open>What the current block of the next state says, from the new block.\<close>

lemma active_current: "current_index (blks t) = Some r \<Longrightarrow> active t = (\<lambda>i. image_info i (blks t ! r))"
  by (simp add: active_def base_block_def fun_eq_iff)

text \<open>
  C1: On a working device with another block that is not marked bad,
  \<open>bc_ll_set_partition\<close> implements its abstract contract: it returns 0, the first good
  block after the current one becomes current with the next epoch, the chosen image has the
  requested partition and fresh flags, the other image keeps its entry, and no other page of
  the flash changes. This needs an epoch below the largest.
\<close>

theorem set_partition_refines:
  assumes works: "works ops view bad" and ptr: "ptr_ok ops" and init: "initialised s"
    and wf: "wf_bc (bc s)" and pages: "pages_ok view s" and synced: "synced view bad s" and p: "p \<le> 1"
    and room: "k < ebs s" "k \<noteq> base_index (blks s)" "\<not> skipped s k"
    and max: "epoch (base_block s) \<noteq> - 1"
  shows "\<exists>r t. bc_ll_set_partition ops which p s = Ret 0 t
    \<and> next_good (skipped s) (ebs s) (base_index (blks s)) r
    \<and> current_index (blks t) = Some r \<and> epoch (blks t ! r) = epoch (base_block s) + 1
    \<and> active t = spec_set_partition which p (active s)
    \<and> (\<forall>j. j \<noteq> r \<longrightarrow> view (world t) j = view (world s) j)
    \<and> synced view bad t"
proof -
  obtain r t now where t: "bc_ll_set_partition ops which p s = Ret 0 t"
      "next_good (skipped s) (ebs s) (base_index (blks s)) r"
      "keeps (\<lambda>_. True) UNIV s t" "synced view bad t"
      "flash_update view bad r (block_page s (next_block which p now (base_block s))) s t"
    using set_partition_works [OF works ptr init wf pages synced p, of which] room by auto
  have r: "r < ebs s" "\<not> bad (world s) r"
    using t(2) skipped_bad [OF synced] by (auto simp: next_good_def)
  note new = new_block_current [OF t(4) synced t(3,5) wf r max]
  have "active t = spec_set_partition which p (active s)"
    using new(2) by (simp add: active_current [OF new(1)] image_info_next)
      (simp add: active_def [abs_def])
  then show ?thesis
    using t new by (auto simp: flash_update_def)
qed

theorem set_partition_refines_witness:
  "\<exists>r t. bc_ll_set_partition (sim_ops [] []) Kernel 1 (sim_state 5) = Ret 0 t
    \<and> next_good (skipped (sim_state 5)) (ebs (sim_state 5)) (base_index (blks (sim_state 5))) r
    \<and> current_index (blks t) = Some r
    \<and> epoch (blks t ! r) = epoch (base_block (sim_state 5)) + 1
    \<and> active t = spec_set_partition Kernel 1 (active (sim_state 5))
    \<and> (\<forall>j. j \<noteq> r \<longrightarrow> nand_view (world t) j = nand_view (world (sim_state 5)) j)
    \<and> synced nand_view nand_bad t"
  by (rule set_partition_refines [OF sim_works, where k = 0])
    (simp_all add: base_index_def base_block_def skipped_def,
     simp_all add: sim_state_def sim_block_def)

text \<open>
  When every block but the current one is marked bad, \<open>bc_ll_set_partition\<close> reports
  \<open>-1\<close> and the flash is as it was.
\<close>

theorem set_partition_no_block:
  assumes works: "works ops view bad" and ptr: "ptr_ok ops" and init: "initialised s"
    and wf: "wf_bc (bc s)" and pages: "pages_ok view s" and synced: "synced view bad s" and p: "p \<le> 1"
    and none: "\<forall>k<ebs s. k \<noteq> base_index (blks s) \<longrightarrow> skipped s k"
  shows "\<exists>t. bc_ll_set_partition ops which p s = Ret (- 1) t \<and> view (world t) = view (world s)"
proof -
  have "\<not> next_good (skipped s) (ebs s) (base_index (blks s)) r" for r
    using none by (auto simp: next_good_def)
  then show ?thesis
    using set_partition_works [OF works ptr init wf pages synced p, of which] same_flashD(1)
    by blast
qed

definition worn_state :: "nand st" where
  "worn_state =
     \<lparr>bc_log_channels = default_channels, bc_log_levels = default_levels, outputs = [],
      initialised = True,
      bc = \<lparr>blocks = [sim_block 4, (page_block (replicate 32 0xFF))\<lparr>magic := MAGIC_BAD\<rparr>],
            dev = ''/dev/mtd1'', fd = 3, mtd = 7, info = \<lparr>eb_cnt = 2, min_io_size = 32\<rparr>\<rparr>,
      world = \<lparr>pages = [sim_page (sim_block 4), replicate 32 0xFF], bads = [1], clock = 200\<rparr>\<rparr>"

lemma worn_simps [simp]: "blks worn_state = [sim_block 4, (page_block (replicate 32 0xFF))\<lparr>magic := MAGIC_BAD\<rparr>]"
  "info (bc worn_state) = \<lparr>eb_cnt = 2, min_io_size = 32\<rparr>" "initialised worn_state"
  "world worn_state = \<lparr>pages = [sim_page (sim_block 4), replicate 32 0xFF], bads = [1], clock = 200\<rparr>"
  by (simp_all add: worn_state_def)

lemma worn_base: "base_index (blks worn_state) = 0"
  by (simp add: base_index_def current_index_def)
    (simp add: sim_block_def MAGIC_BOOT_def MAGIC_BAD_def)

lemma worn_wf: "wf_bc (bc worn_state)"
  using wf_blank wf_sim_block [of 4] by (simp add: wf_bc_def wf_block_def SIZEOF_BTBLOCK_def)

lemma worn_flash: "pages_ok nand_view worn_state" "synced nand_view nand_bad worn_state"
  by (simp_all add: pages_ok_def synced_def synced_at_def nand_view_def nand_bad_def all_less_numeral
      All_less_Suc)

theorem set_partition_no_block_witness:
  "\<exists>t. bc_ll_set_partition (sim_ops [] []) Rootfs 0 worn_state = Ret (- 1) t
     \<and> nand_view (world t) = nand_view (world worn_state)"
  by (rule set_partition_no_block [OF sim_works sim_ptr_ok _ worn_wf worn_flash])
    (simp_all add: worn_base [simplified] skipped_def all_less_numeral All_less_Suc)

text \<open>
  A device that refuses to be programmed is never reported as updated:
  \<open>bc_ll_set_partition\<close> returns \<open>-1\<close> however the other calls behave.
\<close>

theorem set_partition_unwritable_fails:
  assumes "unwritable ops" "initialised s" "wf_bc (bc s)" "p \<le> 1"
  shows "\<exists>t. bc_ll_set_partition ops which p s = Ret (- 1) t"
  using set_partition_unwritable [OF assms] by blast

theorem set_partition_unwritable_fails_witness:
  "\<exists>t. bc_ll_set_partition ((sim_ops [] [])\<lparr>mtd_write_op := \<lambda>h i f k off page w. (- 1, w)\<rparr>)
     Kernel 1 (sim_state 5) = Ret (- 1) t"
  by (rule set_partition_unwritable_fails) (simp_all add: unwritable_def)

text \<open>
  C28: With the largest epoch the successor wraps round to 0: \<open>bc_ll_set_partition\<close> returns
  0, but the old block is still the current one and the boot configuration is unchanged.
\<close>

theorem set_partition_epoch_wrap:
  assumes works: "works ops view bad" and ptr: "ptr_ok ops" and init: "initialised s"
    and wf: "wf_bc (bc s)" and pages: "pages_ok view s" and synced: "synced view bad s" and p: "p \<le> 1"
    and cur: "current_index (blks s) = Some c" and max: "epoch (blks s ! c) = - 1"
    and room: "k < ebs s" "k \<noteq> c" "\<not> skipped s k"
  shows "\<exists>t. bc_ll_set_partition ops which p s = Ret 0 t
    \<and> current_index (blks t) = Some c \<and> active t = active s"
proof -
  have base: "base_index (blks s) = c"
    using cur by (simp add: base_index_def)
  obtain r t now where t: "bc_ll_set_partition ops which p s = Ret 0 t"
      "next_good (skipped s) (ebs s) c r"
      "keeps (\<lambda>_. True) UNIV s t" "synced view bad t"
      "flash_update view bad r (block_page s (next_block which p now (base_block s))) s t"
    using set_partition_works [OF works ptr init wf pages synced p, of which] room by (auto simp: base)
  have r: "r < ebs s" "\<not> bad (world s) r" "r \<noteq> c"
    using t(2) skipped_bad [OF synced] by (auto simp: next_good_def)
  have "current_index (blks t) = Some c" "blks t ! c = blks s ! c"
    using wrapped_block_not_current [OF t(4) synced t(3,5) wf r] cur max
    by (simp_all add: current_index_iff)
  then show ?thesis
    using t(1) cur by (simp add: active_current)
qed

theorem set_partition_epoch_wrap_witness:
  "\<exists>t. bc_ll_set_partition (sim_ops [] []) Kernel 1 (sim_state (- 1)) = Ret 0 t
     \<and> current_index (blks t) = Some 1 \<and> active t = active (sim_state (- 1))"
  by (rule set_partition_epoch_wrap [OF sim_works, where k = 0])
    (simp_all add: skipped_def, simp_all add: sim_state_def sim_block_def)

section \<open>Finding the current block\<close>

text \<open>
  C16: \<open>bc_ll_get_current\<close> returns the index \<open>i\<close> exactly when block \<open>i\<close> has the boot magic
  and the largest epoch of the boot blocks, is the first of those with this epoch, and the
  epoch is not 0; it returns the null pointer exactly when no boot block has an epoch above
  0. It changes nothing.
\<close>

theorem get_current_correct:
  assumes "initialised s" "wf_bc (bc s)"
  shows "\<exists>c. bc_ll_get_current s = Ret c s
    \<and> (case c of
         Some i \<Rightarrow> is_current (blks s) i
       | None \<Rightarrow> (\<forall>j<ebs s. is_boot (blks s ! j) \<longrightarrow> epoch (blks s ! j) = 0))"
  using assms by (cases "current_index (blks s)")
    (auto simp: bc_ll_get_current_def wf_bcD current_index_iff [symmetric] dest: current_index_None)

theorem get_current_correct_witness:
  "\<exists>c. bc_ll_get_current (sim_state 5) = Ret c (sim_state 5)
    \<and> (case c of
         Some i \<Rightarrow> is_current (blks (sim_state 5)) i
       | None \<Rightarrow> (\<forall>j<ebs (sim_state 5). is_boot (blks (sim_state 5) ! j)
                    \<longrightarrow> epoch (blks (sim_state 5) ! j) = 0))"
  by (rule get_current_correct) simp_all

section \<open>Initialisation\<close>

text \<open>
  C18: From any state \<open>bc_ll_init\<close> either exits with status 1 or returns with the
  invariant established: one well-formed block per erase block, at least one, and the
  initialised flag set. It never erases or programs anything: a property of the device that
  the other calls keep is kept. Its run is defined for every behaviour of the calls.
\<close>

theorem init_establishes:
  assumes "ops_keep ops P (\<lambda>_. False)" "reads_in_place ops" "dev_info_ok ops" "P (world s)"
  shows "case bc_ll_init ops d s of
      Ret _ t \<Rightarrow> initialised t \<and> wf_bc (bc t) \<and> dev (bc t) = d \<and> P (world t)
    | Exit c t \<Rightarrow> c = 1 \<and> P (world t)
    | Undef \<Rightarrow> False"
  using init_holds [OF assms, of d] by (cases "bc_ll_init ops d s") simp_all

definition blank_log :: "'w \<Rightarrow> 'w st" where
  "blank_log w =
     \<lparr>bc_log_channels = default_channels, bc_log_levels = default_levels, outputs = [],
      initialised = False, bc = zero_bootconfig, world = w\<rparr>"

lemma blank_log_simps [simp]:
  "world (blank_log w) = w" "\<not> initialised (blank_log w)" "bc (blank_log w) = zero_bootconfig"
  by (simp_all add: blank_log_def)

lemma sim_dev_info_ok [simp]: "dev_info_ok (sim_ops a b)"
  by (simp add: dev_info_ok_def sim_ops_def SIZEOF_BTBLOCK_def min_def)

lemma sim_ops_read_only: "ops_keep (sim_ops a b) (\<lambda>w. w = v) (\<lambda>_. False)"
  by (simp add: ops_keep_def sim_ops_def)

theorem init_establishes_witness:
  "case bc_ll_init (sim_ops [0] []) ''/dev/mtd1'' (blank_log (sim_world 5)) of
      Ret _ t \<Rightarrow> initialised t \<and> wf_bc (bc t) \<and> dev (bc t) = ''/dev/mtd1'' \<and> world t = sim_world 5
    | Exit c t \<Rightarrow> c = 1 \<and> world t = sim_world 5
    | Undef \<Rightarrow> False"
  by (rule init_establishes [OF sim_ops_read_only]) simp_all

text \<open>
  C19: On a working device of \<open>n\<close> blocks \<open>bc_ll_init\<close> exits with status 1 when all of them
  are bad, and otherwise returns with an array that agrees with the flash, block by block,
  the bad ones marked; the flash is as it was.
\<close>

theorem init_reads_device:
  assumes "works ops view bad" "opens ops view bad n (world s)" "dev_info_ok ops"
  shows "if \<forall>k<n. bad (world s) k
    then \<exists>t. bc_ll_init ops d s = Exit 1 t \<and> steady view bad (world s) (world t)
    else \<exists>t. bc_ll_init ops d s = Ret () t \<and> initialised t \<and> wf_bc (bc t) \<and> ebs t = n
       \<and> pages_ok view t \<and> synced view bad t \<and> steady view bad (world s) (world t)"
  using assms by (rule init_works)

lemma sim_page_len: "k < 4 \<Longrightarrow> length (nand_view (sim_world e) k) = 32"
proof -
  have "\<forall>k<4. length (nand_view (sim_world e) k) = 32"
    by (simp add: nand_view_def sim_world_def all_less_numeral All_less_Suc)
  then show "k < 4 \<Longrightarrow> length (nand_view (sim_world e) k) = 32"
    by blast
qed

lemma sim_same_pages:
  assumes v: "nand_view w = nand_view (sim_world e)"
  shows "length (takeWhile (\<lambda>p. length p = 32) (pages w)) = 4"
proof -
  have l: "\<forall>k<4. length (nand_view w k) = 32" "nand_view w 4 = []"
    by (simp_all add: v nand_view_def sim_world_def all_less_numeral All_less_Suc)
  then have "length (nand_view w 3) = 32"
    by simp
  then have n: "3 < length (pages w)"
    by (auto simp: nand_view_def split: if_splits)
  have "takeWhile (\<lambda>p. length p = 32) (pages w) = take 4 (pages w)"
    using l by (intro takeWhile_eq_take_P_nth) (auto simp: nand_view_def split: if_splits)
  then show ?thesis
    using n by simp
qed

lemma sim_opens: "opens (sim_ops a b) nand_view nand_bad 4 (sim_world e)"
  using sim_same_pages [of _ e]
  by (auto simp: opens_def steady_def sim_ops_def sim_page_len)

theorem init_reads_device_witness:
  "\<exists>t. bc_ll_init (sim_ops [] []) ''/dev/mtd1'' (blank_log (sim_world 5)) = Ret () t
     \<and> initialised t \<and> wf_bc (bc t) \<and> ebs t = 4 \<and> pages_ok nand_view t
     \<and> synced nand_view nand_bad t \<and> steady nand_view nand_bad (sim_world 5) (world t)"
proof -
  have "nand_bad (sim_world 5) 0 = False"
    by (simp add: nand_bad_def sim_world_def)
  then have "\<not> (\<forall>k<4. nand_bad (sim_world 5) k)"
    by force
  then show ?thesis
    using init_reads_device [OF sim_works _ sim_dev_info_ok, where n = 4 and d = "''/dev/mtd1''"
        and s = "blank_log (sim_world 5)", unfolded blank_log_simps, OF sim_opens]
    by (simp only: if_False)
qed

section \<open>Reading again\<close>

text \<open>
  On a working device \<open>bc_ll_reread\<close> brings the array back into agreement with the
  flash, which it leaves alone; it returns \<open>-1\<close> exactly when every block is bad.
\<close>

theorem reread_agrees:
  assumes "works ops view bad" "ptr_ok ops" "initialised s" "wf_bc (bc s)" "pages_ok view s"
  shows "\<exists>t. bc_ll_reread ops s = Ret (if \<forall>k<ebs s. bad (world s) k then - 1 else 0) t
    \<and> synced view bad t \<and> wf_bc (bc t)
    \<and> view (world t) = view (world s) \<and> bad (world t) = bad (world s)"
proof -
  obtain t where t: "bc_ll_reread ops s = Ret (if \<forall>k<ebs s. bad (world s) k then - 1 else 0) t"
      "same_flash view bad UNIV s t" "synced view bad t"
    using reread_synced [OF works_reads [OF assms(1)] assms(4,5,3,2)] .
  then show ?thesis
    using keeps_wf [OF t(2) assms(4)] same_flashD [OF t(2)] by blast
qed

theorem reread_agrees_witness:
  "\<exists>t. bc_ll_reread (sim_ops [] []) (sim_state 5) =
         Ret (if \<forall>k<ebs (sim_state 5). nand_bad (world (sim_state 5)) k then - 1 else 0) t
    \<and> synced nand_view nand_bad t \<and> wf_bc (bc t)
    \<and> nand_view (world t) = nand_view (world (sim_state 5))
    \<and> nand_bad (world t) = nand_bad (world (sim_state 5))"
  by (rule reread_agrees [OF sim_works]) simp_all

text \<open>
  C27: When the bad-block check of block \<open>i\<close> fails, \<open>bc_ll_reread\<close> does not clear its entry
  as a whole: it clears only what lies in the first \<open>eb_cnt * sizeof(pointer)\<close> bytes of the
  array, and an entry beyond them keeps its old contents, the boot magic included.
\<close>

theorem reread_leaves_stale_entries:
  assumes "reads_in_place ops" "ptr_ok ops" "uncheckable ops i"
    and "initialised s" "wf_bc (bc s)" "i < ebs s"
  shows "\<exists>r t. bc_ll_reread ops s = Ret r t
    \<and> blks t ! i =
        clear_prefix (min SIZEOF_BTBLOCK (ebs s * sizeof_ptr ops - SIZEOF_BTBLOCK * i)) (blks s ! i)
    \<and> (ebs s * sizeof_ptr ops \<le> SIZEOF_BTBLOCK * i \<longrightarrow> blks t ! i = blks s ! i)"
  using reread_uncheckable [OF assms] wf_bc_nth [OF assms(5,6)] unfolding holds_return by auto

text \<open>Block 1 is the current one, and stays it although it cannot be read any more.\<close>

theorem reread_leaves_stale_entries_witness:
  "\<exists>r t. bc_ll_reread (sim_ops [1] []) (sim_state 5) = Ret r t \<and> blks t ! 1 = sim_block 5"
  using reread_leaves_stale_entries [of "sim_ops [1] []" 1 "sim_state 5"]
  by (simp add: uncheckable_def) (auto simp: sim_ops_def SIZEOF_BTBLOCK_def, simp add: sim_state_def)

section \<open>Marking an image healthy\<close>

context healthy_flag
begin

text \<open>The erase call is never used.\<close>

lemma setter_no_erase: "setter (ops\<lparr>mtd_erase_op := f\<rparr>) block s = setter ops block s"
proof -
  have eqs: "malloc_page (ops\<lparr>mtd_erase_op := f\<rparr>) = malloc_page ops"
      "write_page (ops\<lparr>mtd_erase_op := f\<rparr>) = write_page ops"
    by (simp_all add: malloc_page_def write_page_def fun_eq_iff Let_def split: prod.split)
  show ?thesis
    unfolding setter_code eqs by (rule refl)
qed

lemma setter_unwritable:
  assumes "unwritable ops" "initialised s" "block < length (blks s)" "flag (blks s ! block) = 1"
  shows "setter ops block s \<noteq> Ret 0 t"
  using assms
  by (auto simp: setter_code get_block_def put_block_def fill_page_def bindR_Ret_iff
      write_page_unwritable split: prod.splits if_splits)

lemma failure_is_forgotten:
  assumes w: "unwritable ops" and init: "initialised s" and wf: "wf_bc (bc s)" and b: "block < ebs s"
    and f: "flag (blks s ! block) = 1"
  obtains r t where "setter ops block s = Ret r t" "r \<in> {1, - 1}" "setter ops block t = Ret 0 t"
proof -
  have len: "block < length (blks s)"
    using wf b by (simp add: wf_bcD)
  obtain r t where r: "setter ops block s = Ret r t" "r \<in> {0, 1, - 1}"
    using setter_frame [OF ops_keep_True [of ops "\<lambda>_. True"] _ init wf b f] unfolding holds_return
    by blast
  moreover have "r \<noteq> 0"
    using setter_unwritable [OF w init len f] r(1) by blast
  ultimately show ?thesis
    using retry_returns_0 [OF init wf b f r(1)] that by blast
qed

end

text \<open>
  On a working device \<open>bc_ll_set_kernel_healthy\<close> programs the healthy flag of the
  kernel into the block without erasing it: it returns 0, the first bytes of the page are
  the block with \<open>n_healthy\<close> cleared, the rest of the page and all other pages are as they
  were, and memory agrees with the flash.
\<close>

theorem kernel_healthy_works:
  assumes "works ops view bad" "initialised s" "wf_bc (bc s)" "pages_ok view s" "synced view bad s"
    and "block < ebs s" "\<not> bad (world s) block" "n_healthy (kernel (blks s ! block)) = 1"
  shows "\<exists>t. bc_ll_set_kernel_healthy (ops\<lparr>mtd_erase_op := any\<rparr>) block s = Ret 0 t
    \<and> synced view bad t
    \<and> blks t ! block = (blks s ! block)\<lparr>kernel := (kernel (blks s ! block))\<lparr>n_healthy := 0\<rparr>\<rparr>
    \<and> view (world t) block = btblock_bytes (blks t ! block) @ drop SIZEOF_BTBLOCK (view (world s) block)
    \<and> (\<forall>k. k \<noteq> block \<longrightarrow> view (world t) k = view (world s) k)"
  by (rule kernel_flag.setter_works [OF assms])
    (auto simp: kernel_flag.setter_no_erase flash_update_def)

text \<open>A device whose current block has no flag cleared yet.\<close>

definition fresh_block :: btblock where
  "fresh_block = next_block Kernel 1 300 (next_block Rootfs 1 300 (sim_block 4))"

definition fresh_state :: "nand st" where
  "fresh_state =
     \<lparr>bc_log_channels = default_channels, bc_log_levels = default_levels, outputs = [],
      initialised = True,
      bc = \<lparr>blocks = [fresh_block], dev = ''/dev/mtd1'', fd = 3, mtd = 7,
            info = \<lparr>eb_cnt = 1, min_io_size = 32\<rparr>\<rparr>,
      world = \<lparr>pages = [sim_page fresh_block], bads = [], clock = 200\<rparr>\<rparr>"

lemma wf_fresh_block [simp]: "wf_block fresh_block"
  by (simp add: fresh_block_def)

lemma fresh_flags: "n_healthy (kernel fresh_block) = 1" "n_healthy (rootfs fresh_block) = 1"
  by (simp_all add: fresh_block_def next_block_def set_image_info_def image_info_def Let_def)

lemma fresh_simps [simp]:
  "blks fresh_state = [fresh_block]" "info (bc fresh_state) = \<lparr>eb_cnt = 1, min_io_size = 32\<rparr>"
  "initialised fresh_state" "world fresh_state = \<lparr>pages = [sim_page fresh_block], bads = [], clock = 200\<rparr>"
  by (simp_all add: fresh_state_def)

lemma fresh_ok: "wf_bc (bc fresh_state)" "pages_ok nand_view fresh_state"
    "synced nand_view nand_bad fresh_state"
  by (simp_all add: wf_bc_def pages_ok_def synced_def synced_at_def nand_view_def nand_bad_def
      sim_page_def SIZEOF_BTBLOCK_def)

theorem kernel_healthy_works_witness:
  "\<exists>t. bc_ll_set_kernel_healthy ((sim_ops [] [])\<lparr>mtd_erase_op := undefined\<rparr>) 0 fresh_state = Ret 0 t
    \<and> synced nand_view nand_bad t
    \<and> blks t ! 0 = fresh_block\<lparr>kernel := (kernel fresh_block)\<lparr>n_healthy := 0\<rparr>\<rparr>"
  using kernel_healthy_works [OF sim_works _ fresh_ok, of 0 undefined]
  by (auto simp: fresh_flags nand_bad_def)

text \<open>
  The same of \<open>bc_ll_set_rootfs_healthy\<close> and the root file system's flag.
\<close>

theorem rootfs_healthy_works:
  assumes "works ops view bad" "initialised s" "wf_bc (bc s)" "pages_ok view s" "synced view bad s"
    and "block < ebs s" "\<not> bad (world s) block" "n_healthy (rootfs (blks s ! block)) = 1"
  shows "\<exists>t. bc_ll_set_rootfs_healthy (ops\<lparr>mtd_erase_op := any\<rparr>) block s = Ret 0 t
    \<and> synced view bad t
    \<and> blks t ! block = (blks s ! block)\<lparr>rootfs := (rootfs (blks s ! block))\<lparr>n_healthy := 0\<rparr>\<rparr>
    \<and> view (world t) block = btblock_bytes (blks t ! block) @ drop SIZEOF_BTBLOCK (view (world s) block)
    \<and> (\<forall>k. k \<noteq> block \<longrightarrow> view (world t) k = view (world s) k)"
  by (rule rootfs_flag.setter_works [OF assms])
    (auto simp: rootfs_flag.setter_no_erase flash_update_def)

theorem rootfs_healthy_works_witness:
  "\<exists>t. bc_ll_set_rootfs_healthy ((sim_ops [] [])\<lparr>mtd_erase_op := undefined\<rparr>) 0 fresh_state = Ret 0 t
    \<and> synced nand_view nand_bad t
    \<and> blks t ! 0 = fresh_block\<lparr>rootfs := (rootfs fresh_block)\<lparr>n_healthy := 0\<rparr>\<rparr>"
  using rootfs_healthy_works [OF sim_works _ fresh_ok, of 0 undefined]
  by (auto simp: fresh_flags nand_bad_def)

text \<open>
  C29: When the device cannot be programmed, \<open>bc_ll_set_kernel_healthy\<close> returns 1 (or \<open>-1\<close>
  without memory), but the flag has been cleared in memory before the write, so calling it
  again returns 0 without writing anything.
\<close>

theorem kernel_healthy_failure_forgotten:
  assumes "unwritable ops" "initialised s" "wf_bc (bc s)" "block < ebs s"
    and "n_healthy (kernel (blks s ! block)) = 1"
  shows "\<exists>r t. bc_ll_set_kernel_healthy ops block s = Ret r t \<and> r \<in> {1, - 1}
    \<and> bc_ll_set_kernel_healthy ops block t = Ret 0 t"
  by (rule kernel_flag.failure_is_forgotten [OF assms]) blast

theorem kernel_healthy_failure_forgotten_witness:
  "\<exists>r t. bc_ll_set_kernel_healthy ((sim_ops [] [])\<lparr>mtd_write_op := \<lambda>h i f k off page w. (- 1, w)\<rparr>)
      0 fresh_state = Ret r t \<and> r \<in> {1, - 1}
    \<and> bc_ll_set_kernel_healthy ((sim_ops [] [])\<lparr>mtd_write_op := \<lambda>h i f k off page w. (- 1, w)\<rparr>)
      0 t = Ret 0 t"
  by (rule kernel_healthy_failure_forgotten)
    (simp_all add: unwritable_def fresh_ok fresh_flags)

section \<open>Misuse\<close>

text \<open>
  Before initialisation every public operation exits with status 1 and does nothing
  but write a message to the log.
\<close>

theorem uninitialised_exits:
  fixes s :: "'w st"
  assumes "\<not> initialised s"
  shows "bc_ll_reread ops s = not_initialised s \<and> bc_ll_get_current s = not_initialised s
    \<and> bc_ll_set_partition ops which p s = not_initialised s
    \<and> bc_ll_set_kernel_healthy ops block s = not_initialised s
    \<and> bc_ll_set_rootfs_healthy ops block s = not_initialised s
    \<and> (not_initialised s :: ('w st, int) res) =
       Exit 1 (bc_log LOG_ERR ''Internal error: called before initialisation!\<newline>'' [] s)"
  using assms
  by (simp_all add: bc_ll_reread_def bc_ll_get_current_def bc_ll_set_partition_def
      kernel_flag.uninitialised rootfs_flag.uninitialised not_initialised_def)

theorem uninitialised_exits_witness:
  "bc_ll_set_partition (sim_ops [] []) Kernel 1 (blank_log (sim_world 5))
     = not_initialised (blank_log (sim_world 5))"
  using uninitialised_exits [of "blank_log (sim_world 5)"] by simp

end
