(* ===== verification/Main_Correct.thy ===== *)
theory Main_Correct
  imports Bootconfig_Main Flash_Config Lowlevel_Correct
begin

text \<open>
  The properties of the command line tool (\<open>src/main.c\<close>), from the arguments to what is on
  the flash afterwards.
\<close>

section \<open>Printing only adds output\<close>

text \<open>\<open>only_prints s t\<close>: from \<open>s\<close> to \<open>t\<close> nothing has changed but the output.\<close>

definition only_prints :: "'w st \<Rightarrow> 'w st \<Rightarrow> bool" where
  "only_prints s t \<longleftrightarrow> bc t = bc s \<and> world t = world s \<and> initialised t = initialised s"

lemma only_prints_simps:
  assumes "only_prints s t"
  shows "bc t = bc s" "world t = world s" "initialised t = initialised s"
  using assms by (simp_all add: only_prints_def)

lemma print_block_st [simp]:
  "bc (print_block ops b s) = bc s" "world (print_block ops b s) = world s"
  "initialised (print_block ops b s) = initialised s"
  by (simp_all add: print_block_def Let_def)

lemma print_help_st [simp]:
  "bc (print_help s) = bc s" "world (print_help s) = world s"
  "initialised (print_help s) = initialised s"
  by (simp_all add: print_help_def help_lines_def)

lemma get_current_Ret:
  "initialised s \<Longrightarrow> wf_bc (bc s) \<Longrightarrow> bc_ll_get_current s = Ret (current_index (blks s)) s"
  by (simp add: bc_ll_get_current_def wf_bcD)

lemma print_config_Ret:
  assumes "initialised s" "wf_bc (bc s)"
  obtains t where "print_config ops s = Ret () t" "only_prints s t"
  using assms
  by (cases "current_index (blks s)")
    (auto simp: print_config_def get_current_Ret get_block_def current_index_less only_prints_def)

lemma print_blocks_Ret:
  "\<forall>i\<in>set is. i < length (blks s) \<Longrightarrow> \<exists>t. print_blocks ops is s = Ret () t \<and> only_prints s t"
proof (induction "is" arbitrary: s)
  case Nil
  then show ?case by (simp add: only_prints_def)
next
  case (Cons i "is")
  let ?s = "printf ''    ---\<newline>'' [] s" and ?b = "blks s ! i"
  let ?u = "if MAGIC_BOOT = magic ?b
      then print_block ops ?b (printf ''   Boot block #%d\<newline>'' [AInt (int i)] ?s)
      else if MAGIC_BAD = magic ?b then printf ''   #%d BAD BLOCK\<newline>'' [AInt (int i)] ?s
      else printf ''   #%d NO MAGIC FOUND\<newline>'' [AInt (int i)] ?s"
  have u: "only_prints s ?u"
    by (simp add: only_prints_def)
  have "\<exists>t. print_blocks ops is ?u = Ret () t \<and> only_prints ?u t"
    using Cons.prems by (intro Cons.IH) (simp add: only_prints_simps [OF u])
  moreover have "print_blocks ops (i # is) s = print_blocks ops is ?u"
    using Cons.prems by (simp add: get_block_def)
  ultimately show ?case
    using u by (auto simp: only_prints_def)
qed

lemma print_info_Ret:
  assumes "wf_bc (bc s)"
  obtains t where "print_info ops s = Ret () t" "only_prints s t"
proof -
  let ?s = "printf ''There are %d boot config blocks.\<newline>'' [AInt (int (ebs s))] s"
  have "\<exists>t. print_blocks ops [0..<ebs s] ?s = Ret () t \<and> only_prints ?s t"
    using assms by (intro print_blocks_Ret) (simp add: wf_bcD)
  then show ?thesis
    using that by (auto simp: print_info_def only_prints_def)
qed

section \<open>Commands that only look\<close>

definition changing_command :: "string list \<Rightarrow> bool" where
  "changing_command argv \<longleftrightarrow> 2 \<le> length argv
     \<and> (argv ! 1 \<in> {''set-kernel-healthy'', ''set-rootfs-healthy''}
        \<or> length argv = 3 \<and> argv ! 1 \<in> {''set-kernel'', ''set-rootfs''})"

lemma main_after_init:
  assumes "\<not> changing_command argv" "initialised s" "wf_bc (bc s)" "bc_ll_init ops ''/dev/mtd1'' s0 = Ret () s"
  shows "\<exists>t. only_prints s t \<and> bootconfig_main ops argv s0 =
    (if length argv < 2 \<or> argv ! 1 = ''info'' then Exit 0 t
     else if argv ! 1 = ''help'' then Ret 0 t else Ret (- 1) t)"
proof -
  obtain t1 where t1: "print_config ops s = Ret () t1" "only_prints s t1"
    using print_config_Ret assms(2,3) by blast
  obtain t2 where t2: "print_info ops s = Ret () t2" "only_prints s t2"
    using print_info_Ret assms(3) by blast
  have t3: "only_prints s (print_help s)"
    by (simp add: only_prints_def)
  consider "length argv < 2" | "2 \<le> length argv" "argv ! 1 = ''info''"
    | "2 \<le> length argv" "argv ! 1 \<noteq> ''info''"
    by linarith
  then show ?thesis
    using assms(1,4) t1 t2 t3
    by cases (auto simp: bootconfig_main_def changing_command_def Let_def)
qed

text \<open>
  C26: Every invocation that is not one of the four setting commands with its arguments
  leaves the flash alone: it neither erases nor programs, whatever the calls return, and
  ends with status 0 after printing, 0 or \<open>-1\<close> after the help text, or 1 when the
  configuration cannot be read.
\<close>

theorem main_looking_is_safe:
  assumes "\<not> changing_command argv" and "ops_keep ops P (\<lambda>_. False)" "reads_in_place ops"
    "dev_info_ok ops" "P (world s)"
  shows "case bootconfig_main ops argv s of
      Ret r t \<Rightarrow> r \<in> {0, - 1} \<and> P (world t)
    | Exit c t \<Rightarrow> c \<in> {0, 1} \<and> P (world t)
    | Undef \<Rightarrow> False"
proof (cases "bc_ll_init ops ''/dev/mtd1'' s")
  case (Ret u t)
  then have "initialised t" "wf_bc (bc t)" "P (world t)"
    using init_holds [OF assms(2-5), of "''/dev/mtd1''"] by simp_all
  then show ?thesis
    using main_after_init [OF assms(1) _ _ Ret [simplified]]
    by (auto split: if_splits simp: only_prints_simps)
qed (use init_holds [OF assms(2-5), of "''/dev/mtd1''"] in \<open>simp_all add: bootconfig_main_def\<close>)

theorem main_looking_is_safe_witness:
  "case bootconfig_main (sim_ops [0] []) [''bootconfig'', ''set-kernel''] (blank_log (sim_world 5)) of
      Ret r t \<Rightarrow> r \<in> {0, - 1} \<and> world t = sim_world 5
    | Exit c t \<Rightarrow> c \<in> {0, 1} \<and> world t = sim_world 5
    | Undef \<Rightarrow> False"
  by (rule main_looking_is_safe [OF _ sim_ops_read_only]) (simp_all add: changing_command_def)

text \<open>
  The device is opened before the arguments are looked at: when it cannot be opened,
  every invocation exits with status 1, the one that asks for help included.
\<close>

theorem main_needs_device:
  assumes "fst (open_op ops ''/dev/mtd1'' (world s)) < 0"
  shows "\<exists>t. bootconfig_main ops argv s = Exit 1 t"
  using assms
  by (auto simp: bootconfig_main_def bc_ll_init_def open_dev_def Let_def split: prod.split)

theorem main_needs_device_witness:
  "\<exists>t. bootconfig_main ((sim_ops [] [])\<lparr>open_op := \<lambda>d w. (- 1, w)\<rparr>) [''bootconfig'', ''help'']
     (blank_log (sim_world 5)) = Exit 1 t"
  by (rule main_needs_device) simp

section \<open>Partition names\<close>

fun dec_string :: "nat \<Rightarrow> string" where
  "dec_string n =
     (if n < 10 then [char_of (48 + n)] else dec_string (n div 10) @ [char_of (48 + n mod 10)])"

declare dec_string.simps [simp del]

definition digits_value :: "int \<Rightarrow> string \<Rightarrow> int" where
  "digits_value = foldl (\<lambda>v c. 10 * v + the (digit_val c))"

lemma digit_val_digit [simp]: "d < 10 \<Longrightarrow> digit_val (char_of (48 + d)) = Some (int d)"
proof -
  assume d: "d < 10"
  have "(of_char (char_of (48 + d)) :: int) = int (of_char (char_of (48 + d) :: char))"
    by (simp only: of_nat_of_char)
  also have "\<dots> = 48 + int d"
    using d by simp
  finally show ?thesis
    using d by (simp add: digit_val_def)
qed

lemma dec_string_digits: "\<forall>c\<in>set (dec_string n). digit_val c \<noteq> None"
proof (induction n rule: dec_string.induct)
  case (1 n)
  show ?case
  proof (cases "n < 10")
    case True
    then show ?thesis
      by (simp add: dec_string.simps [of n])
  next
    case False
    then show ?thesis
      using 1 by (simp add: dec_string.simps [of n])
  qed
qed

lemma dec_string_value: "digits_value 0 (dec_string n) = int n"
proof (induction n rule: dec_string.induct)
  case (1 n)
  show ?case
  proof (cases "n < 10")
    case True
    then show ?thesis
      by (simp add: dec_string.simps [of n] digits_value_def)
  next
    case False
    then have "digits_value 0 (dec_string n) = 10 * int (n div 10) + int (n mod 10)"
      using 1 by (simp add: dec_string.simps [of n] digits_value_def)
    then show ?thesis
      by presburger
  qed
qed

lemma dec_string_not_Nil [simp]: "dec_string n \<noteq> []"
  by (subst dec_string.simps) simp

lemma decimal_dec_string [simp]: "decimal (dec_string n) = Some (int n)"
proof -
  have tw: "takeWhile (\<lambda>c. digit_val c \<noteq> None) (dec_string n) = dec_string n"
    using dec_string_digits by (simp add: takeWhile_eq_all_conv)
  show ?thesis
    using dec_string_value [of n] unfolding decimal_def tw Let_def by (simp add: digits_value_def)
qed

lemma digit_no_space: "digit_val c \<noteq> None \<Longrightarrow> \<not> is_space c \<and> c \<noteq> CHR ''-'' \<and> c \<noteq> CHR ''+''"
  by (auto simp: digit_val_def is_space_def Let_def)

lemma scan_u_dec_string [simp]: "scan_u (dec_string n) = Some (int n)"
proof -
  obtain c r where c: "dec_string n = c # r"
    by (cases "dec_string n") simp_all
  then have "digit_val c \<noteq> None"
    using dec_string_digits [of n] by simp
  then show ?thesis
    using digit_no_space [of c] decimal_dec_string [of n] c by (simp add: scan_u_def)
qed

lemma sscanf_dec_string:
  assumes "n < 2 ^ 32"
  shows "sscanf_mtd ops (''mtd'' @ dec_string n) = Some (of_nat n)"
proof -
  have "int n < 2 ^ 32"
    using assms by (metis of_nat_less_numeral_power_cancel_iff)
  then show ?thesis
    by (simp add: sscanf_mtd_def)
qed

text \<open>
  The name \<open>mtd\<close> followed by a number in decimal, as the tool prints it, is parsed back
  to that number.
\<close>

theorem mtd_name_roundtrip:
  assumes "n < 2 ^ 32"
  shows "sscanf_mtd ops (''mtd'' @ dec_string n) = Some (of_nat n)"
  using assms by (rule sscanf_dec_string)

theorem mtd_name_roundtrip_witness:
  "sscanf_mtd (sim_ops [] []) (''mtd'' @ dec_string 13) = Some 13"
  using mtd_name_roundtrip [of 13] by simp

section \<open>The set commands\<close>

lemma u32_le_1: "(x :: u32) \<le> 1 \<longleftrightarrow> x = 0 \<or> x = 1"
proof -
  have "unat x \<le> 1 \<longleftrightarrow> unat x = 0 \<or> unat x = 1"
    by linarith
  then show ?thesis
    by (simp add: word_le_nat_alt word_unat_eq_iff)
qed

lemma u32_offset: "(v :: u32) - c \<le> 1 \<longleftrightarrow> v = c \<or> v = c + 1"
  by (auto simp: u32_le_1 algebra_simps)

lemma cmd_set_accepted:
  assumes "sscanf_mtd ops name = Some v" "v + word_of_int m \<le> 1"
  obtains u where "only_prints s u"
    "cmd_set ops desc name m what s = bindR (bc_ll_set_partition ops what (v + word_of_int m) u) (\<lambda>_ s.
       bindR (bc_ll_reread ops s) (\<lambda>_ s. bindR (print_config ops s) (\<lambda>_ s. Exit 0 s)))"
proof (rule that)
  let ?u = "printf ''   Writing to NAND...\<newline>'' [] (printf ''   Setting current %s to %s (%s partition #%u).\<newline>''
    [AStr desc, AStr name, AStr desc, AInt (uint (v + word_of_int m))] s)"
  show "only_prints s ?u"
    by (simp add: only_prints_def)
  show "cmd_set ops desc name m what s = bindR (bc_ll_set_partition ops what (v + word_of_int m) ?u) (\<lambda>_ s.
       bindR (bc_ll_reread ops s) (\<lambda>_ s. bindR (print_config ops s) (\<lambda>_ s. Exit 0 s)))"
    using assms(1) leD [OF assms(2)] by (simp add: cmd_set_def Let_def)
qed

lemma only_prints_same:
  assumes "only_prints s u"
  shows "wf_bc (bc u) = wf_bc (bc s)" "pages_ok view u = pages_ok view s"
    "synced view bad u = synced view bad s" "base_block u = base_block s" "skipped u = skipped s"
    "active u = active s"
  unfolding pages_ok_def synced_def synced_at_def base_block_def fun_eq_iff skipped_def
    active_def only_prints_simps [OF assms] by auto

text \<open>
  \<open>bootconfig set-kernel\<close> accepts exactly partitions 2 and 3 and \<open>set-rootfs\<close> exactly
  4 and 5: for a name that does not parse, or that names another number, the process exits
  with status 1, and the device and the configuration are untouched.
\<close>

theorem set_command_rejects:
  "((\<forall>v. sscanf_mtd ops name = Some v \<longrightarrow> v \<noteq> 2 \<and> v \<noteq> 3) \<longrightarrow>
      (\<exists>t. cmd_set ops ''kernel'' name (- 2) Kernel s = Exit 1 t \<and> only_prints s t))
   \<and> ((\<forall>v. sscanf_mtd ops name = Some v \<longrightarrow> v \<noteq> 4 \<and> v \<noteq> 5) \<longrightarrow>
      (\<exists>t. cmd_set ops ''rootfs'' name (- 4) Rootfs s = Exit 1 t \<and> only_prints s t))"
  using u32_offset [of _ 2] u32_offset [of _ 4]
  by (auto simp: cmd_set_def only_prints_def Let_def not_le split: option.split)
    (metis linorder_not_le)+

theorem set_command_rejects_witness:
  "\<exists>t. cmd_set (sim_ops [] []) ''kernel'' ''mtd4'' (- 2) Kernel (sim_state 5) = Exit 1 t
     \<and> only_prints (sim_state 5) t"
proof -
  have "sscanf_mtd (sim_ops [] []) ''mtd4'' = Some 4"
    by (simp add: sscanf_mtd_def scan_u_def is_space_def decimal_def digit_val_def)
  then show ?thesis
    using set_command_rejects [of "sim_ops [] []" "''mtd4''" "sim_state 5"] by simp
qed

text \<open>What follows the call of \<open>bc_ll_set_partition\<close> ends with status 0 and writes nothing.\<close>

lemma set_finish:
  fixes s :: "'w st"
  assumes ops: "ops_keep ops P A" and inplace: "reads_in_place ops" and ptr: "ptr_ok ops"
    and s: "initialised s" "wf_bc (bc s)"
  obtains t where
    "bindR (bc_ll_reread ops s) (\<lambda>_ s. bindR (print_config ops s) (\<lambda>_ s. Exit 0 s)) = (Exit 0 t :: ('w st, int) res)"
    "P (world s) \<longrightarrow> P (world t)"
proof -
  obtain r u where u: "bc_ll_reread ops s = Ret r u" "keeps P UNIV s u"
    using framed_reread [OF ops inplace ptr s] unfolding holds_return by blast
  have "initialised u" "wf_bc (bc u)"
    using s keeps_wf [OF u(2)] by (simp_all add: keeps_simps(3) [OF u(2)])
  then obtain t where "print_config ops u = Ret () t" "only_prints u t"
    by (rule print_config_Ret)
  then show ?thesis
    using that [of t] u keeps_simps(10) [OF u(2)] by (simp add: only_prints_simps)
qed

lemma cmd_set_keeps:
  fixes s :: "'w st"
  assumes ops: "ops_keep ops P (\<lambda>_. True)" and inplace: "reads_in_place ops" and ptr: "ptr_ok ops"
    and s: "initialised s" "wf_bc (bc s)"
    and name: "sscanf_mtd ops name = Some v" "v + word_of_int m \<le> 1"
  obtains t where "cmd_set ops desc name m what s = Exit 0 t" "P (world s) \<longrightarrow> P (world t)"
proof -
  obtain u where u: "only_prints s u"
    "cmd_set ops desc name m what s = bindR (bc_ll_set_partition ops what (v + word_of_int m) u) (\<lambda>_ s.
       bindR (bc_ll_reread ops s) (\<lambda>_ s. bindR (print_config ops s) (\<lambda>_ s. Exit 0 s)))"
    using cmd_set_accepted [OF name] .
  have u': "initialised u" "wf_bc (bc u)"
    using u(1) s by (simp_all add: only_prints_simps)
  obtain r t where t: "bc_ll_set_partition ops what (v + word_of_int m) u = Ret r t" "keeps P UNIV u t"
    using framed_set_partition [OF ops inplace ptr u' name(2), of what] unfolding holds_return by blast
  have t': "initialised t" "wf_bc (bc t)"
    using u' keeps_wf [OF t(2)] by (simp_all add: keeps_simps(3) [OF t(2)])
  obtain x where "bindR (bc_ll_reread ops t) (\<lambda>_ s. bindR (print_config ops s) (\<lambda>_ s. Exit 0 s)) = (Exit 0 x :: ('w st, int) res)"
    "P (world t) \<longrightarrow> P (world x)"
    using set_finish [OF ops inplace ptr t'] by metis
  then show ?thesis
    using u(2) t(1) keeps_simps(10) [OF t(2)] by (intro that [of x]) (simp_all add: only_prints_simps [OF u(1)])
qed

text \<open>
  C30: Once a partition name is accepted the process exits with status 0, whatever the
  device does: the result of \<open>bc_ll_set_partition\<close> is not looked at.
\<close>

theorem set_command_always_succeeds:
  assumes inplace: "reads_in_place ops" and ptr: "ptr_ok ops" and init: "initialised s"
    and wf: "wf_bc (bc s)" and name: "sscanf_mtd ops name = Some v" "v + word_of_int m \<le> 1"
  shows "\<exists>t. cmd_set ops desc name m what s = Exit 0 t"
  using cmd_set_keeps [OF ops_keep_True inplace ptr init wf name] by metis

theorem set_command_always_succeeds_witness:
  "\<exists>t. cmd_set ((sim_ops [] [])\<lparr>mtd_write_op := \<lambda>h i f k off page w. (- 1, w)\<rparr>)
     ''kernel'' (''mtd'' @ dec_string 3) (- 2) Kernel (sim_state 5) = Exit 0 t"
  using sim_reads_in_place [of "[]" "[]"] sim_ptr_ok [of "[]" "[]"]
  by (intro set_command_always_succeeds [where v = 3])
    (simp_all add: reads_in_place_def ptr_ok_def sscanf_mtd_def)

section \<open>From the command line to the flash\<close>

text \<open>The command that sets an image, and the number of the image's first partition.\<close>

definition set_command :: "bt_ll_parttype \<Rightarrow> string" where
  "set_command which = (case which of Kernel \<Rightarrow> ''set-kernel'' | Rootfs \<Rightarrow> ''set-rootfs'')"

definition first_mtd :: "bt_ll_parttype \<Rightarrow> nat" where
  "first_mtd which = (case which of Kernel \<Rightarrow> 2 | Rootfs \<Rightarrow> 4)"

lemma main_set:
  assumes "bc_ll_init ops ''/dev/mtd1'' s0 = Ret () s"
  shows "bootconfig_main ops [prog, set_command which, name] s0 =
    cmd_set ops (case which of Kernel \<Rightarrow> ''kernel'' | Rootfs \<Rightarrow> ''rootfs'') name
      (- int (first_mtd which)) which s"
  using assms by (cases which) (simp_all add: bootconfig_main_def set_command_def first_mtd_def Let_def)

lemma set_name:
  fixes which
  assumes p: "p \<le> 1"
  defines "v \<equiv> of_nat (first_mtd which + p) + word_of_int (- int (first_mtd which))"
  shows "sscanf_mtd ops (''mtd'' @ dec_string (first_mtd which + p)) = Some (of_nat (first_mtd which + p))"
    "v = (of_nat p :: u32)" "v \<le> 1"
proof -
  have "first_mtd which + p < 2 ^ 32"
    using p by (cases which) (simp_all add: first_mtd_def)
  then show "sscanf_mtd ops (''mtd'' @ dec_string (first_mtd which + p)) = Some (of_nat (first_mtd which + p))"
    by (rule sscanf_dec_string)
  show v: "v = of_nat p"
    by (simp add: v_def wi_hom_syms [symmetric])
  show "v \<le> 1"
    using p unfolding v by (cases "p = 0") (auto simp: le_Suc_eq)
qed

lemma cmd_set_works:
  assumes works: "works ops view bad" and ptr: "ptr_ok ops" and init: "initialised s"
    and wf: "wf_bc (bc s)" and pages: "pages_ok view s" and synced: "synced view bad s"
    and name: "sscanf_mtd ops name = Some v" "v + word_of_int m \<le> 1"
    and room: "k < ebs s" "k \<noteq> base_index (blks s)" "\<not> skipped s k" and max: "epoch (base_block s) \<noteq> - 1"
  obtains t where "cmd_set ops desc name m what s = Exit 0 t"
    "flash_config view bad (ebs s) (world t) = spec_set_partition what (v + word_of_int m) (active s)"
proof -
  obtain u where u: "only_prints s u"
    "cmd_set ops desc name m what s = bindR (bc_ll_set_partition ops what (v + word_of_int m) u) (\<lambda>_ s.
       bindR (bc_ll_reread ops s) (\<lambda>_ s. bindR (print_config ops s) (\<lambda>_ s. Exit 0 s)))"
    using cmd_set_accepted [OF name] .
  note su = only_prints_simps [OF u(1)] only_prints_same [OF u(1)]
  obtain r t now where t: "bc_ll_set_partition ops what (v + word_of_int m) u = Ret 0 t"
      "next_good (skipped u) (ebs u) (base_index (blks u)) r" "keeps (\<lambda>_. True) UNIV u t"
      "pages_ok view t" "synced view bad t"
      "flash_update view bad r
         (block_page u (next_block what (v + word_of_int m) now (base_block u))) u t"
    using set_partition_works [OF works ptr _ _ _ _ name(2), of u what] init wf pages synced room
    by (auto simp: su)
  have r: "r < ebs u" "\<not> bad (world u) r"
    using t(2) skipped_bad [of view bad u r] synced by (auto simp: next_good_def su)
  note new = new_block_current [OF t(5) _ t(3,6) _ r, unfolded su, OF synced wf max]
  have wt: "wf_bc (bc t)" "initialised t" "ebs t = ebs s"
    using keeps_wf [OF t(3)] wf init by (simp_all add: keeps_simps [OF t(3)] su)
  obtain q where q: "bc_ll_reread ops t = Ret (if \<forall>k<ebs t. bad (world t) k then - 1 else 0) q"
      "same_flash view bad UNIV t q" "synced view bad q"
    using reread_synced [OF works_reads [OF works] wt(1) t(4) wt(2) ptr] .
  have wq: "wf_bc (bc q)" "initialised q" "ebs q = ebs s"
    using keeps_wf [OF q(2) wt(1)] wt by (simp_all add: keeps_simps [OF q(2)])
  obtain p where p: "print_config ops q = Ret () p" "only_prints q p"
    using print_config_Ret [OF wq(2,1)] .
  have "flash_config view bad (ebs s) (world p) = flash_config view bad (ebs t) (world t)"
    using flash_config_cong [of view "world q" "world t" bad] same_flashD [OF q(2)]
    by (simp add: only_prints_simps [OF p(2)] flash_config_def fun_eq_iff wt)
  also have "\<dots> = active t"
    using flash_config_synced [OF t(5) wt(1)] by simp
  also have "\<dots> = spec_set_partition what (v + word_of_int m) (active s)"
    using new(2) by (simp add: active_current [OF new(1)] image_info_next)
      (simp add: active_def [abs_def])
  finally show ?thesis
    using u(2) t(1) q(1) p(1) by (intro that [of p]) simp
qed

lemma main_set_works:
  assumes works: "works ops view bad" and opens: "opens ops view bad n (world s)"
    and info: "dev_info_ok ops" and ptr: "ptr_ok ops" and p: "p \<le> 1"
    and room: "k < n" "k \<noteq> base_index (flash_blocks view bad n (world s))"
      "magic (flash_blocks view bad n (world s) ! k) \<noteq> MAGIC_BAD"
    and max: "epoch (config_block (flash_blocks view bad n (world s))) \<noteq> - 1"
  shows "\<exists>t. bootconfig_main ops [prog, set_command which, ''mtd'' @ dec_string (first_mtd which + p)] s
      = Exit 0 t
    \<and> flash_config view bad n (world t)
      = spec_set_partition which (of_nat p) (flash_config view bad n (world s))"
proof -
  have "\<not> bad (world s) k"
    using room by (auto simp: flash_blocks_def)
  then obtain u where u: "bc_ll_init ops ''/dev/mtd1'' s = Ret () u" "initialised u" "wf_bc (bc u)"
      "ebs u = n" "pages_ok view u" "synced view bad u" "steady view bad (world s) (world u)"
    using init_works [OF works opens info, of "''/dev/mtd1''"] room(1) by (auto split: if_splits)
  have same: "flash_blocks view bad n (world s) = flash_blocks view bad n (world u)"
    using flash_config_cong [of view "world u" "world s" bad] u(7) by (simp add: steady_def)
  note sy = synced_flash [OF u(6,3), unfolded u(4)]
  have "length (blks u) = n"
    using wf_bcD(1) [OF u(3)] u(4) by simp
  then have base: "base_index (flash_blocks view bad n (world u)) = base_index (blks u)"
    by (simp only: base_index_def sy(1) length_flash_blocks)
  have room': "k \<noteq> base_index (blks u)" "\<not> skipped u k" "epoch (base_block u) \<noteq> - 1"
    using room max sy(3) [OF room(1)] unfolding same base sy(2) skipped_def by simp_all
  have k: "k < ebs u"
    using room(1) u(4) by simp
  obtain t where "cmd_set ops (case which of Kernel \<Rightarrow> ''kernel'' | Rootfs \<Rightarrow> ''rootfs'')
        (''mtd'' @ dec_string (first_mtd which + p)) (- int (first_mtd which)) which u = Exit 0 t"
      "flash_config view bad (ebs u) (world t) = spec_set_partition which
        (of_nat (first_mtd which + p) + word_of_int (- int (first_mtd which))) (active u)"
    using cmd_set_works [OF works ptr u(2,3,5,6) set_name(1,3) [OF p] k room'] .
  moreover have "active u = flash_config view bad n (world s)"
    using flash_config_synced [OF u(6,3)] u(4) same by (simp add: flash_config_def fun_eq_iff)
  ultimately show ?thesis
    unfolding main_set [OF u(1)] set_name(2) [OF p] u(4) by auto
qed

text \<open>
  C11: \<open>bootconfig set-kernel mtd2\<close>, \<open>mtd3\<close> and \<open>bootconfig set-rootfs mtd4\<close>, \<open>mtd5\<close> on a
  working device with another good block: the process exits with status 0, and the
  configuration the boot loader finds on the flash is the old one with the image's entry
  set to that partition and its flags fresh.
\<close>

theorem main_set_command:
  assumes works: "works ops view bad" and opens: "opens ops view bad n (world s)"
    and info: "dev_info_ok ops" and ptr: "ptr_ok ops" and p: "p \<le> 1"
    and room: "k < n" "k \<noteq> base_index (flash_blocks view bad n (world s))"
      "magic (flash_blocks view bad n (world s) ! k) \<noteq> MAGIC_BAD"
    and max: "epoch (config_block (flash_blocks view bad n (world s))) \<noteq> - 1"
  shows "\<exists>t. bootconfig_main ops [prog, set_command which, ''mtd'' @ dec_string (first_mtd which + p)] s
      = Exit 0 t
    \<and> flash_config view bad n (world t)
      = spec_set_partition which (of_nat p) (flash_config view bad n (world s))"
  by (rule main_set_works [OF assms])

lemma sim_flash_blocks:
  "flash_blocks nand_view nand_bad 4 (sim_world 5) =
     [sim_block 4, sim_block 5, zero_block\<lparr>magic := MAGIC_BAD\<rparr>, page_block (replicate 32 0xFF)]"
  by (simp add: flash_blocks_def nand_view_def nand_bad_def sim_world_def upt_rec)

lemma sim_flash_current: "current_index (flash_blocks nand_view nand_bad 4 (sim_world 5)) = Some 1"
  by (simp add: sim_flash_blocks current_index_def sim_block_def blank_not_boot MAGIC_BOOT_def
      MAGIC_BAD_def)

theorem main_set_command_witness:
  "\<exists>t. bootconfig_main (sim_ops [] []) [''bootconfig'', ''set-kernel'', ''mtd'' @ dec_string 3]
      (blank_log (sim_world 5)) = Exit 0 t
    \<and> flash_config nand_view nand_bad 4 (world t)
      = spec_set_partition Kernel 1 (flash_config nand_view nand_bad 4 (sim_world 5))"
  using main_set_command [OF sim_works, of 4 "blank_log (sim_world 5)" 1 0 "''bootconfig''" Kernel]
    sim_opens [of "[]" "[]" 5]
  by (simp add: base_index_def config_block_def sim_flash_current set_command_def first_mtd_def)
    (simp add: sim_flash_blocks sim_block_def)

section \<open>The healthy commands\<close>

text \<open>\<open>_set_kernel_healthy\<close> and \<open>_set_rootfs_healthy\<close> are one function of the image they mark.\<close>

locale healthy_command = healthy_flag setter flag cleared
  for setter :: "'w env_ops \<Rightarrow> nat \<Rightarrow> 'w st \<Rightarrow> ('w st, int) res" and flag cleared +
  fixes command :: "'w env_ops \<Rightarrow> 'w st \<Rightarrow> ('w st, unit) res" and which :: bt_ll_parttype
  assumes command_code: "command ops s =
     bindR (bc_ll_get_current s) (\<lambda>bt s.
       case bt of
         None \<Rightarrow> Ret () (printf ''No current boot config.\<newline>'' [] s)
       | Some block_idx \<Rightarrow> bindR (get_block block_idx s) (\<lambda>bt s.
           if flag bt = 1 then bindR (setter ops block_idx s) (\<lambda>_ s. Ret () s) else Ret () s))"
    and flag_image: "flag b = n_healthy (image_info which b)"
    and cleared_image: "(\<lambda>i. image_info i (cleared b))
      = (\<lambda>i. image_info i b)(which := (image_info which b)\<lparr>n_healthy := 0\<rparr>)"
begin

lemma current_cleared:
  assumes cur: "current_index (blks s) = Some c" and k: "keeps (\<lambda>_. True) {c} s t"
    and c: "blks t ! c = cleared (blks s ! c)"
  shows "current_index (blks t) = Some c"
proof -
  have same: "is_boot (blks t ! j) = is_boot (blks s ! j)" "epoch (blks t ! j) = epoch (blks s ! j)" for j
    using c keeps_simps(9) [OF k, of j] by (cases "j = c"; simp add: is_boot_def)+
  show ?thesis
    using cur unfolding current_index_iff is_current_def same keeps_simps(2) [OF k] .
qed

lemma command_works:
  assumes works: "works ops view bad" and init: "initialised s" and wf: "wf_bc (bc s)"
    and pages: "pages_ok view s" and synced: "synced view bad s"
    and cur: "current_index (blks s) = Some c"
  obtains t where "command ops s = Ret () t" "initialised t" "wf_bc (bc t)" "ebs t = ebs s"
    "flash_config view bad (ebs s) (world t) = (active s)(which := (active s which)\<lparr>n_healthy := 0\<rparr>)"
proof (cases "flag (blks s ! c) = 1")
  case False
  then have flag: "n_healthy (active s which) = 0"
    using u1_cases [of "flag (blks s ! c)"] by (simp add: flag_image active_current [OF cur])
  then have same: "(active s which)\<lparr>n_healthy := 0\<rparr> = active s which"
    by (cases "active s which") simp
  have "command ops s = Ret () s"
    using False current_index_less [OF cur]
    by (simp add: command_code get_current_Ret [OF init wf] cur get_block_def)
  moreover have "flash_config view bad (ebs s) (world s) = (active s)(which := (active s which)\<lparr>n_healthy := 0\<rparr>)"
    using same by (simp add: flash_config_synced [OF synced wf])
  ultimately show ?thesis
    using that init wf by blast
next
  case True
  have c: "c < ebs s" "c < length (blks s)" "is_boot (blks s ! c)"
    using cur wf_bcD(1) [OF wf] by (simp_all add: current_index_iff is_current_def)
  then have good: "\<not> bad (world s) c"
    using synced by (auto simp: synced_def synced_at_def is_boot_def)
  obtain t where t: "setter ops c s = Ret 0 t" "synced view bad t" "keeps (\<lambda>_. True) {c} s t"
      "blks t ! c = cleared (blks s ! c)"
    using setter_works [OF works init wf pages synced c(1) good True] by metis
  have wt: "initialised t" "wf_bc (bc t)" "ebs t = ebs s"
    using init keeps_wf [OF t(3) wf] by (simp_all add: keeps_simps [OF t(3)])
  have "command ops s = Ret () t"
    using True c(2) t(1) by (simp add: command_code get_current_Ret [OF init wf] cur get_block_def)
  moreover have "active t = (active s)(which := (active s which)\<lparr>n_healthy := 0\<rparr>)"
    using cleared_image [of "blks s ! c"]
    by (simp add: active_current [OF cur] active_current [OF current_cleared [OF cur t(3,4)]] t(4))
  ultimately show ?thesis
    using that flash_config_synced [OF t(2) wt(2)] wt by simp
qed

end

interpretation kernel_command: healthy_command bc_ll_set_kernel_healthy "\<lambda>b. n_healthy (kernel b)"
    "\<lambda>b. b\<lparr>kernel := (kernel b)\<lparr>n_healthy := 0\<rparr>\<rparr>" cmd_set_kernel_healthy Kernel
  by unfold_locales
    (auto simp: cmd_set_kernel_healthy_def image_info_def fun_eq_iff split: bt_ll_parttype.splits)

interpretation rootfs_command: healthy_command bc_ll_set_rootfs_healthy "\<lambda>b. n_healthy (rootfs b)"
    "\<lambda>b. b\<lparr>rootfs := (rootfs b)\<lparr>n_healthy := 0\<rparr>\<rparr>" cmd_set_rootfs_healthy Rootfs
  by unfold_locales
    (auto simp: cmd_set_rootfs_healthy_def image_info_def fun_eq_iff split: bt_ll_parttype.splits)

definition healthy_argument :: "bt_ll_parttype \<Rightarrow> string" where
  "healthy_argument which =
     (case which of Kernel \<Rightarrow> ''set-kernel-healthy'' | Rootfs \<Rightarrow> ''set-rootfs-healthy'')"

text \<open>
  C14: \<open>bootconfig set-kernel-healthy\<close> and \<open>set-rootfs-healthy\<close> on a working device with a
  current boot block: the process exits with status 0, and the configuration the boot
  loader finds is the old one with the image's healthy flag set (the bit cleared) and
  nothing else changed.
\<close>

theorem main_healthy_command:
  assumes works: "works ops view bad" and opens: "opens ops view bad n (world s)"
    and info: "dev_info_ok ops"
    and cur: "current_index (flash_blocks view bad n (world s)) = Some c"
  shows "\<exists>t. bootconfig_main ops [prog, healthy_argument which] s = Exit 0 t
    \<and> flash_config view bad n (world t) = (flash_config view bad n (world s))
        (which := (flash_config view bad n (world s) which)\<lparr>n_healthy := 0\<rparr>)"
proof -
  have c: "c < n" "is_boot (flash_blocks view bad n (world s) ! c)"
    using cur by (simp_all add: current_index_iff is_current_def)
  then have "\<not> bad (world s) c"
    by (auto simp: flash_blocks_def is_boot_def)
  then obtain u where u: "bc_ll_init ops ''/dev/mtd1'' s = Ret () u" "initialised u" "wf_bc (bc u)"
      "ebs u = n" "pages_ok view u" "synced view bad u" "steady view bad (world s) (world u)"
    using init_works [OF works opens info, of "''/dev/mtd1''"] c(1) by (auto split: if_splits)
  have same: "flash_blocks view bad n (world s) = flash_blocks view bad n (world u)"
    using flash_config_cong [of view "world u" "world s" bad] u(7) by (simp add: steady_def)
  have cu: "current_index (blks u) = Some c"
    using cur synced_flash(1) [OF u(6,3)] u(4) same by simp
  have act: "active u = flash_config view bad n (world s)"
    using flash_config_synced [OF u(6,3)] u(4) same by (simp add: flash_config_def fun_eq_iff)
  define after where
    "after = (case which of Kernel \<Rightarrow> cmd_set_kernel_healthy ops u | Rootfs \<Rightarrow> cmd_set_rootfs_healthy ops u)"
  have "\<exists>t. after = Ret () t \<and> initialised t \<and> wf_bc (bc t)
      \<and> flash_config view bad n (world t) = (active u)(which := (active u which)\<lparr>n_healthy := 0\<rparr>)"
  proof (cases which)
    case Kernel
    then show ?thesis
      using kernel_command.command_works [OF works u(2,3,5,6) cu] by (simp add: after_def u(4)) metis
  next
    case Rootfs
    then show ?thesis
      using rootfs_command.command_works [OF works u(2,3,5,6) cu] by (simp add: after_def u(4)) metis
  qed
  then obtain t where t: "after = Ret () t" "initialised t" "wf_bc (bc t)"
      "flash_config view bad n (world t) = (active u)(which := (active u which)\<lparr>n_healthy := 0\<rparr>)"
    by blast
  obtain q where q: "print_config ops t = Ret () q" "only_prints t q"
    using print_config_Ret [OF t(2,3)] .
  have "bootconfig_main ops [prog, healthy_argument which] s = Exit 0 q"
    using u(1) t(1) q(1)
    by (cases which) (simp_all add: bootconfig_main_def healthy_argument_def after_def Let_def)
  then show ?thesis
    using t(4) by (auto simp: only_prints_simps [OF q(2)] act)
qed

theorem main_healthy_command_witness:
  "\<exists>t. bootconfig_main (sim_ops [] []) [''bootconfig'', ''set-rootfs-healthy''] (blank_log (sim_world 5))
      = Exit 0 t
    \<and> flash_config nand_view nand_bad 4 (world t) = (flash_config nand_view nand_bad 4 (sim_world 5))
        (Rootfs := (flash_config nand_view nand_bad 4 (sim_world 5) Rootfs)\<lparr>n_healthy := 0\<rparr>)"
  using main_healthy_command [OF sim_works, of 4 "blank_log (sim_world 5)" 1 "''bootconfig''" Rootfs]
    sim_opens [of "[]" "[]" 5]
  by (simp add: sim_flash_current healthy_argument_def)

end
