(* ===== verification/Power_Cut.thy ===== *)
theory Power_Cut
  imports Flash_Config Sim_Nand
begin

text \<open>
  The power may fail at any call of \<open>bc_ll_set_partition\<close>. The flash then holds the old
  configuration or the new one: the new block is written to a page of its own, which no
  boot block is read from until it has been written.
\<close>

section \<open>A device that loses power\<close>

text \<open>
  A device as in \<open>works\<close> until it is dead, which it stays. A dead device changes nothing;
  the call during which it dies is done or not done, and may return anything. A page is
  programmed as a whole or not at all.
\<close>

definition passes ::
  "('w \<Rightarrow> nat \<Rightarrow> u8 list) \<Rightarrow> ('w \<Rightarrow> nat \<Rightarrow> bool) \<Rightarrow> ('w \<Rightarrow> bool) \<Rightarrow> 'w \<Rightarrow> 'w \<Rightarrow> bool" where
  "passes view bad dead w w1 \<longleftrightarrow> steady view bad w w1 \<and> (dead w \<longrightarrow> dead w1)"

definition alters ::
  "('w \<Rightarrow> nat \<Rightarrow> u8 list) \<Rightarrow> ('w \<Rightarrow> nat \<Rightarrow> bool) \<Rightarrow> ('w \<Rightarrow> bool) \<Rightarrow> nat \<Rightarrow> u8 list \<Rightarrow> 'w \<Rightarrow> int \<times> 'w \<Rightarrow> bool" where
  "alters view bad dead k page w r \<longleftrightarrow>
     dead (snd r) \<and> steady view bad w (snd r)
   \<or> bad (snd r) = bad w \<and> view (snd r) = (view w)(k := page) \<and> (dead (snd r) \<or> fst r = 0)"

definition power_cut ::
  "'w env_ops \<Rightarrow> ('w \<Rightarrow> nat \<Rightarrow> u8 list) \<Rightarrow> ('w \<Rightarrow> nat \<Rightarrow> bool) \<Rightarrow> ('w \<Rightarrow> bool) \<Rightarrow> bool" where
  "power_cut ops view bad dead \<longleftrightarrow>
     (\<forall>d w. passes view bad dead w (snd (open_op ops d w)))
   \<and> (\<forall>w. passes view bad dead w (snd (libmtd_open_op ops w)))
   \<and> (\<forall>h d w. passes view bad dead w (snd (snd (mtd_get_dev_info_op ops h d w))))
   \<and> (\<forall>i f k w. passes view bad dead w (snd (mtd_is_bad_op ops i f k w)))
   \<and> (\<forall>i f k w. dead (snd (mtd_is_bad_op ops i f k w)) \<or> bad w k \<or> fst (mtd_is_bad_op ops i f k w) = 0)
   \<and> (\<forall>i f k off buf w. passes view bad dead w (snd (snd (mtd_read_op ops i f k off buf w))))
   \<and> (\<forall>h i f k w. dead w \<longrightarrow> passes view bad dead w (snd (mtd_erase_op ops h i f k w)))
   \<and> (\<forall>h i f k w. \<not> bad w k \<longrightarrow>
        alters view bad dead k (replicate (length (view w k)) 0xFF) w (mtd_erase_op ops h i f k w))
   \<and> (\<forall>h i f k off page w. dead w \<longrightarrow> passes view bad dead w (snd (mtd_write_op ops h i f k off page w)))
   \<and> (\<forall>h i f k off page w. \<not> bad w k \<longrightarrow> length page = length (view w k) \<longrightarrow>
        alters view bad dead k (program_page page (view w k)) w (mtd_write_op ops h i f k off page w))
   \<and> (\<forall>n w. passes view bad dead w (snd (malloc_op ops n w)))
   \<and> (\<forall>n w. dead (snd (malloc_op ops n w)) \<or> fst (malloc_op ops n w))
   \<and> (\<forall>w. passes view bad dead w (snd (time_op ops w)))"

text \<open>Nothing but erasing and writing changes the flash, and on a dead device nothing does.\<close>

abbreviation flash_is ::
  "('w \<Rightarrow> nat \<Rightarrow> u8 list) \<Rightarrow> ('w \<Rightarrow> nat \<Rightarrow> bool) \<Rightarrow> (nat \<Rightarrow> u8 list) \<Rightarrow> (nat \<Rightarrow> bool) \<Rightarrow> 'w \<Rightarrow> bool" where
  "flash_is view bad v b w \<equiv> view w = v \<and> bad w = b"

lemma power_cut_keeps:
  assumes "power_cut ops view bad dead"
  shows "ops_keep ops (flash_is view bad v b) (\<lambda>_. False)"
    and "ops_keep ops (\<lambda>w. dead w \<and> flash_is view bad v b w) (\<lambda>_. True)"
  using assms by (auto simp: ops_keep_def power_cut_def passes_def steady_def)

lemma power_cut_malloc:
  assumes "power_cut ops view bad dead" "malloc_op ops n w = (ok, w1)"
  shows "steady view bad w w1 \<and> (dead w \<longrightarrow> dead w1) \<and> (dead w1 \<or> ok)"
  using assms unfolding power_cut_def passes_def by (metis fst_conv snd_conv)

lemma power_cut_check:
  assumes "power_cut ops view bad dead" "mtd_is_bad_op ops i f k w = (e, w1)"
  shows "steady view bad w w1 \<and> (dead w \<longrightarrow> dead w1) \<and> (dead w1 \<or> bad w k \<or> e = 0)"
  using assms unfolding power_cut_def passes_def by (metis fst_conv snd_conv)

lemma power_cut_erase:
  assumes "power_cut ops view bad dead" "mtd_erase_op ops h i f k w = (e, w1)" "\<not> bad w k"
  shows "alters view bad dead k (replicate (length (view w k)) 0xFF) w (e, w1)"
  using assms unfolding power_cut_def by metis

lemma power_cut_write:
  assumes "power_cut ops view bad dead" "mtd_write_op ops h i f k off page w = (e, w1)"
  shows "dead w \<Longrightarrow> dead w1 \<and> steady view bad w w1"
    and "\<not> bad w k \<Longrightarrow> length page = length (view w k) \<Longrightarrow>
      alters view bad dead k (program_page page (view w k)) w (e, w1)"
  using assms unfolding power_cut_def passes_def by (metis snd_conv, metis)

section \<open>Writing one block\<close>

lemma cut_check_block:
  assumes cut: "power_cut ops view bad dead" and i: "i < length (blks s)"
  obtains r t where "check_block ops i s = Ret r t" "keeps (\<lambda>_. True) {i} s t"
    "r = 0 \<Longrightarrow> keeps (\<lambda>_. True) {} s t" "steady view bad (world s) (world t)"
    "dead (world s) \<Longrightarrow> dead (world t)" "dead (world t) \<or> bad (world s) i \<or> r = 0"
proof -
  obtain e w where e: "mtd_is_bad_op ops (info (bc s)) (fd (bc s)) i (world s) = (e, w)"
    by fastforce
  note w = power_cut_check [OF cut e]
  have "holds (check_block ops i s) (\<lambda>r t. keeps (\<lambda>_. True) {i} s t
      \<and> (r = 0 \<longrightarrow> keeps (\<lambda>_. True) {} s t) \<and> world t = w \<and> (r = 0 \<longleftrightarrow> e = 0)) (\<lambda>_ _. False)"
    using e i by (auto simp: check_block_def get_block_def put_block_def wf_block_def list_all_nthD
        Let_def intro!: frame_intros)
  then show ?thesis
    using w that unfolding holds_return by blast
qed

text \<open>The page of block \<open>i\<close> is as it was, erased or written, and no other page has changed.\<close>

definition torn ::
  "('w \<Rightarrow> nat \<Rightarrow> u8 list) \<Rightarrow> ('w \<Rightarrow> nat \<Rightarrow> bool) \<Rightarrow> ('w \<Rightarrow> bool) \<Rightarrow> nat \<Rightarrow> u8 list \<Rightarrow> 'w \<Rightarrow> int \<Rightarrow> 'w \<Rightarrow> bool" where
  "torn view bad dead i page w e w1 \<longleftrightarrow> bad w1 = bad w
   \<and> (dead w1 \<and> view w1 \<in> {view w, (view w)(i := replicate (length (view w i)) 0xFF), (view w)(i := page)}
    \<or> e = 0 \<and> view w1 = (view w)(i := page))"

lemma torn_unchanged: "dead w1 \<Longrightarrow> steady view bad w w1 \<Longrightarrow> torn view bad dead i page w e w1"
  by (simp add: torn_def steady_def)

lemma cut_erase_write:
  assumes cut: "power_cut ops view bad dead" and good: "\<not> bad w i"
    and len: "length page = length (view w i)"
    and e: "mtd_erase_op ops h j f i w = (e, w1)" and m: "malloc_op ops n w1 = (ok, w2)"
    and wr: "mtd_write_op ops h j f i 0 page w2 = (e3, w3)"
  shows "e < 0 \<Longrightarrow> torn view bad dead i page w x w1"
    and "\<not> ok \<Longrightarrow> torn view bad dead i page w x w2"
    and "torn view bad dead i page w (if e3 < 0 then 1 else 0) w3"
proof -
  let ?ff = "replicate (length (view w i)) (0xFF :: u8)"
  have er: "dead w1 \<and> steady view bad w w1 \<or> bad w1 = bad w \<and> view w1 = (view w)(i := ?ff) \<and> (dead w1 \<or> e = 0)"
    using power_cut_erase [OF cut e good] by (simp add: alters_def)
  note ma = power_cut_malloc [OF cut m]
  show "e < 0 \<Longrightarrow> torn view bad dead i page w x w1"
    using er by (auto simp: torn_def steady_def)
  show "\<not> ok \<Longrightarrow> torn view bad dead i page w x w2"
    using er ma by (auto simp: torn_def steady_def)
  show "torn view bad dead i page w (if e3 < 0 then 1 else 0) w3"
  proof (cases "dead w2")
    case True
    then show ?thesis
      using power_cut_write(1) [OF cut wr] er ma by (auto simp: torn_def steady_def)
  next
    case False
    then have v2: "view w2 = (view w)(i := ?ff)" "bad w2 = bad w"
      using er ma by (auto simp: steady_def)
    have "alters view bad dead i (program_page page (view w2 i)) w2 (e3, w3)"
      using power_cut_write(2) [OF cut wr] v2 good len by simp
    moreover have "program_page page (view w2 i) = page"
      using len by (simp add: v2 program_erased flip: len)
    ultimately show ?thesis
      using v2 by (auto simp: alters_def torn_def steady_def)
  qed
qed

lemma set_world_twice: "set_world w (set_world w' s) = set_world w s"
  by (simp add: set_world_def)

lemma cut_do_write:
  assumes cut: "power_cut ops view bad dead" and good: "\<not> bad (world s) i" and wf: "wf_bc (bc s)"
    and i: "i < ebs s" and pages: "pages_ok view s"
  obtains r t where "do_write_bootblock ops i s = Ret r t" "keeps (\<lambda>_. True) {} s t"
    "torn view bad dead i (block_page s (blks s ! i)) (world s) r (world t)"
proof -
  let ?page = "block_page s (blks s ! i)"
  have len: "length ?page = length (view (world s) i)"
    using pages i wf by (simp add: pages_ok_def length_block_page wf_bc_nth)
  obtain e w1 where e: "mtd_erase_op ops (mtd (bc s)) (info (bc s)) (fd (bc s)) i (world s) = (e, w1)"
    by fastforce
  obtain ok w2 where m: "malloc_op ops (min_io_size (info (bc s))) w1 = (ok, w2)"
    by fastforce
  obtain e3 w3 where wr: "mtd_write_op ops (mtd (bc s)) (info (bc s)) (fd (bc s)) i 0 ?page w2 = (e3, w3)"
    by fastforce
  note out = cut_erase_write [OF cut good len e m wr]
  consider "e < 0" | "\<not> e < 0" "\<not> ok" | "\<not> e < 0" "ok"
    by blast
  then show ?thesis
  proof cases
    case 1
    then show ?thesis
      using e out(1) by (intro that [of 1 "set_world w1 s"]) (simp_all add: do_write_bootblock_def frame_intros)
  next
    case 2
    then show ?thesis
      using e m out(2)
      by (intro that [of "-1" "snd (malloc_page ops (set_world w1 s))"])
        (simp_all add: do_write_bootblock_def malloc_page_def frame_intros)
  next
    case 3
    then show ?thesis
      using e m wr out(3) i wf_bcD(1,5) [OF wf]
      by (intro that [of "if e3 < 0 then 1 else 0" "set_world w3 s"])
        (simp_all add: do_write_bootblock_def malloc_page_def fill_page_Ret write_page_def block_page_def
          Let_def set_world_twice frame_intros)
  qed
qed

lemma torn_good: "torn view bad dead i page w e w1 \<Longrightarrow> e \<noteq> 0 \<Longrightarrow> dead w1"
  by (auto simp: torn_def)

lemma torn_later:
  "torn view bad dead i page w e w1 \<Longrightarrow> steady view bad w1 w2 \<Longrightarrow> (dead w1 \<Longrightarrow> dead w2) \<Longrightarrow>
     torn view bad dead i page w e w2"
  by (auto simp: torn_def steady_def)

lemma torn_dead: "torn view bad dead i page w e w1 \<Longrightarrow> dead w1 \<Longrightarrow> torn view bad dead i page w e2 w1"
  by (auto simp: torn_def)

lemma torn_after: "steady view bad u v \<Longrightarrow> torn view bad dead i page v e w \<Longrightarrow> torn view bad dead i page u e w"
  by (auto simp: torn_def steady_def)

lemma cut_write_errorcheck:
  assumes cut: "power_cut ops view bad dead" and good: "\<not> bad (world s) i" and wf: "wf_bc (bc s)"
    and i: "i < ebs s" and pages: "pages_ok view s"
  obtains r t where "write_errorcheck_bootblock ops i s = Ret r t" "keeps (\<lambda>_. True) {i} s t"
    "torn view bad dead i (block_page s (blks s ! i)) (world s) r (world t)"
proof -
  let ?page = "block_page s (blks s ! i)"
  have len: "i < length (blks s)"
    using i wf_bcD(1) [OF wf] by simp
  obtain e u where u: "check_block ops i s = Ret e u" "keeps (\<lambda>_. True) {i} s u"
    "e = 0 \<Longrightarrow> keeps (\<lambda>_. True) {} s u" "steady view bad (world s) (world u)"
    "dead (world u) \<or> bad (world s) i \<or> e = 0"
    using cut_check_block [OF cut len] by metis
  show ?thesis
  proof (cases "e = 0")
    case False
    then show ?thesis
      using u good
      by (intro that [of e u]) (auto simp: write_errorcheck_bootblock_def intro: torn_unchanged)
  next
    case True
    note ku = u(3) [OF True]
    have u': "\<not> bad (world u) i" "wf_bc (bc u)" "i < ebs u" "pages_ok view u" "block_page u (blks u ! i) = ?page"
      using good pages i u(4) keeps_wf [OF ku wf] ku
      by (simp_all add: pages_ok_def steady_def keeps_simps block_page_def)
    obtain r v where v: "do_write_bootblock ops i u = Ret r v" "keeps (\<lambda>_. True) {} u v"
      "torn view bad dead i ?page (world u) r (world v)"
      using cut_do_write [OF cut u'(1-4)] u'(5) by metis
    have kv: "keeps (\<lambda>_. True) {i} s v"
      using keeps_trans [OF u(2) v(2)] by simp
    have tv: "torn view bad dead i ?page (world s) r (world v)"
      by (rule torn_after [OF u(4) v(3)])
    show ?thesis
    proof (cases "r = 1")
      case False
      then show ?thesis
        using True u(1) v(1) kv tv
        by (intro that [of r "if r \<noteq> 0 then bc_log LOG_ERR ''Error #%d while erasing / writing block %d on %s: %s.\<newline>''
            [AInt (errno_op ops (world v)), AInt (int i), AStr (dev (bc v)), AErr (errno_op ops (world v))] v else v"])
          (auto simp: write_errorcheck_bootblock_def Let_def frame_intros)
    next
      case r: True
      then have d: "dead (world v)"
        using torn_good [OF tv] by simp
      have "i < length (blks v)"
        using len keeps_simps(2) [OF kv] by simp
      then obtain e2 x where x: "check_block ops i v = Ret e2 x" "keeps (\<lambda>_. True) {i} v x"
        "steady view bad (world v) (world x)" "dead (world x)"
        using cut_check_block [OF cut, of i v] d by metis
      have kx: "keeps (\<lambda>_. True) {i} s x"
        by (rule keeps_trans_same [OF kv x(2)])
      have "torn view bad dead i ?page (world s) 1 (world x)"
        using tv x(3,4) d by (auto simp: torn_def steady_def)
      moreover obtain sev fmt args where
        "write_errorcheck_bootblock ops i s = Ret 1 (bc_log sev fmt args x)"
        using True r u(1) v(1) x(1) by (cases "e2 = 1") (auto simp: write_errorcheck_bootblock_def Let_def)
      ultimately show ?thesis
        using kx by (intro that [of 1 "bc_log sev fmt args x"]) (simp_all add: frame_intros)
    qed
  qed
qed

section \<open>The loop over the following blocks\<close>

lemma cut_update:
  assumes cut: "power_cut ops view bad dead" and wf: "wf_bc (bc s)" and i: "i < ebs s"
    and prev: "prev < ebs s" and pages: "pages_ok view s"
    and good: "\<not> bad (world s) i" "magic (blks s ! i) \<noteq> MAGIC_BAD"
  obtains r t now where "update_bootblock ops which p prev i s = Ret r t" "keeps (\<lambda>_. True) {i} s t"
    "torn view bad dead i (block_page s (next_block which p now (blks s ! prev))) (world s) r (world t)"
proof -
  obtain now w where now: "time_op ops (world s) = (now, w)"
    by fastforce
  have steady: "steady view bad (world s) w"
    using cut now unfolding power_cut_def passes_def by (metis snd_conv)
  let ?b = "next_block which p now (blks s ! prev)"
  let ?u = "set_blocks ((blks s)[i := ?b]) (set_world w s)"
  have len: "i < length (blks s)" "prev < length (blks s)"
    using i prev wf_bcD(1) [OF wf] by simp_all
  have u: "keeps (\<lambda>_. True) {i} s ?u"
    using len by (auto intro!: frame_intros simp: list_all_nthD)
  have u': "\<not> bad (world ?u) i" "wf_bc (bc ?u)" "i < ebs ?u" "pages_ok view ?u"
    using good i pages steady keeps_wf [OF u wf] by (simp_all add: pages_ok_def steady_def)
  have page: "block_page ?u (blks ?u ! i) = block_page s ?b"
    using len by (simp add: block_page_def)
  obtain r t where t: "write_errorcheck_bootblock ops i ?u = Ret r t" "keeps (\<lambda>_. True) {i} ?u t"
    "torn view bad dead i (block_page s ?b) (world ?u) r (world t)"
    using cut_write_errorcheck [OF cut u', unfolded page] by metis
  have "torn view bad dead i (block_page s ?b) (world s) r (world t)"
    using torn_after [OF steady] t(3) by simp
  moreover have "update_bootblock ops which p prev i s = Ret r t"
    using t(1) now len good(2) by (simp add: update_bootblock_def get_block_def put_block_def)
  ultimately show ?thesis
    using that keeps_trans_same [OF u t(2)] by blast
qed

text \<open>
  Where the loop leaves the flash: untouched and no block found, or one good block torn,
  in which case it is only written completely when the device is still alive.
\<close>

definition cut_at ::
  "('w \<Rightarrow> nat \<Rightarrow> u8 list) \<Rightarrow> ('w \<Rightarrow> nat \<Rightarrow> bool) \<Rightarrow> ('w \<Rightarrow> bool) \<Rightarrow> bt_ll_parttype \<Rightarrow> u32 \<Rightarrow> nat \<Rightarrow> nat \<Rightarrow>
     btblock \<Rightarrow> 'w st \<Rightarrow> bool \<Rightarrow> 'w \<Rightarrow> bool" where
  "cut_at view bad dead which p n cur b s found w \<longleftrightarrow>
     \<not> found \<and> steady view bad (world s) w
   \<or> (\<exists>i now. i < n \<and> i \<noteq> cur \<and> \<not> bad (world s) i
        \<and> torn view bad dead i (block_page s (next_block which p now b)) (world s)
            (if found then 0 else 1) w)"

lemma cut_set_loop:
  "power_cut ops view bad dead \<Longrightarrow> wf_bc (bc s) \<Longrightarrow> pages_ok view s \<Longrightarrow> n = ebs s \<Longrightarrow> cur < n \<Longrightarrow> new < n \<Longrightarrow>
     (\<forall>k<n. k \<noteq> cur \<longrightarrow> bad (world s) k \<longrightarrow> skipped s k) \<Longrightarrow>
     \<exists>r t. set_loop ops which p n cur new s = Ret r t \<and> keeps (\<lambda>_. True) (- {cur}) s t
        \<and> cut_at view bad dead which p n cur (blks s ! cur) s (r \<noteq> cur) (world t)"
proof (induction ops which p n cur new s rule: set_loop.induct)
  case (1 ops which p n cur new s)
  let ?next = "(new + 1) mod n"
  note cut = "1.prems"(1)
  show ?case
  proof (cases "new = cur")
    case True
    then show ?thesis
      by (simp add: keeps_refl cut_at_def)
  next
    case new: False
    note step = set_loop_next [OF new "1.prems"(5,6), of ops which p s]
    have lt: "?next < n"
      using "1.prems"(6) by simp
    have len: "new < length (blks s)" "cur < length (blks s)"
      using "1.prems" by (simp_all add: wf_bcD)
    show ?thesis
    proof (cases "skipped s new")
      case True
      obtain u where u: "update_bootblock ops which p cur new s = Ret (-1) u"
        "keeps (\<lambda>w. w = world s) {} s u"
        using update_skips [of s new cur ops which p "\<lambda>w. w = world s"] len True
        by (auto simp: skipped_def)
      have wu: "world u = world s"
        using keeps_simps(10) [OF u(2)] by simp
      have bl: "blks u ! k = blks s ! k" for k
        using keeps_simps(9) [OF u(2)] by simp
      have prems: "wf_bc (bc u)" "pages_ok view u" "n = ebs u"
          "\<forall>k<n. k \<noteq> cur \<longrightarrow> bad (world u) k \<longrightarrow> skipped u k"
        using "1.prems" keeps_wf [OF u(2)] by (simp_all add: pages_ok_def keeps_simps [OF u(2)] wu skipped_def bl)
      obtain r t where t: "set_loop ops which p n cur ?next u = Ret r t" "keeps (\<lambda>_. True) (- {cur}) u t"
        "cut_at view bad dead which p n cur (blks u ! cur) u (r \<noteq> cur) (world t)"
        using "1.IH" [of "- 1" u] cut new lt "1.prems"(5,6) prems by auto
      have "keeps (\<lambda>_. True) (- {cur}) s t"
        using u(2) t(2) by (auto simp: keeps_def)
      moreover have "cut_at view bad dead which p n cur (blks s ! cur) s (r \<noteq> cur) (world t)"
        using t(3) keeps_simps(1) [OF u(2)] by (simp add: cut_at_def wu bl block_page_def)
      ultimately show ?thesis
        using t(1) by (auto simp: step u)
    next
      case False
      then have good: "\<not> bad (world s) new" "magic (blks s ! new) \<noteq> MAGIC_BAD"
        using "1.prems"(6,7) new by (auto simp: skipped_def)
      obtain r u now where u: "update_bootblock ops which p cur new s = Ret r u" "keeps (\<lambda>_. True) {new} s u"
        "torn view bad dead new (block_page s (next_block which p now (blks s ! cur))) (world s) r (world u)"
        using cut_update [OF cut "1.prems"(2) _ _ "1.prems"(3) good, of cur which p] "1.prems"(4-6) by metis
      have ku: "keeps (\<lambda>_. True) (- {cur}) s u"
        using new by (intro keeps_mono [OF u(2)]) simp
      show ?thesis
      proof (cases "r = 0")
        case True
        then have "cut_at view bad dead which p n cur (blks s ! cur) s True (world u)"
          using u(3) new "1.prems"(6) good(1) unfolding cut_at_def by auto
        then show ?thesis
          using True u(1) ku new by (auto simp: step)
      next
        case False
        note d = torn_good [OF u(3) False]
        let ?P = "\<lambda>w. dead w \<and> flash_is view bad (view (world u)) (bad (world u)) w"
        have "holds (set_loop ops which p n cur ?next u)
            (\<lambda>r t. keeps ?P (- {cur}) u t \<and> r < n) (\<lambda>_ _. False)"
          using "1.prems" lt keeps_wf [OF u(2)]
          by (intro framed_set_loop [OF power_cut_keeps(2) [OF cut]]) (simp_all add: keeps_simps [OF u(2)])
        then obtain r' t where t: "set_loop ops which p n cur ?next u = Ret r' t" "keeps ?P (- {cur}) u t"
          unfolding holds_return by blast
        have "dead (world t)" "steady view bad (world u) (world t)"
          using keeps_simps(10) [OF t(2)] d by (simp_all add: steady_def)
        then have "torn view bad dead new (block_page s (next_block which p now (blks s ! cur))) (world s)
            (if r' \<noteq> cur then 0 else 1) (world t)"
          by (intro torn_dead [OF torn_later [OF u(3)]])
        then have "cut_at view bad dead which p n cur (blks s ! cur) s (r' \<noteq> cur) (world t)"
          using new "1.prems"(6) good(1) unfolding cut_at_def by blast
        moreover have "keeps (\<lambda>_. True) (- {cur}) s t"
          using ku t(2) by (auto simp: keeps_def)
        ultimately show ?thesis
          using False t(1) by (auto simp: step u(1))
      qed
    qed
  qed
qed

section \<open>The configuration while a page is torn\<close>

lemma flash_blocks_page:
  "view w1 = (view w)(i := page) \<Longrightarrow> bad w1 = bad w \<Longrightarrow> \<not> bad w i \<Longrightarrow> i < n \<Longrightarrow>
     flash_blocks view bad n w1 = (flash_blocks view bad n w)[i := page_block page]"
  by (intro nth_equalityI) (auto simp: flash_blocks_def nth_list_update)

lemma erased_magic:
  assumes "SIZEOF_BTBLOCK \<le> m"
  shows "magic (page_block (replicate m 0xFF)) \<notin> {MAGIC_BOOT, MAGIC_BAD}"
proof -
  have "magic (page_block (replicate m 0xFF)) = replicate 4 0xFF"
    using assms by (simp add: page_block_def bytes_btblock_def SIZEOF_BTBLOCK_def min_def)
  moreover have "replicate 4 (0xFF :: u8) = [0xFF, 0xFF, 0xFF, 0xFF]"
    by (simp add: numeral_eq_Suc)
  ultimately show ?thesis
    by (simp add: MAGIC_BOOT_def MAGIC_BAD_def)
qed

lemma current_drop:
  assumes b: "\<not> is_boot b" and i: "i \<noteq> base_index bs" "i < length bs"
  shows "current_index (bs[i := b]) = current_index bs"
proof (cases "current_index bs")
  case None
  then have "current_index (bs[i := b]) = None"
    using b i(2) by (auto simp: current_index_None_iff nth_list_update)
  with None show ?thesis
    by simp
next
  case (Some c)
  then have c: "is_current bs c" "i \<noteq> c"
    using i(1) is_current_index [OF Some] by (simp_all add: base_index_def)
  have "is_current (bs[i := b]) c"
    using c b i(2) by (auto simp: is_current_def nth_list_update)
  with Some show ?thesis
    by (simp add: current_index_iff [symmetric])
qed

lemma config_drop:
  assumes "\<not> is_boot b" "i \<noteq> base_index bs" "i < length bs"
  shows "config_block (bs[i := b]) = config_block bs" "base_index (bs[i := b]) = base_index bs"
  using current_drop [OF assms] assms(2)
  by (auto simp: config_block_def base_index_def split: option.splits)

lemma current_newer:
  assumes b: "is_boot b" "epoch (config_block bs) < epoch b" and i: "i < length bs"
  shows "current_index (bs[i := b]) = Some i"
proof (cases "current_index bs")
  case None
  then have "\<forall>j<length bs. is_boot (bs ! j) \<longrightarrow> epoch (bs ! j) = 0"
    by (simp add: current_index_None_iff)
  moreover have "0 < epoch b"
    by (rule order.strict_trans1 [OF word_coorder.extremum b(2)])
  ultimately have "is_current (bs[i := b]) i"
    using b(1) i by (auto simp: is_current_def nth_list_update)
  then show ?thesis
    by (simp add: current_index_iff)
next
  case (Some c)
  then have "is_current (bs[i := b]) i"
    using b i is_current_index [OF Some] by (intro is_current_update [of bs c]) (simp_all add: config_block_def)
  then show ?thesis
    by (simp add: current_index_iff)
qed

lemma config_newer:
  assumes "is_boot b" "epoch (config_block bs) < epoch b" "i < length bs"
  shows "config_block (bs[i := b]) = b"
  using current_newer [OF assms] assms(3) by (simp add: config_block_def)

lemma cut_at_after:
  "cut_at view bad dead which p n cur b s found w \<Longrightarrow> steady view bad w w1 \<Longrightarrow> (dead w \<Longrightarrow> dead w1) \<Longrightarrow>
     cut_at view bad dead which p n cur b s found w1"
  unfolding cut_at_def using torn_later [of view bad dead _ _ _ _ w w1] steady_trans [of view bad _ w w1]
  by blast

lemma cut_set_partition:
  assumes cut: "power_cut ops view bad dead" and inplace: "reads_in_place ops" and ptr: "ptr_ok ops"
    and init: "initialised s" and wf: "wf_bc (bc s)" and pages: "pages_ok view s"
    and synced: "synced view bad s" and p: "p \<le> 1"
  obtains r t where "bc_ll_set_partition ops which p s = Ret r t"
    "cut_at view bad dead which p (ebs s) (base_index (blks s)) (base_block s) s (r = 0) (world t)"
proof -
  let ?cur = "base_index (blks s)" and ?b = "base_state s" and ?n = "ebs s"
  note eq = set_partition_eq [OF init wf p, of ops which]
  have kb: "keeps (\<lambda>w. w = world s) {?cur} s ?b"
    using wf by (rule keeps_base_state)
  note kbs = keeps_simps [OF kb]
  have wb: "world ?b = world s"
    using kbs(10) by simp
  have "\<forall>k<?n. k \<noteq> ?cur \<longrightarrow> bad (world ?b) k \<longrightarrow> skipped ?b k"
    using synced base_state_other [OF _ wf] by (auto simp: wb skipped_def synced_def synced_at_def)
  then have "\<exists>r t. set_loop ops which p ?n ?cur ((?cur + 1) mod ?n) ?b = Ret r t
      \<and> keeps (\<lambda>_. True) (- {?cur}) ?b t
      \<and> cut_at view bad dead which p ?n ?cur (blks ?b ! ?cur) ?b (r \<noteq> ?cur) (world t)"
    using base_index_lt [OF wf] pages
    by (intro cut_set_loop [OF cut keeps_wf [OF kb wf]]) (simp_all add: pages_ok_def kbs wb)
  then obtain r t where t: "set_loop ops which p ?n ?cur ((?cur + 1) mod ?n) ?b = Ret r t"
    "keeps (\<lambda>_. True) (- {?cur}) ?b t"
    "cut_at view bad dead which p ?n ?cur (blks ?b ! ?cur) ?b (r \<noteq> ?cur) (world t)"
    by blast
  have at: "cut_at view bad dead which p ?n ?cur (base_block s) s (r \<noteq> ?cur) (world t)"
    using t(3) by (simp add: cut_at_def wb block_page_def kbs base_state_block [OF wf])
  show ?thesis
  proof (cases "r = ?cur")
    case True
    then show ?thesis
      using at t(1)
      by (intro that [of "-1" "bc_log LOG_ERR ''Error writing new boot block.\<newline>'' [] t"]) (simp_all add: eq)
  next
    case False
    have t': "initialised t" "wf_bc (bc t)"
      using init keeps_wf [OF t(2) keeps_wf [OF kb wf]] by (simp_all add: keeps_simps [OF t(2)] kbs)
    note rd = framed_reread [OF _ inplace ptr t', unfolded holds_return]
    obtain x u where u: "bc_ll_reread ops t = Ret x u"
      "keeps (flash_is view bad (view (world t)) (bad (world t))) UNIV t u"
      using rd [OF power_cut_keeps(1) [OF cut, of "view (world t)" "bad (world t)"]] by blast
    have "dead (world u)" if "dead (world t)"
    proof -
      have "keeps (\<lambda>w. dead w \<and> flash_is view bad (view (world t)) (bad (world t)) w) UNIV t u"
        using rd [OF power_cut_keeps(2) [OF cut], of "view (world t)" "bad (world t)"] u(1) by auto
      then show ?thesis
        using keeps_simps(10) that by fastforce
    qed
    then have "cut_at view bad dead which p ?n ?cur (base_block s) s (r \<noteq> ?cur) (world u)"
      using keeps_simps(10) [OF u(2)] by (intro cut_at_after [OF at]) (simp_all add: steady_def)
    then show ?thesis
      using False t(1) u(1) by (intro that [of 0 u]) (simp_all add: eq)
  qed
qed

text \<open>What can be read off the flash then.\<close>

lemma cut_blocks:
  assumes at: "cut_at view bad dead which p n cur b s found w" and n: "n = ebs s"
    and wf: "wf_bc (bc s)" and pages: "pages_ok view s" and b: "wf_block b"
  obtains (same) "flash_blocks view bad n w = flash_blocks view bad n (world s)" "dead w \<or> \<not> found"
  | (erased) i e where "i < n" "i \<noteq> cur" "magic e \<notin> {MAGIC_BOOT, MAGIC_BAD}" "dead w"
      "flash_blocks view bad n w = (flash_blocks view bad n (world s))[i := e]"
  | (written) i now where "i < n" "i \<noteq> cur" "dead w \<or> found"
      "flash_blocks view bad n w = (flash_blocks view bad n (world s))[i := next_block which p now b]"
proof -
  consider "\<not> found" "steady view bad (world s) w" | i now where "i < n" "i \<noteq> cur" "\<not> bad (world s) i"
      "torn view bad dead i (block_page s (next_block which p now b)) (world s) (if found then 0 else 1) w"
    using at unfolding cut_at_def by blast
  then show ?thesis
  proof cases
    case 1
    then show ?thesis
      using flash_config_cong [of view w "world s" bad n] by (intro same) (simp_all add: steady_def)
  next
    case (2 i now)
    let ?page = "block_page s (next_block which p now b)" and ?l = "length (view (world s) i)"
    have bw: "bad w = bad (world s)"
      using 2(4) by (simp add: torn_def)
    have len: "SIZEOF_BTBLOCK \<le> ?l"
      using pages 2(1) n wf_bcD(5) [OF wf] by (simp add: pages_ok_def)
    have cases: "dead w \<and> view w \<in> {view (world s), (view (world s))(i := replicate ?l 0xFF)}
        \<or> (dead w \<or> found) \<and> view w = (view (world s))(i := ?page)"
      using 2(4) by (auto simp: torn_def split: if_splits)
    show ?thesis
    proof (cases "view w = (view (world s))(i := ?page)")
      case True
      then have "dead w \<or> found"
        using 2(4) by (auto simp: torn_def split: if_splits)
      moreover have "page_block ?page = next_block which p now b"
        using b by simp
      ultimately show ?thesis
        using written [of i now] 2(1,2) flash_blocks_page [of view w "world s" i, OF True bw 2(3,1)] by simp
    next
      case False
      then have d: "dead w" and "view w = view (world s) \<or> view w = (view (world s))(i := replicate ?l 0xFF)"
        using cases by blast+
      then show ?thesis
        using same flash_config_cong [of view w "world s" bad n] bw
          erased [OF 2(1,2) erased_magic [OF len] d] flash_blocks_page [of view w "world s" i, OF _ bw 2(3,1)]
        by blast
    qed
  qed
qed

lemma cut_config:
  assumes at: "cut_at view bad dead which p (ebs s) (base_index (blks s)) (base_block s) s found w"
    and wf: "wf_bc (bc s)" and pages: "pages_ok view s" and synced: "synced view bad s"
    and max: "epoch (base_block s) \<noteq> - 1"
  shows "flash_config view bad (ebs s) w \<in> {active s, spec_set_partition which p (active s)}"
    and "\<not> dead w \<Longrightarrow> flash_config view bad (ebs s) w =
      (if found then spec_set_partition which p (active s) else active s)"
proof -
  let ?f = "flash_blocks view bad (ebs s) (world s)"
  note sf = synced_flash [OF synced wf]
  have cfg: "flash_config view bad (ebs s) w = (\<lambda>j. image_info j (config_block (flash_blocks view bad (ebs s) w)))"
    by (simp add: flash_config_def [abs_def])
  have old: "(\<lambda>j. image_info j (config_block ?f)) = active s"
    by (simp add: sf(2) active_def [abs_def])
  have base: "base_index ?f = base_index (blks s)"
    using wf_bcD(1) [OF wf] by (simp add: base_index_def sf(1) split: option.splits)
  have "config_block (?f[i := e]) = config_block ?f"
    if "i < ebs s" "i \<noteq> base_index (blks s)" "magic e \<notin> {MAGIC_BOOT, MAGIC_BAD}" for i e
    using that by (intro config_drop) (simp_all add: base is_boot_def)
  moreover have "(\<lambda>j. image_info j (config_block (?f[i := next_block which p now (base_block s)])))
      = spec_set_partition which p (active s)" if "i < ebs s" for i now
    using that epoch_succ [OF max] config_newer [of "next_block which p now (base_block s)" ?f i]
    by (simp add: sf(2) image_info_next active_def [abs_def])
  ultimately have "flash_config view bad (ebs s) w = active s \<and> (dead w \<or> \<not> found)
      \<or> flash_config view bad (ebs s) w = spec_set_partition which p (active s) \<and> (dead w \<or> found)"
    unfolding cfg by (cases rule: cut_blocks [OF at refl wf pages wf_base_block [OF wf]]) (simp_all add: old)
  then show "flash_config view bad (ebs s) w \<in> {active s, spec_set_partition which p (active s)}"
    and "\<not> dead w \<Longrightarrow> flash_config view bad (ebs s) w =
      (if found then spec_set_partition which p (active s) else active s)"
    by auto
qed

section \<open>The property\<close>


text \<open>The device of \<open>Sim_Nand\<close> with power for a number of calls.\<close>

fun powered :: "('x \<Rightarrow> 'w \<Rightarrow> 'a \<times> 'w) \<Rightarrow> ('x \<Rightarrow> 'a) \<Rightarrow> 'x \<Rightarrow> nat \<times> 'w \<Rightarrow> 'a \<times> (nat \<times> 'w)" where
  "powered f off x (0, w) = (off x, (0, w))"
| "powered f off x (Suc n, w) = (let (a, w1) = f x w in (a, (n, w1)))"

definition dying_ops :: "(nat \<times> nand) env_ops" where
  "dying_ops =
     \<lparr>open_op = powered (open_op (sim_ops [] [])) (\<lambda>_. - 1),
      libmtd_open_op = powered (\<lambda>_. libmtd_open_op (sim_ops [] [])) (\<lambda>_. None) (),
      mtd_get_dev_info_op = (\<lambda>h d (n, w).
        case mtd_get_dev_info_op (sim_ops [] []) h d w of (e, i, w1) \<Rightarrow> (e, i, (n - 1, w))),
      mtd_is_bad_op = (\<lambda>i f k. powered (\<lambda>_. mtd_is_bad_op (sim_ops [] []) i f k) (\<lambda>_. - 1) ()),
      mtd_read_op = (\<lambda>i f k off buf (n, w).
        if n = 0 then (- 1, buf, (n, w))
        else case mtd_read_op (sim_ops [] []) i f k off buf w of (e, b, w1) \<Rightarrow> (e, b, (n - 1, w1))),
      mtd_erase_op = (\<lambda>h i f k. powered (\<lambda>_. mtd_erase_op (sim_ops [] []) h i f k) (\<lambda>_. - 1) ()),
      mtd_write_op = (\<lambda>h i f k off page.
        powered (\<lambda>_. mtd_write_op (sim_ops [] []) h i f k off page) (\<lambda>_. - 1) ()),
      malloc_op = powered (malloc_op (sim_ops [] [])) (\<lambda>_. False),
      time_op = powered (\<lambda>_. time_op (sim_ops [] [])) (\<lambda>_. 0) (),
      errno_op = (\<lambda>_. 5),
      sizeof_ptr = 4,
      sscanf_overflow = (\<lambda>v. - 1),
      time_t_conv = uint\<rparr>"

lemma powered_eq:
  "powered f off x w = (if fst w = 0 then (off x, w)
     else (fst (f x (snd w)), (fst w - 1, snd (f x (snd w)))))"
  by (cases w; cases "fst w") (auto split: prod.splits)

lemma dying_power_cut:
  "power_cut dying_ops (\<lambda>w. nand_view (snd w)) (\<lambda>w. nand_bad (snd w)) (\<lambda>w. fst w = 0)"
  unfolding power_cut_def passes_def alters_def steady_def
  by (intro conjI allI impI;
      simp add: dying_ops_def sim_ops_def powered_eq nand_bad_def split: prod.split;
      auto simp: nand_view_def nand_bad_def fun_eq_iff nth_list_update program_page_def)

lemma dying_ops_ok: "reads_in_place dying_ops" "ptr_ok dying_ops"
  by (auto simp: reads_in_place_def ptr_ok_def dying_ops_def sim_ops_def min_def)

definition dying_state :: "nat \<Rightarrow> (nat \<times> nand) st" where
  "dying_state n =
     \<lparr>bc_log_channels = default_channels, bc_log_levels = default_levels, outputs = [],
      initialised = True, bc = bc (sim_state 5), world = (n, sim_world 5)\<rparr>"

lemma dying_state_simps [simp]:
  "initialised (dying_state n)" "bc (dying_state n) = bc (sim_state 5)" "world (dying_state n) = (n, sim_world 5)"
  by (simp_all add: dying_state_def)

lemma dying_pages_synced:
  "pages_ok (\<lambda>w. nand_view (snd w)) (dying_state n)"
  "synced (\<lambda>w. nand_view (snd w)) (\<lambda>w. nand_bad (snd w)) (dying_state n)"
  using sim_pages_ok [of 5] sim_synced [of 5]
  by (simp_all add: pages_ok_def synced_def synced_at_def)


end
