(* ===== verification/Retry.thy ===== *)
theory Retry
  imports Power_Cut Main_Correct
begin

text \<open>
  An update that the power cut off can be repeated: the same command, run when the power is
  back, leaves the configuration that the first run was to leave.
\<close>

lemma spec_set_partition_twice [simp]:
  "spec_set_partition which p (spec_set_partition which p c) = spec_set_partition which p c"
  by (simp add: spec_set_partition_def)

lemma epoch_steps:
  assumes "(e :: u32) < - 2"
  shows "e \<noteq> - 1" "e < e + 1" "e + 1 \<noteq> - 1"
proof -
  show e: "e \<noteq> - 1"
    using assms by auto
  show "e < e + 1"
    using e by (rule epoch_succ)
  have "e \<noteq> - 2"
    using assms by simp
  then have "e + 2 \<noteq> 0"
    by (simp only: eq_neg_iff_add_eq_0 not_False_eq_True)
  then show "e + 1 \<noteq> - 1"
    by (simp add: eq_neg_iff_add_eq_0 add.assoc)
qed

text \<open>After the cut the next run finds a current block, and another one to write to.\<close>

lemma cut_leaves_room:
  assumes at: "cut_at view bad dead which p (ebs s) (base_index (blks s)) (base_block s) s found w"
    and wf: "wf_bc (bc s)" and pages: "pages_ok view s" and synced: "synced view bad s"
    and cur: "current_index (blks s) = Some c" and max: "epoch (blks s ! c) < - 2"
    and room: "k < ebs s" "k \<noteq> c" "\<not> skipped s k"
  obtains j where "j < ebs s" "j \<noteq> base_index (flash_blocks view bad (ebs s) w)"
    "magic (flash_blocks view bad (ebs s) w ! j) \<noteq> MAGIC_BAD"
    "epoch (config_block (flash_blocks view bad (ebs s) w)) \<noteq> - 1"
proof -
  let ?f = "flash_blocks view bad (ebs s) (world s)"
  note sf = synced_flash [OF synced wf]
  have c: "c < ebs s" "magic (blks s ! c) = MAGIC_BOOT"
    using is_current_index [OF cur] wf_bcD(1) [OF wf] by (simp_all add: is_current_def is_boot_def)
  have base: "base_index ?f = c" "base_index (blks s) = c" "base_block s = blks s ! c"
    using cur by (simp_all add: base_index_def base_block_def sf(1))
  have magic: "magic (?f ! k) \<noteq> MAGIC_BAD" "magic (?f ! c) = MAGIC_BOOT"
    using room c sf(3) by (simp_all add: skipped_def)
  note epochs = epoch_steps [OF max]
  from at refl wf pages wf_base_block [OF wf] show ?thesis
  proof (cases rule: cut_blocks)
    case same
    show ?thesis
      using that [of k] room base magic epochs(1) by (auto simp: same(1) sf(2))
  next
    case (erased i e)
    have "\<not> is_boot e"
      using erased(3) by (simp add: is_boot_def)
    then have "config_block (?f[i := e]) = base_block s" "base_index (?f[i := e]) = c"
      using config_drop [of e i ?f] erased(1,2) base sf(2) by simp_all
    then show ?thesis
      using that [of k] room base magic epochs(1) erased(1,3) by (auto simp: erased(5) nth_list_update)
  next
    case (written i now)
    let ?b = "next_block which p now (blks s ! c)"
    have "current_index (?f[i := ?b]) = Some i"
      using epochs(2) written(1) base sf(2) by (intro current_newer) simp_all
    then have "config_block (?f[i := ?b]) = ?b" "base_index (?f[i := ?b]) = i"
      using written(1) by (simp_all add: config_block_def base_index_def)
    then show ?thesis
      using that [of c] c(1) written(1,2) base magic epochs(3) by (simp add: written(4))
  qed
qed

lemma cut_lengths:
  assumes at: "cut_at view bad dead which p n cur b s found w" and n: "n = ebs s"
    and wf: "wf_bc (bc s)" and pages: "pages_ok view s" and b: "wf_block b"
  shows "\<forall>k<n. length (view w k) = min_io_size (info (bc s))"
  using at pages length_block_page [OF wf wf_next_block [OF b]]
  by (auto simp: cut_at_def torn_def steady_def pages_ok_def n)

text \<open>
  An update that the power cut off at any call of \<open>bc_ll_set_partition\<close> is completed by the
  same command once the power is back: the flash then holds the configuration that the first
  run was to leave. The next run needs no repair first, only a working device.
\<close>

theorem cut_update_repeats:
  assumes cut: "power_cut ops view bad dead" and "reads_in_place ops" "ptr_ok ops" "initialised s"
    and wf: "wf_bc (bc s)" and pages: "pages_ok view s" and synced: "synced view bad s" and p: "p \<le> 1"
    and cur: "current_index (blks s) = Some c" and max: "epoch (blks s ! c) < - 2"
    and room: "k < ebs s" "k \<noteq> c" "\<not> skipped s k"
    and works: "works ops2 view bad" and next_run: "dev_info_ok ops2" "ptr_ok ops2"
    and opens: "\<And>w. \<forall>k<ebs s. length (view w k) = min_io_size (info (bc s)) \<Longrightarrow> opens ops2 view bad (ebs s) w"
  shows "\<exists>r t. bc_ll_set_partition ops which (of_nat p) s = Ret r t
    \<and> (\<forall>s2. steady view bad (world t) (world s2) \<longrightarrow>
         (\<exists>u. bootconfig_main ops2 [prog, set_command which, ''mtd'' @ dec_string (first_mtd which + p)] s2
                = Exit 0 u
            \<and> flash_config view bad (ebs s) (world u) = spec_set_partition which (of_nat p) (active s)))"
proof -
  have p1: "(of_nat p :: u32) \<le> 1"
    using p by (cases "p = 0") (auto simp: le_Suc_eq)
  obtain r t where t: "bc_ll_set_partition ops which (of_nat p) s = Ret r t"
    "cut_at view bad dead which (of_nat p) (ebs s) (base_index (blks s)) (base_block s) s (r = 0) (world t)"
    using cut_set_partition [OF assms(1-7) p1] by metis
  have "epoch (base_block s) \<noteq> - 1"
    using epoch_steps(1) [OF max] cur by (simp add: base_block_def)
  then have cfg: "flash_config view bad (ebs s) (world t) \<in> {active s, spec_set_partition which (of_nat p) (active s)}"
    by (rule cut_config(1) [OF t(2) wf pages synced])
  obtain j where j: "j < ebs s" "j \<noteq> base_index (flash_blocks view bad (ebs s) (world t))"
    "magic (flash_blocks view bad (ebs s) (world t) ! j) \<noteq> MAGIC_BAD"
    "epoch (config_block (flash_blocks view bad (ebs s) (world t))) \<noteq> - 1"
    using cut_leaves_room [OF t(2) wf pages synced cur max room] .
  have "\<exists>u. bootconfig_main ops2 [prog, set_command which, ''mtd'' @ dec_string (first_mtd which + p)] s2
        = Exit 0 u
      \<and> flash_config view bad (ebs s) (world u) = spec_set_partition which (of_nat p) (active s)"
    if s2: "steady view bad (world t) (world s2)" for s2
  proof -
    have o2: "opens ops2 view bad (ebs s) (world s2)"
      using cut_lengths [OF t(2) refl wf pages wf_base_block [OF wf]] s2 by (intro opens) (simp add: steady_def)
    have same: "flash_blocks view bad (ebs s) (world s2) = flash_blocks view bad (ebs s) (world t)"
      using s2 flash_config_cong [of view "world s2" "world t" bad] by (simp add: steady_def)
    have "flash_config view bad (ebs s) (world s2) = flash_config view bad (ebs s) (world t)"
      by (simp add: flash_config_def [abs_def] same)
    then show ?thesis
      using main_set_works [OF works o2 next_run p j(1), of prog which] j(2-4) cfg
      unfolding same by auto
  qed
  then show ?thesis
    using t(1) by blast
qed

text \<open>The device of the witness of \<open>power_cut_keeps_configuration\<close>, with its power back.\<close>

definition on_mains :: "('w \<Rightarrow> 'a \<times> 'w) \<Rightarrow> nat \<times> 'w \<Rightarrow> 'a \<times> (nat \<times> 'w)" where
  "on_mains f w = (fst (f (snd w)), (fst w, snd (f (snd w))))"

definition mains_ops :: "(nat \<times> nand) env_ops" where
  "mains_ops =
     \<lparr>open_op = (\<lambda>d. on_mains (open_op (sim_ops [] []) d)),
      libmtd_open_op = on_mains (libmtd_open_op (sim_ops [] [])),
      mtd_get_dev_info_op = (\<lambda>h d w. (0, \<lparr>eb_cnt = 4, min_io_size = 32\<rparr>, w)),
      mtd_is_bad_op = (\<lambda>i f k. on_mains (mtd_is_bad_op (sim_ops [] []) i f k)),
      mtd_read_op = (\<lambda>i f k off buf w.
        case mtd_read_op (sim_ops [] []) i f k off buf (snd w) of (e, b, w1) \<Rightarrow> (e, b, (fst w, w1))),
      mtd_erase_op = (\<lambda>h i f k. on_mains (mtd_erase_op (sim_ops [] []) h i f k)),
      mtd_write_op = (\<lambda>h i f k off page. on_mains (mtd_write_op (sim_ops [] []) h i f k off page)),
      malloc_op = (\<lambda>n. on_mains (malloc_op (sim_ops [] []) n)),
      time_op = on_mains (time_op (sim_ops [] [])),
      errno_op = (\<lambda>_. 5),
      sizeof_ptr = 4,
      sscanf_overflow = (\<lambda>v. - 1),
      time_t_conv = uint\<rparr>"

lemma mains_works: "works mains_ops (\<lambda>w. nand_view (snd w)) (\<lambda>w. nand_bad (snd w))"
  by (auto simp: works_def mains_ops_def on_mains_def sim_ops_def steady_def nand_view_def nand_bad_def
      fun_eq_iff nth_list_update program_page_def)

lemma mains_ok: "dev_info_ok mains_ops" "ptr_ok mains_ops"
  by (simp_all add: dev_info_ok_def ptr_ok_def mains_ops_def sim_ops_def SIZEOF_BTBLOCK_def min_def)

lemma mains_opens:
  "\<forall>k<4. length (nand_view (snd w) k) = 32 \<Longrightarrow>
     opens mains_ops (\<lambda>w. nand_view (snd w)) (\<lambda>w. nand_bad (snd w)) 4 w"
  by (auto simp: opens_def steady_def mains_ops_def on_mains_def sim_ops_def)

theorem cut_update_repeats_witness:
  "\<exists>r t. bc_ll_set_partition dying_ops Kernel (of_nat 1) (dying_state 4) = Ret r t
    \<and> (\<forall>s2. steady (\<lambda>w. nand_view (snd w)) (\<lambda>w. nand_bad (snd w)) (world t) (world s2) \<longrightarrow>
         (\<exists>u. bootconfig_main mains_ops
                [''bootconfig'', set_command Kernel, ''mtd'' @ dec_string (first_mtd Kernel + 1)] s2 = Exit 0 u
            \<and> flash_config (\<lambda>w. nand_view (snd w)) (\<lambda>w. nand_bad (snd w)) (ebs (dying_state 4)) (world u)
              = spec_set_partition Kernel (of_nat 1) (active (dying_state 4))))"
  by (rule cut_update_repeats [OF dying_power_cut dying_ops_ok _ _ dying_pages_synced _ _ _ _ _ _
        mains_works mains_ok, where c = 1 and k = 0])
    (simp_all add: skipped_def mains_opens, simp_all add: sim_state_def sim_block_def)

end
