(* ===== verification/Run_Cut.thy ===== *)
theory Run_Cut
  imports Retry
begin

text \<open>
  The power may fail at any call of a whole run of \<open>bootconfig\<close>, from opening the device to
  printing the result.
\<close>

section \<open>The device while it lives\<close>

text \<open>
  A device of \<open>power_cut\<close> answers as documented as long as it is alive: it opens, with the
  description \<open>i0\<close>, tells its bad blocks and reads the good ones. When it dies during a call
  the answer may be anything.
\<close>

definition lives ::
  "'w env_ops \<Rightarrow> ('w \<Rightarrow> nat \<Rightarrow> u8 list) \<Rightarrow> ('w \<Rightarrow> nat \<Rightarrow> bool) \<Rightarrow> ('w \<Rightarrow> bool) \<Rightarrow> mtd_dev_info \<Rightarrow> 'w \<Rightarrow> bool" where
  "lives ops view bad dead i0 w0 \<longleftrightarrow>
     (\<forall>d w. steady view bad w0 w \<longrightarrow> dead (snd (open_op ops d w)) \<or> 0 \<le> fst (open_op ops d w))
   \<and> (\<forall>w. steady view bad w0 w \<longrightarrow> dead (snd (libmtd_open_op ops w)) \<or> fst (libmtd_open_op ops w) \<noteq> None)
   \<and> (\<forall>h d w. steady view bad w0 w \<longrightarrow> dead (snd (snd (mtd_get_dev_info_op ops h d w)))
        \<or> fst (mtd_get_dev_info_op ops h d w) = 0 \<and> fst (snd (mtd_get_dev_info_op ops h d w)) = i0)
   \<and> (\<forall>i f k w. bad w k \<longrightarrow> dead (snd (mtd_is_bad_op ops i f k w)) \<or> 0 < fst (mtd_is_bad_op ops i f k w))
   \<and> (\<forall>i f k buf w. \<not> bad w k \<longrightarrow> length buf \<le> length (view w k) \<longrightarrow>
        dead (snd (snd (mtd_read_op ops i f k 0 buf w)))
        \<or> fst (mtd_read_op ops i f k 0 buf w) = 0 \<and> fst (snd (mtd_read_op ops i f k 0 buf w)) = take (length buf) (view w k))
   \<and> (\<forall>k<eb_cnt i0. length (view w0 k) = min_io_size i0)
   \<and> eb_cnt i0 < 2 ^ 31 \<and> eb_cnt i0 * SIZEOF_BTBLOCK < 2 ^ (8 * sizeof_ptr ops) \<and> SIZEOF_BTBLOCK \<le> min_io_size i0"

text \<open>The same device, had it not died: only the answers of the calls it dies in are put right.\<close>

definition revived ::
  "'w env_ops \<Rightarrow> ('w \<Rightarrow> nat \<Rightarrow> u8 list) \<Rightarrow> ('w \<Rightarrow> nat \<Rightarrow> bool) \<Rightarrow> ('w \<Rightarrow> bool) \<Rightarrow> mtd_dev_info \<Rightarrow> 'w env_ops" where
  "revived ops view bad dead i0 = ops
     \<lparr>open_op := (\<lambda>d w. case open_op ops d w of (f, w1) \<Rightarrow> (if dead w1 then 0 else f, w1)),
      libmtd_open_op := (\<lambda>w. case libmtd_open_op ops w of (h, w1) \<Rightarrow> (if dead w1 then Some 0 else h, w1)),
      mtd_get_dev_info_op := (\<lambda>h d w. case mtd_get_dev_info_op ops h d w of (e, i, w1) \<Rightarrow>
        if dead w1 then (0, i0, w1) else (e, i, w1)),
      mtd_is_bad_op := (\<lambda>i f k w. case mtd_is_bad_op ops i f k w of (e, w1) \<Rightarrow>
        (if dead w1 then if bad w k then 1 else 0 else e, w1)),
      mtd_read_op := (\<lambda>i f k off buf w. case mtd_read_op ops i f k off buf w of (e, b, w1) \<Rightarrow>
        if dead w1 then (0, take (length buf) (view w k), w1) else (e, b, w1)),
      malloc_op := (\<lambda>n w. case malloc_op ops n w of (ok, w1) \<Rightarrow> (dead w1 \<or> ok, w1))\<rparr>"

lemma cut_passes:
  assumes "power_cut ops view bad dead"
  shows "open_op ops d w = (x, w1) \<Longrightarrow> passes view bad dead w w1"
    and "libmtd_open_op ops w = (ho, w1) \<Longrightarrow> passes view bad dead w w1"
    and "mtd_get_dev_info_op ops h d w = (x, inf1, w1) \<Longrightarrow> passes view bad dead w w1"
    and "mtd_is_bad_op ops i f k w = (x, w1) \<Longrightarrow> passes view bad dead w w1"
    and "mtd_is_bad_op ops i f k w = (x, w1) \<Longrightarrow> \<not> dead w1 \<Longrightarrow> \<not> bad w k \<Longrightarrow> x = 0"
    and "mtd_read_op ops i f k off buf w = (x, buf1, w1) \<Longrightarrow> passes view bad dead w w1"
    and "malloc_op ops n w = (ok, w1) \<Longrightarrow> passes view bad dead w w1"
    and "malloc_op ops n w = (ok, w1) \<Longrightarrow> dead w1 \<or> ok"
  using assms unfolding power_cut_def
  by (metis snd_conv, metis snd_conv, metis snd_conv, metis snd_conv, metis fst_conv snd_conv, metis snd_conv,
      metis snd_conv, metis fst_conv snd_conv)

lemma livesD:
  assumes "lives ops view bad dead i0 w0"
  shows "open_op ops d w = (x, w1) \<Longrightarrow> steady view bad w0 w \<Longrightarrow> \<not> dead w1 \<Longrightarrow> 0 \<le> x"
    and "libmtd_open_op ops w = (ho, w1) \<Longrightarrow> steady view bad w0 w \<Longrightarrow> \<not> dead w1 \<Longrightarrow> ho \<noteq> None"
    and "mtd_get_dev_info_op ops h d w = (x, inf1, w1) \<Longrightarrow> steady view bad w0 w \<Longrightarrow> \<not> dead w1 \<Longrightarrow> x = 0 \<and> inf1 = i0"
    and "mtd_is_bad_op ops i f k w = (x, w1) \<Longrightarrow> \<not> dead w1 \<Longrightarrow> bad w k \<Longrightarrow> 0 < x"
    and "mtd_read_op ops i f k 0 buf w = (x, buf1, w1) \<Longrightarrow> \<not> dead w1 \<Longrightarrow> \<not> bad w k \<Longrightarrow>
      length buf \<le> length (view w k) \<Longrightarrow> x = 0 \<and> buf1 = take (length buf) (view w k)"
  using assms unfolding lives_def
  by (metis fst_conv snd_conv, metis fst_conv snd_conv, metis fst_conv snd_conv, metis fst_conv snd_conv,
      metis fst_conv snd_conv)

lemma livesD_info:
  assumes "lives ops view bad dead i0 w0"
  shows "k < eb_cnt i0 \<Longrightarrow> length (view w0 k) = min_io_size i0" "eb_cnt i0 < 2 ^ 31"
    "eb_cnt i0 * SIZEOF_BTBLOCK < 2 ^ (8 * sizeof_ptr ops)" "SIZEOF_BTBLOCK \<le> min_io_size i0"
  using assms unfolding lives_def by blast+

lemma revived_reads:
  assumes cut: "power_cut ops view bad dead" and lives: "lives ops view bad dead i0 w0"
  shows "reads_right (revived ops view bad dead i0) view bad"
  unfolding reads_right_def
proof (intro conjI allI impI)
  fix i f k w e w1
  assume a: "mtd_is_bad_op (revived ops view bad dead i0) i f k w = (e, w1)"
  obtain e0 where e0: "mtd_is_bad_op ops i f k w = (e0, w1)" "e = (if dead w1 then if bad w k then 1 else 0 else e0)"
    using a by (auto simp: revived_def split: prod.splits)
  show "if bad w k then 0 < e else e = 0"
    using e0(2) cut_passes(5) [OF cut e0(1)] livesD(4) [OF lives e0(1)] by simp
  show "steady view bad w w1"
    using cut_passes(4) [OF cut e0(1)] by (simp add: passes_def)
next
  fix i f k buf w e buf1 w1
  assume a: "mtd_read_op (revived ops view bad dead i0) i f k 0 buf w = (e, buf1, w1)"
    and good: "\<not> bad w k" "length buf \<le> length (view w k)"
  obtain e0 b0 where e0: "mtd_read_op ops i f k 0 buf w = (e0, b0, w1)"
    "(e, buf1) = (if dead w1 then (0, take (length buf) (view w k)) else (e0, b0))"
    using a by (auto simp: revived_def split: prod.splits if_splits)
  show "e = 0" "buf1 = take (length buf) (view w k)"
    using e0(2) livesD(5) [OF lives e0(1) _ good] by (auto split: if_splits)
  show "steady view bad w w1"
    using cut_passes(6) [OF cut e0(1)] by (simp add: passes_def)
next
  fix n w ok w1
  assume a: "malloc_op (revived ops view bad dead i0) n w = (ok, w1)"
  obtain ok0 where ok0: "malloc_op ops n w = (ok0, w1)" "ok = (dead w1 \<or> ok0)"
    using a by (auto simp: revived_def split: prod.splits)
  show ok "steady view bad w w1"
    using ok0(2) cut_passes(7,8) [OF cut ok0(1)] by (auto simp: passes_def)
qed

lemma revived_opens:
  assumes cut: "power_cut ops view bad dead" and lives: "lives ops view bad dead i0 w0"
  shows "opens (revived ops view bad dead i0) view bad (eb_cnt i0) w0"
  unfolding opens_def
proof (intro conjI allI impI)
  fix d w f w1
  assume w: "steady view bad w0 w" and a: "open_op (revived ops view bad dead i0) d w = (f, w1)"
  obtain f0 where f0: "open_op ops d w = (f0, w1)" "f = (if dead w1 then 0 else f0)"
    using a by (auto simp: revived_def split: prod.splits)
  show "0 \<le> f" "steady view bad w w1"
    using f0(2) livesD(1) [OF lives f0(1) w] cut_passes(1) [OF cut f0(1)] by (auto simp: passes_def)
next
  fix w h w1
  assume w: "steady view bad w0 w" and a: "libmtd_open_op (revived ops view bad dead i0) w = (h, w1)"
  obtain h0 where h0: "libmtd_open_op ops w = (h0, w1)" "h = (if dead w1 then Some 0 else h0)"
    using a by (auto simp: revived_def split: prod.splits)
  show "h \<noteq> None" "steady view bad w w1"
    using h0(2) livesD(2) [OF lives h0(1) w] cut_passes(2) [OF cut h0(1)] by (auto simp: passes_def)
next
  fix h d w e i w1
  assume w: "steady view bad w0 w" and a: "mtd_get_dev_info_op (revived ops view bad dead i0) h d w = (e, i, w1)"
  obtain e0 j where e0: "mtd_get_dev_info_op ops h d w = (e0, j, w1)" "(e, i) = (if dead w1 then (0, i0) else (e0, j))"
    using a by (auto simp: revived_def split: prod.splits if_splits)
  have i: "e = 0 \<and> i = i0"
    using e0(2) livesD(3) [OF lives e0(1) w] by (auto split: if_splits)
  then show "e = 0" "eb_cnt i = eb_cnt i0"
    by simp_all
  show "steady view bad w w1"
    using cut_passes(3) [OF cut e0(1)] by (simp add: passes_def)
  fix k
  assume "k < eb_cnt i0"
  then show "length (view w k) = min_io_size i"
    using livesD_info(1) [OF lives] w i by (simp add: steady_def)
qed

lemma revived_info:
  assumes "lives ops view bad dead i0 w0" "dev_info_ok ops"
  shows "dev_info_ok (revived ops view bad dead i0)"
  unfolding dev_info_ok_def
proof (intro allI impI, goal_cases)
  case (1 h d w e i w1)
  then obtain e0 j where e0: "mtd_get_dev_info_op ops h d w = (e0, j, w1)" "(e, i) = (if dead w1 then (0, i0) else (e0, j))"
    by (auto simp: revived_def split: prod.splits if_splits)
  show ?case
  proof (cases "dead w1")
    case True
    then show ?thesis
      using e0(2) livesD_info(2-) [OF assms(1)] by (simp add: revived_def)
  next
    case False
    then show ?thesis
      using e0(2) 1(2) assms(2) [unfolded dev_info_ok_def, rule_format, OF e0(1)] by (simp add: revived_def)
  qed
qed

section \<open>Opening while the power fails\<close>

text \<open>A run that ends on a live device is the run of the device that has not died.\<close>

abbreviation ends_dead :: "('w \<Rightarrow> bool) \<Rightarrow> ('w st, 'a) res \<Rightarrow> bool" where
  "ends_dead dead m \<equiv> holds m (\<lambda>_ t. dead (world t)) (\<lambda>_ t. dead (world t))"

lemma passes_dead: "passes view bad dead w w1 \<Longrightarrow> dead w \<Longrightarrow> dead w1"
  by (simp add: passes_def)

lemma read_bootblock_alive:
  assumes cut: "power_cut ops view bad dead" and i: "i < length (blks s)"
  shows "ends_dead dead (read_bootblock ops i s)
    \<or> read_bootblock ops i s = read_bootblock (revived ops view bad dead i0) i s"
proof -
  obtain e w1 where e: "mtd_is_bad_op ops (info (bc s)) (fd (bc s)) i (world s) = (e, w1)"
    by fastforce
  obtain e2 b w2 where r: "mtd_read_op ops (info (bc s)) (fd (bc s)) i 0 (btblock_bytes (blks s ! i)) w1 = (e2, b, w2)"
    by (metis surj_pair)
  have d: "dead w1 \<Longrightarrow> dead w2"
    using passes_dead [OF cut_passes(6) [OF cut r]] .
  have e': "mtd_is_bad_op (revived ops view bad dead i0) (info (bc s)) (fd (bc s)) i (world s)
      = (if dead w1 then if bad (world s) i then 1 else 0 else e, w1)"
    using e by (simp add: revived_def)
  have r': "mtd_read_op (revived ops view bad dead i0) (info (bc s)) (fd (bc s)) i 0 (btblock_bytes (blks s ! i)) w1
      = (if dead w2 then (0, take (length (btblock_bytes (blks s ! i))) (view w1 i), w2) else (e2, b, w2))"
    using r by (simp add: revived_def)
  have errno: "errno_op (revived ops view bad dead i0) = errno_op ops"
    by (simp add: revived_def)
  consider (bad) "e \<noteq> 0" | (good) "e = 0"
    by blast
  then show ?thesis
  proof cases
    case bad
    then show ?thesis
      using e e' i by (auto simp: read_bootblock_def check_block_def get_block_def put_block_def errno Let_def)
  next
    case good
    then show ?thesis
      using e e' r r' d i by (auto simp: read_bootblock_def check_block_def get_block_def put_block_def errno Let_def)
  qed
qed

lemma read_blocks_alive:
  assumes cut: "power_cut ops view bad dead" and inplace: "reads_in_place ops"
  shows "\<forall>i\<in>set is. i < length (blks s) \<Longrightarrow> ends_dead dead (read_blocks ops is n s)
    \<or> read_blocks ops is n s = read_blocks (revived ops view bad dead i0) is n s"
proof (induction "is" arbitrary: n s)
  case (Cons i "is")
  have i: "i < length (blks s)"
    using Cons.prems by simp
  have "framed (\<lambda>_. True) UNIV s (read_bootblock ops i s)"
    using framed_read_bootblock [OF ops_keep_True inplace i] by blast
  then obtain r t where t: "read_bootblock ops i s = Ret r t" "keeps (\<lambda>_. True) UNIV s t"
    unfolding holds_return by blast
  have it: "\<forall>i\<in>set is. i < length (blks t)"
    using Cons.prems keeps_simps(2) [OF t(2)] by simp
  consider "dead (world t)" | "read_bootblock (revived ops view bad dead i0) i s = Ret r t"
    using read_bootblock_alive [OF cut i, of i0] t(1) by auto
  then show ?case
  proof cases
    case 1
    have "framed (\<lambda>w. dead w \<and> flash_is view bad (view (world t)) (bad (world t)) w) UNIV t (read_blocks ops is m t)" for m
      using it by (intro framed_read_blocks [OF power_cut_keeps(2) [OF cut] inplace]) simp_all
    then have "ends_dead dead (read_blocks ops is m t)" for m
      by (rule holds_mono) (use 1 in \<open>auto dest: keeps_simps(10)\<close>)
    then show ?thesis
      using t(1) by simp
  next
    case 2
    then show ?thesis
      using Cons.IH [OF it, of "if r \<noteq> 0 then Suc n else n"] t(1) by simp
  qed
qed simp

lemma read_bootconfig_alive:
  assumes "power_cut ops view bad dead" "reads_in_place ops" "ebs s \<le> length (blks s)"
  shows "ends_dead dead (read_bootconfig ops s)
    \<or> read_bootconfig ops s = read_bootconfig (revived ops view bad dead i0) s"
  using read_blocks_alive [OF assms(1,2), of "[0..<ebs s]" s 0 i0] assms(3) by (auto simp: read_bootconfig_def)

lemma init_prefix_alive:
  assumes cut: "power_cut ops view bad dead" and info: "dev_info_ok ops"
  shows "ends_dead dead (init_prefix ops d s) \<or> init_prefix ops d s = init_prefix (revived ops view bad dead i0) d s"
proof -
  let ?ops = "revived ops view bad dead i0"
  obtain f w1 where o: "open_op ops d (world s) = (f, w1)"
    by fastforce
  obtain h w2 where l: "libmtd_open_op ops w1 = (h, w2)"
    by fastforce
  obtain e i w3 where g: "mtd_get_dev_info_op ops (the h) d w2 = (e, i, w3)"
    by (metis surj_pair)
  obtain ok w4 where m: "malloc_op ops (alloc_size ops (eb_cnt i)) w3 = (ok, w4)"
    by fastforce
  have d: "dead w1 \<Longrightarrow> dead w2" "dead w2 \<Longrightarrow> dead w3" "dead w3 \<Longrightarrow> dead w4"
    using cut_passes(2) [OF cut l] cut_passes(3) [OF cut g] cut_passes(7) [OF cut m] by (simp_all add: passes_def)
  have o': "open_op ?ops d (world s) = (if dead w1 then 0 else f, w1)"
    and l': "libmtd_open_op ?ops w1 = (if dead w2 then Some 0 else h, w2)"
    and g': "mtd_get_dev_info_op ?ops (the h) d w2 = (if dead w3 then (0, i0, w3) else (e, i, w3))"
    and m': "malloc_op ?ops (alloc_size ops (eb_cnt i)) w3 = (dead w4 \<or> ok, w4)"
    and same: "errno_op ?ops = errno_op ops" "alloc_size ?ops = alloc_size ops"
    using o l g m by (simp_all add: revived_def alloc_size_def fun_eq_iff)
  note defs = init_prefix_def open_dev_def libmtd_init_def alloc_blocks_def Let_def same
  consider "f < 0" | "0 \<le> f" "h = None" | "0 \<le> f" "h \<noteq> None" "e < 0" | "0 \<le> f" "h \<noteq> None" "0 \<le> e"
    by linarith
  then show ?thesis
  proof cases
    case 1
    then show ?thesis
      using o o' by (auto simp: defs)
  next
    case 2
    then show ?thesis
      using o o' l l' d by (auto simp: defs)
  next
    case 3
    then show ?thesis
      using o o' l l' g g' d by (cases "dead w3") (auto simp: defs)
  next
    case 4
    then show ?thesis
      using o o' l l' g g' m m' d by (cases "dead w3"; cases "dead w4"; cases ok) (auto simp: defs)
  qed
qed

lemma init_alive:
  assumes cut: "power_cut ops view bad dead" and inplace: "reads_in_place ops" and info: "dev_info_ok ops"
  shows "ends_dead dead (bc_ll_init ops d s) \<or> bc_ll_init ops d s = bc_ll_init (revived ops view bad dead i0) d s"
proof -
  let ?ops = "revived ops view bad dead i0"
  have pre: "holds (init_prefix ops d s) (\<lambda>_ t. set_up t) (\<lambda>_ _. True)"
    by (rule holds_mono [OF init_prefix_holds [OF ops_keep_True info]]) simp_all
  have rest: "ends_dead dead (bindR (read_bootconfig ops t) k)"
    if "dead (world t)" "set_up t" and k: "\<And>r u. dead (world u) \<Longrightarrow> ends_dead dead (k r u)" for t and k :: "int \<Rightarrow> _"
  proof -
    have "framed (\<lambda>w. dead w \<and> flash_is view bad (view (world t)) (bad (world t)) w) UNIV t (read_bootconfig ops t)"
      using that(2) by (intro framed_read_bootconfig [OF power_cut_keeps(2) [OF cut] inplace]) (simp add: set_up_def)
    then show ?thesis
      unfolding holds_bindR using that(1) k by (elim holds_mono) (auto dest: keeps_simps(10))
  qed
  consider "ends_dead dead (init_prefix ops d s)" | "init_prefix ops d s = init_prefix ?ops d s"
    using init_prefix_alive [OF cut info] by blast
  then show ?thesis
  proof cases
    case 1
    then show ?thesis
      using pre unfolding init_split
      by (cases "init_prefix ops d s") (simp_all add: rest del: holds_bindR)
  next
    case 2
    show ?thesis
    proof (cases "init_prefix ops d s")
      case (Ret x t)
      then have "ebs t \<le> length (blks t)"
        using pre by (simp add: set_up_def)
      then consider "ends_dead dead (read_bootconfig ops t)" | "read_bootconfig ops t = read_bootconfig ?ops t"
        using read_bootconfig_alive [OF cut inplace] by blast
      then show ?thesis
        using Ret 2 by cases (auto simp: init_split elim!: holds_mono)
    qed (use 2 pre in \<open>simp_all add: init_split\<close>)
  qed
qed

section \<open>Where a run leaves the flash\<close>

text \<open>Untouched, or with one page torn by \<open>bc_ll_set_partition\<close> started on what the flash held.\<close>

definition run_leaves ::
  "('w \<Rightarrow> nat \<Rightarrow> u8 list) \<Rightarrow> ('w \<Rightarrow> nat \<Rightarrow> bool) \<Rightarrow> ('w \<Rightarrow> bool) \<Rightarrow> bt_ll_parttype \<Rightarrow> nat \<Rightarrow> nat \<Rightarrow> 'w \<Rightarrow> 'w \<Rightarrow> bool" where
  "run_leaves view bad dead which p n w0 w \<longleftrightarrow> steady view bad w0 w
   \<or> (\<exists>u found. wf_bc (bc u) \<and> pages_ok view u \<and> synced view bad u \<and> ebs u = n \<and> steady view bad w0 (world u)
        \<and> cut_at view bad dead which (of_nat p) (ebs u) (base_index (blks u)) (base_block u) u found w)"

lemma run_leaves_set:
  fixes u :: "'w st"
  assumes cut: "power_cut ops view bad dead" and ok: "reads_in_place ops" "ptr_ok ops"
    and u: "initialised u" "wf_bc (bc u)" "pages_ok view u" "synced view bad u"
    and name: "sscanf_mtd ops name = Some v" "v + word_of_int m = of_nat p" "(of_nat p :: u32) \<le> 1"
  obtains t where "cmd_set ops desc name m which u = Exit 0 t"
    "steady view bad w0 (world u) \<longrightarrow> run_leaves view bad dead which p (ebs u) w0 (world t)"
proof -
  obtain x where x: "only_prints u x"
    "cmd_set ops desc name m which u = bindR (bc_ll_set_partition ops which (of_nat p) x) (\<lambda>_ s.
       bindR (bc_ll_reread ops s) (\<lambda>_ s. bindR (print_config ops s) (\<lambda>_ s. Exit 0 s)))"
    using cmd_set_accepted [OF name(1), of m u desc which] name(2,3) by metis
  note ux = only_prints_simps [OF x(1)] only_prints_same [OF x(1)]
  have x': "initialised x" "wf_bc (bc x)" "pages_ok view x" "synced view bad x"
    using u by (simp_all add: ux)
  obtain r y where y: "bc_ll_set_partition ops which (of_nat p) x = Ret r y"
    "cut_at view bad dead which (of_nat p) (ebs x) (base_index (blks x)) (base_block x) x (r = 0) (world y)"
    using cut_set_partition [OF cut ok x' name(3)] by metis
  have "framed (\<lambda>_. True) UNIV x (bc_ll_set_partition ops which (of_nat p) x)"
    using framed_set_partition [OF ops_keep_True ok x'(1,2) name(3)] by blast
  then have k: "keeps (\<lambda>_. True) UNIV x y"
    by (simp add: y(1))
  have y': "initialised y" "wf_bc (bc y)"
    using x' keeps_wf [OF k] by (simp_all add: keeps_simps(3) [OF k])
  obtain t where t: "bindR (bc_ll_reread ops y) (\<lambda>_ s. bindR (print_config ops s) (\<lambda>_ s. Exit 0 s)) = (Exit 0 t :: ('w st, int) res)"
    "view (world t) = view (world y)" "bad (world t) = bad (world y)"
    using set_finish [OF power_cut_keeps(1) [OF cut, of "view (world y)" "bad (world y)"] ok y'] by metis
  have "dead (world t)" if "dead (world y)"
    by (rule set_finish [OF power_cut_keeps(2) [OF cut, of "view (world y)" "bad (world y)"] ok y'])
      (use t(1) that in simp)
  then have "cut_at view bad dead which (of_nat p) (ebs x) (base_index (blks x)) (base_block x) x (r = 0) (world t)"
    using t(2,3) by (intro cut_at_after [OF y(2)]) (simp_all add: steady_def)
  then have "run_leaves view bad dead which p (ebs u) w0 (world t)" if "steady view bad w0 (world u)"
    unfolding run_leaves_def
    using x' that by (intro disjI2 exI [of _ x] exI [of _ "r = 0"]) (simp add: ux)
  moreover have "cmd_set ops desc name m which u = Exit 0 t"
    using t(1) by (simp add: x(2) y(1))
  ultimately show ?thesis
    using that by blast
qed

lemma run_leaves_main:
  assumes cut: "power_cut ops view bad dead" and ok: "reads_in_place ops" "ptr_ok ops"
    and info: "dev_info_ok ops" and lives: "lives ops view bad dead i0 (world s)" and p: "p \<le> 1"
  obtains code t where
    "bootconfig_main ops [prog, set_command which, ''mtd'' @ dec_string (first_mtd which + p)] s = Exit code t"
    "code \<in> {0, 1}" "run_leaves view bad dead which p (eb_cnt i0) (world s) (world t)"
proof -
  let ?d = "''/dev/mtd1''" and ?name = "''mtd'' @ dec_string (first_mtd which + p)"
  let ?desc = "case which of Kernel \<Rightarrow> ''kernel'' | Rootfs \<Rightarrow> ''rootfs''"
  have h: "holds (bc_ll_init ops ?d s)
      (\<lambda>_ u. initialised u \<and> wf_bc (bc u) \<and> dev (bc u) = ?d \<and> flash_is view bad (view (world s)) (bad (world s)) (world u))
      (\<lambda>c u. c = 1 \<and> flash_is view bad (view (world s)) (bad (world s)) (world u))"
    by (rule init_holds [OF power_cut_keeps(1) [OF cut] ok(1) info]) simp
  show ?thesis
  proof (cases "bc_ll_init ops ?d s")
    case (Exit c t)
    then show ?thesis
      using h by (intro that [of 1 t]) (simp_all add: bootconfig_main_def run_leaves_def steady_def)
  next
    case (Ret x u)
    then have u: "bc_ll_init ops ?d s = Ret () u" "initialised u" "wf_bc (bc u)" "steady view bad (world s) (world u)"
      using h by (simp_all add: steady_def)
    note main = main_set [OF u(1), of prog which ?name, simplified]
    consider "dead (world u)" | "bc_ll_init (revived ops view bad dead i0) ?d s = Ret () u"
      using init_alive [OF cut ok(1) info, of ?d s i0] u(1) by auto
    then show ?thesis
    proof cases
      case 1
      obtain t where "cmd_set ops ?desc ?name (- int (first_mtd which)) which u = Exit 0 t"
        "dead (world u) \<and> flash_is view bad (view (world u)) (bad (world u)) (world u)
          \<longrightarrow> dead (world t) \<and> flash_is view bad (view (world u)) (bad (world u)) (world t)"
        by (rule cmd_set_keeps [OF power_cut_keeps(2) [OF cut, of "view (world u)" "bad (world u)"] ok u(2,3)
            set_name(1,3) [OF p, where which = which], where desc = ?desc and what = which])
      then show ?thesis
        using 1 u(4) by (intro that [of 0 t]) (simp_all add: main run_leaves_def steady_def)
    next
      case 2
      have v: "pages_ok view u" "synced view bad u" "ebs u = eb_cnt i0"
        using init_reads [OF revived_reads [OF cut lives] revived_opens [OF cut lives] revived_info [OF lives info], of ?d] 2
        by (auto split: if_splits)
      have p1: "(of_nat p :: u32) \<le> 1"
        using set_name(3) [OF p, where which = which] unfolding set_name(2) [OF p] .
      obtain t where "cmd_set ops ?desc ?name (- int (first_mtd which)) which u = Exit 0 t"
        "steady view bad (world s) (world u) \<longrightarrow> run_leaves view bad dead which p (ebs u) (world s) (world t)"
        by (rule run_leaves_set [OF cut ok u(2,3) v(1,2) set_name(1,2) [OF p, where which = which] p1])
      then show ?thesis
        using u(4) v(3) by (intro that [of 0 t]) (simp_all add: main)
    qed
  qed (use h in simp)
qed

text \<open>Then the old configuration is on the flash or the new one, and there is room for the next run.\<close>

lemma run_leaves_config:
  fixes which and p :: nat
  defines "new \<equiv> spec_set_partition which (of_nat p)"
  assumes at: "run_leaves view bad dead which p n w0 w"
    and len: "\<forall>k<n. length (view w0 k) = m" and p: "p \<le> 1"
    and cur: "current_index (flash_blocks view bad n w0) = Some c" "epoch (flash_blocks view bad n w0 ! c) < - 2"
    and room: "k < n" "k \<noteq> c" "magic (flash_blocks view bad n w0 ! k) \<noteq> MAGIC_BAD"
  obtains j where "flash_config view bad n w \<in> {flash_config view bad n w0, new (flash_config view bad n w0)}"
    "\<forall>k<n. length (view w k) = m" "j < n" "j \<noteq> base_index (flash_blocks view bad n w)"
    "magic (flash_blocks view bad n w ! j) \<noteq> MAGIC_BAD" "epoch (config_block (flash_blocks view bad n w)) \<noteq> - 1"
proof -
  let ?f = "flash_blocks view bad n w0"
  consider "steady view bad w0 w" | u found where "wf_bc (bc u)" "pages_ok view u" "synced view bad u"
      "ebs u = n" "steady view bad w0 (world u)"
      "cut_at view bad dead which (of_nat p) (ebs u) (base_index (blks u)) (base_block u) u found w"
    using at unfolding run_leaves_def by blast
  then show ?thesis
  proof cases
    case 1
    have "flash_blocks view bad n w = ?f"
      using 1 flash_config_cong [of view w w0 bad n] by (simp add: steady_def)
    moreover have "config_block ?f = ?f ! c" "base_index ?f = c"
      using cur(1) by (simp_all add: config_block_def base_index_def)
    ultimately show ?thesis
      using that [of k] 1 len room epoch_steps(1) [OF cur(2)]
      by (simp add: flash_config_def [abs_def] steady_def)
  next
    case (2 u found)
    have f: "flash_blocks view bad n (world u) = ?f"
      using 2(5) flash_config_cong [of view "world u" w0 bad n] by (simp add: steady_def)
    note sf = synced_flash [OF 2(3,1), unfolded 2(4) f]
    have c: "current_index (blks u) = Some c" "epoch (blks u ! c) < - 2"
      using cur sf(1,2) by (simp_all add: config_block_def base_block_def base_index_def)
    have k: "\<not> skipped u k"
      using room sf(3) [of k] by (simp add: skipped_def)
    have max: "epoch (base_block u) \<noteq> - 1"
      using epoch_steps(1) [OF c(2)] c(1) by (simp add: base_block_def base_index_def)
    have old: "active u = flash_config view bad n w0"
      using flash_config_synced [OF 2(3,1)] by (simp add: flash_config_def [abs_def] 2(4) f)
    have cfg: "flash_config view bad n w \<in> {flash_config view bad n w0, new (flash_config view bad n w0)}"
      using cut_config(1) [OF 2(6,1-3) max] by (simp add: old new_def 2(4))
    have "m = min_io_size (info (bc u))"
      using len 2(2,4,5) room(1) by (auto simp: pages_ok_def steady_def)
    then have lens: "\<forall>k<n. length (view w k) = m"
      using cut_lengths [OF 2(6) refl 2(1,2) wf_base_block [OF 2(1)]] 2(4) by simp
    show ?thesis
      by (rule cut_leaves_room [OF 2(6,1-3) c, of k])
        (use room(1,2) k cfg lens 2(4) that in simp_all)
  qed
qed

section \<open>The property\<close>


definition dying_info :: mtd_dev_info where
  "dying_info = \<lparr>eb_cnt = 4, min_io_size = 32\<rparr>"

lemma dying_info_simps [simp]: "eb_cnt dying_info = 4" "min_io_size dying_info = 32"
  by (simp_all add: dying_info_def)

lemma dying_lives:
  "lives dying_ops (\<lambda>w. nand_view (snd w)) (\<lambda>w. nand_bad (snd w)) (\<lambda>w. fst w = 0)
     dying_info (world (dying_state n))"
  using sim_same_pages [of _ 5]
  by (auto simp: lives_def dying_info_def dying_ops_def sim_ops_def powered_eq steady_def sim_page_len SIZEOF_BTBLOCK_def
      split: prod.splits if_splits)

lemma dying_dev_info_ok: "dev_info_ok dying_ops"
  by (auto simp: dev_info_ok_def dying_ops_def sim_ops_def SIZEOF_BTBLOCK_def split: prod.splits)


end
