(* ===== verification/Healthy_Cut.thy ===== *)
theory Healthy_Cut
  imports Power_Cut Main_Correct
begin

text \<open>
  The power may fail while an image is marked healthy. The flag is one bit, and marking clears
  it in the page that is in use: however far the page has been programmed when the power
  fails, the bit is either cleared or not.
\<close>

section \<open>A page programmed in part\<close>

text \<open>Of the bits that programming \<open>page\<close> over \<open>old\<close> clears, some may be left.\<close>

definition torn_program :: "u8 list \<Rightarrow> u8 list \<Rightarrow> u8 list \<Rightarrow> bool" where
  "torn_program page old new \<longleftrightarrow> length new = length old
     \<and> (\<forall>j<length old. new ! j AND old ! j = new ! j
          \<and> program_page page old ! j AND new ! j = program_page page old ! j)"

lemma torn_byte:
  fixes old new :: u8
  assumes sub: "new AND old = new" and sup: "(old AND 0x7F) AND new = old AND 0x7F"
  shows "new = old \<or> new = old AND 0x7F"
proof -
  have m: "bit (0x7F :: u8) n \<longleftrightarrow> n < 7" for n
  proof -
    have "(mask 7 :: u8) = 0x7F"
      by (simp add: mask_eq_exp_minus_1)
    moreover have "bit (mask 7 :: u8) n \<longleftrightarrow> n < 7"
      unfolding bit_mask_iff by auto
    ultimately show ?thesis
      by metis
  qed
  have le: "bit new n \<Longrightarrow> bit old n" for n
    using sub by (metis bit_and_iff)
  have ge: "n < 7 \<Longrightarrow> bit old n \<Longrightarrow> bit new n" for n
    using sup m by (metis bit_and_iff)
  have n7: "n < 7 \<or> n = 7" if "n < 8" for n :: nat
    using that by auto
  show ?thesis
  proof (cases "bit new 7 \<longleftrightarrow> bit old 7")
    case True
    have "new = old"
    proof (rule bit_word_eqI)
      fix n
      assume "n < LENGTH(8)"
      then show "bit new n \<longleftrightarrow> bit old n"
        using n7 [of n] le [of n] ge [of n] True by auto
    qed
    then show ?thesis ..
  next
    case False
    then have "\<not> bit new 7"
      using le by blast
    have "new = old AND 0x7F"
    proof (rule bit_word_eqI)
      fix n
      assume "n < LENGTH(8)"
      then show "bit new n \<longleftrightarrow> bit (old AND 0x7F) n"
        unfolding bit_and_iff m using n7 [of n] le [of n] ge [of n] \<open>\<not> bit new 7\<close> by auto
    qed
    then show ?thesis ..
  qed
qed

text \<open>When it clears one bit only, it is done or not done.\<close>

lemma torn_one_bit:
  assumes torn: "torn_program page old new" and one: "program_page page old = old[i := old ! i AND 0x7F]"
    and i: "i < length old"
  shows "new = old \<or> new = program_page page old"
proof -
  have len: "length new = length old"
    using torn by (simp add: torn_program_def)
  have sub: "new ! j AND old ! j = new ! j"
    and sup: "old[i := old ! i AND 0x7F] ! j AND new ! j = old[i := old ! i AND 0x7F] ! j" if "j < length old" for j
    using torn that by (simp_all add: torn_program_def one)
  have other: "new ! j = old ! j" if "j < length old" "j \<noteq> i" for j
    using sub [OF that(1)] sup [OF that(1)] that by (simp add: and.commute)
  have "new ! i = old ! i \<or> new ! i = old ! i AND 0x7F"
    using torn_byte [OF sub [OF i]] sup [OF i] i by simp
  then show ?thesis
  proof
    assume "new ! i = old ! i"
    then have "new = old"
      using len other by (intro nth_equalityI) metis+
    then show ?thesis ..
  next
    assume "new ! i = old ! i AND 0x7F"
    then have "new = program_page page old"
      unfolding one using len other i by (intro nth_equalityI) (auto simp: nth_list_update)
    then show ?thesis ..
  qed
qed

section \<open>The device\<close>

text \<open>
  A device that may die, as for \<open>power_cut\<close>, but a page need not be programmed as a whole. Only
  the calls that marking an image makes matter.
\<close>

definition bit_cut ::
  "'w env_ops \<Rightarrow> ('w \<Rightarrow> nat \<Rightarrow> u8 list) \<Rightarrow> ('w \<Rightarrow> nat \<Rightarrow> bool) \<Rightarrow> ('w \<Rightarrow> bool) \<Rightarrow> bool" where
  "bit_cut ops view bad dead \<longleftrightarrow>
     (\<forall>n w. passes view bad dead w (snd (malloc_op ops n w)))
   \<and> (\<forall>n w. dead (snd (malloc_op ops n w)) \<or> fst (malloc_op ops n w))
   \<and> (\<forall>h i f k off page w. dead w \<longrightarrow> passes view bad dead w (snd (mtd_write_op ops h i f k off page w)))
   \<and> (\<forall>h i f k off page w. \<not> bad w k \<longrightarrow> length page = length (view w k) \<longrightarrow>
        (let r = mtd_write_op ops h i f k off page w
         in bad (snd r) = bad w
          \<and> (dead (snd r) \<and> (\<exists>new. torn_program page (view w k) new \<and> view (snd r) = (view w)(k := new))
            \<or> fst r = 0 \<and> view (snd r) = (view w)(k := program_page page (view w k)))))"

lemma torn_program_ends:
  assumes "length page = length old"
  shows "torn_program page old old" "torn_program page old (program_page page old)"
  using assms by (simp_all add: torn_program_def program_page_def and.assoc)

text \<open>A device that programs whole pages is one of them.\<close>

lemma power_cut_bits: "power_cut ops view bad dead \<Longrightarrow> bit_cut ops view bad dead"
  unfolding power_cut_def bit_cut_def alters_def steady_def Let_def
  using torn_program_ends by (metis fun_upd_triv)

lemma bit_cut_malloc:
  assumes "bit_cut ops view bad dead" "malloc_op ops n w = (ok, w1)"
  shows "steady view bad w w1 \<and> (dead w \<longrightarrow> dead w1) \<and> (dead w1 \<or> ok)"
  using assms unfolding bit_cut_def passes_def by (metis fst_conv snd_conv)

lemma bit_cut_write:
  assumes "bit_cut ops view bad dead" "mtd_write_op ops h i f k off page w = (e, w1)"
  shows "dead w \<Longrightarrow> dead w1 \<and> steady view bad w w1"
    and "\<not> bad w k \<Longrightarrow> length page = length (view w k) \<Longrightarrow> bad w1 = bad w
      \<and> (dead w1 \<and> (\<exists>new. torn_program page (view w k) new \<and> view w1 = (view w)(k := new))
        \<or> e = 0 \<and> view w1 = (view w)(k := program_page page (view w k)))"
  using assms unfolding bit_cut_def passes_def Let_def by (metis snd_conv, metis fst_conv snd_conv)

section \<open>Marking an image\<close>

text \<open>An entry that keeps its magic and its epoch leaves the current one where it is.\<close>

lemma current_same_key:
  assumes "i < length bs" "magic b = magic (bs ! i)" "epoch b = epoch (bs ! i)"
  shows "current_index (bs[i := b]) = current_index bs"
proof -
  have same: "is_boot (bs[i := b] ! j) = is_boot (bs ! j)" "epoch (bs[i := b] ! j) = epoch (bs ! j)" for j
    using assms by (cases "j = i"; simp add: is_boot_def)+
  have "is_current (bs[i := b]) k \<longleftrightarrow> is_current bs k" for k
    unfolding is_current_def same by simp
  then show ?thesis
    by (metis current_index_iff option.exhaust)
qed

text \<open>The flag is the top bit of the byte \<open>pos\<close> of the block.\<close>

locale one_bit_command = healthy_command setter flag cleared command which
  for setter :: "'w env_ops \<Rightarrow> nat \<Rightarrow> 'w st \<Rightarrow> ('w st, int) res" and flag cleared command which +
  fixes pos :: nat
  assumes pos: "pos < SIZEOF_BTBLOCK"
    and one_bit: "wf_block b \<Longrightarrow>
      btblock_bytes (cleared b) = (btblock_bytes b)[pos := btblock_bytes b ! pos AND 0x7F]"
begin

lemma torn_page:
  assumes wf: "wf_bc (bc s)" and pages: "pages_ok view s" and synced: "synced view bad s" and c: "c < ebs s"
    and good: "\<not> bad (world s) c"
    and torn: "torn_program (block_page s (cleared (blks s ! c))) (view (world s) c) new"
  shows "new = view (world s) c
    \<or> new = btblock_bytes (cleared (blks s ! c)) @ drop SIZEOF_BTBLOCK (view (world s) c)"
proof -
  let ?b = "blks s ! c" and ?old = "view (world s) c"
  note page = program_cleared_page [OF wf pages synced c good]
  have wfb: "wf_block ?b"
    using wf c by (rule wf_bc_nth)
  have len: "length (btblock_bytes ?b) = SIZEOF_BTBLOCK" "pos < length ?old"
    using pos pages c wf_bcD(5) [OF wf] wfb by (simp_all add: pages_ok_def)
  have at: "?old ! pos = btblock_bytes ?b ! pos"
    using pos len(1) by (subst page(1)) (simp add: nth_append)
  have "?old[pos := ?old ! pos AND 0x7F] = btblock_bytes (cleared ?b) @ drop SIZEOF_BTBLOCK ?old"
    unfolding at one_bit [OF wfb] using pos len(1) by (subst page(1)) (simp add: list_update_append)
  then show ?thesis
    using torn_one_bit [OF torn _ len(2)] page(3) by simp
qed

text \<open>What the flash holds when the page of the current block has been marked.\<close>

lemma marked_config:
  assumes wf: "wf_bc (bc s)" and synced: "synced view bad s" and cur: "current_index (blks s) = Some c"
    and bw: "bad w = bad (world s)"
    and view: "view w = (view (world s))(c := btblock_bytes (cleared (blks s ! c)) @ rest)"
  shows "flash_config view bad (ebs s) w = (active s)(which := (active s which)\<lparr>n_healthy := 0\<rparr>)"
proof -
  let ?f = "flash_blocks view bad (ebs s) (world s)" and ?b = "blks s ! c"
  have c: "c < ebs s" "is_boot ?b"
    using cur wf_bcD(1) [OF wf] by (simp_all add: current_index_iff is_current_def)
  then have good: "\<not> bad (world s) c" and fc: "?f ! c = ?b"
    using synced by (auto simp: synced_def synced_at_def is_boot_def flash_blocks_def)
  have "flash_blocks view bad (ebs s) w = ?f[c := cleared ?b]"
    using flash_blocks_page [OF view bw good c(1)] wf_bc_nth [OF wf c(1)] by simp
  moreover have "current_index (?f[c := cleared ?b]) = Some c"
    using cur c(1) by (simp add: current_same_key fc synced_flash(1) [OF synced wf])
  ultimately show ?thesis
    using c(1) cleared_image [of ?b] by (simp add: flash_config_def [abs_def] config_block_def active_current [OF cur])
qed

lemma marking_is_atomic:
  assumes cut: "bit_cut ops view bad dead" and init: "initialised s" and wf: "wf_bc (bc s)"
    and pages: "pages_ok view s" and synced: "synced view bad s" and cur: "current_index (blks s) = Some c"
  shows "\<exists>r t. setter ops c s = Ret r t
    \<and> flash_config view bad (ebs s) (world t) \<in> {active s, (active s)(which := (active s which)\<lparr>n_healthy := 0\<rparr>)}
    \<and> (\<not> dead (world t) \<longrightarrow> r = 0
        \<and> flash_config view bad (ebs s) (world t) = (active s)(which := (active s which)\<lparr>n_healthy := 0\<rparr>))"
proof -
  let ?b = "blks s ! c" and ?new = "(active s)(which := (active s which)\<lparr>n_healthy := 0\<rparr>)"
  have c: "c < ebs s" "c < length (blks s)" "is_boot ?b"
    using cur wf_bcD(1) [OF wf] by (simp_all add: current_index_iff is_current_def)
  then have good: "\<not> bad (world s) c"
    using synced by (auto simp: synced_def synced_at_def is_boot_def)
  have old: "flash_config view bad (ebs s) w = active s" if "steady view bad (world s) w" for w
    using that flash_config_cong [of view w "world s" bad] flash_config_synced [OF synced wf]
    by (simp add: flash_config_def [abs_def] steady_def)
  show ?thesis
  proof (cases "flag ?b = 1")
    case False
    then have f: "flag ?b = 0"
      using u1_cases [of "flag ?b"] by simp
    then have "(active s which)\<lparr>n_healthy := 0\<rparr> = active s which"
      by (cases "active s which") (simp add: flag_image active_current [OF cur])
    then show ?thesis
      using already_healthy [OF init c(2) f] old [of "world s"] by (simp add: steady_def)
  next
    case f: True
    let ?u = "set_blocks ((blks s)[c := cleared ?b]) s" and ?page = "block_page s (cleared ?b)"
    obtain ok w where m: "malloc_op ops (min_io_size (info (bc s))) (world s) = (ok, w)"
      by fastforce
    note m' = bit_cut_malloc [OF cut m]
    obtain e w3 where wr: "mtd_write_op ops (mtd (bc s)) (info (bc s)) (fd (bc s)) c 0 ?page w = (e, w3)"
      by fastforce
    show ?thesis
    proof (cases ok)
      case False
      then obtain t where "setter ops c s = Ret (-1) t" "world t = w"
        using init f c m
        by (simp add: setter_code get_block_def put_block_def malloc_page_def Let_def set_blocks_def)
      then show ?thesis
        using m' old [of w] False by simp
    next
      case True
      have r: "setter ops c s = Ret (if e < 0 then 1 else 0) (set_world w3 ?u)"
        using init f c m True wr wf_bcD(5) [OF wf]
        by (simp add: setter_code get_block_def put_block_def malloc_page_def fill_page_Ret
            write_page_def block_page_def Let_def set_world_def set_blocks_def)
      have same: "view w = view (world s)" "bad w = bad (world s)"
        using m' by (simp_all add: steady_def)
      note pg = program_cleared_page [OF wf pages synced c(1) good]
      have "bad w3 = bad (world s) \<and> (dead w3 \<and> (\<exists>new. torn_program ?page (view (world s) c) new
            \<and> view w3 = (view (world s))(c := new))
          \<or> e = 0 \<and> view w3 = (view (world s))(c := program_page ?page (view (world s) c)))"
        using bit_cut_write(2) [OF cut wr] good pg(2) by (simp add: same)
      then have "bad w3 = bad (world s)"
        "dead w3 \<and> view w3 = view (world s) \<or> (dead w3 \<or> e = 0) \<and> view w3 =
          (view (world s))(c := btblock_bytes (cleared ?b) @ drop SIZEOF_BTBLOCK (view (world s) c))"
        using torn_page [OF wf pages synced c(1) good] pg(3) by (metis, metis fun_upd_triv)
      then have "dead w3 \<and> flash_config view bad (ebs s) w3 = active s
          \<or> (dead w3 \<or> e = 0) \<and> flash_config view bad (ebs s) w3 = ?new"
        using old [of w3] marked_config [OF wf synced cur] by (auto simp: steady_def)
      then show ?thesis
        using r by auto
    qed
  qed
qed

end

lemma healthy_bytes:
  "bytes16 (btinfo_word (i\<lparr>n_healthy := 0\<rparr>)) =
     [bytes16 (btinfo_word i) ! 0, bytes16 (btinfo_word i) ! 1 AND 0x7F]"
  by (cases i) (simp add: bytes16_def btinfo_word_def bitwise)

lemma healthy_bits:
  assumes "wf_block b"
  shows "btblock_bytes (b\<lparr>kernel := (kernel b)\<lparr>n_healthy := 0\<rparr>\<rparr>) = (btblock_bytes b)[13 := btblock_bytes b ! 13 AND 0x7F]"
    and "btblock_bytes (b\<lparr>rootfs := (rootfs b)\<lparr>n_healthy := 0\<rparr>\<rparr>) = (btblock_bytes b)[15 := btblock_bytes b ! 15 AND 0x7F]"
  using assms unfolding btblock_bytes_def btblock.simps btblock.update_convs healthy_bytes
  by (simp_all add: wf_block_def list_update_append nth_append bytes32_def) (use healthy_bytes [unfolded bytes16_def] in \<open>simp_all add: bytes16_def\<close>)

interpretation kernel_bit: one_bit_command bc_ll_set_kernel_healthy "\<lambda>b. n_healthy (kernel b)"
    "\<lambda>b. b\<lparr>kernel := (kernel b)\<lparr>n_healthy := 0\<rparr>\<rparr>" cmd_set_kernel_healthy Kernel 13
  by unfold_locales (simp_all add: SIZEOF_BTBLOCK_def healthy_bits)

interpretation rootfs_bit: one_bit_command bc_ll_set_rootfs_healthy "\<lambda>b. n_healthy (rootfs b)"
    "\<lambda>b. b\<lparr>rootfs := (rootfs b)\<lparr>n_healthy := 0\<rparr>\<rparr>" cmd_set_rootfs_healthy Rootfs 15
  by unfold_locales (simp_all add: SIZEOF_BTBLOCK_def healthy_bits)

text \<open>
  C7: Marking the kernel or the root file system healthy survives a power cut at any call, even
  one that leaves the page programmed in part: the boot loader then finds the configuration
  with the flag or without it, and nothing else is changed. If the device is alive at the end,
  the function has returned 0 and the image is marked.
\<close>

theorem marking_survives_power_cut:
  assumes "bit_cut ops view bad dead" "initialised s" "wf_bc (bc s)" "pages_ok view s" "synced view bad s"
    and "current_index (blks s) = Some c"
  shows "\<exists>r t. (case which of Kernel \<Rightarrow> bc_ll_set_kernel_healthy ops c s | Rootfs \<Rightarrow> bc_ll_set_rootfs_healthy ops c s) = Ret r t
    \<and> flash_config view bad (ebs s) (world t) \<in> {active s, (active s)(which := (active s which)\<lparr>n_healthy := 0\<rparr>)}
    \<and> (\<not> dead (world t) \<longrightarrow> r = 0
        \<and> flash_config view bad (ebs s) (world t) = (active s)(which := (active s which)\<lparr>n_healthy := 0\<rparr>))"
proof (cases which)
  case Kernel
  then show ?thesis
    using kernel_bit.marking_is_atomic [OF assms] by simp
next
  case Rootfs
  then show ?thesis
    using rootfs_bit.marking_is_atomic [OF assms] by simp
qed

text \<open>A device that loses power while it programs the page of a fresh block, some bits of which stay.\<close>

definition tearing_ops :: "(bool \<times> nand) env_ops" where
  "tearing_ops =
     \<lparr>open_op = (\<lambda>d w. (3, w)),
      libmtd_open_op = (\<lambda>w. (Some 7, w)),
      mtd_get_dev_info_op = (\<lambda>h d w. (0, \<lparr>eb_cnt = 1, min_io_size = 32\<rparr>, w)),
      mtd_is_bad_op = (\<lambda>i f k w. (0, w)),
      mtd_read_op = (\<lambda>i f k off buf w. (- 1, buf, w)),
      mtd_erase_op = (\<lambda>h i f k w. (- 1, w)),
      mtd_write_op = (\<lambda>h i f k off page (gone, w).
        (- 1, True, if gone \<or> length (pages w) \<le> k \<or> length page \<noteq> length (pages w ! k) then w
           else w\<lparr>pages := (pages w)[k := program_page (take 13 page) (take 13 (pages w ! k)) @ drop 13 (pages w ! k)]\<rparr>)),
      malloc_op = (\<lambda>n w. (True, w)),
      time_op = (\<lambda>w. (0, w)),
      errno_op = (\<lambda>_. 5),
      sizeof_ptr = 4,
      sscanf_overflow = (\<lambda>v. - 1),
      time_t_conv = uint\<rparr>"

definition tearing_state :: "(bool \<times> nand) st" where
  "tearing_state =
     \<lparr>bc_log_channels = default_channels, bc_log_levels = default_levels, outputs = [],
      initialised = True, bc = bc fresh_state, world = (False, world fresh_state)\<rparr>"

lemma torn_prefix:
  "length page = length old \<Longrightarrow> torn_program page old (program_page (take n page) (take n old) @ drop n old)"
  by (auto simp: torn_program_def program_page_def nth_append min_def and.assoc and.left_commute and.commute)

lemma tearing_cut: "bit_cut tearing_ops (\<lambda>w. nand_view (snd w)) (\<lambda>w. nand_bad (snd w)) fst"
  unfolding bit_cut_def
proof (intro conjI allI impI)
  fix h i f k off and page :: "u8 list" and w :: "bool \<times> nand"
  let ?r = "mtd_write_op tearing_ops h i f k off page w"
  assume page: "length page = length (nand_view (snd w) k)"
  have "\<exists>new. torn_program page (nand_view (snd w) k) new \<and> nand_view (snd (snd ?r)) = (nand_view (snd w))(k := new)"
  proof (cases "fst w \<or> length (pages (snd w)) \<le> k \<or> length page \<noteq> length (pages (snd w) ! k)")
    case True
    then have "nand_view (snd (snd ?r)) = (nand_view (snd w))(k := nand_view (snd w) k)"
      by (auto simp: tearing_ops_def split: prod.splits)
    then show ?thesis
      using torn_program_ends(1) [OF page] by blast
  next
    case False
    then have "nand_view (snd (snd ?r)) = (nand_view (snd w))
        (k := program_page (take 13 page) (take 13 (nand_view (snd w) k)) @ drop 13 (nand_view (snd w) k))"
      by (auto simp: tearing_ops_def nand_view_def fun_eq_iff nth_list_update split: prod.splits)
    then show ?thesis
      using torn_prefix [OF page] by blast
  qed
  moreover have "fst (snd ?r)" "nand_bad (snd (snd ?r)) = nand_bad (snd w)"
    by (auto simp: tearing_ops_def nand_bad_def fun_eq_iff split: prod.splits)
  ultimately show "let r = ?r in nand_bad (snd (snd r)) = nand_bad (snd w)
      \<and> (fst (snd r) \<and> (\<exists>new. torn_program page (nand_view (snd w) k) new
            \<and> nand_view (snd (snd r)) = (nand_view (snd w))(k := new))
        \<or> fst r = 0 \<and> nand_view (snd (snd r)) = (nand_view (snd w))(k := program_page page (nand_view (snd w) k)))"
    by (simp add: Let_def)
qed (auto simp: tearing_ops_def passes_def steady_def split: prod.splits)

lemma tearing_simps [simp]:
  "initialised tearing_state" "bc tearing_state = bc fresh_state" "world tearing_state = (False, world fresh_state)"
  by (simp_all add: tearing_state_def)

lemma tearing_ok:
  "pages_ok (\<lambda>w. nand_view (snd w)) tearing_state"
  "synced (\<lambda>w. nand_view (snd w)) (\<lambda>w. nand_bad (snd w)) tearing_state"
  "current_index (blks tearing_state) = Some 0"
proof -
  show "pages_ok (\<lambda>w. nand_view (snd w)) tearing_state"
    "synced (\<lambda>w. nand_view (snd w)) (\<lambda>w. nand_bad (snd w)) tearing_state"
    using fresh_ok by (simp_all add: pages_ok_def synced_def synced_at_def split: if_splits)
  have "is_current [fresh_block] 0"
    by (simp add: is_current_def is_boot_def fresh_block_def next_block_def set_image_info_def sim_block_def Let_def
        split: bt_ll_parttype.split)
  then show "current_index (blks tearing_state) = Some 0"
    by (simp add: current_index_iff)
qed

theorem marking_survives_power_cut_witness:
  "\<exists>r t. bc_ll_set_kernel_healthy tearing_ops 0 tearing_state = Ret r t
    \<and> flash_config (\<lambda>w. nand_view (snd w)) (\<lambda>w. nand_bad (snd w)) 1 (world t)
        \<in> {active tearing_state, (active tearing_state)(Kernel := (active tearing_state Kernel)\<lparr>n_healthy := 0\<rparr>)}
    \<and> (\<not> fst (world t) \<longrightarrow> r = 0 \<and> flash_config (\<lambda>w. nand_view (snd w)) (\<lambda>w. nand_bad (snd w)) 1 (world t)
          = (active tearing_state)(Kernel := (active tearing_state Kernel)\<lparr>n_healthy := 0\<rparr>))"
  using marking_survives_power_cut [OF tearing_cut _ _ tearing_ok, of Kernel] fresh_ok(1) by simp

end
