(* ===== verification/Uboot.thy ===== *)
theory Uboot
  imports Prelude
begin

text \<open>
  What the board code of the boot loader talks to. Every call of a U-Boot or hardware
  function is an event; a run of the board code is the list of the events so far, in their
  order. What a call answers is a parameter: a function of the events before it and of the
  call itself, so that a device may answer differently over time.
\<close>

section \<open>Calls and answers\<close>

text \<open>
  A GPIO is named by the two arguments of \<open>IMX_GPIO_NR\<close>, a register by its C name, a pad
  by the name of its definition and of its control setting.
\<close>

type_synonym gpio = "nat \<times> nat"

datatype call =
    Gpio_request gpio string
  | Gpio_output gpio nat
  | Gpio_input gpio
  | Gpio_set gpio nat
  | Gpio_get gpio
  | Setup_pads "(string \<times> string) list"
  | Udelay nat
  | Mdelay nat
  | Print string "string list"
  | Mii_read "string option" nat nat
  | Mii_write "string option" nat nat u16
  | Readl string
  | Writel string u32
  | Env_get string
  | Env_set string string
  | Env_get_ulong string nat u32
  | Env_set_ulong string u32
  | Env_save
  | I2c_bus int
  | I2c_probe int int
  | I2c_write int int u8 u8
  | Hab_is_enabled
  | Hab_report_status
  | Is_cpu_6qp
  | Fdt_path_offset string
  | Fdt_add_subnode int string
  | Fdt_setprop_string int string string
  | Phy_drv_config
  | Enable_ipu_clock
  | Imx_setup_hdmi
  | Imx_enable_hdmi_phy
  | Enable_fec_anatop_clock int
  | Enable_enet_clk nat
  | Setup_sata
  | Ddr_size
  | Add_boot_modes "(string \<times> u8 list) list"

type_synonym trace = "call list"

text \<open>The results of \<open>hab_rvt_report_status\<close>, by the names the code compares them with.\<close>

datatype hab_ret = HAB_SUCCESS | HAB_RET_OTHER
datatype hab_config = HAB_CFG_OPEN | HAB_CFG_CLOSED | HAB_CFG_OTHER
datatype hab_state = HAB_STATE_NONSECURE | HAB_STATE_TRUSTED | HAB_STATE_OTHER

text \<open>
  The answers: \<open>ans\<close> of the calls with a number, \<open>ans_str\<close> of \<open>env_get\<close> (\<open>None\<close> is the null
  pointer), \<open>hab_status\<close> of \<open>hab_rvt_report_status\<close> with the two values it stores, and
  \<open>mii_dev\<close> of \<open>miiphy_get_current_dev\<close>.
\<close>

record platform =
  ans :: "trace \<Rightarrow> call \<Rightarrow> int"
  ans_str :: "trace \<Rightarrow> string \<Rightarrow> string option"
  hab_status :: "trace \<Rightarrow> hab_ret \<times> hab_config \<times> hab_state"
  mii_dev :: "trace \<Rightarrow> string option"

definition answer :: "platform \<Rightarrow> call \<Rightarrow> trace \<Rightarrow> int \<times> trace" where
  "answer pl c h = (ans pl h c, h @ [c])"

section \<open>The boards\<close>

text \<open>
  The board is chosen by \<open>CONFIG_BOARD_IS_HIMX_*\<close> at compile time, \<open>OTHER\<close> when none is
  defined; the other options switch parts of the code on.
\<close>

datatype board = IMOC | IVAP | DVMON | OTHER

record config =
  board :: board
  mxc_spi :: bool
  sata :: bool
  video_ipuv3 :: bool
  cmd_bmode :: bool
  default_fdt_file :: string

section \<open>The environment\<close>

text \<open>
  The environment as U-Boot documents it, read off the events: a variable holds what was
  last written to it. Numbers are held apart from texts, which is enough for variables that
  are only ever used as one of the two.
\<close>

definition text_step :: "call \<Rightarrow> (string \<Rightarrow> string option) \<Rightarrow> string \<Rightarrow> string option" where
  "text_step c e = (case c of Env_set n v \<Rightarrow> e(n \<mapsto> v) | _ \<Rightarrow> e)"

definition number_step :: "call \<Rightarrow> (string \<Rightarrow> u32) \<Rightarrow> string \<Rightarrow> u32" where
  "number_step c e = (case c of Env_set_ulong n v \<Rightarrow> e(n := v) | _ \<Rightarrow> e)"

definition env_texts :: "(string \<Rightarrow> string option) \<Rightarrow> trace \<Rightarrow> string \<Rightarrow> string option" where
  "env_texts init h = fold text_step h init"

definition env_numbers :: "(string \<Rightarrow> u32) \<Rightarrow> trace \<Rightarrow> string \<Rightarrow> u32" where
  "env_numbers init h = fold number_step h init"

text \<open>The platform's environment starts with the given texts and numbers.\<close>

definition has_env :: "platform \<Rightarrow> (string \<Rightarrow> string option) \<Rightarrow> (string \<Rightarrow> u32) \<Rightarrow> bool" where
  "has_env pl texts numbers \<longleftrightarrow>
     (\<forall>h n. ans_str pl h n = env_texts texts h n)
   \<and> (\<forall>h n d. ans pl h (Env_get_ulong n 10 d) = uint (env_numbers numbers h n))
   \<and> (\<forall>h n v. ans pl h (Env_set n v) = 0)"

lemma has_envD:
  assumes "has_env pl texts numbers"
  shows "ans_str pl h n = env_texts texts h n"
    and "ans pl h (Env_get_ulong n 10 d) = uint (env_numbers numbers h n)"
    and "ans pl h (Env_set n v) = 0"
  using assms by (simp_all add: has_env_def)

lemma env_append [simp]:
  "env_texts texts (h @ g) = env_texts (env_texts texts h) g"
  "env_numbers numbers (h @ g) = env_numbers (env_numbers numbers h) g"
  by (simp_all add: env_texts_def env_numbers_def)

lemma env_Nil [simp]: "env_texts texts [] = texts" "env_numbers numbers [] = numbers"
  by (simp_all add: env_texts_def env_numbers_def)

lemma env_Cons [simp]:
  "env_texts texts (c # h) = env_texts (text_step c texts) h"
  "env_numbers numbers (c # h) = env_numbers (number_step c numbers) h"
  by (simp_all add: env_texts_def env_numbers_def)

definition writes_env :: "call \<Rightarrow> bool" where
  "writes_env c = (case c of Env_set _ _ \<Rightarrow> True | Env_set_ulong _ _ \<Rightarrow> True | _ \<Rightarrow> False)"

lemma writes_env_simps [simp]:
  "\<not> writes_env (Gpio_request g l)" "\<not> writes_env (Gpio_output g v)" "\<not> writes_env (Gpio_input g)"
  "\<not> writes_env (Gpio_get g)" "\<not> writes_env (Udelay t)" "\<not> writes_env (Print f xs)"
  "\<not> writes_env (Env_get n)" "\<not> writes_env (Env_get_ulong n b d)" "\<not> writes_env Env_save"
  "\<not> writes_env (I2c_bus i)" "\<not> writes_env (I2c_probe i a)" "\<not> writes_env Is_cpu_6qp"
  "\<not> writes_env Hab_is_enabled" "\<not> writes_env Hab_report_status"
  by (simp_all add: writes_env_def)

lemma not_writes_env:
  "\<not> writes_env c \<Longrightarrow> text_step c e = e" "\<not> writes_env c \<Longrightarrow> number_step c m = m"
  by (cases c; simp add: writes_env_def text_step_def number_step_def)+

lemma env_unchanged:
  "list_all (\<lambda>c. \<not> writes_env c) h \<Longrightarrow> env_texts texts h = texts \<and> env_numbers numbers h = numbers"
  by (induction h arbitrary: texts numbers) (simp_all add: not_writes_env)

end
