(* ===== verification/Marvell.thy ===== *)
theory Marvell
  imports Uboot
begin

text \<open>
  The access to the PHYs behind the Marvell switch of the IMOC and IVAP boards
  (\<open>marvell_phy_read\<close>, \<open>marvell_phy_write\<close>, \<open>set_phy_speed\<close>, \<open>phy_speed\<close>,
  \<open>board_phy_config\<close> of \<open>hipos-cyber-security/himx0294.c\<close>). The loops that wait for the
  device may not end: they are partial functions, and \<open>None\<close> is a run that hangs.
\<close>

section \<open>The code\<close>

definition SMI_PHY_COMMAND_REGISTER :: nat where "SMI_PHY_COMMAND_REGISTER = 0x18"
definition SMI_PHY_DATA_REGISTER :: nat where "SMI_PHY_DATA_REGISTER = 0x19"
definition MARVELL_GLOBAL2_ADDR :: nat where "MARVELL_GLOBAL2_ADDR = 0x1C"
definition SMI_BUSY_BIT :: nat where "SMI_BUSY_BIT = 15"
definition PHY_SPEED_1000 :: int where "PHY_SPEED_1000 = 0xe00"
definition PHY_SPEED_100 :: int where "PHY_SPEED_100 = 0x0"

text \<open>The constants of \<open>linux/mii.h\<close> the code uses, as IEEE 802.3 clause 22 numbers them.\<close>

definition MII_BMCR :: int where "MII_BMCR = 0x00"
definition MII_CTRL1000 :: int where "MII_CTRL1000 = 0x09"
definition BMCR_RESET :: int where "BMCR_RESET = 0x8000"

definition mii_read :: "platform \<Rightarrow> string option \<Rightarrow> nat \<Rightarrow> nat \<Rightarrow> trace \<Rightarrow> u16 \<times> trace" where
  "mii_read pl dev addr reg h =
     (word_of_int (ans pl h (Mii_read dev addr reg)), h @ [Mii_read dev addr reg])"

definition poll_call :: "string option \<Rightarrow> call" where
  "poll_call dev = Mii_read dev MARVELL_GLOBAL2_ADDR SMI_PHY_COMMAND_REGISTER"

partial_function (option) smi_wait :: "platform \<Rightarrow> string option \<Rightarrow> trace \<Rightarrow> trace option" where
  "smi_wait pl dev h =
     (let (val, h') = mii_read pl dev MARVELL_GLOBAL2_ADDR SMI_PHY_COMMAND_REGISTER h
      in if \<not> bit val SMI_BUSY_BIT then Some h' else smi_wait pl dev h')"

definition smi_command :: "int \<Rightarrow> int \<Rightarrow> int \<Rightarrow> int" where
  "smi_command cmd phyaddr phyreg =
     (cmd OR push_bit 5 (phyaddr AND 0x1F)) OR (phyreg AND 0x1F)"

definition marvell_phy_read :: "platform \<Rightarrow> int \<Rightarrow> int \<Rightarrow> trace \<Rightarrow> (u16 \<times> trace) option" where
  "marvell_phy_read pl phyaddr phyreg h =
     (let dev = mii_dev pl h;
          cmd = smi_command 0x9800 phyaddr phyreg;
          h = h @ [Mii_write dev MARVELL_GLOBAL2_ADDR SMI_PHY_COMMAND_REGISTER (word_of_int cmd)]
      in Option.bind (smi_wait pl dev h) (\<lambda>h.
           Some (mii_read pl dev MARVELL_GLOBAL2_ADDR SMI_PHY_DATA_REGISTER h)))"

definition marvell_phy_write :: "platform \<Rightarrow> int \<Rightarrow> int \<Rightarrow> int \<Rightarrow> trace \<Rightarrow> trace option" where
  "marvell_phy_write pl phyaddr phyreg phydata h =
     (let dev = mii_dev pl h;
          cmd = smi_command 0x9400 phyaddr phyreg;
          h = h @ [Mii_write dev MARVELL_GLOBAL2_ADDR SMI_PHY_DATA_REGISTER (word_of_int phydata)];
          h = h @ [Mii_write dev MARVELL_GLOBAL2_ADDR SMI_PHY_COMMAND_REGISTER (word_of_int cmd)]
      in smi_wait pl dev h)"

partial_function (option) wait_reset :: "platform \<Rightarrow> int \<Rightarrow> trace \<Rightarrow> trace option" where
  "wait_reset pl phyaddr h =
     Option.bind (marvell_phy_read pl phyaddr MII_BMCR h) (\<lambda>(val, h).
       if uint val AND BMCR_RESET \<noteq> 0
       then wait_reset pl phyaddr (h @ [Udelay 250000, Print ''.'' []])
       else Some h)"

definition set_phy_speed :: "platform \<Rightarrow> int \<Rightarrow> int \<Rightarrow> trace \<Rightarrow> trace option" where
  "set_phy_speed pl phyaddr phydata h =
     Option.bind (marvell_phy_write pl phyaddr MII_CTRL1000 phydata h) (\<lambda>h.
       if 6 = phyaddr then Some h
       else Option.bind (marvell_phy_read pl phyaddr MII_BMCR h) (\<lambda>(ctrl, h).
            Option.bind (marvell_phy_write pl phyaddr MII_BMCR (uint ctrl OR BMCR_RESET) h) (\<lambda>h.
              wait_reset pl phyaddr h)))"

text \<open>The number of ports of a board and the port a letter of \<open>lanspeed\<close> stands for.\<close>

definition port_count :: "board \<Rightarrow> nat" where
  "port_count b = (case b of IMOC \<Rightarrow> 2 | IVAP \<Rightarrow> 6 | _ \<Rightarrow> 0)"

definition port_of :: "board \<Rightarrow> nat \<Rightarrow> int" where
  "port_of b i =
     (if b = IVAP
      then if i = 3 then 4 else if i = 4 then 3 else if i = 5 then 6 else int i
      else int i)"

definition wants_1000 :: "string option \<Rightarrow> nat \<Rightarrow> bool" where
  "wants_1000 lanspeed i =
     (case lanspeed of None \<Rightarrow> False | Some s \<Rightarrow> length s > i \<and> s ! i = CHR ''g'')"

text \<open>The loop over the given ports, then the function.\<close>

fun phy_speed_loop :: "platform \<Rightarrow> board \<Rightarrow> string option \<Rightarrow> nat list \<Rightarrow> trace \<Rightarrow> trace option" where
  "phy_speed_loop pl b lanspeed [] h = Some h"
| "phy_speed_loop pl b lanspeed (i # is) h =
     Option.bind
       (set_phy_speed pl (port_of b i)
          (if wants_1000 lanspeed i then PHY_SPEED_1000 else PHY_SPEED_100) h)
       (\<lambda>h. phy_speed_loop pl b lanspeed is h)"

definition phy_speed :: "platform \<Rightarrow> board \<Rightarrow> trace \<Rightarrow> trace option" where
  "phy_speed pl b h =
     (let lanspeed = ans_str pl h ''lanspeed'';
          h = h @ [Env_get ''lanspeed'']
      in phy_speed_loop pl b lanspeed [0..<port_count b] h)"

definition switch_detected :: "u16 \<Rightarrow> bool" where
  "switch_detected val \<longleftrightarrow>
     val AND 0xFFF0 = 0x1760 \<or> val AND 0xFFF0 = 0x1720 \<or> val AND 0xFFF0 = 0x3520"

text \<open>\<open>has_config\<close>: the driver of the PHY has a \<open>config\<close> function.\<close>

definition board_phy_config :: "platform \<Rightarrow> board \<Rightarrow> bool \<Rightarrow> trace \<Rightarrow> (int \<times> trace) option" where
  "board_phy_config pl b has_config h =
     (let dev = mii_dev pl h;
          (val, h) = mii_read pl dev 0x10 0x3 h
      in Option.bind
          (if switch_detected val
           then Option.bind (phy_speed pl b (h @ [Print ''Marvell Switch 0x176/0x172/0x352 detected\<newline>'' []])) (\<lambda>h.
             let (val, h) = mii_read pl dev 0x15 0x1 h;
                 h = h @ [Mii_write dev 0x15 0x1 (val OR 0xC0C0)]
             in if b = IVAP
                then Option.bind (marvell_phy_read pl 0x6 0x3 h) (\<lambda>(deviceid, h).
                  let (phycontrol, h) =
                        (if deviceid AND 0xFFF0 = 0x1640
                         then (0x40C0, h @ [Print ''KSZ9131RNX on port 6 detected\<newline>'' []])
                         else (0xC0C0, h @ [Print ''KSZ9031RNX on port 6\<newline>'' []]));
                      (val, h) = mii_read pl dev 0x16 0x1 h
                  in Some (h @ [Mii_write dev 0x16 0x1 (val OR phycontrol)]))
                else Some h)
           else Some h)
          (\<lambda>h. Some (0, if has_config then h @ [Phy_drv_config] else h)))"

section \<open>The switch\<close>

text \<open>
  The indirect access as the switch documents it. A command written with its busy bit set
  starts an operation on the register of the PHY its fields name: operation 2 reads, 1
  writes. The busy bit reads as set until the operation has ended, which it does after
  finitely many reads; then the data register holds what was read.
\<close>

definition cmd_op :: "u16 \<Rightarrow> nat" where "cmd_op c = unat (drop_bit 10 c AND 3)"
definition cmd_phy :: "u16 \<Rightarrow> nat" where "cmd_phy c = unat (drop_bit 5 c AND 0x1F)"
definition cmd_reg :: "u16 \<Rightarrow> nat" where "cmd_reg c = unat (c AND 0x1F)"

definition command :: "string option \<Rightarrow> u16 \<Rightarrow> call" where
  "command dev c = Mii_write dev MARVELL_GLOBAL2_ADDR SMI_PHY_COMMAND_REGISTER c"

definition smi_busy :: "platform \<Rightarrow> string option \<Rightarrow> trace \<Rightarrow> bool" where
  "smi_busy pl dev h \<longleftrightarrow> bit (word_of_int (ans pl h (poll_call dev)) :: u16) SMI_BUSY_BIT"

definition smi_switch :: "platform \<Rightarrow> string option \<Rightarrow> (trace \<Rightarrow> nat \<Rightarrow> nat \<Rightarrow> u16) \<Rightarrow> bool" where
  "smi_switch pl dev reg \<longleftrightarrow>
     (\<forall>h. mii_dev pl h = dev)
   \<and> (\<forall>h. \<exists>n. \<not> smi_busy pl dev (h @ replicate n (poll_call dev)))
   \<and> (\<forall>h c n. bit c SMI_BUSY_BIT \<longrightarrow> cmd_op c = 2 \<longrightarrow>
        \<not> smi_busy pl dev (h @ [command dev c] @ replicate n (poll_call dev)) \<longrightarrow>
        word_of_int (ans pl (h @ [command dev c] @ replicate (Suc n) (poll_call dev))
            (Mii_read dev MARVELL_GLOBAL2_ADDR SMI_PHY_DATA_REGISTER))
          = reg h (cmd_phy c) (cmd_reg c))"

lemma smi_switchD:
  assumes "smi_switch pl dev reg"
  shows "mii_dev pl h = dev" "\<exists>n. \<not> smi_busy pl dev (h @ replicate n (poll_call dev))"
    "bit c SMI_BUSY_BIT \<Longrightarrow> cmd_op c = 2 \<Longrightarrow>
        \<not> smi_busy pl dev (h @ command dev c # replicate n (poll_call dev)) \<Longrightarrow>
        word_of_int (ans pl (h @ command dev c # replicate (Suc n) (poll_call dev))
            (Mii_read dev MARVELL_GLOBAL2_ADDR SMI_PHY_DATA_REGISTER))
          = reg h (cmd_phy c) (cmd_reg c)"
  using assms unfolding smi_switch_def by auto

section \<open>The encoding of commands\<close>

definition read_command :: "int \<Rightarrow> int \<Rightarrow> u16" where
  "read_command phyaddr phyreg = word_of_int (smi_command 0x9800 phyaddr phyreg)"

definition write_command :: "int \<Rightarrow> int \<Rightarrow> u16" where
  "write_command phyaddr phyreg = word_of_int (smi_command 0x9400 phyaddr phyreg)"

lemma smi_command_word:
  "word_of_int (smi_command c phyaddr phyreg) =
     (word_of_int c OR push_bit 5 (word_of_int phyaddr AND 0x1F) OR (word_of_int phyreg AND 0x1F) :: u16)"
  by (simp add: smi_command_def bitwise bit_word_of_int_iff)

lemma low_bits: "unat (word_of_int p AND 0x1F :: u16) = nat (p mod 32)"
proof -
  have "(word_of_int p AND 0x1F :: u16) = take_bit 5 (word_of_int p)"
    by (simp add: take_bit_eq_mask mask_eq_exp_minus_1)
  also have "\<dots> = word_of_int (take_bit 5 p)"
    by (rule bit_word_eqI) (auto simp: bit_simps)
  also have "take_bit 5 p = p mod 32"
    by (simp add: take_bit_eq_mod)
  finally show ?thesis
    by (simp add: unat_eq_nat_uint uint_word_of_int mod_mod_cancel)
qed

lemma command_fields:
  "bit (read_command p r) SMI_BUSY_BIT" "cmd_op (read_command p r) = 2"
  "cmd_phy (read_command p r) = nat (p mod 32)" "cmd_reg (read_command p r) = nat (r mod 32)"
  "bit (write_command p r) SMI_BUSY_BIT" "cmd_op (write_command p r) = 1"
  "cmd_phy (write_command p r) = nat (p mod 32)" "cmd_reg (write_command p r) = nat (r mod 32)"
proof -
  note defs = read_command_def write_command_def smi_command_word SMI_BUSY_BIT_def
  show "bit (read_command p r) SMI_BUSY_BIT" "bit (write_command p r) SMI_BUSY_BIT"
    by (simp_all add: defs bit_simps)
  have "drop_bit 10 (read_command p r) AND 3 = 2" "drop_bit 10 (write_command p r) AND 3 = 1"
    by (simp_all add: defs bitwise bit_word_of_int_iff)
  then show "cmd_op (read_command p r) = 2" "cmd_op (write_command p r) = 1"
    by (simp_all add: cmd_op_def)
  have "drop_bit 5 (read_command p r) AND 0x1F = word_of_int p AND 0x1F"
      "drop_bit 5 (write_command p r) AND 0x1F = word_of_int p AND 0x1F"
    by (simp_all add: defs bitwise bit_word_of_int_iff)
  then show "cmd_phy (read_command p r) = nat (p mod 32)" "cmd_phy (write_command p r) = nat (p mod 32)"
    by (simp_all only: cmd_phy_def low_bits)
  have "read_command p r AND 0x1F = word_of_int r AND 0x1F"
      "write_command p r AND 0x1F = word_of_int r AND 0x1F"
    by (simp_all add: defs bitwise bit_word_of_int_iff)
  then show "cmd_reg (read_command p r) = nat (r mod 32)" "cmd_reg (write_command p r) = nat (r mod 32)"
    by (simp_all only: cmd_reg_def low_bits)
qed

section \<open>Waiting for the device\<close>

text \<open>The wait reads the busy bit once more than it is set, and then stops.\<close>

lemma smi_wait_step:
  "smi_wait pl dev h =
     (if smi_busy pl dev h then smi_wait pl dev (h @ [poll_call dev]) else Some (h @ [poll_call dev]))"
  by (subst smi_wait.simps) (simp add: mii_read_def smi_busy_def poll_call_def)

lemma smi_wait_until:
  assumes "\<not> smi_busy pl dev (h @ replicate n (poll_call dev))"
  obtains m where "smi_wait pl dev h = Some (h @ replicate (Suc m) (poll_call dev))"
    "\<not> smi_busy pl dev (h @ replicate m (poll_call dev))"
proof -
  have "\<exists>m. smi_wait pl dev h = Some (h @ replicate (Suc m) (poll_call dev))
      \<and> \<not> smi_busy pl dev (h @ replicate m (poll_call dev))"
    using assms
  proof (induction n arbitrary: h)
    case 0
    then show ?case
      by (subst smi_wait_step) (auto intro: exI [of _ 0])
  next
    case (Suc n)
    show ?case
    proof (cases "smi_busy pl dev h")
      case True
      have "\<not> smi_busy pl dev ((h @ [poll_call dev]) @ replicate n (poll_call dev))"
        using Suc.prems by simp
      then obtain m where "smi_wait pl dev (h @ [poll_call dev])
            = Some ((h @ [poll_call dev]) @ replicate (Suc m) (poll_call dev))"
          "\<not> smi_busy pl dev ((h @ [poll_call dev]) @ replicate m (poll_call dev))"
        using Suc.IH by blast
      then show ?thesis
        using True by (subst smi_wait_step) (auto intro!: exI [of _ "Suc m"])
    next
      case False
      then show ?thesis
        by (subst smi_wait_step) (auto intro: exI [of _ 0])
    qed
  qed
  then show ?thesis
    using that by blast
qed

text \<open>What the code does on the bus, one read and one write of a PHY register.\<close>

definition read_steps :: "string option \<Rightarrow> int \<Rightarrow> int \<Rightarrow> nat \<Rightarrow> trace" where
  "read_steps dev p r m = command dev (read_command p r) # replicate (Suc m) (poll_call dev)
     @ [Mii_read dev MARVELL_GLOBAL2_ADDR SMI_PHY_DATA_REGISTER]"

definition write_steps :: "string option \<Rightarrow> int \<Rightarrow> int \<Rightarrow> int \<Rightarrow> nat \<Rightarrow> trace" where
  "write_steps dev p r d m =
     [Mii_write dev MARVELL_GLOBAL2_ADDR SMI_PHY_DATA_REGISTER (word_of_int d),
      command dev (write_command p r)] @ replicate (Suc m) (poll_call dev)"

lemma phy_read_works:
  assumes sw: "smi_switch pl dev reg"
  obtains m where "marvell_phy_read pl p r h
    = Some (reg h (nat (p mod 32)) (nat (r mod 32)), h @ read_steps dev p r m)"
proof -
  let ?c = "read_command p r"
  obtain n where "\<not> smi_busy pl dev ((h @ [command dev ?c]) @ replicate n (poll_call dev))"
    using smi_switchD(2) [OF sw] by blast
  then obtain m where m: "smi_wait pl dev (h @ [command dev ?c])
        = Some ((h @ [command dev ?c]) @ replicate (Suc m) (poll_call dev))"
      "\<not> smi_busy pl dev ((h @ [command dev ?c]) @ replicate m (poll_call dev))"
    by (rule smi_wait_until)
  have "word_of_int (ans pl (h @ command dev ?c # replicate (Suc m) (poll_call dev))
      (Mii_read dev MARVELL_GLOBAL2_ADDR SMI_PHY_DATA_REGISTER)) = reg h (nat (p mod 32)) (nat (r mod 32))"
    using smi_switchD(3) [OF sw command_fields(1,2) [of p r], of h m] m(2) by (simp add: command_fields)
  then show ?thesis
    using m(1) smi_switchD(1) [OF sw]
    by (intro that [of m])
      (simp add: marvell_phy_read_def read_steps_def mii_read_def command_def read_command_def)
qed

lemma phy_write_works:
  assumes sw: "smi_switch pl dev reg"
  obtains m where "marvell_phy_write pl p r d h = Some (h @ write_steps dev p r d m)"
proof -
  let ?h = "h @ [Mii_write dev MARVELL_GLOBAL2_ADDR SMI_PHY_DATA_REGISTER (word_of_int d),
      command dev (write_command p r)]"
  obtain n where "\<not> smi_busy pl dev (?h @ replicate n (poll_call dev))"
    using smi_switchD(2) [OF sw] by blast
  then obtain m where "smi_wait pl dev ?h = Some (?h @ replicate (Suc m) (poll_call dev))"
    by (rule smi_wait_until)
  then show ?thesis
    using smi_switchD(1) [OF sw]
    by (intro that [of m])
      (simp add: marvell_phy_write_def write_steps_def command_def write_command_def)
qed

end
