(* ===== verification/Marvell_Correct.thy ===== *)
theory Marvell_Correct
  imports Marvell
begin

text \<open>
  The properties of the PHY access: what the switch sees of a run. The writes of PHY
  registers are read off the events by decoding the commands, as the switch does.
\<close>

section \<open>What the switch sees\<close>

text \<open>One event, with the contents of the data register and the PHY registers written so far.\<close>

definition phy_step :: "call \<Rightarrow> u16 \<times> (nat \<times> nat \<times> u16) list \<Rightarrow> u16 \<times> (nat \<times> nat \<times> u16) list" where
  "phy_step c x =
     (case c of
        Mii_write dev addr reg v \<Rightarrow>
          (if addr = MARVELL_GLOBAL2_ADDR \<and> reg = SMI_PHY_DATA_REGISTER then (v, snd x)
           else if addr = MARVELL_GLOBAL2_ADDR \<and> reg = SMI_PHY_COMMAND_REGISTER
             \<and> bit v SMI_BUSY_BIT \<and> cmd_op v = 1
           then (fst x, snd x @ [(cmd_phy v, cmd_reg v, fst x)])
           else x)
      | _ \<Rightarrow> x)"

definition phy_writes :: "trace \<Rightarrow> (nat \<times> nat \<times> u16) list" where
  "phy_writes h = snd (fold phy_step h (0, []))"

text \<open>An event that is no command to write a PHY register.\<close>

definition no_phy_write :: "call \<Rightarrow> bool" where
  "no_phy_write c = (case c of Mii_write dev addr reg v \<Rightarrow> bit v SMI_BUSY_BIT \<and> cmd_op v = 2 | _ \<Rightarrow> True)"

lemma phy_step_simps [simp]:
  "phy_step (Mii_read dev a r) x = x" "phy_step (Udelay n) x = x" "phy_step (Print f xs) x = x"
  "phy_step (Env_get v) x = x"
  by (simp_all add: phy_step_def)

lemma phy_step_write:
  "phy_step (Mii_write dev addr reg v) x =
     (if addr = MARVELL_GLOBAL2_ADDR \<and> reg = SMI_PHY_DATA_REGISTER then (v, snd x)
      else if addr = MARVELL_GLOBAL2_ADDR \<and> reg = SMI_PHY_COMMAND_REGISTER
        \<and> bit v SMI_BUSY_BIT \<and> cmd_op v = 1
      then (fst x, snd x @ [(cmd_phy v, cmd_reg v, fst x)])
      else x)"
  by (simp add: phy_step_def)

lemma registers_distinct [simp]:
  "SMI_PHY_COMMAND_REGISTER \<noteq> SMI_PHY_DATA_REGISTER" "SMI_PHY_DATA_REGISTER \<noteq> SMI_PHY_COMMAND_REGISTER"
  by (simp_all add: SMI_PHY_COMMAND_REGISTER_def SMI_PHY_DATA_REGISTER_def)

lemma poll_step [simp]: "phy_step (poll_call dev) = id"
  by (simp add: poll_call_def fun_eq_iff)

lemma fold_read_steps [simp]: "fold phy_step (read_steps dev p r m) x = x"
  by (simp add: read_steps_def command_def phy_step_write command_fields)

lemma fold_write_steps [simp]:
  "fold phy_step (write_steps dev p r d m) x =
     (word_of_int d, snd x @ [(nat (p mod 32), nat (r mod 32), word_of_int d)])"
  by (simp add: write_steps_def command_def phy_step_write command_fields)

lemma no_phy_write_simps [simp]: "no_phy_write (Udelay n)" "no_phy_write (Print f xs)"
  by (simp_all add: no_phy_write_def)

lemma list_all_replicate: "P x \<Longrightarrow> list_all P (replicate n x)"
  by (induction n) simp_all

lemma read_steps_no_write: "list_all no_phy_write (read_steps dev p r m)"
  by (simp add: read_steps_def command_def no_phy_write_def poll_call_def command_fields
      list_all_replicate del: replicate.simps)

section \<open>Waiting for a reset\<close>

text \<open>
  The reset bit of a PHY clears itself after a while, \<open>n\<close> delays of the loop, unless a
  PHY register is written in the meantime (IEEE 802.3, 22.2.4.1.1).
\<close>

definition self_clearing :: "(trace \<Rightarrow> nat \<Rightarrow> nat \<Rightarrow> u16) \<Rightarrow> nat \<Rightarrow> bool" where
  "self_clearing reg n \<longleftrightarrow>
     (\<forall>h g p. list_all no_phy_write g \<longrightarrow> n \<le> length (filter (\<lambda>c. c = Udelay 250000) g) \<longrightarrow>
        \<not> bit (reg (h @ g) p 0) 15)"

lemma reset_bit: "uint (v :: u16) AND BMCR_RESET \<noteq> 0 \<longleftrightarrow> bit v 15"
proof -
  have "uint v AND 0x8000 = uint (v AND 0x8000)"
    by (simp add: unsigned_and_eq)
  moreover have "v AND 0x8000 = 0 \<longleftrightarrow> \<not> bit v 15"
    by (auto simp: bitwise)
  ultimately show ?thesis
    by (simp add: BMCR_RESET_def unsigned_eq_0_iff)
qed

lemma wait_reset_works:
  assumes sw: "smi_switch pl dev reg" and clear: "self_clearing reg n"
  shows "list_all no_phy_write g \<Longrightarrow> n \<le> k + length (filter (\<lambda>c. c = Udelay 250000) g) \<Longrightarrow>
    \<exists>g'. wait_reset pl p (h @ g) = Some (h @ g @ g') \<and> (\<forall>x. fold phy_step g' x = x)"
proof (induction k arbitrary: g)
  case 0
  obtain m where m: "marvell_phy_read pl p MII_BMCR (h @ g)
      = Some (reg (h @ g) (nat (p mod 32)) (nat (MII_BMCR mod 32)), (h @ g) @ read_steps dev p MII_BMCR m)"
    using phy_read_works [OF sw] .
  have "\<not> bit (reg (h @ g) (nat (p mod 32)) 0) 15"
    using clear 0 unfolding self_clearing_def by simp
  then have "wait_reset pl p (h @ g) = Some (h @ g @ read_steps dev p MII_BMCR m)"
    using m reset_bit [of "reg (h @ g) (nat (p mod 32)) 0"]
    by (subst wait_reset.simps) (simp add: MII_BMCR_def)
  then show ?case
    by auto
next
  case (Suc k)
  obtain m where m: "marvell_phy_read pl p MII_BMCR (h @ g)
      = Some (reg (h @ g) (nat (p mod 32)) (nat (MII_BMCR mod 32)), (h @ g) @ read_steps dev p MII_BMCR m)"
    using phy_read_works [OF sw] .
  let ?v = "reg (h @ g) (nat (p mod 32)) 0" and ?d = "[Udelay 250000, Print ''.'' []]"
  let ?g = "g @ read_steps dev p MII_BMCR m @ ?d"
  show ?case
  proof (cases "bit ?v 15")
    case False
    then have "wait_reset pl p (h @ g) = Some (h @ g @ read_steps dev p MII_BMCR m)"
      using m reset_bit [of ?v] by (subst wait_reset.simps) (simp add: MII_BMCR_def)
    then show ?thesis
      by auto
  next
    case True
    have "list_all no_phy_write ?g"
      using Suc.prems(1) read_steps_no_write by simp
    moreover have "n \<le> k + length (filter (\<lambda>c. c = Udelay 250000) ?g)"
      using Suc.prems(2) by simp
    ultimately obtain g' where "wait_reset pl p (h @ ?g) = Some (h @ ?g @ g')" "\<forall>x. fold phy_step g' x = x"
      using Suc.IH by blast
    moreover have "wait_reset pl p (h @ g) = wait_reset pl p (h @ ?g)"
      using m True reset_bit [of ?v] by (subst wait_reset.simps) (simp add: MII_BMCR_def)
    ultimately show ?thesis
      by (intro exI [of _ "read_steps dev p MII_BMCR m @ ?d @ g'"]) simp
  qed
qed

section \<open>The speed of a port\<close>

lemma set_phy_speed_works:
  assumes sw: "smi_switch pl dev reg" and clear: "self_clearing reg n"
  obtains g ctrl where "set_phy_speed pl p d h = Some (h @ g)"
    "\<And>x. snd (fold phy_step g x) = snd x @ (nat (p mod 32), 9, word_of_int d)
       # (if p = 6 then [] else [(nat (p mod 32), 0, ctrl OR 0x8000)])"
proof -
  obtain m1 where m1: "marvell_phy_write pl p MII_CTRL1000 d h = Some (h @ write_steps dev p MII_CTRL1000 d m1)"
    using phy_write_works [OF sw] .
  let ?h1 = "h @ write_steps dev p MII_CTRL1000 d m1"
  show ?thesis
  proof (cases "p = 6")
    case True
    then show ?thesis
      using m1 by (intro that [of "write_steps dev p MII_CTRL1000 d m1" 0])
        (simp_all add: set_phy_speed_def MII_CTRL1000_def)
  next
    case False
    obtain m2 where m2: "marvell_phy_read pl p MII_BMCR ?h1
        = Some (reg ?h1 (nat (p mod 32)) (nat (MII_BMCR mod 32)), ?h1 @ read_steps dev p MII_BMCR m2)"
      using phy_read_works [OF sw] .
    let ?c = "reg ?h1 (nat (p mod 32)) 0" and ?h2 = "?h1 @ read_steps dev p MII_BMCR m2"
    let ?d = "uint ?c OR BMCR_RESET"
    obtain m3 where m3: "marvell_phy_write pl p MII_BMCR ?d ?h2
        = Some (?h2 @ write_steps dev p MII_BMCR ?d m3)"
      using phy_write_works [OF sw] .
    obtain g' where g': "wait_reset pl p (?h2 @ write_steps dev p MII_BMCR ?d m3)
        = Some ((?h2 @ write_steps dev p MII_BMCR ?d m3) @ g')" "\<forall>x. fold phy_step g' x = x"
      using wait_reset_works [OF sw clear, of "[]" n p "?h2 @ write_steps dev p MII_BMCR ?d m3"] by auto
    have w: "(word_of_int ?d :: u16) = ?c OR 0x8000"
      by (simp add: BMCR_RESET_def bitwise bit_word_of_int_iff)
    have "set_phy_speed pl p d h = Some (h @ (write_steps dev p MII_CTRL1000 d m1
        @ read_steps dev p MII_BMCR m2 @ write_steps dev p MII_BMCR ?d m3 @ g'))"
      using False m1 m2 m3 g'(1) by (simp add: set_phy_speed_def MII_BMCR_def)
    then show ?thesis
      by (rule that) (use False g'(2) w in \<open>simp add: MII_BMCR_def MII_CTRL1000_def\<close>)
  qed
qed

text \<open>The writes of PHY registers, of register 0 only the reset bit.\<close>

definition masked :: "nat \<times> nat \<times> u16 \<Rightarrow> nat \<times> nat \<times> u16" where
  "masked w = (case w of (p, r, d) \<Rightarrow> (p, r, if r = 0 then d AND 0x8000 else d))"

text \<open>What should happen to port \<open>p\<close>: its speed is set, then it is reset, but not port 6.\<close>

definition port_log :: "int \<Rightarrow> bool \<Rightarrow> (nat \<times> nat \<times> u16) list" where
  "port_log p gigabit =
     (nat p, 9, if gigabit then 0xe00 else 0) # (if p = 6 then [] else [(nat p, 0, 0x8000)])"

lemma or_reset: "(c OR 0x8000) AND 0x8000 = (0x8000 :: u16)"
  by (simp add: bitwise)

lemma port_of_small: "i < port_count b \<Longrightarrow> 0 \<le> port_of b i \<and> port_of b i < 32"
  by (cases b) (auto simp: port_count_def port_of_def)

lemma phy_speed_loop_works:
  assumes sw: "smi_switch pl dev reg" and clear: "self_clearing reg n"
  shows "\<forall>i\<in>set is. i < port_count b \<Longrightarrow>
    \<exists>g. phy_speed_loop pl b lanspeed is h = Some (h @ g)
      \<and> (\<forall>x. map masked (snd (fold phy_step g x)) = map masked (snd x)
           @ concat (map (\<lambda>i. port_log (port_of b i) (wants_1000 lanspeed i)) is))"
proof (induction "is" arbitrary: h)
  case Nil
  then show ?case by (intro exI [of _ "[]"]) simp
next
  case (Cons i "is")
  let ?p = "port_of b i" and ?w = "wants_1000 lanspeed i"
  let ?d = "if ?w then PHY_SPEED_1000 else PHY_SPEED_100"
  obtain g ctrl where g: "set_phy_speed pl ?p ?d h = Some (h @ g)"
    "\<And>x. snd (fold phy_step g x) = snd x @ (nat (?p mod 32), 9, word_of_int ?d)
       # (if ?p = 6 then [] else [(nat (?p mod 32), 0, ctrl OR 0x8000)])"
    using set_phy_speed_works [OF sw clear, where p = "?p" and d = "?d" and h = h] by blast
  obtain g' where g': "phy_speed_loop pl b lanspeed is (h @ g) = Some ((h @ g) @ g')"
    "\<forall>x. map masked (snd (fold phy_step g' x)) = map masked (snd x)
       @ concat (map (\<lambda>i. port_log (port_of b i) (wants_1000 lanspeed i)) is)"
    using Cons by fastforce
  have p: "?p mod 32 = ?p"
    using Cons.prems port_of_small [of i b] by simp
  have "phy_speed_loop pl b lanspeed (i # is) h = Some (h @ g @ g')"
    using g(1) g'(1) by simp
  moreover have "map masked (snd (fold phy_step (g @ g') x)) = map masked (snd x)
      @ concat (map (\<lambda>i. port_log (port_of b i) (wants_1000 lanspeed i)) (i # is))" for x
    using g'(2) [rule_format, of "fold phy_step g x"] g(2) [of x] unfolding p
    by (auto simp: masked_def port_log_def or_reset PHY_SPEED_1000_def PHY_SPEED_100_def)
  ultimately show ?case
    by blast
qed

section \<open>Properties\<close>

text \<open>
  C33: On a switch that follows its protocol \<open>marvell_phy_read\<close> returns: it writes one
  command that names register \<open>r\<close> of PHY \<open>p\<close>, polls until the busy bit is clear, and its
  value is the contents of that register.
\<close>

theorem marvell_phy_read_returns:
  assumes "smi_switch pl dev reg" and "0 \<le> p" "p < 32" "0 \<le> r" "r < 32"
  shows "\<exists>m. marvell_phy_read pl p r h = Some (reg h (nat p) (nat r),
    h @ Mii_write dev 0x1C 0x18 (word_of_int (0x9800 + 32 * p + r))
      # replicate (Suc m) (Mii_read dev 0x1C 0x18) @ [Mii_read dev 0x1C 0x19])"
proof -
  obtain m where m: "marvell_phy_read pl p r h
      = Some (reg h (nat (p mod 32)) (nat (r mod 32)), h @ read_steps dev p r m)"
    using phy_read_works [OF assms(1)] .
  have "p AND 0x1F = p" "r AND 0x1F = r"
    using assms(2-5) take_bit_int_eq_self [of p 5] take_bit_int_eq_self [of r 5]
    by (simp_all add: take_bit_eq_mask mask_eq_exp_minus_1)
  moreover have "(0x9800 OR push_bit 5 p) OR r = 0x9800 + 32 * p + r"
  proof -
    have p: "take_bit 5 p = p" and r: "take_bit 5 r = r"
      using assms(2-5) by (simp_all add: take_bit_int_eq_self)
    have bits: "bit p k \<Longrightarrow> k < 5" "bit r k \<Longrightarrow> k < 5" for k
      by (metis p bit_take_bit_iff) (metis r bit_take_bit_iff)
    have "(0x9800 :: int) = push_bit 11 19"
      by (simp add: push_bit_eq_mult)
    then have c: "bit (0x9800 :: int) k \<Longrightarrow> 11 \<le> k" for k
      by (simp only: bit_push_bit_iff)
    have "0x9800 AND push_bit 5 p = 0"
      by (rule bit_eqI) (force simp: bit_and_iff bit_push_bit_iff dest: bits c)
    moreover have "(0x9800 OR push_bit 5 p) AND r = 0"
      by (rule bit_eqI) (force simp: bit_and_iff bit_or_iff bit_push_bit_iff dest: bits c)
    ultimately show ?thesis
      by (simp add: push_bit_eq_mult flip: disjunctive_add_eq_or)
  qed
  ultimately have "read_command p r = word_of_int (0x9800 + 32 * p + r)"
    by (simp add: read_command_def smi_command_def)
  then show ?thesis
    using m assms(2-5)
    by (auto simp: read_steps_def command_def poll_call_def MARVELL_GLOBAL2_ADDR_def
        SMI_PHY_COMMAND_REGISTER_def SMI_PHY_DATA_REGISTER_def)
qed

text \<open>
  A switch that is busy for one poll after each command, whose PHY registers all read as
  \<open>0x1140\<close>, and an environment where every port but the fourth is to run at gigabit speed.
\<close>

definition sim_switch :: platform where
  "sim_switch =
     \<lparr>ans = (\<lambda>h c.
        if c = poll_call None
        then (case last (poll_call None # h) of Mii_write dev addr reg v \<Rightarrow> 0x8000 | _ \<Rightarrow> 0)
        else 0x1140),
      ans_str = (\<lambda>h n. if n = ''lanspeed'' then Some ''ggg-gg'' else None),
      hab_status = (\<lambda>h. (HAB_RET_OTHER, HAB_CFG_OTHER, HAB_STATE_OTHER)),
      mii_dev = (\<lambda>h. None)\<rparr>"

lemma sim_smi_switch: "smi_switch sim_switch None (\<lambda>h p r. 0x1140)"
proof -
  have "\<not> smi_busy sim_switch None (h @ replicate 1 (poll_call None))" for h
    by (simp add: smi_busy_def sim_switch_def poll_call_def)
  then have "\<exists>n. \<not> smi_busy sim_switch None (h @ replicate n (poll_call None))" for h
    by blast
  moreover have "mii_dev sim_switch h = None"
    "ans sim_switch h (Mii_read None MARVELL_GLOBAL2_ADDR SMI_PHY_DATA_REGISTER) = 0x1140" for h
    by (simp_all add: sim_switch_def poll_call_def)
  ultimately show ?thesis
    by (simp only: smi_switch_def) simp
qed

lemma sim_self_clearing: "self_clearing (\<lambda>h p r. 0x1140) 0"
  by (simp add: self_clearing_def)

theorem marvell_phy_read_returns_witness:
  "\<exists>m. marvell_phy_read sim_switch 4 3 [] = Some (0x1140,
    Mii_write None 0x1C 0x18 0x9883
      # replicate (Suc m) (Mii_read None 0x1C 0x18) @ [Mii_read None 0x1C 0x19])"
  using marvell_phy_read_returns [OF sim_smi_switch, of 4 3 "[]"] by simp



end
