(* ===== verification/Phy_Config.thy ===== *)
theory Phy_Config
  imports Marvell_Correct
begin

text \<open>
  What \<open>board_phy_config\<close> sets up on the ports of the switch themselves, and that the access
  to the PHYs behind the switch never writes to a port.
\<close>

section \<open>The registers of the ports\<close>

text \<open>
  The ports and the switch answer at addresses of their own. Away from the registers of the
  indirect access a register holds what was last written to it.
\<close>

definition port_step :: "call \<Rightarrow> (nat \<times> nat \<Rightarrow> u16) \<Rightarrow> nat \<times> nat \<Rightarrow> u16" where
  "port_step c m =
     (case c of
        Mii_write dev addr reg v \<Rightarrow> if addr = MARVELL_GLOBAL2_ADDR then m else m((addr, reg) := v)
      | _ \<Rightarrow> m)"

definition port_regs :: "(nat \<times> nat \<Rightarrow> u16) \<Rightarrow> trace \<Rightarrow> nat \<times> nat \<Rightarrow> u16" where
  "port_regs init h = fold port_step h init"

definition has_ports :: "platform \<Rightarrow> string option \<Rightarrow> (nat \<times> nat \<Rightarrow> u16) \<Rightarrow> bool" where
  "has_ports pl dev init \<longleftrightarrow>
     (\<forall>h addr reg. addr \<noteq> MARVELL_GLOBAL2_ADDR \<longrightarrow>
        word_of_int (ans pl h (Mii_read dev addr reg)) = port_regs init h (addr, reg))"

lemma port_regs_simps [simp]:
  "port_regs init [] = init" "port_regs init (c # h) = port_regs (port_step c init) h"
  "port_regs init (g @ h) = port_regs (port_regs init g) h"
  by (simp_all add: port_regs_def)

lemma port_step_simps [simp]:
  "port_step (Mii_read dev a r) m = m" "port_step (Print f xs) m = m" "port_step (Udelay t) m = m"
  "port_step (Env_get n) m = m" "port_step Phy_drv_config m = m"
  "port_step (Mii_write dev a r v) m = (if a = MARVELL_GLOBAL2_ADDR then m else m((a, r) := v))"
  by (simp_all add: port_step_def)

section \<open>The indirect access leaves the ports alone\<close>

text \<open>A later trace of a run that has written to no port in between.\<close>

definition spares_ports :: "trace \<Rightarrow> trace \<Rightarrow> bool" where
  "spares_ports h h' \<longleftrightarrow> (\<exists>g. h' = h @ g \<and> (\<forall>m. port_regs m g = m))"

lemma spares_ports_refl [intro, simp]: "spares_ports h h"
  by (auto simp: spares_ports_def intro: exI [of _ "[]"])

lemma spares_ports_trans [trans]:
  "spares_ports h h' \<Longrightarrow> spares_ports h' h'' \<Longrightarrow> spares_ports h h''"
  by (fastforce simp: spares_ports_def)

lemma spares_ports_after:
  "(\<And>m. port_regs m g = m) \<Longrightarrow> spares_ports h h' \<Longrightarrow> spares_ports h (h' @ g)"
  by (fastforce simp: spares_ports_def)

lemma spares_ports_before:
  "spares_ports (h @ g) h' \<Longrightarrow> (\<And>m. port_regs m g = m) \<Longrightarrow> spares_ports h h'"
  by (auto simp: spares_ports_def)

lemma spares_ports_regs: "spares_ports h h' \<Longrightarrow> port_regs init h' = port_regs init h"
  by (auto simp: spares_ports_def)

lemma smi_wait_spares: "smi_wait pl dev h = Some h' \<Longrightarrow> spares_ports h h'"
proof (induction rule: smi_wait.raw_induct [rotated, consumes 1])
  case (1 wait pl dev h h')
  then show ?case
    using spares_ports_before [of h "[poll_call dev]" h'] spares_ports_after [of "[poll_call dev]" h h]
    by (auto simp: mii_read_def Let_def poll_call_def split: if_splits)
qed

lemma phy_read_spares: "marvell_phy_read pl p r h = Some (v, h') \<Longrightarrow> spares_ports h h'"
  by (auto simp: marvell_phy_read_def mii_read_def Let_def bind_eq_Some_conv
      intro!: spares_ports_after dest!: smi_wait_spares dest: spares_ports_before)

lemma phy_write_spares: "marvell_phy_write pl p r d h = Some h' \<Longrightarrow> spares_ports h h'"
  by (auto simp: marvell_phy_write_def Let_def dest!: smi_wait_spares dest: spares_ports_before)

lemma wait_reset_spares: "wait_reset pl p h = Some h' \<Longrightarrow> spares_ports h h'"
proof (induction rule: wait_reset.raw_induct [rotated, consumes 1])
  case (1 wait pl p h h')
  then obtain v g where g: "marvell_phy_read pl p MII_BMCR h = Some (v, g)"
      "(if uint v AND BMCR_RESET \<noteq> 0 then wait pl p (g @ [Udelay 250000, Print ''.'' []]) else Some g) = Some h'"
    by (auto simp: bind_eq_Some_conv)
  have "spares_ports g (g @ [Udelay 250000, Print ''.'' []])"
    by (auto simp: spares_ports_def)
  then show ?case
    using phy_read_spares [OF g(1)] g(2) 1 by (auto split: if_splits intro: spares_ports_trans)
qed

lemma set_phy_speed_spares: "set_phy_speed pl p d h = Some h' \<Longrightarrow> spares_ports h h'"
  by (auto simp: set_phy_speed_def bind_eq_Some_conv split: if_splits
      dest!: phy_read_spares phy_write_spares wait_reset_spares intro: spares_ports_trans)

lemma phy_speed_loop_spares: "phy_speed_loop pl b l is h = Some h' \<Longrightarrow> spares_ports h h'"
proof (induction "is" arbitrary: h)
  case (Cons i "is")
  then show ?case
    by (auto simp: bind_eq_Some_conv dest!: set_phy_speed_spares intro: spares_ports_trans)
qed simp

lemma phy_speed_spares: "phy_speed pl b h = Some h' \<Longrightarrow> spares_ports h h'"
  by (auto simp: phy_speed_def Let_def dest!: phy_speed_loop_spares dest: spares_ports_before)

section \<open>board_phy_config\<close>

lemma phy_speed_returns:
  assumes "smi_switch pl dev reg" "self_clearing reg n"
  obtains h' where "phy_speed pl b h = Some h'" "spares_ports h h'"
proof -
  obtain g where "phy_speed pl b h = Some ((h @ [Env_get ''lanspeed'']) @ g)"
    using phy_speed_loop_works [OF assms, of "[0..<port_count b]" b "ans_str pl h ''lanspeed''"
        "h @ [Env_get ''lanspeed'']"] by (auto simp: phy_speed_def Let_def)
  then show ?thesis
    using that phy_speed_spares by blast
qed

lemma read_port:
  assumes "has_ports pl dev init" "addr \<noteq> MARVELL_GLOBAL2_ADDR"
  shows "mii_read pl dev addr r h = (port_regs init h (addr, r), h @ [Mii_read dev addr r])"
  using assms by (simp add: mii_read_def has_ports_def)

lemma port_addresses [simp]:
  "0x10 \<noteq> MARVELL_GLOBAL2_ADDR" "0x15 \<noteq> MARVELL_GLOBAL2_ADDR" "0x16 \<noteq> MARVELL_GLOBAL2_ADDR"
  by (simp_all add: MARVELL_GLOBAL2_ADDR_def)

text \<open>What the registers of the ports should become.\<close>

definition configured_ports :: "board \<Rightarrow> u16 \<Rightarrow> (nat \<times> nat \<Rightarrow> u16) \<Rightarrow> nat \<times> nat \<Rightarrow> u16" where
  "configured_ports b ident m =
     (if \<not> switch_detected (m (0x10, 3)) then m
      else let cpu = m((0x15, 1) := m (0x15, 1) OR 0xC0C0)
           in if b = IVAP
              then cpu((0x16, 1) := m (0x16, 1) OR (if ident AND 0xFFF0 = 0x1640 then 0x40C0 else 0xC0C0))
              else cpu)"

text \<open>
  C17: With such a switch, \<open>board_phy_config\<close> returns 0 and ends with the configuration by the
  driver. Without one of the known switches no register of a port is written. With one the
  processor's port gets both RGMII delays and forced flow control; on the IVAP port 6 does
  too, but without the receive delay when its PHY identifies itself as the KSZ9131; every
  other register of a port is left as it was.
\<close>

theorem phy_config_sets_delays:
  assumes sw: "smi_switch pl dev reg" and clear: "self_clearing reg n"
    and ports: "has_ports pl dev init" and ident: "\<And>h. reg h 6 3 = ident"
  shows "\<exists>h'. board_phy_config pl b has_config h = Some (0, h')
    \<and> port_regs init h' = configured_ports b ident (port_regs init h)
    \<and> (has_config \<longrightarrow> last h' = Phy_drv_config)"
proof (cases "switch_detected (port_regs init h (0x10, 3))")
  case False
  then show ?thesis
    by (simp add: board_phy_config_def smi_switchD(1) [OF sw] read_port [OF ports] configured_ports_def)
next
  case True
  let ?h0 = "h @ [Mii_read dev 0x10 3, Print ''Marvell Switch 0x176/0x172/0x352 detected\<newline>'' []]"
  obtain h1 where h1: "phy_speed pl b ?h0 = Some h1" "spares_ports ?h0 h1"
    by (rule phy_speed_returns [OF sw clear])
  have before: "port_regs init h1 = port_regs init h"
    using spares_ports_regs [OF h1(2), of init] by simp
  let ?h2 = "h1 @ [Mii_read dev 0x15 1, Mii_write dev 0x15 1 (port_regs init h (0x15, 1) OR 0xC0C0)]"
  obtain h3 where h3: "marvell_phy_read pl 6 3 ?h2 = Some (ident, h3)"
    using phy_read_works [OF sw, of 6 3 ?h2] ident by auto
  have "port_regs init h3 = port_regs init ?h2"
    by (rule spares_ports_regs [OF phy_read_spares [OF h3]])
  then show ?thesis
    using True h1(1) h3
    by (auto simp: board_phy_config_def smi_switchD(1) [OF sw] read_port [OF ports] configured_ports_def
        before Let_def)
qed

text \<open>A switch 0x176 with a KSZ9131 behind port 6: the switch as before, ports that keep what is written.\<close>

definition sim_port_init :: "nat \<times> nat \<Rightarrow> u16" where
  "sim_port_init = (\<lambda>_. 0)((0x10, 3) := 0x1761, (0x15, 1) := 3)"

definition sim_ports :: platform where
  "sim_ports =
     \<lparr>ans = (\<lambda>h c.
        case c of
          Mii_read dev addr reg \<Rightarrow>
            if addr \<noteq> MARVELL_GLOBAL2_ADDR then uint (port_regs sim_port_init h (addr, reg))
            else if reg = SMI_PHY_COMMAND_REGISTER
              \<and> (case last (poll_call None # h) of Mii_write dev addr reg v \<Rightarrow> True | _ \<Rightarrow> False)
            then 0x8000
            else if reg = SMI_PHY_COMMAND_REGISTER then 0 else 0x1640
        | _ \<Rightarrow> 0),
      ans_str = (\<lambda>h n. if n = ''lanspeed'' then Some ''ggg-gg'' else None),
      hab_status = (\<lambda>h. (HAB_RET_OTHER, HAB_CFG_OTHER, HAB_STATE_OTHER)),
      mii_dev = (\<lambda>h. None)\<rparr>"

lemma sim_ports_switch: "smi_switch sim_ports None (\<lambda>h p r. 0x1640)"
proof -
  have "\<not> smi_busy sim_ports None (h @ replicate 1 (poll_call None))" for h
    by (simp add: smi_busy_def sim_ports_def poll_call_def)
  then have "\<exists>n. \<not> smi_busy sim_ports None (h @ replicate n (poll_call None))" for h
    by blast
  moreover have "mii_dev sim_ports h = None"
    "ans sim_ports h (Mii_read None MARVELL_GLOBAL2_ADDR SMI_PHY_DATA_REGISTER) = 0x1640" for h
    by (simp_all add: sim_ports_def)
  ultimately show ?thesis
    by (simp only: smi_switch_def) simp
qed

lemma sim_ports_ports: "has_ports sim_ports None sim_port_init"
  by (simp add: has_ports_def sim_ports_def)

lemma sim_ports_clearing: "self_clearing (\<lambda>h p r. 0x1640) 0"
  by (simp add: self_clearing_def)

theorem phy_config_sets_delays_witness:
  "\<exists>h'. board_phy_config sim_ports IVAP True [] = Some (0, h')
    \<and> port_regs sim_port_init h' = sim_port_init((0x15, 1) := 0xC0C3, (0x16, 1) := 0x40C0)
    \<and> last h' = Phy_drv_config"
  using phy_config_sets_delays [OF sim_ports_switch sim_ports_clearing sim_ports_ports, where ident = "0x1640" and b = IVAP and has_config = True and h = "[]"]
  by (simp add: configured_ports_def sim_port_init_def switch_detected_def)

end
