(* ===== verification/Late_Init.thy ===== *)
theory Late_Init
  imports Uboot
begin

text \<open>
  What the i.MX6 boards decide late in the start of the boot loader
  (\<open>hipos-cyber-security/himx0294.c\<close>): the device tree, whether the device is locked
  (HAB), the configuration of the FIT image and the boot commands of the two firmware slots.
\<close>

section \<open>Probing the I2C bus\<close>

text \<open>The loop with \<open>n\<close> rounds left.\<close>

fun probe_loop :: "platform \<Rightarrow> int \<Rightarrow> int \<Rightarrow> nat \<Rightarrow> trace \<Rightarrow> int \<times> trace" where
  "probe_loop pl bus addr 0 h = (0, h)"
| "probe_loop pl bus addr (Suc n) h =
     (let (ret, h) = answer pl (I2c_probe bus addr) h
      in if 0 = ret then (1, h) else probe_loop pl bus addr n (h @ [Udelay 10000]))"

definition has_i2c_device :: "platform \<Rightarrow> int \<Rightarrow> int \<Rightarrow> trace \<Rightarrow> int \<times> trace" where
  "has_i2c_device pl bus addr h =
     (let (ret, h) = answer pl (I2c_bus bus) h
      in if ret \<noteq> 0 then (0, h) else probe_loop pl bus addr 5 h)"

section \<open>Whether the device is locked\<close>

definition get_hab_state :: "platform \<Rightarrow> trace \<Rightarrow> int \<times> trace" where
  "get_hab_state pl h =
     (let (secure_boot_enabled, h) = answer pl Hab_is_enabled h;
          (hab_return, config, state) = hab_status pl h;
          h = h @ [Hab_report_status]
      in if secure_boot_enabled = 0 \<and> hab_return = HAB_SUCCESS \<and> config = HAB_CFG_OPEN
            \<and> state = HAB_STATE_NONSECURE then (0, h)
         else if secure_boot_enabled \<noteq> 0 \<and> hab_return = HAB_SUCCESS \<and> config = HAB_CFG_CLOSED
            \<and> state = HAB_STATE_TRUSTED then (1, h)
         else (- 1, h))"

section \<open>The configuration of the FIT image\<close>

text \<open>
  \<open>strrchr(s, '/') + 1\<close>, or \<open>None\<close> without a slash; a buffer of characters, the string it
  holds up to its first NUL, and \<open>strncpy\<close> into it at an offset.
\<close>

definition NUL :: char where "NUL = CHR 0x00"

definition basename :: "string \<Rightarrow> string option" where
  "basename s =
     (if CHR ''/'' \<in> set s then Some (rev (takeWhile (\<lambda>c. c \<noteq> CHR ''/'') (rev s))) else None)"

definition c_string :: "string \<Rightarrow> string" where
  "c_string buf = takeWhile (\<lambda>c. c \<noteq> NUL) buf"

definition strncpy :: "string \<Rightarrow> nat \<Rightarrow> string \<Rightarrow> nat \<Rightarrow> string" where
  "strncpy buf off src n = take off buf @ take n (src @ replicate n NUL) @ drop (off + n) buf"

definition SIZEOF_FIT_CONF :: nat where "SIZEOF_FIT_CONF = 32"

definition board_generate_fit_conf :: "platform \<Rightarrow> trace \<Rightarrow> (trace, unit) res" where
  "board_generate_fit_conf pl h =
     (let fit_conf = ''conf-'' @ replicate (SIZEOF_FIT_CONF - 5) NUL
      in case ans_str pl h ''fdt_file'' of
           None \<Rightarrow> Undef
         | Some fdt_file \<Rightarrow>
             (let h = h @ [Env_get ''fdt_file'']
              in case basename fdt_file of
                   Some fdt_file_basename \<Rightarrow>
                     (let len = length (c_string fit_conf);
                          fit_conf = strncpy fit_conf len fdt_file_basename (SIZEOF_FIT_CONF - len - 1)
                      in Ret () (h @ [Env_set ''fit_conf'' (c_string fit_conf)]))
                 | None \<Rightarrow> Ret () (h @ [Env_set ''fit_conf'' fdt_file])))"

section \<open>The boot commands\<close>

text \<open>
  \<open>int x = env_get_ulong(name, 10, 0)\<close>: the 32-bit value read as a signed number; and
  \<open>snprintf\<close> into a buffer of 64 bytes.
\<close>

definition env_int :: "platform \<Rightarrow> string \<Rightarrow> trace \<Rightarrow> int \<times> trace" where
  "env_int pl name h =
     (let (v, h) = answer pl (Env_get_ulong name 10 0) h in (sint (word_of_int v :: u32), h))"

definition SIZEOF_BOOTCMD :: nat where "SIZEOF_BOOTCMD = 64"

definition snprintf :: "nat \<Rightarrow> string \<Rightarrow> string" where
  "snprintf n text = take (n - 1) text"

definition fitboot_cmd :: "char \<Rightarrow> string" where
  "fitboot_cmd firmware = ''run setup_part_'' @ [firmware] @ ''; run do_fitboot; reset;''"

definition legacy_cmd :: "char \<Rightarrow> string" where
  "legacy_cmd firmware =
     ''run setup_part_'' @ [firmware] @ ''; run do_fitboot; run do_legacyboot; reset;''"

definition board_generate_bootcmd :: "platform \<Rightarrow> int \<Rightarrow> trace \<Rightarrow> trace" where
  "board_generate_bootcmd pl cached_hab_state h =
     (let (firmware_env, h) = env_int pl ''firmware'' h;
          (upgrade_available, h) = env_int pl ''upgrade_available'' h;
          (ustate, h) = env_int pl ''ustate'' h;
          (firmware, altfirmware, h) =
            (if upgrade_available = 1 \<and> ustate = 1
             then
               (let (firmware, altfirmware, firmware_env) =
                      (if firmware_env = 1 then (CHR ''a'', CHR ''b'', 0)
                       else (CHR ''b'', CHR ''a'', 1 :: int));
                    h = h @ [Env_set_ulong ''firmware'' (word_of_int firmware_env)];
                    h = h @ [Env_set_ulong ''ustate'' 2];
                    h = h @ [Env_save]
                in (firmware, altfirmware, h))
             else if firmware_env = 1 then (CHR ''b'', CHR ''a'', h)
             else (CHR ''a'', CHR ''b'', h));
          bootcmd = snprintf SIZEOF_BOOTCMD (fitboot_cmd firmware);
          altbootcmd =
            (if upgrade_available \<noteq> 0 \<and> cached_hab_state = 0
             then snprintf SIZEOF_BOOTCMD (legacy_cmd altfirmware)
             else snprintf SIZEOF_BOOTCMD (fitboot_cmd altfirmware));
          h = h @ [Env_set ''bootcmd'' bootcmd]
      in h @ [Env_set ''altbootcmd'' altbootcmd])"

section \<open>board_late_init\<close>

definition HIMX_DEFAULT_FDT_FILE_DVREC :: string where
  "HIMX_DEFAULT_FDT_FILE_DVREC = ''/boot/imx6q-himx0294-dvrec.dtb''"
definition HIMX_DEFAULT_FDT_FILE_DVREC_P :: string where
  "HIMX_DEFAULT_FDT_FILE_DVREC_P = ''/boot/imx6qp-himx0294-dvrec.dtb''"
definition HIMX_DEFAULT_FDT_FILE_DVMON_2 :: string where
  "HIMX_DEFAULT_FDT_FILE_DVMON_2 = ''/boot/imx6q-himx0294-dvmon-2.dtb''"
definition ENET_RX_ER_GP :: gpio where "ENET_RX_ER_GP = (1, 24)"

text \<open>\<open>strcmp(env_get("fdt_file"), s)\<close> with a null pointer is undefined.\<close>

definition fdt_file_is :: "platform \<Rightarrow> string \<Rightarrow> trace \<Rightarrow> (trace, bool) res" where
  "fdt_file_is pl file h =
     (case ans_str pl h ''fdt_file'' of
        None \<Rightarrow> Undef
      | Some f \<Rightarrow> Ret (f = file) (h @ [Env_get ''fdt_file'']))"

definition set_fdt_file :: "platform \<Rightarrow> string \<Rightarrow> trace \<Rightarrow> trace" where
  "set_fdt_file pl fdt h =
     (let (ret, h) = answer pl (Env_set ''fdt_file'' fdt) h
      in if ret \<noteq> 0 then h @ [Print ''env_set: fdt_file '%s' failed\<newline>'' [fdt]] else h)"

text \<open>The part of the function that is different on each board.\<close>

definition ivap_fdt :: "config \<Rightarrow> platform \<Rightarrow> trace \<Rightarrow> (trace, unit) res" where
  "ivap_fdt cfg pl h =
     (let (v, h) = answer pl (Gpio_get ENET_RX_ER_GP) (h @ [Gpio_input ENET_RX_ER_GP])
      in if 0 = v
         then bindR (fdt_file_is pl (default_fdt_file cfg) h) (\<lambda>eq h.
           if eq
           then
             (let h = h @ [Print ''Detected DVREC\<newline>'' []];
                  (p, h) = answer pl Is_cpu_6qp h;
                  fdt = (if p \<noteq> 0 then HIMX_DEFAULT_FDT_FILE_DVREC_P else HIMX_DEFAULT_FDT_FILE_DVREC)
              in Ret () (set_fdt_file pl fdt h))
           else Ret () h)
         else Ret () h)"

definition dvmon_fdt :: "config \<Rightarrow> platform \<Rightarrow> trace \<Rightarrow> (trace, unit) res" where
  "dvmon_fdt cfg pl h =
     (let (found, h) = has_i2c_device pl 0 0x5c h
      in if found \<noteq> 0
         then bindR (fdt_file_is pl (default_fdt_file cfg) h) (\<lambda>eq h.
           if eq
           then
             (let h = h @ [Print ''dvmon: detected touch use alternative fdt\<newline>'' []]
              in Ret () (set_fdt_file pl HIMX_DEFAULT_FDT_FILE_DVMON_2 h))
           else Ret () h)
         else Ret () h)"

text \<open>The value is the new contents of the static variable \<open>cached_hab_state\<close>.\<close>

definition board_late_init :: "config \<Rightarrow> platform \<Rightarrow> trace \<Rightarrow> (trace, int) res" where
  "board_late_init cfg pl h =
     bindR (case board cfg of IVAP \<Rightarrow> ivap_fdt cfg pl h | DVMON \<Rightarrow> dvmon_fdt cfg pl h | _ \<Rightarrow> Ret () h)
       (\<lambda>_ h.
         let (cached_hab_state, h) = get_hab_state pl h
         in bindR (board_generate_fit_conf pl h) (\<lambda>_ h.
              Ret cached_hab_state (board_generate_bootcmd pl cached_hab_state h)))"

text \<open>
  The same function without the signed boot (\<open>himx0294/himx0294.c\<close>), which ends after the
  choice of the device tree.
\<close>

definition himx0294_late_init :: "config \<Rightarrow> platform \<Rightarrow> trace \<Rightarrow> (trace, int) res" where
  "himx0294_late_init cfg pl h =
     bindR (case board cfg of IVAP \<Rightarrow> ivap_fdt cfg pl h | DVMON \<Rightarrow> dvmon_fdt cfg pl h | _ \<Rightarrow> Ret () h)
       (\<lambda>_ h. Ret 0 h)"

section \<open>The device tree of the kernel\<close>

definition ft_board_setup :: "platform \<Rightarrow> trace \<Rightarrow> int \<times> trace" where
  "ft_board_setup pl h =
     (let (state, h) = get_hab_state pl h;
          s = (if state = 0 then ''insecure'' else if state = 1 then ''secure'' else ''unknown'');
          (off, h) = answer pl (Fdt_path_offset ''/chosen'') h;
          (off, h) = (if off < 0 then answer pl (Fdt_add_subnode 0 ''chosen'') h else (off, h))
      in if off < 0 then (0, h)
         else (0, h @ [Fdt_setprop_string off ''iris,hab-state'' s]))"

end
