(* ===== verification/Late_Correct.thy ===== *)
theory Late_Correct
  imports Late_Init
begin

text \<open>
  The properties of the late start of the i.MX6 boards: probing ends, the lock state, the
  name of the FIT configuration, the choice of the firmware slot.
\<close>

section \<open>Probing\<close>

lemma probe_loop_spec:
  "\<exists>m\<le>n. snd (probe_loop pl bus addr n h) = h @ concat (replicate m [I2c_probe bus addr, Udelay 10000])
        @ (if fst (probe_loop pl bus addr n h) = 1 then [I2c_probe bus addr] else [])
     \<and> (fst (probe_loop pl bus addr n h) = 1 \<and> m < n \<or> fst (probe_loop pl bus addr n h) = 0 \<and> m = n)
     \<and> (fst (probe_loop pl bus addr n h) = 1 \<longleftrightarrow>
          (\<exists>k<n. ans pl (h @ concat (replicate k [I2c_probe bus addr, Udelay 10000])) (I2c_probe bus addr) = 0))"
proof (induction n arbitrary: h)
  case 0
  then show ?case by simp
next
  case (Suc n)
  show ?case
  proof (cases "ans pl h (I2c_probe bus addr) = 0")
    case True
    then show ?thesis
      by (intro exI [of _ 0]) (auto simp: answer_def)
  next
    case False
    let ?h = "h @ [I2c_probe bus addr, Udelay 10000]"
    have eq: "probe_loop pl bus addr (Suc n) h = probe_loop pl bus addr n ?h"
      using False by (simp add: answer_def)
    have ex: "(\<exists>k<Suc n. ans pl (h @ concat (replicate k [I2c_probe bus addr, Udelay 10000])) (I2c_probe bus addr) = 0)
        \<longleftrightarrow> (\<exists>k<n. ans pl (?h @ concat (replicate k [I2c_probe bus addr, Udelay 10000])) (I2c_probe bus addr) = 0)"
      using False by (simp add: Ex_less_Suc2)
    obtain m where "m \<le> n"
        "snd (probe_loop pl bus addr n ?h) = ?h @ concat (replicate m [I2c_probe bus addr, Udelay 10000])
        @ (if fst (probe_loop pl bus addr n ?h) = 1 then [I2c_probe bus addr] else [])"
        "fst (probe_loop pl bus addr n ?h) = 1 \<and> m < n \<or> fst (probe_loop pl bus addr n ?h) = 0 \<and> m = n"
        "fst (probe_loop pl bus addr n ?h) = 1 \<longleftrightarrow>
          (\<exists>k<n. ans pl (?h @ concat (replicate k [I2c_probe bus addr, Udelay 10000])) (I2c_probe bus addr) = 0)"
      using Suc.IH [of ?h] by blast
    then show ?thesis
      unfolding eq ex by (intro exI [of _ "Suc m"]) auto
  qed
qed

text \<open>
  \<open>has_i2c_device\<close> finds a device exactly when its bus exists and one of up to five
  probes, 10 ms apart, is answered; it stops at the first answer and otherwise after the
  fifth.
\<close>

theorem has_i2c_device_correct:
  "\<exists>m\<le>5. has_i2c_device pl bus addr h =
     (if ans pl h (I2c_bus bus) \<noteq> 0 then (0, h @ [I2c_bus bus])
      else if \<exists>k<5. ans pl (h @ I2c_bus bus # concat (replicate k [I2c_probe bus addr, Udelay 10000]))
                 (I2c_probe bus addr) = 0
      then (1, h @ I2c_bus bus # concat (replicate m [I2c_probe bus addr, Udelay 10000])
                 @ [I2c_probe bus addr])
      else (0, h @ I2c_bus bus # concat (replicate 5 [I2c_probe bus addr, Udelay 10000])))"
proof -
  let ?p = "probe_loop pl bus addr 5 (h @ [I2c_bus bus])"
  obtain m where m: "m \<le> 5" "snd ?p = (h @ [I2c_bus bus])
        @ concat (replicate m [I2c_probe bus addr, Udelay 10000])
        @ (if fst ?p = 1 then [I2c_probe bus addr] else [])"
      "fst ?p = 1 \<and> m < 5 \<or> fst ?p = 0 \<and> m = 5"
      "fst ?p = 1 \<longleftrightarrow> (\<exists>k<5. ans pl ((h @ [I2c_bus bus]) @ concat (replicate k [I2c_probe bus addr, Udelay 10000]))
         (I2c_probe bus addr) = 0)"
    using probe_loop_spec [of 5 pl bus addr "h @ [I2c_bus bus]"] by blast
  have p: "has_i2c_device pl bus addr h =
      (if ans pl h (I2c_bus bus) \<noteq> 0 then (0, h @ [I2c_bus bus]) else (fst ?p, snd ?p))"
    by (simp add: has_i2c_device_def answer_def)
  show ?thesis
  proof (cases "fst ?p = 1")
    case True
    then show ?thesis
      using m unfolding p by (intro exI [of _ m]) simp
  next
    case False
    then have "fst ?p = 0" "m = 5"
      using m(3) by auto
    then show ?thesis
      using m False unfolding p by (intro exI [of _ 5]) auto
  qed
qed

section \<open>The name of the FIT configuration\<close>

lemma takeWhile_no_NUL: "NUL \<notin> set s \<Longrightarrow> takeWhile (\<lambda>c. c \<noteq> NUL) (s @ NUL # t) = s"
  by (subst takeWhile_append2) auto

lemma fit_conf_buffer:
  assumes "NUL \<notin> set base"
  shows "c_string (strncpy (''conf-'' @ replicate 27 NUL) 5 base 26) = ''conf-'' @ take 26 base"
proof -
  let ?s = "''conf-'' @ take 26 base"
  have "NUL \<notin> set ?s"
    using assms by (auto simp: NUL_def dest: in_set_takeD)
  moreover have "strncpy (''conf-'' @ replicate 27 NUL) 5 base 26 = ?s @ NUL # replicate (26 - length base) NUL"
    by (simp add: strncpy_def drop_Cons' take_append replicate_append_same min_def)
  ultimately show ?thesis
    using takeWhile_no_NUL by (simp only: c_string_def)
qed

lemma basename_subset: "basename s = Some b \<Longrightarrow> set b \<subseteq> set s"
  using set_takeWhileD [of _ "\<lambda>c. c \<noteq> CHR ''/''" "rev s"]
  by (auto simp: basename_def split: if_splits)

lemma fit_conf_result:
  assumes "\<forall>f. ans_str pl h ''fdt_file'' = Some f \<longrightarrow> NUL \<notin> set f"
  shows "board_generate_fit_conf pl h =
    (case ans_str pl h ''fdt_file'' of
       None \<Rightarrow> Undef
     | Some f \<Rightarrow> Ret () (h @ [Env_get ''fdt_file'',
         Env_set ''fit_conf'' (case basename f of Some b \<Rightarrow> ''conf-'' @ take 26 b | None \<Rightarrow> f)]))"
proof -
  have len: "length (c_string (''conf-'' @ replicate 27 NUL)) = 5"
    by (simp add: c_string_def NUL_def numeral_eq_Suc)
  have buf: "c_string (strncpy (''conf-'' @ replicate 27 NUL) 5 b 26) = ''conf-'' @ take 26 b"
    if "ans_str pl h ''fdt_file'' = Some f" "basename f = Some b" for f b
    using assms that basename_subset [of f b] by (intro fit_conf_buffer) auto
  show ?thesis
  proof (cases "ans_str pl h ''fdt_file''")
    case (Some f)
    then show ?thesis
      using len buf [OF Some]
      by (cases "basename f") (simp_all add: board_generate_fit_conf_def SIZEOF_FIT_CONF_def Let_def)
  qed (simp add: board_generate_fit_conf_def)
qed

text \<open>
  C34: \<open>board_generate_fit_conf\<close> sets \<open>fit_conf\<close> to \<open>conf-\<close> and the first 26 characters of
  what follows the last slash of \<open>fdt_file\<close>: the buffer of 32 bytes is never overrun and
  always terminated, and a longer name is cut. Without a slash it is set to \<open>fdt_file\<close> as
  it is, without the prefix, and without \<open>fdt_file\<close> the function has no defined behaviour.
\<close>

theorem fit_conf_correct:
  assumes "\<forall>f. ans_str pl h ''fdt_file'' = Some f \<longrightarrow> NUL \<notin> set f"
  shows "board_generate_fit_conf pl h =
    (case ans_str pl h ''fdt_file'' of
       None \<Rightarrow> Undef
     | Some f \<Rightarrow> Ret () (h @ [Env_get ''fdt_file'',
         Env_set ''fit_conf'' (case basename f of Some b \<Rightarrow> ''conf-'' @ take 26 b | None \<Rightarrow> f)]))"
  using assms by (rule fit_conf_result)

text \<open>A platform with the given variables, an open device and nothing on its buses.\<close>

definition sim_pl :: "(string \<Rightarrow> string option) \<Rightarrow> (string \<Rightarrow> u32) \<Rightarrow> platform" where
  "sim_pl texts numbers =
     \<lparr>ans = (\<lambda>h c. case c of
        Env_get_ulong n b d \<Rightarrow> uint (env_numbers numbers h n)
      | Fdt_path_offset _ \<Rightarrow> - 1 | Fdt_add_subnode _ _ \<Rightarrow> 64 | I2c_probe _ _ \<Rightarrow> 0
      | _ \<Rightarrow> 0),
      ans_str = env_texts texts,
      hab_status = (\<lambda>h. (HAB_SUCCESS, HAB_CFG_OPEN, HAB_STATE_NONSECURE)),
      mii_dev = (\<lambda>h. None)\<rparr>"

lemma sim_pl_env: "has_env (sim_pl texts numbers) texts numbers"
  by (simp add: has_env_def sim_pl_def)

theorem fit_conf_correct_witness:
  "board_generate_fit_conf (sim_pl [''fdt_file'' \<mapsto> ''/boot/imx6q-himx0294-ivap.dtb''] (\<lambda>_. 0)) []
     = Ret () [Env_get ''fdt_file'', Env_set ''fit_conf'' ''conf-imx6q-himx0294-ivap.dtb'']"
  using fit_conf_correct [of "sim_pl [''fdt_file'' \<mapsto> ''/boot/imx6q-himx0294-ivap.dtb''] (\<lambda>_. 0)" "[]"]
  by (simp add: sim_pl_def NUL_def basename_def)

section \<open>The firmware slots\<close>

text \<open>The slot a value of the variable \<open>firmware\<close> stands for, and the other slot.\<close>

definition slot :: "u32 \<Rightarrow> char" where
  "slot firmware = (if firmware = 1 then CHR ''b'' else CHR ''a'')"

definition other_slot :: "char \<Rightarrow> char" where
  "other_slot c = (if c = CHR ''a'' then CHR ''b'' else CHR ''a'')"

definition switching :: "(string \<Rightarrow> u32) \<Rightarrow> bool" where
  "switching numbers \<longleftrightarrow> numbers ''upgrade_available'' = 1 \<and> numbers ''ustate'' = 1"

text \<open>What the function should do to the environment.\<close>

definition next_numbers :: "(string \<Rightarrow> u32) \<Rightarrow> string \<Rightarrow> u32" where
  "next_numbers numbers =
     (if switching numbers
      then numbers(''firmware'' := (if numbers ''firmware'' = 1 then 0 else 1), ''ustate'' := 2)
      else numbers)"

lemma env_int_simps:
  "has_env pl texts numbers \<Longrightarrow> env_int pl n h = (sint (env_numbers numbers h n), h @ [Env_get_ulong n 10 0])"
  by (simp add: env_int_def answer_def has_envD)

lemma step_simps [simp]:
  "text_step (Env_set n v) e = e(n \<mapsto> v)" "number_step (Env_set_ulong n w) m = m(n := w)"
  "text_step (Env_set_ulong n w) e = e" "number_step (Env_set n v) m = m"
  "text_step (Env_get_ulong n b d) e = e" "number_step (Env_get_ulong n b d) m = m"
  "text_step Env_save e = e" "number_step Env_save m = m"
  by (simp_all add: text_step_def number_step_def)

lemma sint_u32_eq:
  "sint (w :: u32) = 1 \<longleftrightarrow> w = 1" "sint (w :: u32) = 0 \<longleftrightarrow> w = 0"
proof -
  have w: "w = word_of_int (sint w)"
    by simp
  have "w = 1" if "sint w = 1"
    using w unfolding that by simp
  then show "sint w = 1 \<longleftrightarrow> w = 1"
    by auto
  have "w = 0" if "sint w = 0"
    using w unfolding that by simp
  then show "sint w = 0 \<longleftrightarrow> w = 0"
    by auto
qed

lemma snprintf_fits:
  "snprintf SIZEOF_BOOTCMD (fitboot_cmd c) = fitboot_cmd c"
  "snprintf SIZEOF_BOOTCMD (legacy_cmd c) = legacy_cmd c"
  by (simp_all add: snprintf_def SIZEOF_BOOTCMD_def fitboot_cmd_def legacy_cmd_def)

lemma bootcmd_env:
  assumes env: "has_env pl texts numbers"
  shows "env_numbers numbers (board_generate_bootcmd pl hab h) = next_numbers (env_numbers numbers h)"
    and "env_texts texts (board_generate_bootcmd pl hab h) = (env_texts texts h)
      (''bootcmd'' \<mapsto> fitboot_cmd (slot (next_numbers (env_numbers numbers h) ''firmware'')),
       ''altbootcmd'' \<mapsto>
         (if env_numbers numbers h ''upgrade_available'' \<noteq> 0 \<and> hab = 0 then legacy_cmd else fitboot_cmd)
           (other_slot (slot (next_numbers (env_numbers numbers h) ''firmware''))))"
proof -
  let ?n = "env_numbers numbers h"
  show "env_numbers numbers (board_generate_bootcmd pl hab h) = next_numbers ?n"
    by (cases "?n ''upgrade_available'' = 1 \<and> ?n ''ustate'' = 1"; cases "?n ''firmware'' = 1")
      (auto simp: env_int_simps [OF env] board_generate_bootcmd_def next_numbers_def switching_def sint_u32_eq Let_def)
  show "env_texts texts (board_generate_bootcmd pl hab h) = (env_texts texts h)
      (''bootcmd'' \<mapsto> fitboot_cmd (slot (next_numbers ?n ''firmware'')),
       ''altbootcmd'' \<mapsto>
         (if ?n ''upgrade_available'' \<noteq> 0 \<and> hab = 0 then legacy_cmd else fitboot_cmd)
           (other_slot (slot (next_numbers ?n ''firmware''))))"
    by (cases "?n ''upgrade_available'' = 1 \<and> ?n ''ustate'' = 1"; cases "?n ''firmware'' = 1")
      (auto simp: env_int_simps [OF env] board_generate_bootcmd_def next_numbers_def switching_def sint_u32_eq Let_def
        slot_def other_slot_def snprintf_fits)
qed

lemma next_numbers_idem: "next_numbers (next_numbers numbers) = next_numbers numbers"
  by (simp add: next_numbers_def switching_def)

lemma next_numbers_keeps [simp]:
  "next_numbers numbers ''upgrade_available'' = numbers ''upgrade_available''"
  by (simp add: next_numbers_def)

text \<open>
  C10: After \<open>board_generate_bootcmd\<close> the boot command starts the slot that the variable
  \<open>firmware\<close> names, the alternative one the other slot; both strings fit their buffers. The
  slot changes exactly when an update is pending (\<open>upgrade_available\<close> and \<open>ustate\<close> are 1);
  then \<open>ustate\<close> becomes 2 and the environment is saved, and otherwise no variable but the
  two commands changes.
\<close>

theorem bootcmd_selects_slot:
  fixes h :: trace and numbers :: "string \<Rightarrow> u32" and pl :: platform and hab :: int
  assumes env: "has_env pl texts numbers"
  defines "before \<equiv> env_numbers numbers h"
    and "after \<equiv> env_numbers numbers (board_generate_bootcmd pl hab h)"
  shows "after = next_numbers before
    \<and> slot (after ''firmware'') =
        (if switching before then other_slot (slot (before ''firmware'')) else slot (before ''firmware''))
    \<and> env_texts texts (board_generate_bootcmd pl hab h) = (env_texts texts h)
        (''bootcmd'' \<mapsto> fitboot_cmd (slot (after ''firmware'')),
         ''altbootcmd'' \<mapsto>
           (if before ''upgrade_available'' \<noteq> 0 \<and> hab = 0 then legacy_cmd else fitboot_cmd)
             (other_slot (slot (after ''firmware''))))
    \<and> (Env_save \<in> set (drop (length h) (board_generate_bootcmd pl hab h)) \<longleftrightarrow> switching before)"
proof -
  have "Env_save \<in> set (drop (length h) (board_generate_bootcmd pl hab h)) \<longleftrightarrow> switching before"
    by (cases "switching before"; cases "before ''firmware'' = 1")
      (auto simp: before_def env_int_simps [OF env] board_generate_bootcmd_def switching_def sint_u32_eq Let_def)
  moreover have "slot (next_numbers before ''firmware'') =
      (if switching before then other_slot (slot (before ''firmware'')) else slot (before ''firmware''))"
    by (simp add: next_numbers_def slot_def other_slot_def)
  ultimately show ?thesis
    unfolding after_def before_def by (simp only: bootcmd_env [OF env] simp_thms)
qed

text \<open>The device is updated from slot a to slot b.\<close>

definition update_numbers :: "string \<Rightarrow> u32" where
  "update_numbers = (\<lambda>_. 0)(''upgrade_available'' := 1, ''ustate'' := 1)"

theorem bootcmd_selects_slot_witness:
  "env_texts Map.empty (board_generate_bootcmd (sim_pl Map.empty update_numbers) 1 []) ''bootcmd''
     = Some ''run setup_part_b; run do_fitboot; reset;''
   \<and> env_numbers update_numbers (board_generate_bootcmd (sim_pl Map.empty update_numbers) 1 []) ''ustate'' = 2"
  using bootcmd_selects_slot [OF sim_pl_env [of Map.empty update_numbers], where h = "[]" and hab = 1]
  by (simp add: update_numbers_def next_numbers_def switching_def slot_def fitboot_cmd_def)

section \<open>The next start\<close>

text \<open>
  The numbers in the memory of the device: \<open>env_save\<close> stores those of the running boot
  loader, and the next start reads what is stored.
\<close>

definition store_step :: "call \<Rightarrow> (string \<Rightarrow> u32) \<times> (string \<Rightarrow> u32) \<Rightarrow> (string \<Rightarrow> u32) \<times> (string \<Rightarrow> u32)" where
  "store_step c x =
     (case c of Env_save \<Rightarrow> (fst x, fst x) | _ \<Rightarrow> (number_step c (fst x), snd x))"

definition stored_numbers :: "(string \<Rightarrow> u32) \<Rightarrow> trace \<Rightarrow> string \<Rightarrow> u32" where
  "stored_numbers init h = snd (fold store_step h (init, init))"

lemma store_step_simps [simp]:
  "store_step Env_save x = (fst x, fst x)"
  "store_step (Env_set n v) x = x" "store_step (Env_get_ulong n b d) x = x"
  "store_step (Env_set_ulong n w) x = ((fst x)(n := w), snd x)"
  by (simp_all add: store_step_def number_step_def)

lemma store_live: "fst (fold store_step h x) = env_numbers (fst x) h"
proof (induction h arbitrary: x)
  case (Cons c h)
  have "fst (store_step c x) = number_step c (fst x)"
    by (cases c) (simp_all add: store_step_def number_step_def)
  then show ?case
    using Cons by simp
qed simp

lemma store_fold: "fold store_step h (init, init) = (env_numbers init h, stored_numbers init h)"
  by (rule prod_eqI) (simp_all add: store_live stored_numbers_def)

lemma bootcmd_stores:
  assumes env: "has_env pl texts numbers" and clean: "stored_numbers numbers h = env_numbers numbers h"
  shows "stored_numbers numbers (board_generate_bootcmd pl hab h) = next_numbers (env_numbers numbers h)"
proof -
  let ?n = "env_numbers numbers h"
  have "fold store_step h (numbers, numbers) = (?n, ?n)"
    using store_fold clean by simp
  then show ?thesis
    unfolding stored_numbers_def
    by (cases "?n ''upgrade_available'' = 1 \<and> ?n ''ustate'' = 1"; cases "?n ''firmware'' = 1")
      (auto simp: env_int_simps [OF env] board_generate_bootcmd_def next_numbers_def switching_def
        sint_u32_eq Let_def)
qed

lemma bootcmd_text:
  assumes "has_env pl texts numbers"
  shows "env_texts texts (board_generate_bootcmd pl hab h) ''bootcmd''
    = Some (fitboot_cmd (slot (next_numbers (env_numbers numbers h) ''firmware'')))"
  by (simp add: bootcmd_env [OF assms])

text \<open>
  C20: One update switches the slot once. The numbers \<open>board_generate_bootcmd\<close> leaves behind are
  all stored before it returns, so a start that follows, after a loss of power too, finds no
  update pending, leaves them as they are and boots the same slot.
\<close>

theorem bootcmd_switches_once:
  assumes "has_env pl texts numbers" "stored_numbers numbers h = env_numbers numbers h"
    and "has_env pl' texts' (stored_numbers numbers (board_generate_bootcmd pl hab h))"
  shows "stored_numbers numbers (board_generate_bootcmd pl hab h)
      = env_numbers numbers (board_generate_bootcmd pl hab h)
    \<and> \<not> switching (stored_numbers numbers (board_generate_bootcmd pl hab h))
    \<and> env_numbers (stored_numbers numbers (board_generate_bootcmd pl hab h)) (board_generate_bootcmd pl' hab' [])
      = env_numbers numbers (board_generate_bootcmd pl hab h)
    \<and> env_texts texts' (board_generate_bootcmd pl' hab' []) ''bootcmd''
      = env_texts texts (board_generate_bootcmd pl hab h) ''bootcmd''"
proof -
  have "\<not> switching (next_numbers n)" for n
    by (simp add: next_numbers_def switching_def)
  then show ?thesis
    using bootcmd_env(1) [OF assms(3)] bootcmd_text [OF assms(3)]
    by (simp add: bootcmd_stores [OF assms(1,2)] bootcmd_env(1) [OF assms(1)] bootcmd_text [OF assms(1)]
        next_numbers_idem)
qed

theorem bootcmd_switches_once_witness:
  "stored_numbers update_numbers (board_generate_bootcmd (sim_pl Map.empty update_numbers) 0 []) ''firmware'' = 1"
proof -
  have "stored_numbers update_numbers [] = env_numbers update_numbers []"
    by (simp add: stored_numbers_def)
  from bootcmd_switches_once [OF sim_pl_env [of Map.empty update_numbers] this sim_pl_env [of Map.empty], of 0 0]
  show ?thesis
    using bootcmd_env(1) [OF sim_pl_env [of Map.empty update_numbers], of 0 "[]"]
    by (simp add: update_numbers_def next_numbers_def switching_def)
qed

end
