(* ===== verification/Himx0432.thy ===== *)
theory Himx0432
  imports Late_Init
begin

text \<open>
  The i.MX6ULL board (\<open>himx0294/himx0432.c\<close>): the Ethernet clock, the switch behind the
  power controller, the late choice of the device tree.
\<close>

section \<open>Register masks\<close>

text \<open>The masks and the clock rate are names of U-Boot headers: parameters of the model.\<close>

record fec_consts =
  GPR1_FEC1_MASK :: u32
  GPR1_FEC1_CLOCK_MUX1_SEL_MASK :: u32
  GPR1_FEC2_MASK :: u32
  GPR1_FEC2_CLOCK_MUX1_SEL_MASK :: u32
  FEC_ENET_DEV :: int

definition clrsetbits_le32 :: "platform \<Rightarrow> string \<Rightarrow> u32 \<Rightarrow> u32 \<Rightarrow> trace \<Rightarrow> trace" where
  "clrsetbits_le32 pl reg clr new h =
     (let (v, h) = answer pl (Readl reg) h
      in h @ [Writel reg ((word_of_int v AND NOT clr) OR new)])"

section \<open>Operations\<close>

text \<open>The value is the new \<open>gd->ram_size\<close>.\<close>

definition himx0432_dram_init :: "platform \<Rightarrow> trace \<Rightarrow> int \<times> trace" where
  "himx0432_dram_init pl h = answer pl Ddr_size h"

definition board_mmc_get_env_dev :: "int \<Rightarrow> int" where "board_mmc_get_env_dev devno = devno"
definition mmc_map_to_kernel_blk :: "int \<Rightarrow> int" where "mmc_map_to_kernel_blk devno = devno"

definition himx0432_early_init_f :: int where "himx0432_early_init_f = 0"

definition setup_fec :: "fec_consts \<Rightarrow> platform \<Rightarrow> int \<Rightarrow> trace \<Rightarrow> int \<times> trace" where
  "setup_fec k pl fec_id h =
     (let h = (if fec_id = 0
               then clrsetbits_le32 pl ''iomuxc.gpr[1]'' (GPR1_FEC1_MASK k)
                      (GPR1_FEC1_CLOCK_MUX1_SEL_MASK k) h
               else clrsetbits_le32 pl ''iomuxc.gpr[1]'' (GPR1_FEC2_MASK k)
                      (GPR1_FEC2_CLOCK_MUX1_SEL_MASK k) h);
          (ret, h) = answer pl (Enable_fec_anatop_clock fec_id) h
      in if ret \<noteq> 0 then (ret, h) else (0, h @ [Enable_enet_clk 1]))"

text \<open>The loop with \<open>n\<close> rounds left; the value says whether a device was returned.\<close>

fun probe_again :: "platform \<Rightarrow> int \<Rightarrow> int \<Rightarrow> nat \<Rightarrow> trace \<Rightarrow> bool \<times> trace" where
  "probe_again pl bus addr 0 h = (False, h)"
| "probe_again pl bus addr (Suc n) h =
     (let (ret, h) = answer pl (I2c_probe bus addr) h
      in if 0 = ret then (True, h) else probe_again pl bus addr n h)"

definition get_i2c_device :: "platform \<Rightarrow> int \<Rightarrow> int \<Rightarrow> trace \<Rightarrow> bool \<times> trace" where
  "get_i2c_device pl bus addr h =
     (let (ret, h) = answer pl (I2c_bus bus) h
      in if ret \<noteq> 0 then (False, h) else probe_again pl bus addr 5 h)"

text \<open>
  \<open>fec_mxc\<close>: whether \<open>CONFIG_FEC_MXC\<close> is defined. The values are the result and the new
  \<open>bi_boot_params\<close>.
\<close>

definition himx0432_board_init :: "bool \<Rightarrow> fec_consts \<Rightarrow> u32 \<Rightarrow> platform \<Rightarrow> trace \<Rightarrow> int \<times> u32 \<times> trace" where
  "himx0432_board_init fec_mxc k phys_sdram pl h =
     (let (pmic, h) = get_i2c_device pl 0 0x08 h;
          h = (if pmic
               then h @ [Gpio_request (2, 11) ''switch_rst'', Gpio_output (2, 11) 0,
                         I2c_write 0 0x08 0x66 0x48, I2c_write 0 0x08 0x6d 0x1f,
                         Mdelay 15, Gpio_set (2, 11) 1]
               else h @ [Print ''PMIC on i2c1 not found\<newline>'' []]);
          h = (if fec_mxc then snd (setup_fec k pl (FEC_ENET_DEV k) h) else h)
      in (0, phys_sdram + 0x100, h))"

definition HIMX_DEFAULT_FDT_FILE_IMPEC_1 :: string where
  "HIMX_DEFAULT_FDT_FILE_IMPEC_1 = ''/boot/imx6ull-himx0294-impec.dtb''"

text \<open>The boot modes of the board, by the four bytes of \<open>MAKE_CFGVAL\<close>.\<close>

definition himx0432_boot_modes :: "(string \<times> u8 list) list" where
  "himx0432_boot_modes =
     [(''sd1'', [0x42, 0x20, 0x00, 0x00]), (''sd2'', [0x40, 0x28, 0x00, 0x00]),
      (''qspi1'', [0x10, 0x00, 0x00, 0x00])]"

text \<open>The part of \<open>board_late_init\<close> from the detection of the revision on.\<close>

definition impec_fdt :: "config \<Rightarrow> platform \<Rightarrow> trace \<Rightarrow> (trace, unit) res" where
  "impec_fdt cfg pl h =
     (let h = h @ [Gpio_request (4, 22) ''/rev2_detect'', Gpio_input (4, 22)];
          (v, h) = answer pl (Gpio_get (4, 22)) h
      in if 1 = v
         then bindR (fdt_file_is pl (default_fdt_file cfg) h) (\<lambda>eq h.
           if eq
           then Ret () (set_fdt_file pl HIMX_DEFAULT_FDT_FILE_IMPEC_1
                  (h @ [Print ''Detected IMPEC Rev. 1\<newline>'' []]))
           else Ret () h)
         else Ret () h)"

text \<open>\<open>runtime\<close>: whether \<open>CONFIG_ENV_VARS_UBOOT_RUNTIME_CONFIG\<close> is defined.\<close>

definition himx0432_late_init :: "bool \<Rightarrow> config \<Rightarrow> platform \<Rightarrow> trace \<Rightarrow> (trace, int) res" where
  "himx0432_late_init runtime cfg pl h =
     (let h = (if cmd_bmode cfg then h @ [Add_boot_modes himx0432_boot_modes] else h);
          h = (if runtime
               then h @ [Env_set ''board_name'' ''himx0294'', Env_set ''board_rev'' ''???'']
               else h)
      in bindR (impec_fdt cfg pl h) (\<lambda>_ h. Ret 0 h))"

definition himx0432_checkboard :: "trace \<Rightarrow> int \<times> trace" where
  "himx0432_checkboard h = (0, h @ [Print ''Board: himx0294-impec\<newline>'' []])"

end
