(* ===== verification/Fdt_Choice.thy ===== *)
theory Fdt_Choice
  imports Late_Correct Himx0432
begin

text \<open>
  The choice of the device tree. Three boards detect a variant and then replace the default
  device tree: the locale states what they share, and is interpreted on the three.
\<close>

section \<open>The contract\<close>

locale fdt_choice =
  fixes override :: "config \<Rightarrow> platform \<Rightarrow> trace \<Rightarrow> (trace, unit) res"
    and detect :: "platform \<Rightarrow> trace \<Rightarrow> bool \<times> trace"
    and pick :: "platform \<Rightarrow> trace \<Rightarrow> string \<times> trace"
    and files :: "string set"
  assumes override_code: "override cfg pl h =
     (if fst (detect pl h)
      then bindR (fdt_file_is pl (default_fdt_file cfg) (snd (detect pl h))) (\<lambda>eq h.
        if eq then Ret () (set_fdt_file pl (fst (pick pl h)) (snd (pick pl h))) else Ret () h)
      else Ret () (snd (detect pl h)))"
    and detect_env: "\<exists>g. snd (detect pl h) = h @ g \<and> list_all (\<lambda>c. \<not> writes_env c) g"
    and pick_env: "\<exists>g. snd (pick pl h) = h @ g \<and> list_all (\<lambda>c. \<not> writes_env c) g"
    and pick_file: "fst (pick pl h) \<in> files"
begin

lemma override_result:
  assumes env: "has_env pl texts numbers" and f: "env_texts texts h ''fdt_file'' = Some f"
  obtains h' f' where "override cfg pl h = Ret () h'"
    "env_numbers numbers h' = env_numbers numbers h"
    "env_texts texts h' = (env_texts texts h)(''fdt_file'' \<mapsto> f')"
    "f' = f \<or> f = default_fdt_file cfg \<and> fst (detect pl h) \<and> f' \<in> files"
    "fst (detect pl h) \<Longrightarrow> f = default_fdt_file cfg \<Longrightarrow> f' \<in> files"
proof -
  obtain g where g: "snd (detect pl h) = h @ g" "list_all (\<lambda>c. \<not> writes_env c) g"
    using detect_env by blast
  let ?h1 = "h @ g @ [Env_get ''fdt_file'']"
  obtain g' where g': "snd (pick pl ?h1) = ?h1 @ g'" "list_all (\<lambda>c. \<not> writes_env c) g'"
    using pick_env by blast
  note same = env_unchanged [OF g(2)] env_unchanged [OF g'(2)]
  have is_file: "fdt_file_is pl d (h @ g) = Ret (f = d) ?h1" for d
    using f same by (simp add: fdt_file_is_def has_envD [OF env])
  have set: "set_fdt_file pl x k = k @ [Env_set ''fdt_file'' x]" for x k
    by (simp add: set_fdt_file_def answer_def has_envD [OF env])
  consider (no) "\<not> fst (detect pl h)" | (user) "fst (detect pl h)" "f \<noteq> default_fdt_file cfg"
    | (default) "fst (detect pl h)" "f = default_fdt_file cfg"
    by blast
  then show ?thesis
  proof cases
    case no
    then show ?thesis
      using g(1) same f by (intro that [of "h @ g" f]) (simp_all add: override_code fun_upd_idem)
  next
    case user
    then show ?thesis
      using g(1) same f by (intro that [of ?h1 f])
        (simp_all add: override_code is_file fun_upd_idem not_writes_env)
  next
    case default
    then show ?thesis
      using g(1) g'(1) same pick_file [of pl ?h1] by (intro that [of "?h1 @ g' @ [Env_set ''fdt_file'' (fst (pick pl ?h1))]" "fst (pick pl ?h1)"])
        (simp_all add: override_code is_file set not_writes_env)
  qed
qed

end

section \<open>The three boards\<close>

definition ivap_detect :: "platform \<Rightarrow> trace \<Rightarrow> bool \<times> trace" where
  "ivap_detect pl h =
     (ans pl (h @ [Gpio_input ENET_RX_ER_GP]) (Gpio_get ENET_RX_ER_GP) = 0,
      h @ [Gpio_input ENET_RX_ER_GP, Gpio_get ENET_RX_ER_GP])"

definition ivap_pick :: "platform \<Rightarrow> trace \<Rightarrow> string \<times> trace" where
  "ivap_pick pl h =
     (if ans pl (h @ [Print ''Detected DVREC\<newline>'' []]) Is_cpu_6qp \<noteq> 0
      then HIMX_DEFAULT_FDT_FILE_DVREC_P else HIMX_DEFAULT_FDT_FILE_DVREC,
      h @ [Print ''Detected DVREC\<newline>'' [], Is_cpu_6qp])"

definition dvmon_detect :: "platform \<Rightarrow> trace \<Rightarrow> bool \<times> trace" where
  "dvmon_detect pl h = (fst (has_i2c_device pl 0 0x5c h) \<noteq> 0, snd (has_i2c_device pl 0 0x5c h))"

definition print_pick :: "string \<Rightarrow> string \<Rightarrow> platform \<Rightarrow> trace \<Rightarrow> string \<times> trace" where
  "print_pick msg fdt pl h = (fdt, h @ [Print msg []])"

definition impec_detect :: "platform \<Rightarrow> trace \<Rightarrow> bool \<times> trace" where
  "impec_detect pl h =
     (ans pl (h @ [Gpio_request (4, 22) ''/rev2_detect'', Gpio_input (4, 22)]) (Gpio_get (4, 22)) = 1,
      h @ [Gpio_request (4, 22) ''/rev2_detect'', Gpio_input (4, 22), Gpio_get (4, 22)])"

lemma probe_loop_env:
  "\<exists>g. snd (probe_loop pl bus addr n h) = h @ g \<and> list_all (\<lambda>c. \<not> writes_env c) g"
proof (induction n arbitrary: h)
  case (Suc n)
  show ?case
    using Suc.IH [of "h @ [I2c_probe bus addr, Udelay 10000]"]
    by (auto simp: answer_def Let_def)
qed simp

lemma has_i2c_device_env:
  "\<exists>g. snd (has_i2c_device pl bus addr h) = h @ g \<and> list_all (\<lambda>c. \<not> writes_env c) g"
  using probe_loop_env [of pl bus addr 5 "h @ [I2c_bus bus]"]
  by (auto simp: has_i2c_device_def answer_def Let_def)

interpretation ivap: fdt_choice ivap_fdt ivap_detect ivap_pick
    "{HIMX_DEFAULT_FDT_FILE_DVREC, HIMX_DEFAULT_FDT_FILE_DVREC_P}"
  by unfold_locales
    (auto simp: ivap_fdt_def ivap_detect_def ivap_pick_def answer_def Let_def cong: if_cong)

interpretation dvmon: fdt_choice dvmon_fdt dvmon_detect
    "print_pick ''dvmon: detected touch use alternative fdt\<newline>'' HIMX_DEFAULT_FDT_FILE_DVMON_2"
    "{HIMX_DEFAULT_FDT_FILE_DVMON_2}"
  using has_i2c_device_env
  by unfold_locales
    (auto simp: dvmon_fdt_def dvmon_detect_def print_pick_def Let_def split: prod.split cong: if_cong)

interpretation impec: fdt_choice impec_fdt impec_detect
    "print_pick ''Detected IMPEC Rev. 1\<newline>'' HIMX_DEFAULT_FDT_FILE_IMPEC_1"
    "{HIMX_DEFAULT_FDT_FILE_IMPEC_1}"
  by unfold_locales
    (auto simp: impec_fdt_def impec_detect_def print_pick_def answer_def Let_def cong: if_cong)

section \<open>board_late_init\<close>

text \<open>The device trees a board may choose by itself.\<close>

definition board_files :: "board \<Rightarrow> string set" where
  "board_files b =
     (case b of
        IVAP \<Rightarrow> {HIMX_DEFAULT_FDT_FILE_DVREC, HIMX_DEFAULT_FDT_FILE_DVREC_P}
      | DVMON \<Rightarrow> {HIMX_DEFAULT_FDT_FILE_DVMON_2} | _ \<Rightarrow> {})"

lemma board_files_no_NUL: "f \<in> board_files b \<Longrightarrow> NUL \<notin> set f"
  by (cases b) (auto simp: board_files_def NUL_def HIMX_DEFAULT_FDT_FILE_DVREC_def
      HIMX_DEFAULT_FDT_FILE_DVREC_P_def HIMX_DEFAULT_FDT_FILE_DVMON_2_def)

lemma board_fdt_result:
  assumes env: "has_env pl texts numbers" and f: "env_texts texts h ''fdt_file'' = Some f"
  obtains h' f' where
    "(case board cfg of IVAP \<Rightarrow> ivap_fdt cfg pl h | DVMON \<Rightarrow> dvmon_fdt cfg pl h | _ \<Rightarrow> Ret () h) = Ret () h'"
    "env_numbers numbers h' = env_numbers numbers h"
    "env_texts texts h' = (env_texts texts h)(''fdt_file'' \<mapsto> f')"
    "f' = f \<or> f = default_fdt_file cfg \<and> f' \<in> board_files (board cfg)"
proof (cases "board cfg")
  case IVAP
  show ?thesis
    by (rule ivap.override_result [OF env f, of cfg], rule that) (auto simp: IVAP board_files_def)
next
  case DVMON
  show ?thesis
    by (rule dvmon.override_result [OF env f, of cfg], rule that) (auto simp: DVMON board_files_def)
qed (use f that [of h f] in \<open>simp_all add: fun_upd_idem\<close>)

lemma hab_state_env:
  "\<exists>g. snd (get_hab_state pl h) = h @ g \<and> list_all (\<lambda>c. \<not> writes_env c) g"
  by (auto simp: get_hab_state_def answer_def Let_def split: prod.split)

lemma late_init_result:
  assumes env: "has_env pl texts numbers" and f: "env_texts texts h ''fdt_file'' = Some f"
    and nul: "NUL \<notin> set f"
  obtains h0 h' f' where "board_late_init cfg pl h = Ret (fst (get_hab_state pl h0)) h'"
    "env_numbers numbers h' = next_numbers (env_numbers numbers h)"
    "f' = f \<or> f = default_fdt_file cfg \<and> f' \<in> board_files (board cfg)"
    "env_texts texts h' = (env_texts texts h)
       (''fdt_file'' \<mapsto> f',
        ''fit_conf'' \<mapsto> (case basename f' of Some b \<Rightarrow> ''conf-'' @ take 26 b | None \<Rightarrow> f'),
        ''bootcmd'' \<mapsto> fitboot_cmd (slot (env_numbers numbers h' ''firmware'')),
        ''altbootcmd'' \<mapsto>
          (if env_numbers numbers h ''upgrade_available'' \<noteq> 0 \<and> fst (get_hab_state pl h0) = 0
           then legacy_cmd else fitboot_cmd)
            (other_slot (slot (env_numbers numbers h' ''firmware''))))"
    "himx0294_late_init cfg pl h = Ret 0 h0" "env_texts texts h0 ''fdt_file'' = Some f'"
proof -
  obtain h1 f' where 1:
    "(case board cfg of IVAP \<Rightarrow> ivap_fdt cfg pl h | DVMON \<Rightarrow> dvmon_fdt cfg pl h | _ \<Rightarrow> Ret () h) = Ret () h1"
    "env_numbers numbers h1 = env_numbers numbers h"
    "env_texts texts h1 = (env_texts texts h)(''fdt_file'' \<mapsto> f')"
    "f' = f \<or> f = default_fdt_file cfg \<and> f' \<in> board_files (board cfg)"
    using board_fdt_result [OF env f] .
  obtain g where g: "snd (get_hab_state pl h1) = h1 @ g" "list_all (\<lambda>c. \<not> writes_env c) g"
    using hab_state_env by blast
  let ?hab = "fst (get_hab_state pl h1)" and ?h2 = "h1 @ g"
  note same = env_unchanged [OF g(2)]
  have f2: "ans_str pl ?h2 ''fdt_file'' = Some f'"
    using same 1(3) by (simp add: has_envD [OF env])
  have "NUL \<notin> set f'"
    using 1(4) nul board_files_no_NUL by blast
  then have fit: "board_generate_fit_conf pl ?h2 = Ret () (?h2 @ [Env_get ''fdt_file'', Env_set ''fit_conf''
      (case basename f' of Some b \<Rightarrow> ''conf-'' @ take 26 b | None \<Rightarrow> f')])"
    using fit_conf_result [of pl ?h2] f2 by simp
  let ?h3 = "?h2 @ [Env_get ''fdt_file'', Env_set ''fit_conf''
      (case basename f' of Some b \<Rightarrow> ''conf-'' @ take 26 b | None \<Rightarrow> f')]"
  define h3 where "h3 = ?h3"
  define h' where "h' = board_generate_bootcmd pl ?hab h3"
  have "board_late_init cfg pl h = Ret ?hab h'"
    using 1(1) g(1) fit by (simp add: board_late_init_def prod.case_eq_if h'_def h3_def)
  moreover have n: "env_numbers numbers h3 = env_numbers numbers h"
    using same 1(2) by (simp add: not_writes_env h3_def)
  moreover have t: "env_texts texts h3 = (env_texts texts h)(''fdt_file'' \<mapsto> f',
        ''fit_conf'' \<mapsto> (case basename f' of Some b \<Rightarrow> ''conf-'' @ take 26 b | None \<Rightarrow> f'))"
    using same 1(3) by (simp add: not_writes_env h3_def)
  moreover note bootcmd_env [OF env, of ?hab h3, folded h'_def, unfolded n t]
  moreover have "himx0294_late_init cfg pl h = Ret 0 h1" "env_texts texts h1 ''fdt_file'' = Some f'"
    using 1(1,3) by (simp_all add: himx0294_late_init_def)
  ultimately show ?thesis
    using 1(4) by (intro that [of h1 h' f']) (simp_all only:)
qed

text \<open>
  C15: \<open>board_late_init\<close> returns whenever \<open>fdt_file\<close> is set. A device tree the user has chosen
  is kept; only the default one is replaced, by one of the board's own alternatives, and
  the FIT configuration is named after the device tree that is used in the end. Without the
  signed boot the function makes the same choice.
\<close>

theorem late_init_device_tree:
  assumes "has_env pl texts numbers" "env_texts texts h ''fdt_file'' = Some f" "NUL \<notin> set f"
  shows "\<exists>hab h' f'. board_late_init cfg pl h = Ret hab h'
    \<and> env_texts texts h' ''fdt_file'' = Some f'
    \<and> (f' = f \<or> f = default_fdt_file cfg \<and> f' \<in> board_files (board cfg))
    \<and> env_texts texts h' ''fit_conf''
        = Some (case basename f' of Some b \<Rightarrow> ''conf-'' @ take 26 b | None \<Rightarrow> f')
    \<and> (\<exists>g. himx0294_late_init cfg pl h = Ret 0 g \<and> env_texts texts g ''fdt_file'' = Some f')"
proof -
  obtain h0 h' f' where "board_late_init cfg pl h = Ret (fst (get_hab_state pl h0)) h'"
    "himx0294_late_init cfg pl h = Ret 0 h0" "env_texts texts h0 ''fdt_file'' = Some f'"
    "f' = f \<or> f = default_fdt_file cfg \<and> f' \<in> board_files (board cfg)"
    "env_texts texts h' ''fdt_file'' = Some f'" "env_texts texts h' ''fit_conf''
        = Some (case basename f' of Some b \<Rightarrow> ''conf-'' @ take 26 b | None \<Rightarrow> f')"
    by (rule late_init_result [OF assms, of cfg]) simp
  then show ?thesis
    by blast
qed

definition sim_config :: "board \<Rightarrow> config" where
  "sim_config b =
     \<lparr>board = b, mxc_spi = True, sata = True, video_ipuv3 = True, cmd_bmode = False,
      default_fdt_file = ''/boot/imx6q-himx0294-ivap.dtb''\<rparr>"

theorem late_init_device_tree_witness:
  "\<exists>hab h' f'. board_late_init (sim_config IVAP)
        (sim_pl [''fdt_file'' \<mapsto> ''/boot/mine.dtb''] (\<lambda>_. 0)) [] = Ret hab h'
    \<and> env_texts [''fdt_file'' \<mapsto> ''/boot/mine.dtb''] h' ''fdt_file'' = Some ''/boot/mine.dtb''"
  using late_init_device_tree [OF sim_pl_env, of "[''fdt_file'' \<mapsto> ''/boot/mine.dtb'']" "[]" "''/boot/mine.dtb''"
      "sim_config IVAP" "\<lambda>_. 0"]
  by (auto simp: sim_config_def NUL_def)

text \<open>
  On a device the HAB does not report as open, whatever the environment says, neither
  boot command ever falls back to the unauthenticated legacy boot: both start a signed FIT
  image, of the slot \<open>firmware\<close> names and of the other one.
\<close>

theorem locked_device_boots_signed:
  assumes env: "has_env pl texts numbers" and f: "env_texts texts h ''fdt_file'' = Some f" "NUL \<notin> set f"
    and locked: "\<And>g. hab_status pl g \<noteq> (HAB_SUCCESS, HAB_CFG_OPEN, HAB_STATE_NONSECURE)"
  shows "\<exists>hab h' s. board_late_init cfg pl h = Ret hab h' \<and> hab \<noteq> 0
    \<and> s = slot (env_numbers numbers h' ''firmware'')
    \<and> env_texts texts h' ''bootcmd'' = Some (fitboot_cmd s)
    \<and> env_texts texts h' ''altbootcmd'' = Some (fitboot_cmd (other_slot s))"
proof -
  have nz: "fst (get_hab_state pl g) \<noteq> 0" for g
    using locked [of "g @ [Hab_is_enabled]"]
    by (auto simp: get_hab_state_def answer_def Let_def split: prod.split)
  show ?thesis
    by (rule late_init_result [OF env f, of cfg]) (use nz in \<open>auto\<close>)
qed

definition locked_pl :: platform where
  "locked_pl = (sim_pl [''fdt_file'' \<mapsto> ''/boot/a.dtb''] update_numbers)
     \<lparr>hab_status := \<lambda>h. (HAB_SUCCESS, HAB_CFG_CLOSED, HAB_STATE_TRUSTED)\<rparr>"

theorem locked_device_boots_signed_witness:
  "\<exists>hab h' s. board_late_init (sim_config IMOC) locked_pl [] = Ret hab h' \<and> hab \<noteq> 0
    \<and> s = slot (env_numbers update_numbers h' ''firmware'')
    \<and> env_texts [''fdt_file'' \<mapsto> ''/boot/a.dtb''] h' ''bootcmd'' = Some (fitboot_cmd s)
    \<and> env_texts [''fdt_file'' \<mapsto> ''/boot/a.dtb''] h' ''altbootcmd'' = Some (fitboot_cmd (other_slot s))"
proof (rule locked_device_boots_signed)
  show "has_env locked_pl [''fdt_file'' \<mapsto> ''/boot/a.dtb''] update_numbers"
    using sim_pl_env by (simp add: has_env_def locked_pl_def)
  show "env_texts [''fdt_file'' \<mapsto> ''/boot/a.dtb''] [] ''fdt_file'' = Some ''/boot/a.dtb''"
    by simp
qed (simp_all add: NUL_def locked_pl_def)

end
