(* ===== verification/Hab.thy ===== *)
theory Hab
  imports Fdt_Choice
begin

text \<open>
  What the kernel is told about the state of the device agrees with what the boot loader has
  decided by it (\<open>get_hab_state\<close>, \<open>board_late_init\<close>, \<open>ft_board_setup\<close> of
  \<open>hipos-cyber-security/himx0294.c\<close>).
\<close>

definition hab_code :: "int \<Rightarrow> hab_ret \<times> hab_config \<times> hab_state \<Rightarrow> int" where
  "hab_code en st =
     (if en = 0 \<and> st = (HAB_SUCCESS, HAB_CFG_OPEN, HAB_STATE_NONSECURE) then 0
      else if en \<noteq> 0 \<and> st = (HAB_SUCCESS, HAB_CFG_CLOSED, HAB_STATE_TRUSTED) then 1 else - 1)"

definition stable_hab :: "platform \<Rightarrow> int \<Rightarrow> hab_ret \<times> hab_config \<times> hab_state \<Rightarrow> bool" where
  "stable_hab pl en st \<longleftrightarrow> (\<forall>g. ans pl g Hab_is_enabled = en) \<and> (\<forall>g. hab_status pl g = st)"

lemma get_hab_state_stable:
  "stable_hab pl en st \<Longrightarrow> get_hab_state pl h = (hab_code en st, h @ [Hab_is_enabled, Hab_report_status])"
  by (cases st) (auto simp: stable_hab_def get_hab_state_def hab_code_def answer_def)

lemma late_init_caches:
  assumes "stable_hab pl en st" "board_late_init cfg pl h = Ret hab h'"
  shows "hab = hab_code en st"
  using assms(2) by (auto simp: board_late_init_def get_hab_state_stable [OF assms(1)] bindR_Ret_iff)

definition hab_text :: "int \<Rightarrow> string" where
  "hab_text hab = (if hab = 0 then ''insecure'' else if hab = 1 then ''secure'' else ''unknown'')"

lemma ft_setup_writes:
  assumes "stable_hab pl en st"
  shows "\<exists>g. ft_board_setup pl h = (0, h @ g)
    \<and> (\<forall>off name v. Fdt_setprop_string off name v \<in> set g \<longrightarrow>
         0 \<le> off \<and> name = ''iris,hab-state'' \<and> v = hab_text (hab_code en st))"
proof -
  let ?h = "h @ [Hab_is_enabled, Hab_report_status]" and ?p = "Fdt_path_offset ''/chosen''"
  show ?thesis
  proof (cases "ans pl ?h ?p < 0")
    case True
    then show ?thesis
      by (cases "ans pl (?h @ [?p]) (Fdt_add_subnode 0 ''chosen'') < 0")
        (simp_all add: ft_board_setup_def get_hab_state_stable [OF assms] answer_def hab_text_def)
  next
    case False
    then show ?thesis
      by (simp add: ft_board_setup_def get_hab_state_stable [OF assms] answer_def hab_text_def)
  qed
qed


lemma sim_pl_stable: "stable_hab (sim_pl texts numbers) 0 (HAB_SUCCESS, HAB_CFG_OPEN, HAB_STATE_NONSECURE)"
  by (simp add: stable_hab_def sim_pl_def)


end
