(* ===== verification/Power_Loss.thy ===== *)
theory Power_Loss
  imports Late_Correct "HOL-Library.Sublist"
begin

text \<open>
  The power may fail between any two calls of \<open>board_generate_bootcmd\<close>, and the boot loader may
  be started any number of times. As \<open>env_save\<close> stores all variables at once, the device
  is found either before or after the update, and never in between.
\<close>

section \<open>A run that is cut off\<close>

lemma stored_without_save: "Env_save \<notin> set h \<Longrightarrow> stored_numbers init h = init"
proof -
  have "Env_save \<notin> set h \<Longrightarrow> snd (fold store_step h x) = snd x" for x
  proof (induction h arbitrary: x)
    case (Cons c h)
    then show ?case
      by (cases c) (simp_all add: store_step_def)
  qed simp
  then show "Env_save \<notin> set h \<Longrightarrow> stored_numbers init h = init"
    by (simp add: stored_numbers_def)
qed

lemma stored_append_without_save:
  assumes "Env_save \<notin> set b"
  shows "stored_numbers init (a @ b) = stored_numbers init a"
proof -
  have "snd (fold store_step b x) = snd x" for x
    using assms
  proof (induction b arbitrary: x)
    case (Cons c b)
    then show ?case
      by (cases c) (simp_all add: store_step_def)
  qed simp
  then show ?thesis
    by (simp add: stored_numbers_def)
qed

lemma stored_at_save: "stored_numbers init (a @ [Env_save]) = env_numbers init a"
  by (simp add: stored_numbers_def store_live)

text \<open>A prefix of a run with one \<open>env_save\<close> stores nothing or what the whole run stores.\<close>

lemma stored_prefix:
  assumes "prefix g (a @ Env_save # b)" "Env_save \<notin> set a" "Env_save \<notin> set b"
  shows "stored_numbers init g \<in> {init, env_numbers init a}"
proof -
  consider "prefix g a" | b' where "g = (a @ [Env_save]) @ b'" "prefix b' b"
    using assms(1) by (auto simp: prefix_append prefix_Cons)
  then show ?thesis
  proof cases
    case 1
    then have "Env_save \<notin> set g"
      using assms(2) set_mono_prefix by blast
    then show ?thesis
      by (simp add: stored_without_save)
  next
    case 2
    then have "Env_save \<notin> set b'"
      using assms(3) set_mono_prefix by blast
    then have "stored_numbers init g = env_numbers init a"
      unfolding 2(1) using stored_append_without_save stored_at_save by metis
    then show ?thesis
      by simp
  qed
qed

section \<open>The calls of board_generate_bootcmd\<close>

lemma bootcmd_trace:
  assumes env: "has_env pl texts n"
  obtains (keep) b where "board_generate_bootcmd pl hab [] = b" "Env_save \<notin> set b" "next_numbers n = n"
  | (switch) a b where "board_generate_bootcmd pl hab [] = a @ Env_save # b" "Env_save \<notin> set a"
      "Env_save \<notin> set b" "env_numbers n a = next_numbers n"
proof (cases "switching n")
  case False
  then have "Env_save \<notin> set (board_generate_bootcmd pl hab [])"
    by (auto simp: env_int_simps [OF env] board_generate_bootcmd_def switching_def sint_u32_eq Let_def)
  then show ?thesis
    using False keep by (simp add: next_numbers_def)
next
  case True
  let ?a = "[Env_get_ulong ''firmware'' 10 0, Env_get_ulong ''upgrade_available'' 10 0,
      Env_get_ulong ''ustate'' 10 0, Env_set_ulong ''firmware'' (if n ''firmware'' = 1 then 0 else 1),
      Env_set_ulong ''ustate'' 2]"
  have "\<exists>b. board_generate_bootcmd pl hab [] = ?a @ Env_save # b \<and> Env_save \<notin> set b"
    using True by (auto simp: env_int_simps [OF env] board_generate_bootcmd_def switching_def sint_u32_eq Let_def)
  then show ?thesis
    using True by (auto intro: switch [of ?a] simp: next_numbers_def)
qed

section \<open>Starts and power losses\<close>

text \<open>
  The numbers in the memory of the device before and after a start of the boot loader that
  ends anywhere in \<open>board_generate_bootcmd\<close>, and after one that ends behind it.
\<close>

inductive cut_start :: "(string \<Rightarrow> u32) \<Rightarrow> (string \<Rightarrow> u32) \<Rightarrow> bool" where
  "has_env pl texts n \<Longrightarrow> prefix g (board_generate_bootcmd pl hab []) \<Longrightarrow> cut_start n (stored_numbers n g)"

inductive full_start :: "(string \<Rightarrow> u32) \<Rightarrow> (string \<Rightarrow> u32) \<Rightarrow> bool" where
  "has_env pl texts n \<Longrightarrow> full_start n (stored_numbers n (board_generate_bootcmd pl hab []))"

inductive_cases cut_startE: "cut_start n m"
inductive_cases full_startE: "full_start n m"

lemma cut_start_numbers: "cut_start n m \<Longrightarrow> m = n \<or> m = next_numbers n"
proof (erule cut_startE)
  fix pl texts g hab
  assume env: "has_env pl texts n" and g: "prefix g (board_generate_bootcmd pl hab [])"
    and m: "m = stored_numbers n g"
  show "m = n \<or> m = next_numbers n"
  proof (cases rule: bootcmd_trace [OF env, of hab])
    case (1 b)
    then have "Env_save \<notin> set g"
      using g set_mono_prefix by blast
    then show ?thesis
      by (simp add: m stored_without_save)
  next
    case (2 a b)
    then show ?thesis
      using stored_prefix [of g a b n] g m by auto
  qed
qed

lemma full_start_numbers: "full_start n m \<Longrightarrow> m = next_numbers n"
  by (erule full_startE) (simp add: bootcmd_stores [where h = "[]"] stored_without_save)

lemma cut_starts_numbers: "cut_start\<^sup>*\<^sup>* n m \<Longrightarrow> m = n \<or> m = next_numbers n"
  by (induction rule: rtranclp_induct) (auto dest: cut_start_numbers simp: next_numbers_idem)

text \<open>
  C13: However often and wherever the power fails while \<open>board_generate_bootcmd\<close> runs, the
  device holds the numbers of before the update or those of after it. Once one start has come
  through, those of after it are held, however many starts, cut off or not, came before and
  come after: an update switches the slot exactly once.
\<close>

theorem power_loss_switches_once:
  assumes "cut_start\<^sup>*\<^sup>* n m"
  shows "m \<in> {n, next_numbers n}
    \<and> (\<forall>m' m''. full_start m m' \<longrightarrow> (\<lambda>x y. cut_start x y \<or> full_start x y)\<^sup>*\<^sup>* m' m''
        \<longrightarrow> m'' = next_numbers n \<and> \<not> switching m'')"
proof -
  have m: "m = n \<or> m = next_numbers n"
    by (rule cut_starts_numbers [OF assms])
  have rest: "m'' = next_numbers n"
    if "(\<lambda>x y. cut_start x y \<or> full_start x y)\<^sup>*\<^sup>* (next_numbers n) m''" for m''
    using that
    by (induction rule: rtranclp_induct)
      (auto dest!: cut_start_numbers full_start_numbers simp: next_numbers_idem)
  moreover have "\<not> switching (next_numbers n)"
    by (simp add: next_numbers_def switching_def)
  moreover have "m' = next_numbers n" if "full_start m m'" for m'
    using full_start_numbers [OF that] m by (auto simp: next_numbers_idem)
  ultimately show ?thesis
    using m by blast
qed

theorem power_loss_switches_once_witness:
  "\<exists>m'. cut_start\<^sup>*\<^sup>* update_numbers update_numbers \<and> full_start update_numbers m'
    \<and> m' ''firmware'' = 1 \<and> \<not> switching m'"
proof -
  have env: "has_env (sim_pl Map.empty update_numbers) Map.empty update_numbers"
    by (rule sim_pl_env)
  have "cut_start update_numbers update_numbers"
    using cut_start.intros [OF env, of "[]" 0] by (simp add: stored_without_save)
  then have cuts: "cut_start\<^sup>*\<^sup>* update_numbers update_numbers"
    by blast
  let ?m = "stored_numbers update_numbers (board_generate_bootcmd (sim_pl Map.empty update_numbers) 0 [])"
  have full: "full_start update_numbers ?m"
    by (rule full_start.intros [OF env])
  have "?m = next_numbers update_numbers \<and> \<not> switching ?m"
    using power_loss_switches_once [OF cuts] full by blast
  then show ?thesis
    using cuts full by (intro exI [of _ ?m]) (simp add: next_numbers_def switching_def update_numbers_def)
qed

end
