(* ===== verification/Board.thy ===== *)
theory Board
  imports Himx0432
begin

text \<open>
  The board set-up of the i.MX6 boards (\<open>hipos-cyber-security/himx0294.c\<close>): pads, USB, SPI,
  display, GPIOs. Masks and shifts of U-Boot headers are parameters; pads are named.
\<close>

section \<open>Pad tables\<close>

definition misc_pads :: "board \<Rightarrow> (string \<times> string) list" where
  "misc_pads b =
     (if b = DVMON
      then [(''MX6_PAD_GPIO_0__GPIO1_IO00'', ''NO_PAD_CTRL''),
            (''MX6_PAD_GPIO_1__USB_OTG_ID'', ''WEAK_PULLUP''),
            (''MX6_PAD_GPIO_3__XTALOSC_REF_CLK_24M'', ''PAD_CTL_DSE_48ohm|PAD_CTL_SPEED_LOW''),
            (''MX6_PAD_EIM_D31__GPIO3_IO31'', ''NO_PAD_CTRL'')]
      else [(''MX6_PAD_GPIO_1__USB_OTG_ID'', ''WEAK_PULLUP''),
            (''MX6_PAD_KEY_COL4__USB_OTG_OC'', ''WEAK_PULLUP''),
            (''MX6_PAD_ENET_RX_ER__GPIO1_IO24'', ''WEAK_PULLUP'')])"

definition usb_pads :: "board \<Rightarrow> (string \<times> string) list" where
  "usb_pads b =
     (if b = DVMON
      then [(''MX6_PAD_EIM_D31__GPIO3_IO31'', ''NO_PAD_CTRL'')]
      else [(''MX6_PAD_GPIO_3__XTALOSC_REF_CLK_24M'', ''PAD_CTL_DSE_48ohm|PAD_CTL_SPEED_LOW''),
            (''MX6_PAD_GPIO_4__GPIO1_IO04'', ''NO_PAD_CTRL''),
            (''MX6_PAD_KEY_ROW4__GPIO4_IO15'', ''NO_PAD_CTRL'')])"

definition ecspi1_pads :: "(string \<times> string) list" where
  "ecspi1_pads =
     [(''MX6_PAD_EIM_D19__GPIO3_IO19'', ''NO_PAD_CTRL''),
      (''MX6_PAD_EIM_D17__ECSPI1_MISO'', ''SPI_PAD_CTRL''),
      (''MX6_PAD_EIM_D18__ECSPI1_MOSI'', ''SPI_PAD_CTRL''),
      (''MX6_PAD_EIM_D16__ECSPI1_SCLK'', ''SPI_PAD_CTRL'')]"

definition backlight_pads :: "(string \<times> string) list" where
  "backlight_pads = [(''MX6_PAD_SD1_CMD__GPIO1_IO18'', ''NO_PAD_CTRL'')]"

definition LVDS_BACKLIGHT_GP :: gpio where "LVDS_BACKLIGHT_GP = (1, 18)"

section \<open>Memory, USB and SPI\<close>

text \<open>The value is the new \<open>gd->ram_size\<close>.\<close>

definition dram_init :: "platform \<Rightarrow> trace \<Rightarrow> int \<times> trace" where
  "dram_init pl h = answer pl Ddr_size h"

definition board_ehci_hcd_init :: "board \<Rightarrow> int \<Rightarrow> trace \<Rightarrow> int \<times> trace" where
  "board_ehci_hcd_init b port h =
     (let h = h @ [Print ''USB init\<newline>'' [], Setup_pads (usb_pads b)]
      in (0, if b = DVMON then h @ [Gpio_output (3, 31) 1]
             else h @ [Gpio_output (4, 15) 1, Gpio_output (1, 4) 0, Mdelay 2, Gpio_set (1, 4) 1]))"

definition board_ehci_power :: "int \<Rightarrow> int \<Rightarrow> int" where
  "board_ehci_power port on = 0"

text \<open>The GPIO of the chip select, \<open>None\<close> for \<open>-1\<close>.\<close>

definition board_spi_cs_gpio :: "nat \<Rightarrow> nat \<Rightarrow> gpio option" where
  "board_spi_cs_gpio bus cs = (if bus = 0 \<and> cs = 0 then Some (3, 19) else None)"

definition setup_spi :: "trace \<Rightarrow> trace" where
  "setup_spi h = h @ [Setup_pads ecspi1_pads]"

section \<open>Display\<close>

record video_mode =
  name :: string
  refresh :: nat
  xres :: nat
  yres :: nat
  pixclock :: nat
  left_margin :: nat
  right_margin :: nat
  upper_margin :: nat
  lower_margin :: nat
  hsync_len :: nat
  vsync_len :: nat
  sync :: string
  vmode :: string

datatype enable_fun = Do_enable_hdmi | Enable_lvds

text \<open>\<open>detect\<close> says whether the display has the function \<open>detect_i2c\<close>.\<close>

record display_info =
  bus :: int
  addr :: int
  pixfmt :: string
  detect :: bool
  enable :: enable_fun
  mode :: video_mode

record ipu_consts =
  GPR2_DATA_WIDTH_CH0_24BIT :: u32
  CCGR3_LDB_DI0_MASK :: u32
  CS2CDR_LDB_DI0_CLK_SEL_MASK :: u32
  CS2CDR_LDB_DI1_CLK_SEL_MASK :: u32
  CS2CDR_LDB_DI0_CLK_SEL_OFFSET :: nat
  CS2CDR_LDB_DI1_CLK_SEL_OFFSET :: nat
  CSCMR2_LDB_DI0_IPU_DIV :: u32
  CLK_SEL_LDB_DI0 :: u32
  CHSCCDR_IPU1_DI0_CLK_SEL_OFFSET :: nat
  GPR2_BGREF_RRMODE_EXTERNAL_RES :: u32
  GPR2_DI1_VS_POLARITY_ACTIVE_HIGH :: u32
  GPR2_DI0_VS_POLARITY_ACTIVE_LOW :: u32
  GPR2_BIT_MAPPING_CH1_SPWG :: u32
  GPR2_DATA_WIDTH_CH1_18BIT :: u32
  GPR2_BIT_MAPPING_CH0_SPWG :: u32
  GPR2_DATA_WIDTH_CH0_18BIT :: u32
  GPR2_LVDS_CH1_MODE_DISABLED :: u32
  GPR2_LVDS_CH0_MODE_ENABLED_DI0 :: u32
  GPR3_LVDS0_MUX_CTL_MASK :: u32
  GPR3_HDMI_MUX_CTL_MASK :: u32
  GPR3_MUX_SRC_IPU1_DI0 :: u32
  GPR3_LVDS0_MUX_CTL_OFFSET :: nat
  GPR1_OTG_ID_MASK :: u32
  GPR1_OTG_ID_GPIO1 :: u32
  PHYS_SDRAM :: u32

definition do_enable_hdmi :: "trace \<Rightarrow> trace" where
  "do_enable_hdmi h = h @ [Imx_enable_hdmi_phy]"

definition detect_i2c :: "platform \<Rightarrow> display_info \<Rightarrow> trace \<Rightarrow> int \<times> trace" where
  "detect_i2c pl d h =
     (let (ret, h) = answer pl (I2c_bus (bus d)) h
      in if ret \<noteq> 0 then (0, h)
         else (let (ret, h) = answer pl (I2c_probe (bus d) (addr d)) h
               in (if 0 = ret then 1 else 0, h)))"

text \<open>A register read, changed by \<open>f\<close> and written back.\<close>

definition modify :: "platform \<Rightarrow> string \<Rightarrow> (u32 \<Rightarrow> u32) \<Rightarrow> trace \<Rightarrow> trace" where
  "modify pl reg f h =
     (let (v, h) = answer pl (Readl reg) h in h @ [Writel reg (f (word_of_int v))])"

definition enable_lvds :: "ipu_consts \<Rightarrow> platform \<Rightarrow> trace \<Rightarrow> trace" where
  "enable_lvds k pl h =
     modify pl ''iomuxc.gpr[2]'' (\<lambda>reg. reg OR GPR2_DATA_WIDTH_CH0_24BIT k) h
       @ [Gpio_output LVDS_BACKLIGHT_GP 1]"

definition displays :: "display_info list" where
  "displays =
     [\<lparr>bus = 0, addr = 0x50, pixfmt = ''IPU_PIX_FMT_RGB24'', detect = True, enable = Do_enable_hdmi,
       mode = \<lparr>name = ''HDMI'', refresh = 60, xres = 1024, yres = 768, pixclock = 15385,
         left_margin = 220, right_margin = 40, upper_margin = 21, lower_margin = 7,
         hsync_len = 60, vsync_len = 10, sync = ''FB_SYNC_EXT'', vmode = ''FB_VMODE_NONINTERLACED''\<rparr>\<rparr>,
      \<lparr>bus = 0, addr = 0, pixfmt = ''IPU_PIX_FMT_RGB24'', detect = False, enable = Enable_lvds,
       mode = \<lparr>name = ''LDB-WXGA'', refresh = 60, xres = 1280, yres = 768, pixclock = 12578,
         left_margin = 192, right_margin = 64, upper_margin = 3, lower_margin = 20,
         hsync_len = 128, vsync_len = 7, sync = ''FB_SYNC_EXT'', vmode = ''FB_VMODE_NONINTERLACED''\<rparr>\<rparr>]"

definition board_cfb_skip :: "platform \<Rightarrow> trace \<Rightarrow> bool \<times> trace" where
  "board_cfb_skip pl h = (ans_str pl h ''novideo'' \<noteq> None, h @ [Env_get ''novideo''])"

text \<open>The values \<open>setup_display\<close> writes, as functions of the values it reads.\<close>

definition cs2cdr_value :: "ipu_consts \<Rightarrow> u32 \<Rightarrow> u32" where
  "cs2cdr_value k reg =
     (reg AND NOT (CS2CDR_LDB_DI0_CLK_SEL_MASK k OR CS2CDR_LDB_DI1_CLK_SEL_MASK k))
       OR (push_bit (CS2CDR_LDB_DI0_CLK_SEL_OFFSET k) 3
           OR push_bit (CS2CDR_LDB_DI1_CLK_SEL_OFFSET k) 3)"

definition gpr2_value :: "ipu_consts \<Rightarrow> u32" where
  "gpr2_value k =
     GPR2_BGREF_RRMODE_EXTERNAL_RES k OR GPR2_DI1_VS_POLARITY_ACTIVE_HIGH k
       OR GPR2_DI0_VS_POLARITY_ACTIVE_LOW k OR GPR2_BIT_MAPPING_CH1_SPWG k
       OR GPR2_DATA_WIDTH_CH1_18BIT k OR GPR2_BIT_MAPPING_CH0_SPWG k
       OR GPR2_DATA_WIDTH_CH0_18BIT k OR GPR2_LVDS_CH1_MODE_DISABLED k
       OR GPR2_LVDS_CH0_MODE_ENABLED_DI0 k"

definition gpr3_value :: "ipu_consts \<Rightarrow> u32 \<Rightarrow> u32" where
  "gpr3_value k reg =
     (reg AND NOT (GPR3_LVDS0_MUX_CTL_MASK k OR GPR3_HDMI_MUX_CTL_MASK k))
       OR push_bit (GPR3_LVDS0_MUX_CTL_OFFSET k) (GPR3_MUX_SRC_IPU1_DI0 k)"

definition setup_display :: "ipu_consts \<Rightarrow> platform \<Rightarrow> trace \<Rightarrow> trace" where
  "setup_display k pl h =
     (let h = h @ [Enable_ipu_clock, Imx_setup_hdmi];
          h = modify pl ''ccm.CCGR3'' (\<lambda>reg. reg OR CCGR3_LDB_DI0_MASK k) h;
          h = modify pl ''ccm.cs2cdr'' (cs2cdr_value k) h;
          h = modify pl ''ccm.cscmr2'' (\<lambda>reg. reg OR CSCMR2_LDB_DI0_IPU_DIV k) h;
          h = modify pl ''ccm.chsccdr''
                (\<lambda>reg. reg OR push_bit (CHSCCDR_IPU1_DI0_CLK_SEL_OFFSET k) (CLK_SEL_LDB_DI0 k)) h;
          h = h @ [Writel ''iomuxc.gpr[2]'' (gpr2_value k)];
          h = modify pl ''iomuxc.gpr[3]'' (gpr3_value k) h
      in h @ [Setup_pads backlight_pads, Gpio_input LVDS_BACKLIGHT_GP])"

definition board_early_init_f :: "config \<Rightarrow> ipu_consts \<Rightarrow> platform \<Rightarrow> trace \<Rightarrow> int \<times> trace" where
  "board_early_init_f cfg k pl h = (0, if video_ipuv3 cfg then setup_display k pl h else h)"

definition overwrite_console :: int where "overwrite_console = 1"

section \<open>board_init and the rest\<close>

text \<open>The values are the result and the new \<open>bi_boot_params\<close>.\<close>

definition board_init :: "config \<Rightarrow> ipu_consts \<Rightarrow> platform \<Rightarrow> trace \<Rightarrow> int \<times> u32 \<times> trace" where
  "board_init cfg k pl h =
     (let h = clrsetbits_le32 pl ''iomuxc.gpr[1]'' (GPR1_OTG_ID_MASK k) (GPR1_OTG_ID_GPIO1 k) h;
          h = h @ [Setup_pads (misc_pads (board cfg))];
          h = (if mxc_spi cfg then setup_spi h else h);
          h = (if sata cfg then h @ [Setup_sata] else h);
          h = (if board cfg = DVMON
               then h @ [Gpio_request (3, 31) ''Enable USB'', Gpio_output (3, 31) 1,
                         Gpio_request (1, 0) ''Enable touchscreen'', Gpio_output (1, 0) 0]
               else h @ [Gpio_request (4, 4) ''???'', Gpio_output (4, 4) 1, Gpio_set (4, 4) 0,
                         Udelay 1000, Gpio_set (4, 4) 1])
      in (0, PHYS_SDRAM k + 0x100, h))"

definition checkboard :: "board \<Rightarrow> trace \<Rightarrow> int \<times> trace" where
  "checkboard b h =
     (0, h @ [Print (case b of
        IMOC \<Rightarrow> ''Board: himx0294-imoc\<newline>''
      | IVAP \<Rightarrow> ''Board: himx0294-ivap/dvrec\<newline>''
      | DVMON \<Rightarrow> ''Board: himx0294-dvmon\<newline>''
      | OTHER \<Rightarrow> ''Board: himx0294-???\<newline>'') []])"

definition board_boot_modes :: "(string \<times> u8 list) list" where
  "board_boot_modes = [(''mmc0'', [0x40, 0x30, 0x00, 0x00]), (''mmc1'', [0x40, 0x38, 0x00, 0x00])]"

definition misc_init_r :: "config \<Rightarrow> trace \<Rightarrow> int \<times> trace" where
  "misc_init_r cfg h =
     (let h = (if board cfg = IVAP
               then h @ [Gpio_request ENET_RX_ER_GP ''Detect DVREC'',
                         Gpio_request (4, 15) ''Enable USB OTG PWR'', Gpio_request (1, 4) ''Reset USB'']
               else h)
      in (0, if cmd_bmode cfg then h @ [Add_boot_modes board_boot_modes] else h))"

end
