(* ===== verification/Board_Correct.thy ===== *)
theory Board_Correct
  imports Board Fdt_Choice
begin

text \<open>
  The properties of the board set-up: what the registers hold after \<open>setup_display\<close>, the
  clock of the Ethernet controller, and the late choice of the device tree on the i.MX6ULL.
\<close>

section \<open>Registers\<close>

text \<open>A register holds what was last written to it.\<close>

definition reg_step :: "call \<Rightarrow> (string \<Rightarrow> u32) \<Rightarrow> string \<Rightarrow> u32" where
  "reg_step c m = (case c of Writel r v \<Rightarrow> m(r := v) | _ \<Rightarrow> m)"

definition registers :: "(string \<Rightarrow> u32) \<Rightarrow> trace \<Rightarrow> string \<Rightarrow> u32" where
  "registers init h = fold reg_step h init"

definition has_registers :: "platform \<Rightarrow> (string \<Rightarrow> u32) \<Rightarrow> bool" where
  "has_registers pl init \<longleftrightarrow> (\<forall>h r. word_of_int (ans pl h (Readl r)) = registers init h r)"

lemma registers_append [simp]:
  "registers init (h @ g) = registers (registers init h) g"
  "registers init [] = init" "registers init (c # h) = registers (reg_step c init) h"
  by (simp_all add: registers_def)

lemma reg_step_simps [simp]:
  "reg_step (Writel r v) m = m(r := v)" "reg_step (Readl r) m = m" "reg_step (Setup_pads p) m = m"
  "reg_step (Gpio_input g) m = m" "reg_step Enable_ipu_clock m = m" "reg_step Imx_setup_hdmi m = m"
  "reg_step (Enable_fec_anatop_clock i) m = m" "reg_step (Enable_enet_clk i2) m = m"
  by (simp_all add: reg_step_def)

lemma registers_modify:
  "has_registers pl init \<Longrightarrow>
     registers init (modify pl r f h) = (registers init h)(r := f (registers init h r))"
  by (simp add: modify_def answer_def has_registers_def)

section \<open>The display\<close>

text \<open>The fields of the header: the values fit their fields, and the fields are disjoint.\<close>

definition display_fields_ok :: "ipu_consts \<Rightarrow> bool" where
  "display_fields_ok k \<longleftrightarrow>
     push_bit (CS2CDR_LDB_DI0_CLK_SEL_OFFSET k) 3 AND NOT (CS2CDR_LDB_DI0_CLK_SEL_MASK k) = 0
   \<and> push_bit (CS2CDR_LDB_DI1_CLK_SEL_OFFSET k) 3 AND NOT (CS2CDR_LDB_DI1_CLK_SEL_MASK k) = 0
   \<and> CS2CDR_LDB_DI0_CLK_SEL_MASK k AND CS2CDR_LDB_DI1_CLK_SEL_MASK k = 0
   \<and> push_bit (GPR3_LVDS0_MUX_CTL_OFFSET k) (GPR3_MUX_SRC_IPU1_DI0 k) AND NOT (GPR3_LVDS0_MUX_CTL_MASK k) = 0
   \<and> GPR3_LVDS0_MUX_CTL_MASK k AND GPR3_HDMI_MUX_CTL_MASK k = 0"

text \<open>Setting two disjoint fields of a register.\<close>

lemma two_fields:
  fixes reg :: u32
  assumes "a AND NOT m = 0" "b AND NOT n = 0" "m AND n = 0"
  shows "((reg AND NOT (m OR n)) OR (a OR b)) AND m = a"
    and "((reg AND NOT (m OR n)) OR (a OR b)) AND n = b"
    and "((reg AND NOT (m OR n)) OR (a OR b)) AND NOT (m OR n) = reg AND NOT (m OR n)"
proof -
  have bits: "bit a i \<Longrightarrow> bit m i" "bit b i \<Longrightarrow> bit n i" "\<not> (bit m i \<and> bit n i)" if "i < 32" for i
    using that arg_cong [OF assms(1), of "\<lambda>w. bit w i"] arg_cong [OF assms(2), of "\<lambda>w. bit w i"]
      arg_cong [OF assms(3), of "\<lambda>w. bit w i"]
    by (auto simp: bit_simps)
  show "((reg AND NOT (m OR n)) OR (a OR b)) AND m = a"
    by (rule bit_word_eqI) (use bits in \<open>auto simp: bit_simps\<close>)
  show "((reg AND NOT (m OR n)) OR (a OR b)) AND n = b"
    by (rule bit_word_eqI) (use bits in \<open>auto simp: bit_simps\<close>)
  show "((reg AND NOT (m OR n)) OR (a OR b)) AND NOT (m OR n) = reg AND NOT (m OR n)"
    by (rule bit_word_eqI) (use bits in \<open>auto simp: bit_simps\<close>)
qed


text \<open>The values of the fields on the i.MX6.\<close>

definition imx6_consts :: ipu_consts where
  "imx6_consts =
     \<lparr>GPR2_DATA_WIDTH_CH0_24BIT = 0x20, CCGR3_LDB_DI0_MASK = 0x3000,
      CS2CDR_LDB_DI0_CLK_SEL_MASK = 0xE00, CS2CDR_LDB_DI1_CLK_SEL_MASK = 0x7000,
      CS2CDR_LDB_DI0_CLK_SEL_OFFSET = 9, CS2CDR_LDB_DI1_CLK_SEL_OFFSET = 12,
      CSCMR2_LDB_DI0_IPU_DIV = 0x400, CLK_SEL_LDB_DI0 = 3, CHSCCDR_IPU1_DI0_CLK_SEL_OFFSET = 0,
      GPR2_BGREF_RRMODE_EXTERNAL_RES = 0, GPR2_DI1_VS_POLARITY_ACTIVE_HIGH = 0x400,
      GPR2_DI0_VS_POLARITY_ACTIVE_LOW = 0, GPR2_BIT_MAPPING_CH1_SPWG = 0,
      GPR2_DATA_WIDTH_CH1_18BIT = 0, GPR2_BIT_MAPPING_CH0_SPWG = 0, GPR2_DATA_WIDTH_CH0_18BIT = 0,
      GPR2_LVDS_CH1_MODE_DISABLED = 0, GPR2_LVDS_CH0_MODE_ENABLED_DI0 = 1,
      GPR3_LVDS0_MUX_CTL_MASK = 0xC0, GPR3_HDMI_MUX_CTL_MASK = 0xC, GPR3_MUX_SRC_IPU1_DI0 = 0,
      GPR3_LVDS0_MUX_CTL_OFFSET = 6, GPR1_OTG_ID_MASK = 0x2000, GPR1_OTG_ID_GPIO1 = 0x2000,
      PHYS_SDRAM = 0x10000000\<rparr>"

definition reg_pl :: "(string \<Rightarrow> u32) \<Rightarrow> platform" where
  "reg_pl init =
     \<lparr>ans = (\<lambda>h c. case c of Readl r \<Rightarrow> uint (registers init h r) | Enable_fec_anatop_clock i \<Rightarrow> - 5
        | Gpio_get g \<Rightarrow> 1 | _ \<Rightarrow> 0),
      ans_str = env_texts Map.empty,
      hab_status = (\<lambda>h. (HAB_RET_OTHER, HAB_CFG_OTHER, HAB_STATE_OTHER)),
      mii_dev = (\<lambda>h. None)\<rparr>"

lemma reg_pl_registers: "has_registers (reg_pl init) init"
  by (simp add: has_registers_def reg_pl_def)


section \<open>The i.MX6ULL board\<close>

text \<open>
  \<open>setup_fec\<close> changes only the bits of its controller in the register, and turns the
  controller's clock on only after the reference clock could be started: when that fails it
  returns the error and nothing more is done.
\<close>

theorem setup_fec_clock:
  fixes h :: trace and k :: fec_consts and i :: int
  assumes regs: "has_registers pl init"
  defines "m \<equiv> (if i = 0 then GPR1_FEC1_MASK k else GPR1_FEC2_MASK k)"
    and "v \<equiv> (if i = 0 then GPR1_FEC1_CLOCK_MUX1_SEL_MASK k else GPR1_FEC2_CLOCK_MUX1_SEL_MASK k)"
  shows "\<exists>ret h'. setup_fec k pl i h = (ret, h')
    \<and> registers init h' = (registers init h)
        (''iomuxc.gpr[1]'' := (registers init h ''iomuxc.gpr[1]'' AND NOT m) OR v)
    \<and> (Enable_enet_clk 1 \<in> set (drop (length h) h') \<longleftrightarrow> ret = 0)"
proof -
  let ?h = "clrsetbits_le32 pl ''iomuxc.gpr[1]'' m v h"
  have h: "?h = h @ [Readl ''iomuxc.gpr[1]'', Writel ''iomuxc.gpr[1]''
      ((registers init h ''iomuxc.gpr[1]'' AND NOT m) OR v)]"
    using regs by (simp add: clrsetbits_le32_def answer_def has_registers_def)
  let ?r = "ans pl ?h (Enable_fec_anatop_clock i)"
  have "setup_fec k pl i h = (if ?r \<noteq> 0 then (?r, ?h @ [Enable_fec_anatop_clock i])
      else (0, ?h @ [Enable_fec_anatop_clock i, Enable_enet_clk 1]))"
    by (simp add: setup_fec_def answer_def m_def v_def Let_def)
  then show ?thesis
    by (cases "?r = 0") (simp_all add: h)
qed

theorem setup_fec_clock_witness:
  "Enable_enet_clk 1 \<notin> set (snd (setup_fec
     \<lparr>GPR1_FEC1_MASK = 0x22000, GPR1_FEC1_CLOCK_MUX1_SEL_MASK = 0x20000,
      GPR1_FEC2_MASK = 0x44000, GPR1_FEC2_CLOCK_MUX1_SEL_MASK = 0x40000, FEC_ENET_DEV = 0\<rparr>
     (reg_pl (\<lambda>_. 0)) 0 []))"
proof -
  let ?k = "\<lparr>GPR1_FEC1_MASK = 0x22000, GPR1_FEC1_CLOCK_MUX1_SEL_MASK = 0x20000,
      GPR1_FEC2_MASK = 0x44000, GPR1_FEC2_CLOCK_MUX1_SEL_MASK = 0x40000, FEC_ENET_DEV = 0 :: int\<rparr>"
  have "fst (setup_fec ?k (reg_pl (\<lambda>_. 0)) 0 []) \<noteq> 0"
    by (simp add: setup_fec_def reg_pl_def answer_def Let_def)
  then show ?thesis
    using setup_fec_clock [OF reg_pl_registers, of ?k "\<lambda>_. 0" 0 "[]"] by auto
qed

text \<open>The variables that are set at run time on that board.\<close>

definition runtime_vars :: "bool \<Rightarrow> (string \<Rightarrow> string option) \<Rightarrow> string \<Rightarrow> string option" where
  "runtime_vars runtime e =
     (if runtime then e(''board_name'' \<mapsto> ''himx0294'', ''board_rev'' \<mapsto> ''???'') else e)"

lemma himx0432_late_result:
  assumes env: "has_env pl texts numbers" and f: "env_texts texts h ''fdt_file'' = Some f"
  obtains h' f' where "himx0432_late_init runtime cfg pl h = Ret 0 h'"
    "env_texts texts h' = (runtime_vars runtime (env_texts texts h))(''fdt_file'' \<mapsto> f')"
    "f' = f \<or> f = default_fdt_file cfg \<and> f' = HIMX_DEFAULT_FDT_FILE_IMPEC_1"
    "(\<forall>g. ans pl g (Gpio_get (4, 22)) = 1) \<Longrightarrow> f = default_fdt_file cfg \<Longrightarrow> f' = HIMX_DEFAULT_FDT_FILE_IMPEC_1"
    "(\<forall>g. ans pl g (Gpio_get (4, 22)) \<noteq> 1) \<Longrightarrow> f' = f"
proof -
  let ?h1 = "if cmd_bmode cfg then h @ [Add_boot_modes himx0432_boot_modes] else h"
  let ?h2 = "if runtime then ?h1 @ [Env_set ''board_name'' ''himx0294'', Env_set ''board_rev'' ''???'']
      else ?h1"
  have e2: "env_texts texts ?h2 = runtime_vars runtime (env_texts texts h)"
    by (simp add: not_writes_env writes_env_def runtime_vars_def)
  have f2: "env_texts texts ?h2 ''fdt_file'' = Some f"
    using f by (simp add: e2 runtime_vars_def)
  have d: "(\<forall>g. ans pl g (Gpio_get (4, 22)) = 1) \<Longrightarrow> fst (impec_detect pl ?h2)"
      "(\<forall>g. ans pl g (Gpio_get (4, 22)) \<noteq> 1) \<Longrightarrow> \<not> fst (impec_detect pl ?h2)"
    by (simp_all add: impec_detect_def)
  show ?thesis
  proof (rule impec.override_result [OF env f2, of cfg])
    fix h' f'
    assume r: "impec_fdt cfg pl ?h2 = Ret () h'"
      "env_texts texts h' = (env_texts texts ?h2)(''fdt_file'' \<mapsto> f')"
      "f' = f \<or> f = default_fdt_file cfg \<and> fst (impec_detect pl ?h2) \<and> f' \<in> {HIMX_DEFAULT_FDT_FILE_IMPEC_1}"
      "fst (impec_detect pl ?h2) \<Longrightarrow> f = default_fdt_file cfg \<Longrightarrow> f' \<in> {HIMX_DEFAULT_FDT_FILE_IMPEC_1}"
    have "himx0432_late_init runtime cfg pl h = Ret 0 h'"
      using r(1) by (simp add: himx0432_late_init_def Let_def)
    then show ?thesis
      using r(2-4) d unfolding e2 by (intro that [of h' f']) blast+
  qed
qed

text \<open>
  On the i.MX6ULL board \<open>board_late_init\<close> returns whenever \<open>fdt_file\<close> is set, keeps a
  device tree the user has chosen, and replaces the default one exactly when the revision
  pin reads 1, by that of revision 1.
\<close>

theorem himx0432_device_tree:
  assumes env: "has_env pl texts numbers" and f: "env_texts texts h ''fdt_file'' = Some f"
  shows "\<exists>h' f'. himx0432_late_init runtime cfg pl h = Ret 0 h'
    \<and> env_texts texts h' ''fdt_file'' = Some f'
    \<and> (f \<noteq> default_fdt_file cfg \<longrightarrow> f' = f)
    \<and> (f' = f \<or> f' = HIMX_DEFAULT_FDT_FILE_IMPEC_1)
    \<and> ((\<forall>g. ans pl g (Gpio_get (4, 22)) = 1) \<longrightarrow> f = default_fdt_file cfg
        \<longrightarrow> f' = HIMX_DEFAULT_FDT_FILE_IMPEC_1)
    \<and> ((\<forall>g. ans pl g (Gpio_get (4, 22)) \<noteq> 1) \<longrightarrow> f' = f)"
  by (rule himx0432_late_result [OF assms, of runtime cfg]) (auto intro!: exI)

theorem himx0432_device_tree_witness:
  "\<exists>h' f'. himx0432_late_init True (sim_config OTHER)
        (sim_pl [''fdt_file'' \<mapsto> ''/boot/mine.dtb''] (\<lambda>_. 0)) [] = Ret 0 h'
    \<and> env_texts [''fdt_file'' \<mapsto> ''/boot/mine.dtb''] h' ''fdt_file'' = Some ''/boot/mine.dtb''"
  using himx0432_device_tree [OF sim_pl_env, of "[''fdt_file'' \<mapsto> ''/boot/mine.dtb'']" "[]"
      "''/boot/mine.dtb''" True "sim_config OTHER" "\<lambda>_. 0"]
  by (auto simp: sim_config_def)

end
