(* ===== verification/Switch_Reset.thy ===== *)
theory Switch_Reset
  imports Himx0432
begin

text \<open>
  The order in which \<open>board_init\<close> of the i.MX6ULL board (\<open>himx0294/himx0432.c\<close>) changes the
  supply of the network switch and the switch's reset line, as an automaton that watches
  the events of a run.
\<close>

section \<open>The automaton\<close>

text \<open>
  The switch may get new supply voltages only while it is held in reset, and may leave the
  reset only 15 ms or more after the last change.
\<close>

datatype reset_state = Untouched | Held | Settled | Released

definition watch :: "call \<Rightarrow> reset_state \<Rightarrow> reset_state option" where
  "watch c s =
     (case c of
        Gpio_output g v \<Rightarrow> if g = (2, 11) then if v = 0 then Some Held else None else Some s
      | I2c_write _ _ _ _ \<Rightarrow> if s = Held then Some Held else None
      | Mdelay t \<Rightarrow> Some (if s = Held \<and> 15 \<le> t then Settled else s)
      | Gpio_set g v \<Rightarrow> if g = (2, 11) then if s = Settled \<and> v = 1 then Some Released else None else Some s
      | _ \<Rightarrow> Some s)"

fun watched :: "trace \<Rightarrow> reset_state \<Rightarrow> reset_state option" where
  "watched [] s = Some s"
| "watched (c # h) s = Option.bind (watch c s) (watched h)"

lemma watched_append [simp]: "watched (g @ h) s = Option.bind (watched g s) (watched h)"
  by (induction g arbitrary: s) (simp_all cong: Option.bind_cong)

lemma watched_probes [simp]: "watched (replicate m (I2c_probe bus addr)) s = Some s"
  by (induction m) (simp_all add: watch_def)

section \<open>Looking for the power controller\<close>

lemma probe_again_result:
  "\<exists>m. probe_again pl bus addr n h =
     (\<exists>k<n. ans pl (h @ replicate k (I2c_probe bus addr)) (I2c_probe bus addr) = 0,
      h @ replicate m (I2c_probe bus addr))"
proof (induction n arbitrary: h)
  case 0
  show ?case
    by (intro exI [of _ 0]) simp
next
  case (Suc n)
  let ?c = "I2c_probe bus addr"
  have split: "(\<exists>k<Suc n. P k) \<longleftrightarrow> P 0 \<or> (\<exists>k<n. P (Suc k))" for P
    by (metis less_Suc_eq_0_disj)
  show ?case
  proof (cases "ans pl h ?c = 0")
    case True
    then show ?thesis
      by (intro exI [of _ 1]) (auto simp: answer_def intro: exI [of _ 0])
  next
    case False
    obtain m where "probe_again pl bus addr n (h @ [?c]) =
        (\<exists>k<n. ans pl ((h @ [?c]) @ replicate k ?c) ?c = 0, (h @ [?c]) @ replicate m ?c)"
      using Suc.IH by blast
    then show ?thesis
      using False by (intro exI [of _ "Suc m"]) (simp add: answer_def split)
  qed
qed

definition pmic_found :: "platform \<Rightarrow> trace \<Rightarrow> bool" where
  "pmic_found pl h \<longleftrightarrow> ans pl h (I2c_bus 0) = 0
   \<and> (\<exists>k<5. ans pl (h @ I2c_bus 0 # replicate k (I2c_probe 0 8)) (I2c_probe 0 8) = 0)"

lemma get_i2c_device_result:
  obtains m where "get_i2c_device pl 0 8 h = (pmic_found pl h, h @ I2c_bus 0 # replicate m (I2c_probe 0 8))"
proof (cases "ans pl h (I2c_bus 0) = 0")
  case True
  obtain m where "probe_again pl 0 8 5 (h @ [I2c_bus 0]) =
      (\<exists>k<5. ans pl ((h @ [I2c_bus 0]) @ replicate k (I2c_probe 0 8)) (I2c_probe 0 8) = 0,
       (h @ [I2c_bus 0]) @ replicate m (I2c_probe 0 8))"
    using probe_again_result by blast
  then show ?thesis
    using True by (intro that [of m]) (simp add: get_i2c_device_def answer_def pmic_found_def)
next
  case False
  then show ?thesis
    by (intro that [of 0]) (simp add: get_i2c_device_def answer_def pmic_found_def)
qed

lemma setup_fec_watched:
  "\<exists>g. snd (setup_fec k pl i h) = h @ g \<and> (\<forall>s. watched g s = Some s)"
  by (auto simp: setup_fec_def clrsetbits_le32_def answer_def Let_def watch_def)

section \<open>Property\<close>

text \<open>
  C22: \<open>board_init\<close> of the i.MX6ULL board returns 0 and keeps the order the switch needs: its
  supply is changed only while its reset line is low, and the line goes high only after the
  15 ms have passed. The line is high in the end exactly when the power controller has
  answered one of the five probes; otherwise it was not touched.
\<close>

theorem board_init_resets_switch:
  "\<exists>g. himx0432_board_init fec k sdram pl h = (0, sdram + 0x100, h @ g)
    \<and> watched g Untouched = Some (if pmic_found pl h then Released else Untouched)"
proof -
  obtain m where m: "get_i2c_device pl 0 8 h = (pmic_found pl h, h @ I2c_bus 0 # replicate m (I2c_probe 0 8))"
    by (rule get_i2c_device_result)
  define g1 where "g1 = I2c_bus 0 # replicate m (I2c_probe 0 8)
    @ (if pmic_found pl h
       then [Gpio_request (2, 11) ''switch_rst'', Gpio_output (2, 11) 0, I2c_write 0 0x08 0x66 0x48,
             I2c_write 0 0x08 0x6d 0x1f, Mdelay 15, Gpio_set (2, 11) 1]
       else [Print ''PMIC on i2c1 not found\<newline>'' []])"
  have "watched g1 Untouched = Some (if pmic_found pl h then Released else Untouched)"
    by (simp add: g1_def watch_def)
  moreover obtain g2 where "snd (setup_fec k pl (FEC_ENET_DEV k) (h @ g1)) = (h @ g1) @ g2"
      "\<forall>s. watched g2 s = Some s"
    using setup_fec_watched by blast
  moreover have "himx0432_board_init fec k sdram pl h =
      (0, sdram + 0x100, if fec then snd (setup_fec k pl (FEC_ENET_DEV k) (h @ g1)) else h @ g1)"
    using m by (auto simp: himx0432_board_init_def g1_def Let_def)
  ultimately show ?thesis
    by (cases fec) (auto intro: exI [of _ "g1 @ g2"])
qed

end
