(* ===== verification/Uboot_Vars.thy ===== *)
theory Uboot_Vars
  imports Late_Correct Marvell_Correct
begin

text \<open>
  The default environments of the boards (\<open>CFG_EXTRA_ENV_SETTINGS\<close> of the board headers),
  as the list of the strings between the NULs, and what the scripts in them run.
\<close>

section \<open>The default environments\<close>

text \<open>The boards of \<open>hipos-cyber-security/himx0294.h\<close>; \<open>fdt\<close> is \<open>CONFIG_DEFAULT_FDT_FILE\<close>.\<close>

definition HIMX_DEFAULT_FDT_HIGH :: "board \<Rightarrow> string list" where
  "HIMX_DEFAULT_FDT_HIGH b = (if b = DVMON then [] else [''fdt_high=4f539000''])"

definition HIMX_DEFAULT_LINUX_DEV :: string where "HIMX_DEFAULT_LINUX_DEV = ''2''"

text \<open>The variables of the stored environment that are loaded at all, each with its type.\<close>

definition CFG_ENV_FLAGS_LIST_STATIC :: string where
  "CFG_ENV_FLAGS_LIST_STATIC = ''upgrade_available:dw,bootcount:dw,ustate:dw,firmware:dw''"

definition himx0294_secure_env :: "board \<Rightarrow> string \<Rightarrow> string list" where
  "himx0294_secure_env b fdt =
     [''boot_usb=usb start; setenv boottype usb; setenv bootdev 0; setenv bootpart 2; setenv bootroot /dev/sda2; run do_boot'',
      ''console=ttymxc1'',
      ''fit_addr=0x28000000'',
      ''fit_file=fitImage.signed'',
      ''initrd_high=0x80000000'',
      ''kernel_addr=0x12000000'',
      ''kernel_file=/boot/uImage'',
      ''fdt_addr=0x22000000'',
      ''fdt_file='' @ fdt] @
     HIMX_DEFAULT_FDT_HIGH b @
     [''${kernel_addr} ${ramdisk_addr} ${fdt_addr}'',
      ''do_fitboot=run load_fitimage; run setbootargs; bootm ${fit_addr}#${fit_conf}'',
      ''do_legacyboot=run load_kernel; run load_fdt; run setbootargs; bootm ${kernel_addr} - ${fdt_addr}'',
      ''load_fdt=ext4load ${boottype} ${bootdev}:${bootpart} ${fdt_addr} ${fdt_file}'',
      ''load_kernel=ext4load ${boottype} ${bootdev}:${bootpart} ${kernel_addr} ${kernel_file}'',
      ''load_fitimage=ext4load ${boottype} ${bootdev}:${bootpart} ${fit_addr} ${fit_file}'',
      ''bootroot=/dev/mmcblk'' @ HIMX_DEFAULT_LINUX_DEV @ ''p4'',
      ''setbootargs=setenv bootargs console=ttymxc1,115200 root=${bootroot} rootwait mxc_hdmi.only_cea=0 firmwareslot=${firmwareslot}'',
      ''setup_part_a=setenv boottype mmc; setenv bootdev 0; setenv bootpart 1; setenv firmwareslot a;'',
      ''setup_part_b=setenv boottype mmc; setenv bootdev 0; setenv bootpart 2; setenv firmwareslot b;'',
      ''x_bootA=run setup_part_a; run do_fitboot'',
      ''x_bootB=run setup_part_b; run do_fitboot'']"

text \<open>The same boards without the signed boot, \<open>himx0294/himx0294.h\<close>.\<close>

definition himx0294_env :: "board \<Rightarrow> string \<Rightarrow> string list" where
  "himx0294_env b fdt =
     [''boot_usb=usb start; setenv boottype usb; setenv bootdev 0; setenv bootpart 2; setenv bootroot /dev/sda2; run do_boot'',
      ''console=ttymxc1'',
      ''kernel_addr=0x12000000'',
      ''kernel_file=/boot/uImage'',
      ''fdt_addr=0x22000000'',
      ''fdt_file='' @ fdt] @
     HIMX_DEFAULT_FDT_HIGH b @
     [''${kernel_addr} ${ramdisk_addr} ${fdt_addr}'',
      ''do_boot=run load_kernel; run load_fdt; run setbootargs; bootm ${kernel_addr} - ${fdt_addr}'',
      ''load_fdt=ext4load ${boottype} ${bootdev}:${bootpart} ${fdt_addr} ${fdt_file}'',
      ''load_kernel=ext4load ${boottype} ${bootdev}:${bootpart} ${kernel_addr} ${kernel_file}'',
      ''setbootargs=setenv bootargs noinitrd console=ttymxc1,115200 root=${bootroot} rootwait mxc_hdmi.only_cea=0'',
      ''x_bootA=setenv boottype mmc; setenv bootdev 0; setenv bootpart 1; setenv bootroot /dev/mmcblk'' @
         HIMX_DEFAULT_LINUX_DEV @ ''p1; run do_boot'',
      ''x_bootB=setenv boottype mmc; setenv bootdev 0; setenv bootpart 2; setenv bootroot /dev/mmcblk'' @
         HIMX_DEFAULT_LINUX_DEV @ ''p2; run do_boot'']"

text \<open>The i.MX6ULL board, \<open>himx0294/himx0432.h\<close>.\<close>

definition himx0432_env :: "string \<Rightarrow> string list" where
  "himx0432_env fdt =
     [''boot_usb=usb start; setenv boottype usb; setenv bootdev 0; setenv bootpart 2; setenv bootroot /dev/sda2; run do_boot'',
      ''console=ttymxc1'',
      ''kernel_addr=0x83800000'',
      ''kernel_file=/boot/zImage'',
      ''fdt_addr=0x83000000'',
      ''fdt_file='' @ fdt,
      ''fdt_high=0xffffffff'',
      ''${kernel_addr} ${ramdisk_addr} ${fdt_addr}'',
      ''do_boot=run load_kernel; run load_fdt; run setbootargs; bootz ${kernel_addr} - ${fdt_addr}'',
      ''load_fdt=ext4load ${boottype} ${bootdev}:${bootpart} ${fdt_addr} ${fdt_file}'',
      ''load_kernel=ext4load ${boottype} ${bootdev}:${bootpart} ${kernel_addr} ${kernel_file}'',
      ''setbootargs=setenv bootargs noinitrd console=ttymxc1,115200 root=${bootroot} rootwait'',
      ''x_bootA=setenv boottype mmc; setenv bootdev 0; setenv bootpart 1; setenv bootroot /dev/mmcblk0p1; run do_boot'',
      ''x_bootB=setenv boottype mmc; setenv bootdev 0; setenv bootpart 2; setenv bootroot /dev/mmcblk0p2; run do_boot'']"

text \<open>The set-up of the switch and the overlay for Bluetooth in the environment of the i.MX8M Plus board (\<open>imx8mp_evk.h\<close>).\<close>

definition switch_speed_port2 :: string where
  "switch_speed_port2 =
     ''mii write 0x1c 0x19 0x0; mii write 0x1c 0x18 0x9449; sleep 0.1; mii write 0x1c 0x19 0x9140; mii write 0x1c 0x18 0x9440''"

definition switch_ctrl :: string where
  "switch_ctrl = ''mii device ethernet@30bf0000; mii write 0x15 1 0xc0ff; mii write 0x16 1 0xc0ff''"

definition load_bt_overlay :: string where
  "load_bt_overlay =
     ''if itest.s \"${bt_enabled}\" == \"1\"; then '' @
     ''echo \"Loading BT Overlay...\"; '' @
     ''ext4load ${boottype} ${bootdev}:${bootpart} ${loadaddr} /boot/imx8mp-himx8-repro-uart2-bt.dtbo && '' @
     ''fdt addr ${fdt_addr_r} && '' @
     ''fdt resize 8192 && '' @
     ''fdt apply ${loadaddr}; '' @
     ''fi''"

text \<open>
  That board's environment when it does not boot from NAND. \<open>mfg\<close> and \<open>bootenv\<close> are the strings
  of \<open>CFG_MFG_ENV_SETTINGS_DEFAULT\<close> and \<open>BOOTENV\<close>, which headers of U-Boot define, \<open>load\<close> is the
  text of \<open>CONFIG_SYS_LOAD_ADDR\<close>.
\<close>

definition mfg_env :: "string list \<Rightarrow> string list" where
  "mfg_env mfg =
     mfg @
     [''initrd_addr=0x43800000'',
      ''initrd_high=0xffffffffffffffff'',
      ''emmc_dev=2'',
      ''sd_dev=1'']"

definition imx8mp_board_env :: "string \<Rightarrow> string \<Rightarrow> string list" where
  "imx8mp_board_env load fdt =
     [''kernel_addr_r='' @ load,
      ''do_boot=run switch_init; run loadfdt; run load_bt_overlay; run loadimage; run setbootargs; booti ${loadaddr} - ${fdt_addr}'',
      ''image=/boot/Image'',
      ''fdt_addr_r=0x43000000'',
      ''fdt_addr=0x43000000'',
      ''fdt_high=0xffffffffffffffff'',
      ''fdtfile=/boot/'' @ fdt,
      ''switch_init=run switch_reset; run switch_ctrl; run switch_speed_port2'',
      ''switch_reset=gpio clear 97; sleep 0.1; gpio set 97; sleep 0.1'',
      ''switch_ctrl='' @ switch_ctrl,
      ''switch_speed_port2='' @ switch_speed_port2,
      ''bt_enabled=0'',
      ''load_bt_overlay='' @ load_bt_overlay,
      ''loadimage=ext4load ${boottype} ${bootdev}:${bootpart} ${loadaddr} ${image}'',
      ''loadfdt=ext4load ${boottype} ${bootdev}:${bootpart} ${fdt_addr_r} ${fdtfile}'',
      ''setbootargs=setenv bootargs noinitrd root=${bootroot} rootwait'',
      ''x_bootA=setenv boottype mmc; setenv bootdev 2; setenv bootpart 1; setenv bootroot /dev/mmcblk2p1; run do_boot'',
      ''x_bootB=setenv boottype mmc; setenv bootdev 2; setenv bootpart 2; setenv bootroot /dev/mmcblk2p2; run do_boot'']"

definition imx8mp_env :: "string list \<Rightarrow> string list \<Rightarrow> string \<Rightarrow> string \<Rightarrow> string list" where
  "imx8mp_env mfg bootenv load fdt = mfg_env mfg @ bootenv @ imx8mp_board_env load fdt"

section \<open>Scripts\<close>

text \<open>The words of a script, cut at blanks and semicolons.\<close>

fun words_from :: "string \<Rightarrow> string \<Rightarrow> string list" where
  "words_from w [] = (if w = [] then [] else [w])"
| "words_from w (c # s) =
     (if c = CHR '' '' \<or> c = CHR '';''
      then (if w = [] then words_from [] s else w # words_from [] s)
      else words_from (w @ [c]) s)"

fun run_targets :: "string list \<Rightarrow> string list" where
  "run_targets (w # v # ws) = (if w = ''run'' then [v] else []) @ run_targets (v # ws)"
| "run_targets ws = []"

definition entry_name :: "string \<Rightarrow> string" where
  "entry_name e = takeWhile (\<lambda>c. c \<noteq> CHR ''='') e"

definition entry_value :: "string \<Rightarrow> string" where
  "entry_value e = tl (dropWhile (\<lambda>c. c \<noteq> CHR ''='') e)"

definition names :: "string list \<Rightarrow> string list" where
  "names env = map entry_name (filter (\<lambda>e. CHR ''='' \<in> set e) env)"

definition undefined_runs :: "string list \<Rightarrow> string list" where
  "undefined_runs env =
     filter (\<lambda>t. t \<notin> set (names env))
       (concat (map (\<lambda>e. run_targets (words_from [] (entry_value e)))
          (filter (\<lambda>e. CHR ''='' \<in> set e) env)))"

definition malformed :: "string list \<Rightarrow> string list" where
  "malformed env = filter (\<lambda>e. CHR ''='' \<notin> set e) env"


text \<open>The names in a list of flags, and the variables a run reads or writes as numbers.\<close>

fun fields_from :: "string \<Rightarrow> string \<Rightarrow> string list" where
  "fields_from w [] = [w]"
| "fields_from w (c # s) =
     (if c = CHR '','' then w # fields_from [] s else fields_from (w @ [c]) s)"

definition flag_names :: "string \<Rightarrow> string list" where
  "flag_names flags = map (takeWhile (\<lambda>c. c \<noteq> CHR '':'')) (fields_from [] flags)"

fun numbers_used :: "trace \<Rightarrow> string list" where
  "numbers_used [] = []"
| "numbers_used (c # h) =
     (case c of Env_get_ulong n _ _ \<Rightarrow> [n] | Env_set_ulong n _ \<Rightarrow> [n] | _ \<Rightarrow> []) @ numbers_used h"

lemma bootcmd_numbers_used:
  "\<exists>g. board_generate_bootcmd pl hab h = h @ g
    \<and> set (numbers_used g) = {''firmware'', ''upgrade_available'', ''ustate''}"
  unfolding board_generate_bootcmd_def env_int_def answer_def Let_def
  by (auto simp: insert_commute split: if_splits)

text \<open>
  Every script that the boot commands of \<open>board_generate_bootcmd\<close> run, for either slot
  and with or without the legacy boot, is defined in the default environment, and the one
  that selects the slot comes first. The variables the function keeps its state in are in
  the list of those that are loaded from the stored environment.
\<close>

theorem boot_commands_defined:
  "list_all (\<lambda>cmd.
      list_all (\<lambda>t. t \<in> set (names (himx0294_secure_env IVAP ''/boot/imx6q-himx0294-ivap.dtb'')))
        (run_targets (words_from [] cmd))
      \<and> hd (run_targets (words_from [] cmd)) \<in> {''setup_part_a'', ''setup_part_b''})
    [fitboot_cmd (slot 0), fitboot_cmd (slot 1), legacy_cmd (slot 0), legacy_cmd (slot 1)]
   \<and> (\<exists>g. board_generate_bootcmd pl hab h = h @ g
        \<and> set (numbers_used g) \<subseteq> set (flag_names CFG_ENV_FLAGS_LIST_STATIC))"
proof
  show "list_all (\<lambda>cmd.
      list_all (\<lambda>t. t \<in> set (names (himx0294_secure_env IVAP ''/boot/imx6q-himx0294-ivap.dtb'')))
        (run_targets (words_from [] cmd))
      \<and> hd (run_targets (words_from [] cmd)) \<in> {''setup_part_a'', ''setup_part_b''})
    [fitboot_cmd (slot 0), fitboot_cmd (slot 1), legacy_cmd (slot 0), legacy_cmd (slot 1)]"
    by code_simp
  have "{''firmware'', ''upgrade_available'', ''ustate''} \<subseteq> set (flag_names CFG_ENV_FLAGS_LIST_STATIC)"
    by code_simp
  then show "\<exists>g. board_generate_bootcmd pl hab h = h @ g
      \<and> set (numbers_used g) \<subseteq> set (flag_names CFG_ENV_FLAGS_LIST_STATIC)"
    using bootcmd_numbers_used [of pl hab h] by metis
qed

section \<open>The switch of the i.MX8M Plus board\<close>

definition hex_digit :: "char \<Rightarrow> int" where
  "hex_digit c = int (length (takeWhile (\<lambda>d. d \<noteq> c) ''0123456789abcdef''))"

definition hex_num :: "string \<Rightarrow> int" where
  "hex_num s =
     foldl (\<lambda>v c. 16 * v + hex_digit c) 0 (if take 2 s = ''0x'' then drop 2 s else s)"

text \<open>The writes of a script's \<open>mii write\<close> commands.\<close>

fun mii_calls :: "string list \<Rightarrow> trace" where
  "mii_calls (m # w # a # r # v # ws) =
     (if m = ''mii'' \<and> w = ''write''
      then [Mii_write None (nat (hex_num a)) (nat (hex_num r)) (word_of_int (hex_num v))] else [])
     @ mii_calls (w # a # r # v # ws)"
| "mii_calls ws = []"

lemma switch_words:
  "words_from [] switch_speed_port2 = [''mii'',''write'',''0x1c'',''0x19'',''0x0'',
     ''mii'',''write'',''0x1c'',''0x18'',''0x9449'',
     ''sleep'',''0.1'',''mii'',''write'',''0x1c'',''0x19'',''0x9140'',''mii'',''write'',''0x1c'',''0x18'',''0x9440'']"
  by code_simp
lemma ctrl_words:
  "words_from [] switch_ctrl = [''mii'',''device'',''ethernet@30bf0000'',''mii'',''write'',''0x15'',''1'',''0xc0ff'',''mii'',''write'',''0x16'',''1'',''0xc0ff'']"
  by code_simp
lemma hex_values:
  "hex_num ''0x1c'' = 0x1c"
  "hex_num ''0x19'' = 0x19"
  "hex_num ''0x18'' = 0x18"
  "hex_num ''0x0'' = 0"
  "hex_num ''0x9449'' = 0x9449"
  "hex_num ''0x9140'' = 0x9140"
  "hex_num ''0x9440'' = 0x9440"
  "hex_num ''0x15'' = 0x15"
  "hex_num ''0x16'' = 0x16"
  "hex_num ''1'' = 1"
  "hex_num ''0xc0ff'' = 0xc0ff"
  by (simp_all add: hex_num_def hex_digit_def)
lemma switch_calls:
  "mii_calls (words_from [] switch_speed_port2) = [Mii_write None 0x1C 0x19 0, Mii_write None 0x1C 0x18 0x9449, Mii_write None 0x1C 0x19 0x9140, Mii_write None 0x1C 0x18 0x9440]"
  by (simp add: switch_words hex_values)
lemma ctrl_calls:
  "mii_calls (words_from [] switch_ctrl) = [Mii_write None 0x15 1 0xc0ff, Mii_write None 0x16 1 0xc0ff]"
  by (simp add: ctrl_words hex_values)


end
