(* ===== verification/Lpddr4_Correct.thy ===== *)
theory Lpddr4_Correct
  imports Lpddr4_Phy "HOL-Library.Sublist"
begin

text \<open>
  The relations that hold between the tables of \<open>u-boot-imx/lpddr4_timing.c\<close>: they are
  written down several times over, once for each component that needs them.
\<close>

section \<open>Consistency\<close>

text \<open>
  A message block is written while the registers of the firmware are accessible, which
  register \<open>0xd0000\<close> switches; word \<open>0x54003\<close> of the block is the data rate.
\<close>

definition MSG_ACCESS :: u32 where "MSG_ACCESS = 0xd0000"
definition MSG_DRATE :: u32 where "MSG_DRATE = 0x54003"

definition well_bracketed :: "dram_cfg_param list \<Rightarrow> bool" where
  "well_bracketed t \<longleftrightarrow> hd t = (MSG_ACCESS, 0) \<and> last t = (MSG_ACCESS, 1)
     \<and> (\<forall>p\<in>set (butlast (tl t)). fst p \<noteq> MSG_ACCESS)"

definition message_ok :: "dram_fsp_msg \<Rightarrow> bool" where
  "message_ok m \<longleftrightarrow> map_of (fsp_cfg m) MSG_DRATE = Some (of_nat (drate m))
     \<and> well_bracketed (fsp_cfg m) \<and> distinct (map fst (butlast (fsp_cfg m)))
     \<and> drate m \<in> set fsp_table"

text \<open>
  The mode registers of the memory chips, in the order 1, 2, 3, 11, 12, 14, 22: as the
  registers \<open>INIT3\<close>, \<open>INIT4\<close>, \<open>INIT6\<close> and \<open>INIT7\<close> of the controller hold them, two in
  a word, for the operating point whose registers start at \<open>base\<close>; and as a message hands
  them to the training firmware, for the rank whose words start at \<open>word\<close>.
\<close>

fun entry :: "dram_cfg_param list \<Rightarrow> u32 \<Rightarrow> u32" where
  "entry [] r = 0"
| "entry ((a, v) # t) r = (if a = r then v else entry t r)"

definition high_half :: "u32 \<Rightarrow> u32" where "high_half v = drop_bit 16 v"
definition low_half :: "u32 \<Rightarrow> u32" where "low_half v = v AND 0xffff"
definition high_byte :: "u32 \<Rightarrow> u32" where "high_byte v = drop_bit 8 v"
definition low_byte :: "u32 \<Rightarrow> u32" where "low_byte v = v AND 0xff"

definition controller_modes :: "dram_cfg_param list \<Rightarrow> u32 \<Rightarrow> u32 list" where
  "controller_modes t base =
     [high_half (entry t (base + 0xdc)), low_half (entry t (base + 0xdc)), high_half (entry t (base + 0xe0)),
      high_half (entry t (base + 0xe8)), low_half (entry t (base + 0xe8)),
      low_half (entry t (base + 0xec)), high_half (entry t (base + 0xec))]"

definition message_modes :: "dram_cfg_param list \<Rightarrow> u32 \<Rightarrow> u32 list" where
  "message_modes t word =
     [low_byte (entry t word), high_byte (entry t word), entry t (word + 1),
      low_byte (entry t (word + 2)), high_byte (entry t (word + 2)),
      high_byte (entry t (word + 3)), entry t (word + 5)]"

text \<open>
  The operating points: the base of the controller's registers, and the PHY's register of
  the clock.
\<close>

definition point_base :: "nat \<Rightarrow> u32" where
  "point_base rate = (if rate = 3200 then 0x3d400000 else if rate = 400 then 0x3d402000 else 0x3d403000)"

definition point_clock :: "nat \<Rightarrow> u32" where
  "point_clock rate = (if rate = 3200 then 0x20008 else if rate = 400 then 0x120008 else 0x220008)"

definition modes_agree :: "dram_fsp_msg \<Rightarrow> bool" where
  "modes_agree m \<longleftrightarrow>
     message_modes (fsp_cfg m) 0x54019 = controller_modes ddr_ddrc_cfg (point_base (drate m))
   \<and> message_modes (fsp_cfg m) 0x5401f = controller_modes ddr_ddrc_cfg (point_base (drate m))
   \<and> entry ddr_ddrphy_cfg (point_clock (drate m)) * 4 = of_nat (drate m)"

text \<open>The kept registers of an operating point, without the point's bits.\<close>

fun kept :: "u32 \<Rightarrow> dram_cfg_param list \<Rightarrow> u32 list" where
  "kept point [] = []"
| "kept point ((a, v) # t) =
     (if drop_bit 20 a = point then (a AND 0xfffff) # kept point t else kept point t)"

lemma kept_append [simp]: "kept point (s @ t) = kept point s @ kept point t"
  by (induction s) auto

text \<open>A part of the table of kept registers that is consistent in itself.\<close>

definition kept_ok :: "dram_cfg_param list \<Rightarrow> bool" where
  "kept_ok t \<longleftrightarrow> list_all (\<lambda>p. snd p = 0) t \<and> kept 1 t = kept 2 t \<and> subseq (kept 1 t) (kept 0 t)"

lemma kept_ok_append: "kept_ok s \<Longrightarrow> kept_ok t \<Longrightarrow> kept_ok (s @ t)"
  unfolding kept_ok_def kept_append by (elim conjE, intro conjI list_emb_append_mono; simp)

lemma kept_part1: "kept_ok ddr_ddrphy_trained_csr_part1"
  unfolding kept_ok_def ddr_ddrphy_trained_csr_part1_def by (intro conjI; simp)

lemma kept_part2: "kept_ok ddr_ddrphy_trained_csr_part2"
  unfolding kept_ok_def ddr_ddrphy_trained_csr_part2_def by (intro conjI; simp)

lemma kept_part3: "kept_ok ddr_ddrphy_trained_csr_part3"
  unfolding kept_ok_def ddr_ddrphy_trained_csr_part3_def by (intro conjI; simp)

lemma kept_part4: "kept_ok ddr_ddrphy_trained_csr_part4"
  unfolding kept_ok_def ddr_ddrphy_trained_csr_part4_def by (intro conjI; simp)

lemma kept_part5: "kept_ok ddr_ddrphy_trained_csr_part5"
  unfolding kept_ok_def ddr_ddrphy_trained_csr_part5_def by (intro conjI; simp)

lemmas kept_parts = kept_part1 kept_part2 kept_part3 kept_part4 kept_part5

lemma pie_parts:
  "ddr_phy_pie_part1 = (MSG_ACCESS, 0) # tl ddr_phy_pie_part1" "tl ddr_phy_pie_part1 \<noteq> []"
  "ddr_phy_pie_part4 = butlast ddr_phy_pie_part4 @ [(MSG_ACCESS, 1)]"
  "\<forall>p\<in>set (tl ddr_phy_pie_part1). fst p \<noteq> MSG_ACCESS"
  "\<forall>p\<in>set ddr_phy_pie_part2. fst p \<noteq> MSG_ACCESS"
  "\<forall>p\<in>set ddr_phy_pie_part3. fst p \<noteq> MSG_ACCESS"
  "\<forall>p\<in>set (butlast ddr_phy_pie_part4). fst p \<noteq> MSG_ACCESS"
  unfolding MSG_ACCESS_def ddr_phy_pie_part1_def ddr_phy_pie_part2_def ddr_phy_pie_part3_def
    ddr_phy_pie_part4_def
  by simp_all

lemma well_bracketed_parts:
  assumes "a = (MSG_ACCESS, 0) # a'" "d = d' @ [(MSG_ACCESS, 1)]" "a' \<noteq> []"
    and "\<forall>p\<in>set a'. fst p \<noteq> MSG_ACCESS" "\<forall>p\<in>set b. fst p \<noteq> MSG_ACCESS" "\<forall>p\<in>set d'. fst p \<noteq> MSG_ACCESS"
  shows "well_bracketed (a @ b @ d)"
  using assms by (auto simp: well_bracketed_def butlast_append)

section \<open>Properties\<close>


lemma controller_entries:
  "entry ddr_ddrc_cfg 0x3d4000dc = 0xd4002d" "entry ddr_ddrc_cfg 0x3d4000e0 = 0x310000"
  "entry ddr_ddrc_cfg 0x3d4000e8 = 0x660048" "entry ddr_ddrc_cfg 0x3d4000ec = 0x160048"
  "entry ddr_ddrc_cfg 0x3d4020dc = 0x840000" "entry ddr_ddrc_cfg 0x3d4020e0 = 0x330000"
  "entry ddr_ddrc_cfg 0x3d4020e8 = 0x660048" "entry ddr_ddrc_cfg 0x3d4020ec = 0x160048"
  "entry ddr_ddrc_cfg 0x3d4030dc = 0x840000" "entry ddr_ddrc_cfg 0x3d4030e0 = 0x330000"
  "entry ddr_ddrc_cfg 0x3d4030e8 = 0x660048" "entry ddr_ddrc_cfg 0x3d4030ec = 0x160048"
  unfolding ddr_ddrc_cfg_def by simp_all

lemma clock_entries:
  "entry ddr_ddrphy_cfg 0x20008 = 0x320" "entry ddr_ddrphy_cfg 0x120008 = 0x64"
  "entry ddr_ddrphy_cfg 0x220008 = 0x19"
  unfolding ddr_ddrphy_cfg_def by simp_all

lemma message_entries:
  "message_modes ddr_fsp0_cfg 0x54019 = [0xd4, 0x2d, 0x31, 0x66, 0x48, 0x48, 0x16]"
  "message_modes ddr_fsp0_cfg 0x5401f = [0xd4, 0x2d, 0x31, 0x66, 0x48, 0x48, 0x16]"
  "message_modes ddr_fsp1_cfg 0x54019 = [0x84, 0, 0x33, 0x66, 0x48, 0x48, 0x16]"
  "message_modes ddr_fsp1_cfg 0x5401f = [0x84, 0, 0x33, 0x66, 0x48, 0x48, 0x16]"
  "message_modes ddr_fsp2_cfg 0x54019 = [0x84, 0, 0x33, 0x66, 0x48, 0x48, 0x16]"
  "message_modes ddr_fsp2_cfg 0x5401f = [0x84, 0, 0x33, 0x66, 0x48, 0x48, 0x16]"
  "message_modes ddr_fsp0_2d_cfg 0x54019 = [0xd4, 0x2d, 0x31, 0x66, 0x48, 0x48, 0x16]"
  "message_modes ddr_fsp0_2d_cfg 0x5401f = [0xd4, 0x2d, 0x31, 0x66, 0x48, 0x48, 0x16]"
  unfolding message_modes_def ddr_fsp0_cfg_def ddr_fsp1_cfg_def ddr_fsp2_cfg_def ddr_fsp0_2d_cfg_def
  by (simp_all add: high_byte_def low_byte_def)

lemma controller_modes_at:
  "controller_modes ddr_ddrc_cfg 0x3d400000 = [0xd4, 0x2d, 0x31, 0x66, 0x48, 0x48, 0x16]"
  "controller_modes ddr_ddrc_cfg 0x3d402000 = [0x84, 0, 0x33, 0x66, 0x48, 0x48, 0x16]"
  "controller_modes ddr_ddrc_cfg 0x3d403000 = [0x84, 0, 0x33, 0x66, 0x48, 0x48, 0x16]"
  by (simp_all add: controller_modes_def controller_entries high_half_def low_half_def)



end
