(* ===== verification/Himx0294_Plain.thy ===== *)
theory Himx0294_Plain
  imports Board_Correct Marvell_Correct
begin

text \<open>
  The board file without signed boot, \<open>himx0294/himx0294.c\<close>. It is kept beside the one with
  signed boot as a copy; its own \<open>board_late_init\<close> is \<open>himx0294_late_init\<close> of \<open>Late_Init\<close>. Here are its
  other functions, translated from its own text, and that each does what the function of the
  same name does there, so that what is proved of those holds of this file too.
\<close>

section \<open>PHY access\<close>

definition plain_SMI_PHY_COMMAND_REGISTER :: nat where "plain_SMI_PHY_COMMAND_REGISTER = 0x18"

definition plain_SMI_PHY_DATA_REGISTER :: nat where "plain_SMI_PHY_DATA_REGISTER = 0x19"

definition plain_MARVELL_GLOBAL2_ADDR :: nat where "plain_MARVELL_GLOBAL2_ADDR = 0x1C"

definition plain_SMI_BUSY_BIT :: nat where "plain_SMI_BUSY_BIT = 15"

definition plain_PHY_SPEED_1000 :: int where "plain_PHY_SPEED_1000 = 0xe00"

definition plain_PHY_SPEED_100 :: int where "plain_PHY_SPEED_100 = 0x0"

partial_function (option) plain_smi_wait :: "platform \<Rightarrow> string option \<Rightarrow> trace \<Rightarrow> trace option" where
  "plain_smi_wait pl dev h =
     (let (val, h') = mii_read pl dev plain_MARVELL_GLOBAL2_ADDR plain_SMI_PHY_COMMAND_REGISTER h
      in if \<not> bit val plain_SMI_BUSY_BIT then Some h' else plain_smi_wait pl dev h')"

definition plain_smi_command :: "int \<Rightarrow> int \<Rightarrow> int \<Rightarrow> int" where
  "plain_smi_command cmd phyaddr phyreg =
     (cmd OR push_bit 5 (phyaddr AND 0x1F)) OR (phyreg AND 0x1F)"

definition plain_marvell_phy_read :: "platform \<Rightarrow> int \<Rightarrow> int \<Rightarrow> trace \<Rightarrow> (u16 \<times> trace) option" where
  "plain_marvell_phy_read pl phyaddr phyreg h =
     (let dev = mii_dev pl h;
          cmd = plain_smi_command 0x9800 phyaddr phyreg;
          h = h @ [Mii_write dev plain_MARVELL_GLOBAL2_ADDR plain_SMI_PHY_COMMAND_REGISTER (word_of_int cmd)]
      in Option.bind (plain_smi_wait pl dev h) (\<lambda>h.
           Some (mii_read pl dev plain_MARVELL_GLOBAL2_ADDR plain_SMI_PHY_DATA_REGISTER h)))"

definition plain_marvell_phy_write :: "platform \<Rightarrow> int \<Rightarrow> int \<Rightarrow> int \<Rightarrow> trace \<Rightarrow> trace option" where
  "plain_marvell_phy_write pl phyaddr phyreg phydata h =
     (let dev = mii_dev pl h;
          cmd = plain_smi_command 0x9400 phyaddr phyreg;
          h = h @ [Mii_write dev plain_MARVELL_GLOBAL2_ADDR plain_SMI_PHY_DATA_REGISTER (word_of_int phydata)];
          h = h @ [Mii_write dev plain_MARVELL_GLOBAL2_ADDR plain_SMI_PHY_COMMAND_REGISTER (word_of_int cmd)]
      in plain_smi_wait pl dev h)"

partial_function (option) plain_wait_reset :: "platform \<Rightarrow> int \<Rightarrow> trace \<Rightarrow> trace option" where
  "plain_wait_reset pl phyaddr h =
     Option.bind (plain_marvell_phy_read pl phyaddr MII_BMCR h) (\<lambda>(val, h).
       if uint val AND BMCR_RESET \<noteq> 0
       then plain_wait_reset pl phyaddr (h @ [Udelay 250000, Print ''.'' []])
       else Some h)"

definition plain_set_phy_speed :: "platform \<Rightarrow> int \<Rightarrow> int \<Rightarrow> trace \<Rightarrow> trace option" where
  "plain_set_phy_speed pl phyaddr phydata h =
     Option.bind (plain_marvell_phy_write pl phyaddr MII_CTRL1000 phydata h) (\<lambda>h.
       if 6 = phyaddr then Some h
       else Option.bind (plain_marvell_phy_read pl phyaddr MII_BMCR h) (\<lambda>(ctrl, h).
            Option.bind (plain_marvell_phy_write pl phyaddr MII_BMCR (uint ctrl OR BMCR_RESET) h) (\<lambda>h.
              plain_wait_reset pl phyaddr h)))"

definition plain_port_count :: "board \<Rightarrow> nat" where
  "plain_port_count b = (case b of IMOC \<Rightarrow> 2 | IVAP \<Rightarrow> 6 | _ \<Rightarrow> 0)"

definition plain_port_of :: "board \<Rightarrow> nat \<Rightarrow> int" where
  "plain_port_of b i =
     (if b = IVAP
      then if i = 3 then 4 else if i = 4 then 3 else if i = 5 then 6 else int i
      else int i)"

definition plain_wants_1000 :: "string option \<Rightarrow> nat \<Rightarrow> bool" where
  "plain_wants_1000 lanspeed i =
     (case lanspeed of None \<Rightarrow> False | Some s \<Rightarrow> length s > i \<and> s ! i = CHR ''g'')"

fun plain_phy_speed_loop :: "platform \<Rightarrow> board \<Rightarrow> string option \<Rightarrow> nat list \<Rightarrow> trace \<Rightarrow> trace option" where
  "plain_phy_speed_loop pl b lanspeed [] h = Some h"
| "plain_phy_speed_loop pl b lanspeed (i # is) h =
     Option.bind
       (plain_set_phy_speed pl (plain_port_of b i)
          (if plain_wants_1000 lanspeed i then plain_PHY_SPEED_1000 else plain_PHY_SPEED_100) h)
       (\<lambda>h. plain_phy_speed_loop pl b lanspeed is h)"

definition plain_phy_speed :: "platform \<Rightarrow> board \<Rightarrow> trace \<Rightarrow> trace option" where
  "plain_phy_speed pl b h =
     (let lanspeed = ans_str pl h ''lanspeed'';
          h = h @ [Env_get ''lanspeed'']
      in plain_phy_speed_loop pl b lanspeed [0..<plain_port_count b] h)"

definition plain_switch_detected :: "u16 \<Rightarrow> bool" where
  "plain_switch_detected val \<longleftrightarrow>
     val AND 0xFFF0 = 0x1760 \<or> val AND 0xFFF0 = 0x1720 \<or> val AND 0xFFF0 = 0x3520"

definition plain_board_phy_config :: "platform \<Rightarrow> board \<Rightarrow> bool \<Rightarrow> trace \<Rightarrow> (int \<times> trace) option" where
  "plain_board_phy_config pl b has_config h =
     (let dev = mii_dev pl h;
          (val, h) = mii_read pl dev 0x10 0x3 h
      in Option.bind
          (if plain_switch_detected val
           then Option.bind (plain_phy_speed pl b (h @ [Print ''Marvell Switch 0x176/0x172/0x352 detected\<newline>'' []])) (\<lambda>h.
             let (val, h) = mii_read pl dev 0x15 0x1 h;
                 h = h @ [Mii_write dev 0x15 0x1 (val OR 0xC0C0)]
             in if b = IVAP
                then Option.bind (plain_marvell_phy_read pl 0x6 0x3 h) (\<lambda>(deviceid, h).
                  let (phycontrol, h) =
                        (if deviceid AND 0xFFF0 = 0x1640
                         then (0x40C0, h @ [Print ''KSZ9131RNX on port 6 detected\<newline>'' []])
                         else (0xC0C0, h @ [Print ''KSZ9031RNX on port 6\<newline>'' []]));
                      (val, h) = mii_read pl dev 0x16 0x1 h
                  in Some (h @ [Mii_write dev 0x16 0x1 (val OR phycontrol)]))
                else Some h)
           else Some h)
          (\<lambda>h. Some (0, if has_config then h @ [Phy_drv_config] else h)))"

section \<open>Memory, USB, SPI\<close>

definition plain_misc_pads :: "board \<Rightarrow> (string \<times> string) list" where
  "plain_misc_pads b =
     (if b = DVMON
      then [(''MX6_PAD_GPIO_0__GPIO1_IO00'', ''NO_PAD_CTRL''),
            (''MX6_PAD_GPIO_1__USB_OTG_ID'', ''WEAK_PULLUP''),
            (''MX6_PAD_GPIO_3__XTALOSC_REF_CLK_24M'', ''PAD_CTL_DSE_48ohm|PAD_CTL_SPEED_LOW''),
            (''MX6_PAD_EIM_D31__GPIO3_IO31'', ''NO_PAD_CTRL'')]
      else [(''MX6_PAD_GPIO_1__USB_OTG_ID'', ''WEAK_PULLUP''),
            (''MX6_PAD_KEY_COL4__USB_OTG_OC'', ''WEAK_PULLUP''),
            (''MX6_PAD_ENET_RX_ER__GPIO1_IO24'', ''WEAK_PULLUP'')])"

definition plain_usb_pads :: "board \<Rightarrow> (string \<times> string) list" where
  "plain_usb_pads b =
     (if b = DVMON
      then [(''MX6_PAD_EIM_D31__GPIO3_IO31'', ''NO_PAD_CTRL'')]
      else [(''MX6_PAD_GPIO_3__XTALOSC_REF_CLK_24M'', ''PAD_CTL_DSE_48ohm|PAD_CTL_SPEED_LOW''),
            (''MX6_PAD_GPIO_4__GPIO1_IO04'', ''NO_PAD_CTRL''),
            (''MX6_PAD_KEY_ROW4__GPIO4_IO15'', ''NO_PAD_CTRL'')])"

definition plain_ecspi1_pads :: "(string \<times> string) list" where
  "plain_ecspi1_pads =
     [(''MX6_PAD_EIM_D19__GPIO3_IO19'', ''NO_PAD_CTRL''),
      (''MX6_PAD_EIM_D17__ECSPI1_MISO'', ''SPI_PAD_CTRL''),
      (''MX6_PAD_EIM_D18__ECSPI1_MOSI'', ''SPI_PAD_CTRL''),
      (''MX6_PAD_EIM_D16__ECSPI1_SCLK'', ''SPI_PAD_CTRL'')]"

definition plain_dram_init :: "platform \<Rightarrow> trace \<Rightarrow> int \<times> trace" where
  "plain_dram_init pl h = answer pl Ddr_size h"

definition plain_board_ehci_hcd_init :: "board \<Rightarrow> int \<Rightarrow> trace \<Rightarrow> int \<times> trace" where
  "plain_board_ehci_hcd_init b port h =
     (let h = h @ [Print ''USB init\<newline>'' [], Setup_pads (plain_usb_pads b)]
      in (0, if b = DVMON then h @ [Gpio_output (3, 31) 1]
             else h @ [Gpio_output (4, 15) 1, Gpio_output (1, 4) 0, Mdelay 2, Gpio_set (1, 4) 1]))"

definition plain_board_ehci_power :: "int \<Rightarrow> int \<Rightarrow> int" where
  "plain_board_ehci_power port on = 0"

definition plain_board_spi_cs_gpio :: "nat \<Rightarrow> nat \<Rightarrow> gpio option" where
  "plain_board_spi_cs_gpio busno cs = (if busno = 0 \<and> cs = 0 then Some (3, 19) else None)"

definition plain_setup_spi :: "trace \<Rightarrow> trace" where
  "plain_setup_spi h = h @ [Setup_pads plain_ecspi1_pads]"

section \<open>Display\<close>

definition plain_backlight_pads :: "(string \<times> string) list" where
  "plain_backlight_pads = [(''MX6_PAD_SD1_CMD__GPIO1_IO18'', ''NO_PAD_CTRL'')]"

definition plain_LVDS_BACKLIGHT_GP :: gpio where "plain_LVDS_BACKLIGHT_GP = (1, 18)"

definition plain_do_enable_hdmi :: "trace \<Rightarrow> trace" where
  "plain_do_enable_hdmi h = h @ [Imx_enable_hdmi_phy]"

definition plain_detect_i2c :: "platform \<Rightarrow> display_info \<Rightarrow> trace \<Rightarrow> int \<times> trace" where
  "plain_detect_i2c pl d h =
     (let (ret, h) = answer pl (I2c_bus (bus d)) h
      in if ret \<noteq> 0 then (0, h)
         else (let (ret, h) = answer pl (I2c_probe (bus d) (addr d)) h
               in (if 0 = ret then 1 else 0, h)))"

definition plain_enable_lvds :: "ipu_consts \<Rightarrow> platform \<Rightarrow> trace \<Rightarrow> trace" where
  "plain_enable_lvds k pl h =
     modify pl ''iomuxc.gpr[2]'' (\<lambda>reg. reg OR GPR2_DATA_WIDTH_CH0_24BIT k) h
       @ [Gpio_output plain_LVDS_BACKLIGHT_GP 1]"

definition plain_displays :: "display_info list" where
  "plain_displays =
     [\<lparr>bus = 0, addr = 0x50, pixfmt = ''IPU_PIX_FMT_RGB24'', detect = True, enable = Do_enable_hdmi,
       mode = \<lparr>name = ''HDMI'', refresh = 60, xres = 1024, yres = 768, pixclock = 15385,
         left_margin = 220, right_margin = 40, upper_margin = 21, lower_margin = 7,
         hsync_len = 60, vsync_len = 10, sync = ''FB_SYNC_EXT'', vmode = ''FB_VMODE_NONINTERLACED''\<rparr>\<rparr>,
      \<lparr>bus = 0, addr = 0, pixfmt = ''IPU_PIX_FMT_RGB24'', detect = False, enable = Enable_lvds,
       mode = \<lparr>name = ''LDB-WXGA'', refresh = 60, xres = 1280, yres = 768, pixclock = 12578,
         left_margin = 192, right_margin = 64, upper_margin = 3, lower_margin = 20,
         hsync_len = 128, vsync_len = 7, sync = ''FB_SYNC_EXT'', vmode = ''FB_VMODE_NONINTERLACED''\<rparr>\<rparr>]"

definition plain_board_cfb_skip :: "platform \<Rightarrow> trace \<Rightarrow> bool \<times> trace" where
  "plain_board_cfb_skip pl h = (ans_str pl h ''novideo'' \<noteq> None, h @ [Env_get ''novideo''])"

definition plain_cs2cdr_value :: "ipu_consts \<Rightarrow> u32 \<Rightarrow> u32" where
  "plain_cs2cdr_value k reg =
     (reg AND NOT (CS2CDR_LDB_DI0_CLK_SEL_MASK k OR CS2CDR_LDB_DI1_CLK_SEL_MASK k))
       OR (push_bit (CS2CDR_LDB_DI0_CLK_SEL_OFFSET k) 3
           OR push_bit (CS2CDR_LDB_DI1_CLK_SEL_OFFSET k) 3)"

definition plain_gpr2_value :: "ipu_consts \<Rightarrow> u32" where
  "plain_gpr2_value k =
     GPR2_BGREF_RRMODE_EXTERNAL_RES k OR GPR2_DI1_VS_POLARITY_ACTIVE_HIGH k
       OR GPR2_DI0_VS_POLARITY_ACTIVE_LOW k OR GPR2_BIT_MAPPING_CH1_SPWG k
       OR GPR2_DATA_WIDTH_CH1_18BIT k OR GPR2_BIT_MAPPING_CH0_SPWG k
       OR GPR2_DATA_WIDTH_CH0_18BIT k OR GPR2_LVDS_CH1_MODE_DISABLED k
       OR GPR2_LVDS_CH0_MODE_ENABLED_DI0 k"

definition plain_gpr3_value :: "ipu_consts \<Rightarrow> u32 \<Rightarrow> u32" where
  "plain_gpr3_value k reg =
     (reg AND NOT (GPR3_LVDS0_MUX_CTL_MASK k OR GPR3_HDMI_MUX_CTL_MASK k))
       OR push_bit (GPR3_LVDS0_MUX_CTL_OFFSET k) (GPR3_MUX_SRC_IPU1_DI0 k)"

definition plain_setup_display :: "ipu_consts \<Rightarrow> platform \<Rightarrow> trace \<Rightarrow> trace" where
  "plain_setup_display k pl h =
     (let h = h @ [Enable_ipu_clock, Imx_setup_hdmi];
          h = modify pl ''ccm.CCGR3'' (\<lambda>reg. reg OR CCGR3_LDB_DI0_MASK k) h;
          h = modify pl ''ccm.cs2cdr'' (plain_cs2cdr_value k) h;
          h = modify pl ''ccm.cscmr2'' (\<lambda>reg. reg OR CSCMR2_LDB_DI0_IPU_DIV k) h;
          h = modify pl ''ccm.chsccdr''
                (\<lambda>reg. reg OR push_bit (CHSCCDR_IPU1_DI0_CLK_SEL_OFFSET k) (CLK_SEL_LDB_DI0 k)) h;
          h = h @ [Writel ''iomuxc.gpr[2]'' (plain_gpr2_value k)];
          h = modify pl ''iomuxc.gpr[3]'' (plain_gpr3_value k) h
      in h @ [Setup_pads plain_backlight_pads, Gpio_input plain_LVDS_BACKLIGHT_GP])"

definition plain_board_early_init_f :: "config \<Rightarrow> ipu_consts \<Rightarrow> platform \<Rightarrow> trace \<Rightarrow> int \<times> trace" where
  "plain_board_early_init_f cfg k pl h = (0, if video_ipuv3 cfg then plain_setup_display k pl h else h)"

definition plain_overwrite_console :: int where "plain_overwrite_console = 1"

section \<open>The rest\<close>

definition plain_ENET_RX_ER_GP :: gpio where "plain_ENET_RX_ER_GP = (1, 24)"

fun plain_probe_loop :: "platform \<Rightarrow> int \<Rightarrow> int \<Rightarrow> nat \<Rightarrow> trace \<Rightarrow> int \<times> trace" where
  "plain_probe_loop pl busno address 0 h = (0, h)"
| "plain_probe_loop pl busno address (Suc n) h =
     (let (ret, h) = answer pl (I2c_probe busno address) h
      in if 0 = ret then (1, h) else plain_probe_loop pl busno address n (h @ [Udelay 10000]))"

definition plain_has_i2c_device :: "platform \<Rightarrow> int \<Rightarrow> int \<Rightarrow> trace \<Rightarrow> int \<times> trace" where
  "plain_has_i2c_device pl busno address h =
     (let (ret, h) = answer pl (I2c_bus busno) h
      in if ret \<noteq> 0 then (0, h) else plain_probe_loop pl busno address 5 h)"

definition plain_board_init :: "config \<Rightarrow> ipu_consts \<Rightarrow> platform \<Rightarrow> trace \<Rightarrow> int \<times> u32 \<times> trace" where
  "plain_board_init cfg k pl h =
     (let h = clrsetbits_le32 pl ''iomuxc.gpr[1]'' (GPR1_OTG_ID_MASK k) (GPR1_OTG_ID_GPIO1 k) h;
          h = h @ [Setup_pads (plain_misc_pads (board cfg))];
          h = (if mxc_spi cfg then plain_setup_spi h else h);
          h = (if sata cfg then h @ [Setup_sata] else h);
          h = (if board cfg = DVMON
               then h @ [Gpio_request (3, 31) ''Enable USB'', Gpio_output (3, 31) 1,
                         Gpio_request (1, 0) ''Enable touchscreen'', Gpio_output (1, 0) 0]
               else h @ [Gpio_request (4, 4) ''???'', Gpio_output (4, 4) 1, Gpio_set (4, 4) 0,
                         Udelay 1000, Gpio_set (4, 4) 1])
      in (0, PHYS_SDRAM k + 0x100, h))"

definition plain_checkboard :: "board \<Rightarrow> trace \<Rightarrow> int \<times> trace" where
  "plain_checkboard b h =
     (0, h @ [Print (case b of
        IMOC \<Rightarrow> ''Board: himx0294-imoc\<newline>''
      | IVAP \<Rightarrow> ''Board: himx0294-ivap/dvrec\<newline>''
      | DVMON \<Rightarrow> ''Board: himx0294-dvmon\<newline>''
      | OTHER \<Rightarrow> ''Board: himx0294-???\<newline>'') []])"

definition plain_board_boot_modes :: "(string \<times> u8 list) list" where
  "plain_board_boot_modes = [(''mmc0'', [0x40, 0x30, 0x00, 0x00]), (''mmc1'', [0x40, 0x38, 0x00, 0x00])]"

definition plain_misc_init_r :: "config \<Rightarrow> trace \<Rightarrow> int \<times> trace" where
  "plain_misc_init_r cfg h =
     (let h = (if board cfg = IVAP
               then h @ [Gpio_request plain_ENET_RX_ER_GP ''Detect DVREC'',
                         Gpio_request (4, 15) ''Enable USB OTG PWR'', Gpio_request (1, 4) ''Reset USB'']
               else h)
      in (0, if cmd_bmode cfg then h @ [Add_boot_modes plain_board_boot_modes] else h))"

section \<open>The same as with signed boot\<close>

named_theorems plain_same \<open>each definition here is that of the same name of the other file\<close>

lemma plain_SMI_PHY_COMMAND_REGISTER_same [plain_same]: "plain_SMI_PHY_COMMAND_REGISTER = SMI_PHY_COMMAND_REGISTER"
  by (rule ext | simp only: plain_SMI_PHY_COMMAND_REGISTER_def SMI_PHY_COMMAND_REGISTER_def plain_same)+

lemma plain_SMI_PHY_DATA_REGISTER_same [plain_same]: "plain_SMI_PHY_DATA_REGISTER = SMI_PHY_DATA_REGISTER"
  by (rule ext | simp only: plain_SMI_PHY_DATA_REGISTER_def SMI_PHY_DATA_REGISTER_def plain_same)+

lemma plain_MARVELL_GLOBAL2_ADDR_same [plain_same]: "plain_MARVELL_GLOBAL2_ADDR = MARVELL_GLOBAL2_ADDR"
  by (rule ext | simp only: plain_MARVELL_GLOBAL2_ADDR_def MARVELL_GLOBAL2_ADDR_def plain_same)+

lemma plain_SMI_BUSY_BIT_same [plain_same]: "plain_SMI_BUSY_BIT = SMI_BUSY_BIT"
  by (rule ext | simp only: plain_SMI_BUSY_BIT_def SMI_BUSY_BIT_def plain_same)+

lemma plain_PHY_SPEED_1000_same [plain_same]: "plain_PHY_SPEED_1000 = PHY_SPEED_1000"
  by (rule ext | simp only: plain_PHY_SPEED_1000_def PHY_SPEED_1000_def plain_same)+

lemma plain_PHY_SPEED_100_same [plain_same]: "plain_PHY_SPEED_100 = PHY_SPEED_100"
  by (rule ext | simp only: plain_PHY_SPEED_100_def PHY_SPEED_100_def plain_same)+

lemma plain_smi_wait_same [plain_same]: "plain_smi_wait = smi_wait"
proof (rule ext, rule ext, rule ext)
  fix pl dev h
  have "smi_wait pl dev h = Some y" if "plain_smi_wait pl dev h = Some y" for y
    by (rule plain_smi_wait.raw_induct [where P = "\<lambda>pl dev h y. smi_wait pl dev h = Some y", OF _ that])
      (subst smi_wait.simps, auto simp add: plain_same Let_def split: prod.splits if_splits)
  moreover have "plain_smi_wait pl dev h = Some y" if "smi_wait pl dev h = Some y" for y
    by (rule smi_wait.raw_induct [where P = "\<lambda>pl dev h y. plain_smi_wait pl dev h = Some y", OF _ that])
      (subst plain_smi_wait.simps, auto simp add: plain_same Let_def split: prod.splits if_splits)
  ultimately show "plain_smi_wait pl dev h = smi_wait pl dev h"
    by (metis option.exhaust)
qed

lemma plain_smi_command_same [plain_same]: "plain_smi_command = smi_command"
  by (rule ext | simp only: plain_smi_command_def smi_command_def plain_same)+

lemma plain_marvell_phy_read_same [plain_same]: "plain_marvell_phy_read = marvell_phy_read"
  by (rule ext | simp only: plain_marvell_phy_read_def marvell_phy_read_def plain_same)+

lemma plain_marvell_phy_write_same [plain_same]: "plain_marvell_phy_write = marvell_phy_write"
  by (rule ext | simp only: plain_marvell_phy_write_def marvell_phy_write_def plain_same)+

lemma plain_wait_reset_same [plain_same]: "plain_wait_reset = wait_reset"
proof (rule ext, rule ext, rule ext)
  fix pl phyaddr h
  have "wait_reset pl phyaddr h = Some y" if "plain_wait_reset pl phyaddr h = Some y" for y
    by (rule plain_wait_reset.raw_induct [where P = "\<lambda>pl phyaddr h y. wait_reset pl phyaddr h = Some y", OF _ that])
      (subst wait_reset.simps, auto simp add: plain_same split: bind_splits prod.splits if_splits)
  moreover have "plain_wait_reset pl phyaddr h = Some y" if "wait_reset pl phyaddr h = Some y" for y
    by (rule wait_reset.raw_induct [where P = "\<lambda>pl phyaddr h y. plain_wait_reset pl phyaddr h = Some y", OF _ that])
      (subst plain_wait_reset.simps, auto simp add: plain_same split: bind_splits prod.splits if_splits)
  ultimately show "plain_wait_reset pl phyaddr h = wait_reset pl phyaddr h"
    by (metis option.exhaust)
qed

lemma plain_set_phy_speed_same [plain_same]: "plain_set_phy_speed = set_phy_speed"
  by (rule ext | simp only: plain_set_phy_speed_def set_phy_speed_def plain_same)+

lemma plain_port_count_same [plain_same]: "plain_port_count = port_count"
  by (rule ext | simp only: plain_port_count_def port_count_def plain_same)+

lemma plain_port_of_same [plain_same]: "plain_port_of = port_of"
  by (rule ext | simp only: plain_port_of_def port_of_def plain_same)+

lemma plain_wants_1000_same [plain_same]: "plain_wants_1000 = wants_1000"
  by (rule ext | simp only: plain_wants_1000_def wants_1000_def plain_same)+

lemma plain_phy_speed_loop_same [plain_same]: "plain_phy_speed_loop = phy_speed_loop"
proof (rule ext)+
  fix pl b l ps h
  show "plain_phy_speed_loop pl b l ps h = phy_speed_loop pl b l ps h"
  proof (induction ps arbitrary: h)
    case (Cons p ps)
    have "plain_phy_speed_loop pl b l ps = phy_speed_loop pl b l ps"
      by (rule ext) (rule Cons.IH)
    then show ?case
      by (simp add: plain_same)
  qed simp
qed

lemma plain_phy_speed_same [plain_same]: "plain_phy_speed = phy_speed"
  by (rule ext | simp only: plain_phy_speed_def phy_speed_def plain_same)+

lemma plain_switch_detected_same [plain_same]: "plain_switch_detected = switch_detected"
  by (rule ext | simp only: plain_switch_detected_def switch_detected_def plain_same)+

lemma plain_board_phy_config_same [plain_same]: "plain_board_phy_config = board_phy_config"
  by (rule ext | simp only: plain_board_phy_config_def board_phy_config_def plain_same)+

lemma plain_misc_pads_same [plain_same]: "plain_misc_pads = misc_pads"
  by (rule ext | simp only: plain_misc_pads_def misc_pads_def plain_same)+

lemma plain_usb_pads_same [plain_same]: "plain_usb_pads = usb_pads"
  by (rule ext | simp only: plain_usb_pads_def usb_pads_def plain_same)+

lemma plain_ecspi1_pads_same [plain_same]: "plain_ecspi1_pads = ecspi1_pads"
  by (rule ext | simp only: plain_ecspi1_pads_def ecspi1_pads_def plain_same)+

lemma plain_dram_init_same [plain_same]: "plain_dram_init = dram_init"
  by (rule ext | simp only: plain_dram_init_def dram_init_def plain_same)+

lemma plain_board_ehci_hcd_init_same [plain_same]: "plain_board_ehci_hcd_init = board_ehci_hcd_init"
  by (rule ext | simp only: plain_board_ehci_hcd_init_def board_ehci_hcd_init_def plain_same)+

lemma plain_board_ehci_power_same [plain_same]: "plain_board_ehci_power = board_ehci_power"
  by (rule ext | simp only: plain_board_ehci_power_def board_ehci_power_def plain_same)+

lemma plain_board_spi_cs_gpio_same [plain_same]: "plain_board_spi_cs_gpio = board_spi_cs_gpio"
  by (rule ext | simp only: plain_board_spi_cs_gpio_def board_spi_cs_gpio_def plain_same)+

lemma plain_setup_spi_same [plain_same]: "plain_setup_spi = setup_spi"
  by (rule ext | simp only: plain_setup_spi_def setup_spi_def plain_same)+

lemma plain_backlight_pads_same [plain_same]: "plain_backlight_pads = backlight_pads"
  by (rule ext | simp only: plain_backlight_pads_def backlight_pads_def plain_same)+

lemma plain_LVDS_BACKLIGHT_GP_same [plain_same]: "plain_LVDS_BACKLIGHT_GP = LVDS_BACKLIGHT_GP"
  by (rule ext | simp only: plain_LVDS_BACKLIGHT_GP_def LVDS_BACKLIGHT_GP_def plain_same)+

lemma plain_do_enable_hdmi_same [plain_same]: "plain_do_enable_hdmi = do_enable_hdmi"
  by (rule ext | simp only: plain_do_enable_hdmi_def do_enable_hdmi_def plain_same)+

lemma plain_detect_i2c_same [plain_same]: "plain_detect_i2c = detect_i2c"
  by (rule ext | simp only: plain_detect_i2c_def detect_i2c_def plain_same)+

lemma plain_enable_lvds_same [plain_same]: "plain_enable_lvds = enable_lvds"
  by (rule ext | simp only: plain_enable_lvds_def enable_lvds_def plain_same)+

lemma plain_displays_same [plain_same]: "plain_displays = displays"
  by (rule ext | simp only: plain_displays_def displays_def plain_same)+

lemma plain_board_cfb_skip_same [plain_same]: "plain_board_cfb_skip = board_cfb_skip"
  by (rule ext | simp only: plain_board_cfb_skip_def board_cfb_skip_def plain_same)+

lemma plain_cs2cdr_value_same [plain_same]: "plain_cs2cdr_value = cs2cdr_value"
  by (rule ext | simp only: plain_cs2cdr_value_def cs2cdr_value_def plain_same)+

lemma plain_gpr2_value_same [plain_same]: "plain_gpr2_value = gpr2_value"
  by (rule ext | simp only: plain_gpr2_value_def gpr2_value_def plain_same)+

lemma plain_gpr3_value_same [plain_same]: "plain_gpr3_value = gpr3_value"
  by (rule ext | simp only: plain_gpr3_value_def gpr3_value_def plain_same)+

lemma plain_setup_display_same [plain_same]: "plain_setup_display = setup_display"
  by (rule ext | simp only: plain_setup_display_def setup_display_def plain_same)+

lemma plain_board_early_init_f_same [plain_same]: "plain_board_early_init_f = board_early_init_f"
  by (rule ext | simp only: plain_board_early_init_f_def board_early_init_f_def plain_same)+

lemma plain_overwrite_console_same [plain_same]: "plain_overwrite_console = overwrite_console"
  by (rule ext | simp only: plain_overwrite_console_def overwrite_console_def plain_same)+

lemma plain_ENET_RX_ER_GP_same [plain_same]: "plain_ENET_RX_ER_GP = ENET_RX_ER_GP"
  by (rule ext | simp only: plain_ENET_RX_ER_GP_def ENET_RX_ER_GP_def plain_same)+

lemma plain_probe_loop_same [plain_same]: "plain_probe_loop = probe_loop"
proof (rule ext)+
  fix pl busno address n h
  show "plain_probe_loop pl busno address n h = probe_loop pl busno address n h"
    by (induction n arbitrary: h) (simp_all split: prod.split)
qed

lemma plain_has_i2c_device_same [plain_same]: "plain_has_i2c_device = has_i2c_device"
  by (rule ext | simp only: plain_has_i2c_device_def has_i2c_device_def plain_same)+

lemma plain_board_init_same [plain_same]: "plain_board_init = board_init"
  by (rule ext | simp only: plain_board_init_def board_init_def plain_same)+

lemma plain_checkboard_same [plain_same]: "plain_checkboard = checkboard"
  by (rule ext | simp only: plain_checkboard_def checkboard_def plain_same)+

lemma plain_board_boot_modes_same [plain_same]: "plain_board_boot_modes = board_boot_modes"
  by (rule ext | simp only: plain_board_boot_modes_def board_boot_modes_def plain_same)+

lemma plain_misc_init_r_same [plain_same]: "plain_misc_init_r = misc_init_r"
  by (rule ext | simp only: plain_misc_init_r_def misc_init_r_def plain_same)+


end
