(* ===== verification/Hush.thy ===== *)
theory Hush
  imports Prelude
begin

text \<open>
  The command language of U-Boot (hush), as far as the scripts in the board headers use it:
  words, quotes, variables, lists of commands, \<open>&&\<close> and \<open>if\<close>, and the commands of the
  language itself, \<open>setenv\<close>, \<open>run\<close>, \<open>boot\<close> and the comparison \<open>itest.s\<close>. Every other command is
  one that drives a device; whether it succeeds is a parameter.
\<close>

section \<open>Tokens\<close>

datatype word = Plain string | Quoted string

datatype token = Word word | Semi | And_And

definition blank :: "char \<Rightarrow> bool" where
  "blank c \<longleftrightarrow> c = CHR '' ''"

definition end_word :: "string \<Rightarrow> token list" where
  "end_word w = (if w = [] then [] else [Word (Plain w)])"

text \<open>\<open>w\<close> is the word read so far, \<open>q\<close> says whether the text is inside quotes.\<close>

fun tokens :: "bool \<Rightarrow> string \<Rightarrow> string \<Rightarrow> token list" where
  "tokens q w [] = end_word w"
| "tokens True w (c # s) =
     (if c = CHR 0x22 then Word (Quoted w) # tokens False [] s else tokens True (w @ [c]) s)"
| "tokens False w (c # s) =
     (if c = CHR 0x22 then end_word w @ tokens True [] s
      else if c = CHR '';'' then end_word w @ Semi # tokens False [] s
      else if blank c then end_word w @ tokens False [] s
      else if c = CHR ''&'' \<and> w = ''&'' then And_And # tokens False [] s
      else tokens False (w @ [c]) s)"

section \<open>Commands\<close>

datatype cmd =
    Simple "word list"
  | Both cmd cmd
  | Cond "cmd list" "cmd list" "cmd list"

fun words :: "token list \<Rightarrow> word list \<times> token list" where
  "words (Word w # ts) = (let (ws, rest) = words ts in (w # ws, rest))"
| "words ts = ([], ts)"

definition opens :: "string \<Rightarrow> token list \<Rightarrow> bool" where
  "opens w ts \<longleftrightarrow> ts \<noteq> [] \<and> hd ts = Word (Plain w)"

definition closing :: "token list \<Rightarrow> bool" where
  "closing ts \<longleftrightarrow> opens ''then'' ts \<or> opens ''else'' ts \<or> opens ''fi'' ts"

text \<open>A list of commands up to a closing word, and one command; the first argument is fuel.\<close>

fun parse :: "nat \<Rightarrow> token list \<Rightarrow> cmd list \<times> token list"
  and parse_cmd :: "nat \<Rightarrow> token list \<Rightarrow> cmd \<times> token list" where
  "parse 0 ts = ([], ts)"
| "parse (Suc n) ts =
     (if ts = [] \<or> closing ts then ([], ts)
      else if hd ts = Semi then parse n (tl ts)
      else (let (c, ts) = parse_cmd n ts; (cs, ts) = parse n ts in (c # cs, ts)))"
| "parse_cmd 0 ts = (Simple [], ts)"
| "parse_cmd (Suc n) ts =
     (let (c, ts) =
        (if opens ''if'' ts
         then (let (a, ts) = parse n (tl ts);
                   (b, ts) = parse n (tl ts);
                   (d, ts) = (if opens ''else'' ts then parse n (tl ts) else ([], ts))
               in (Cond a b d, tl ts))
         else (let (ws, ts) = words ts in (Simple ws, ts)))
      in if ts \<noteq> [] \<and> hd ts = And_And
         then (let (d, ts) = parse_cmd n (tl ts) in (Both c d, ts))
         else (c, ts))"

definition script :: "string \<Rightarrow> cmd list" where
  "script s = (let ts = tokens False [] s in fst (parse (2 * length ts + 2) ts))"

section \<open>Variables\<close>

type_synonym vars = "string \<Rightarrow> string option"

text \<open>\<open>${name}\<close> becomes the value of the variable, nothing when it is not set.\<close>

fun subst :: "vars \<Rightarrow> string option \<Rightarrow> string \<Rightarrow> string" where
  "subst e None (c # d # s) =
     (if c = CHR ''$'' \<and> d = CHR ''{'' then subst e (Some []) s else c # subst e None (d # s))"
| "subst e None s = s"
| "subst e (Some n) (c # s) =
     (if c = CHR ''}'' then (case e n of Some v \<Rightarrow> v | None \<Rightarrow> []) @ subst e None s
      else subst e (Some (n @ [c])) s)"
| "subst e (Some n) [] = ''${'' @ n"

fun split_blanks :: "string \<Rightarrow> string \<Rightarrow> string list" where
  "split_blanks w [] = (if w = [] then [] else [w])"
| "split_blanks w (c # s) =
     (if blank c then (if w = [] then [] else [w]) @ split_blanks [] s else split_blanks (w @ [c]) s)"

text \<open>A value may give several words, but no new commands: it is put in after parsing.\<close>

fun expand :: "vars \<Rightarrow> word \<Rightarrow> string list" where
  "expand e (Plain s) = split_blanks [] (subst e None s)"
| "expand e (Quoted s) = [subst e None s]"

section \<open>Running a script\<close>

fun join :: "string list \<Rightarrow> string" where
  "join [] = []"
| "join [w] = w"
| "join (w # ws) = w @ '' '' @ join ws"

text \<open>\<open>setenv n\<close> without a value removes the variable.\<close>

definition setenv :: "string list \<Rightarrow> vars \<Rightarrow> vars" where
  "setenv args e =
     (case args of [] \<Rightarrow> e | n # vs \<Rightarrow> e(n := (if vs = [] then None else Some (join vs))))"

text \<open>
  The device commands given so far, each with what is noted of the variables at that moment:
  the arguments of the kernel where one is started, the boot command where the environment is
  saved. \<open>ok\<close> is what a device command reports.
\<close>

type_synonym issued = "(string list \<times> string option) list"
type_synonym device = "issued \<Rightarrow> string list \<Rightarrow> bool"

definition noted :: "string list \<Rightarrow> vars \<Rightarrow> string option" where
  "noted c e =
     (if hd c \<in> {''bootm'', ''bootz'', ''booti''} then e ''bootargs''
      else if c = [''saveenv''] then e ''bootcmd'' else None)"

text \<open>What a command whose words are known does: a script to run, a result at once, or a device command.\<close>

datatype action =
    Nothing
  | Result bool vars
  | Script string
  | Device "string list"

definition action :: "vars \<Rightarrow> string list \<Rightarrow> action" where
  "action e ws =
     (case ws of
        [] \<Rightarrow> Nothing
      | c # args \<Rightarrow>
          if c = ''setenv'' then Result True (setenv args e)
          else if c = ''itest.s'' \<and> length args = 3 \<and> args ! 1 = ''=='' then Result (args ! 0 = args ! 2) e
          else if c = ''run'' \<and> length args = 1
          then (case e (hd args) of None \<Rightarrow> Result False e | Some t \<Rightarrow> Script t)
          else if c = ''boot'' \<and> args = []
          then (case e ''bootcmd'' of None \<Rightarrow> Result False e | Some t \<Rightarrow> Script t)
          else Device ws)"

text \<open>The first argument is fuel: a script may run itself.\<close>

primrec exec :: "nat \<Rightarrow> device \<Rightarrow> cmd list \<Rightarrow> bool \<Rightarrow> vars \<times> issued \<Rightarrow> (bool \<times> vars \<times> issued) option" where
  "exec 0 ok cs st s = None"
| "exec (Suc n) ok cs st s =
     (case cs of
        [] \<Rightarrow> Some (st, s)
      | Simple ws # cs \<Rightarrow>
          (case action (fst s) (concat (map (expand (fst s)) ws)) of
             Nothing \<Rightarrow> exec n ok cs st s
           | Result r e \<Rightarrow> exec n ok cs r (e, snd s)
           | Script t \<Rightarrow> Option.bind (exec n ok (script t) True s) (\<lambda>(r, s). exec n ok cs r s)
           | Device d \<Rightarrow> exec n ok cs (ok (snd s) d) (fst s, snd s @ [(d, noted d (fst s))]))
      | Both a b # cs \<Rightarrow>
          Option.bind (exec n ok [a] st s) (\<lambda>(r, s).
            if r then exec n ok (b # cs) True s else exec n ok cs False s)
      | Cond a b c # cs \<Rightarrow>
          Option.bind (exec n ok a st s) (\<lambda>(r, s).
          Option.bind (exec n ok (if r then b else c) True s) (\<lambda>(r, s).
            exec n ok cs r s)))"

text \<open>More fuel changes nothing.\<close>

lemma exec_step:
  assumes IH: "\<And>cs st s r. exec n ok cs st s = Some r \<Longrightarrow> exec m ok cs st s = Some r"
    and r: "exec (Suc n) ok cs st s = Some r"
  shows "exec (Suc m) ok cs st s = Some r"
proof (cases cs)
  case Nil
  with r show ?thesis by simp
next
  case (Cons c cs')
  have bind: "Option.bind (exec m ok a b s) g = Some r"
    if "Option.bind (exec n ok a b s) f = Some r" "\<And>x. f x = Some r \<Longrightarrow> g x = Some r" for a b s f g
    using that IH unfolding bind_eq_Some_conv by blast
  show ?thesis
  proof (cases c)
    case (Simple ws)
    show ?thesis
    proof (cases "action (fst s) (concat (map (expand (fst s)) ws))")
      case (Script t)
      then have "Option.bind (exec n ok (script t) True s) (\<lambda>(r, s). exec n ok cs' r s) = Some r"
        using r by (simp add: Cons Simple)
      then have "Option.bind (exec m ok (script t) True s) (\<lambda>(r, s). exec m ok cs' r s) = Some r"
        by (rule bind) (auto intro: IH)
      then show ?thesis
        using Script by (simp add: Cons Simple)
    qed (use r IH in \<open>auto simp: Cons Simple\<close>)
  next
    case (Both a b)
    then have "Option.bind (exec n ok [a] st s) (\<lambda>(r, s).
        if r then exec n ok (b # cs') True s else exec n ok cs' False s) = Some r"
      using r by (simp add: Cons)
    then have "Option.bind (exec m ok [a] st s) (\<lambda>(r, s).
        if r then exec m ok (b # cs') True s else exec m ok cs' False s) = Some r"
      by (rule bind) (auto intro: IH split: if_splits)
    then show ?thesis
      using Both by (simp add: Cons)
  next
    case (Cond a b d)
    then have "Option.bind (exec n ok a st s) (\<lambda>(r, s).
        Option.bind (exec n ok (if r then b else d) True s) (\<lambda>(r, s). exec n ok cs' r s)) = Some r"
      using r by (simp add: Cons)
    then have "Option.bind (exec m ok a st s) (\<lambda>(r, s).
        Option.bind (exec m ok (if r then b else d) True s) (\<lambda>(r, s). exec m ok cs' r s)) = Some r"
      by (rule bind) (auto intro!: bind dest: IH split: prod.splits)
    then show ?thesis
      using Cond by (simp add: Cons)
  qed
qed

lemma exec_mono: "exec n ok cs st s = Some r \<Longrightarrow> n \<le> m \<Longrightarrow> exec m ok cs st s = Some r"
proof (induction n arbitrary: m cs st s r)
  case (Suc n)
  then obtain k where "m = Suc k" "n \<le> k"
    by (cases m) auto
  with Suc show ?case
    using exec_step [of n ok k] by blast
qed simp

text \<open>
  When the devices answer alike whatever was done before, a script does after other commands
  what it does alone.
\<close>

lemma exec_after:
  "exec n (\<lambda>_. P) cs st (e, l) = Some (r, e', l') \<Longrightarrow> exec n (\<lambda>_. P) cs st (e, k @ l) = Some (r, e', k @ l')"
proof (induction n arbitrary: cs st e l r e' l')
  case (Suc n)
  note IH = Suc.IH
  have after: "Option.bind (exec n (\<lambda>_. P) a b (e, k @ l)) g = Some (r, e', k @ l')"
    if "Option.bind (exec n (\<lambda>_. P) a b (e, l)) f = Some (r, e', l')"
      "\<And>q e1 l1. f (q, e1, l1) = Some (r, e', l') \<Longrightarrow> g (q, e1, k @ l1) = Some (r, e', k @ l')" for a b e l f g
    using that IH by (fastforce simp: bind_eq_Some_conv)
  show ?case
  proof (cases cs)
    case (Cons c cs')
    show ?thesis
    proof (cases c)
      case (Simple ws)
      then show ?thesis
        using Suc.prems IH [of cs']
        by (cases "action e (concat (map (expand e) ws))")
          (fastforce simp: Cons intro: after)+
    next
      case (Both a b)
      then show ?thesis
        using Suc.prems by (auto simp: Cons intro!: after dest: IH split: if_splits)
    next
      case (Cond a b d)
      then show ?thesis
        using Suc.prems by (auto simp: Cons intro!: after dest: IH split: if_splits)
    qed
  qed (use Suc.prems in simp)
qed simp

end
