(* ===== verification/Boot_Script.thy ===== *)
theory Boot_Script
  imports Hush Fdt_Choice Uboot_Vars
begin

text \<open>
  From the C code to the kernel: what the boot commands do when they are run in the default
  environment, which is all the scripts there are: of the stored environment only the numbers
  of \<open>CFG_ENV_FLAGS_LIST_STATIC\<close> are loaded on the boards with signed boot.
\<close>

section \<open>Running a variable\<close>

text \<open>The default environment over the variables the boot loader itself defines (\<open>others\<close>).\<close>

definition env_of :: "vars \<Rightarrow> string list \<Rightarrow> vars" where
  "env_of others es =
     fold (\<lambda>e m. m(entry_name e \<mapsto> entry_value e)) (filter (\<lambda>e. CHR ''='' \<in> set e) es) others"

text \<open>The device commands of a variable that is run.\<close>

definition SCRIPT_FUEL :: nat where "SCRIPT_FUEL = 64"

definition run_var :: "device \<Rightarrow> vars \<Rightarrow> string \<Rightarrow> (string list \<times> string option) list option" where
  "run_var ok e name =
     map_option (\<lambda>(r, e, log). log)
       (exec SCRIPT_FUEL ok [Simple [Quoted ''run'', Quoted name]] True (e, []))"

lemma run_var_fuel:
  assumes "run_var ok e name = Some r" "SCRIPT_FUEL \<le> n"
  shows "map_option (\<lambda>(r, e, log). log)
    (exec n ok [Simple [Quoted ''run'', Quoted name]] True (e, [])) = Some r"
  using assms exec_mono [OF _ assms(2)] unfolding run_var_def by fastforce

text \<open>A variable is looked up by its entry.\<close>

lemma entry_parts:
  "CHR ''='' \<notin> set n \<Longrightarrow> entry_name (n @ CHR ''='' # v) = n \<and> entry_value (n @ CHR ''='' # v) = v"
  by (induction n) (auto simp: entry_name_def entry_value_def)

lemma env_of_Cons: "env_of others (x # es) =
    env_of (if CHR ''='' \<in> set x then others(entry_name x \<mapsto> entry_value x) else others) es"
  by (simp add: env_of_def)

lemma env_of_other: "n \<notin> set (names es) \<Longrightarrow> env_of others es n = others n"
  by (induction es arbitrary: others) (auto simp: env_of_def names_def)

lemma env_of_entry:
  "e \<in> set es \<Longrightarrow> CHR ''='' \<in> set e \<Longrightarrow> distinct (names es) \<Longrightarrow>
     env_of others es (entry_name e) = Some (entry_value e)"
proof (induction es arbitrary: others)
  case (Cons x es)
  show ?case
  proof (cases "e = x")
    case True
    then show ?thesis
      using Cons.prems env_of_other [of "entry_name x" es] by (simp add: env_of_Cons names_def)
  next
    case False
    then show ?thesis
      using Cons by (auto simp: env_of_Cons names_def)
  qed
qed simp

lemma env_of_var:
  "distinct (names es) \<Longrightarrow> n @ CHR ''='' # v \<in> set es \<Longrightarrow> CHR ''='' \<notin> set n \<Longrightarrow> env_of others es n = Some v"
  using env_of_entry [of "n @ CHR ''='' # v" es others] entry_parts [of n v] by simp

lemma env_of_upd: "n \<notin> set (names es) \<Longrightarrow> (env_of others es)(n \<mapsto> v) = env_of (others(n \<mapsto> v)) es"
proof (induction es arbitrary: others)
  case (Cons x es)
  have n: "n \<notin> set (names es)" "CHR ''='' \<in> set x \<Longrightarrow> entry_name x \<noteq> n"
    using Cons.prems by (auto simp: names_def)
  then have "CHR ''='' \<in> set x \<Longrightarrow> others(entry_name x \<mapsto> entry_value x, n \<mapsto> v)
      = others(n \<mapsto> v, entry_name x \<mapsto> entry_value x)"
    by (simp add: fun_upd_twist)
  then show ?case
    using Cons.IH [OF n(1)] by (simp add: env_of_Cons del: fun_upd_apply)
qed (simp add: env_of_def)

section \<open>Evaluating scripts\<close>

lemmas exec_numeral = exec.simps(2) [of "pred_numeral k", folded numeral_eq_Suc] for k

text \<open>A bind is evaluated from its first argument.\<close>

lemma bind_first: "m = m' \<Longrightarrow> Option.bind m f = Option.bind m' f"
  by simp

lemma split_no_blank: "\<not> list_ex blank v \<Longrightarrow> split_blanks w v = (if w @ v = [] then [] else [w @ v])"
  by (induction v arbitrary: w) auto

text \<open>A text without variables is not looked at again.\<close>

lemma subst_no_var: "\<not> list_ex (\<lambda>c. c = CHR ''$'') v \<Longrightarrow> subst e None v = v"
  by (induction e "None :: string option" v rule: subst.induct) auto

lemma subst_var:
  "list_ex (\<lambda>c. c = CHR ''$'') (c # d # s) \<Longrightarrow> subst e None (c # d # s) =
     (if c = CHR ''$'' \<and> d = CHR ''{'' then subst e (Some []) s else c # subst e None (d # s))"
  by simp

lemmas run_simps = run_var_def noted_def SCRIPT_FUEL_def exec_numeral action_def setenv_def blank_def
  split_no_blank subst_no_var subst_var fun_upd_same fun_upd_other

lemmas run_dels = subst.simps(1,2,3) split_blanks.simps fun_upd_apply

section \<open>Signed boot\<close>

definition part_of :: "char \<Rightarrow> string" where
  "part_of s = (if s = CHR ''a'' then ''0:1'' else ''0:2'')"

definition signed_args :: "char \<Rightarrow> string" where
  "signed_args s =
     ''console=ttymxc1,115200 root=/dev/mmcblk2p4 rootwait mxc_hdmi.only_cea=0 firmwareslot='' @ [s]"

text \<open>The signed image of a slot is loaded and started with the configuration of the device tree.\<close>

definition fit_start :: "char \<Rightarrow> string \<Rightarrow> (string list \<times> string option) list" where
  "fit_start s conf =
     [([''ext4load'', ''mmc'', part_of s, ''0x28000000'', ''fitImage.signed''], None),
      ([''bootm'', ''0x28000000#'' @ conf], Some (signed_args s))]"

definition legacy_start :: "char \<Rightarrow> string \<Rightarrow> (string list \<times> string option) list" where
  "legacy_start s fdt =
     [([''ext4load'', ''mmc'', part_of s, ''0x12000000'', ''/boot/uImage''], None),
      ([''ext4load'', ''mmc'', part_of s, ''0x22000000'', fdt], None),
      ([''bootm'', ''0x12000000'', ''-'', ''0x22000000''], Some (signed_args s))]"

definition then_reset :: "(string list \<times> string option) list" where
  "then_reset = [([''reset''], None)]"

lemma secure_names: "distinct (names (himx0294_secure_env b d))"
  by (cases b; hypsubst; code_simp)

lemma secure_vars:
  fixes b d others
  defines "e \<equiv> env_of others (himx0294_secure_env b d)"
  shows "e ''setup_part_a'' = Some ''setenv boottype mmc; setenv bootdev 0; setenv bootpart 1; setenv firmwareslot a;''"
    "e ''setup_part_b'' = Some ''setenv boottype mmc; setenv bootdev 0; setenv bootpart 2; setenv firmwareslot b;''"
    "e ''do_fitboot'' = Some ''run load_fitimage; run setbootargs; bootm ${fit_addr}#${fit_conf}''"
    "e ''do_legacyboot'' = Some ''run load_kernel; run load_fdt; run setbootargs; bootm ${kernel_addr} - ${fdt_addr}''"
    "e ''load_fitimage'' = Some ''ext4load ${boottype} ${bootdev}:${bootpart} ${fit_addr} ${fit_file}''"
    "e ''load_kernel'' = Some ''ext4load ${boottype} ${bootdev}:${bootpart} ${kernel_addr} ${kernel_file}''"
    "e ''load_fdt'' = Some ''ext4load ${boottype} ${bootdev}:${bootpart} ${fdt_addr} ${fdt_file}''"
    "e ''setbootargs'' = Some ''setenv bootargs console=ttymxc1,115200 root=${bootroot} rootwait mxc_hdmi.only_cea=0 firmwareslot=${firmwareslot}''"
    "e ''bootroot'' = Some ''/dev/mmcblk2p4''" "e ''fit_addr'' = Some ''0x28000000''"
    "e ''fit_file'' = Some ''fitImage.signed''" "e ''kernel_addr'' = Some ''0x12000000''"
    "e ''kernel_file'' = Some ''/boot/uImage''" "e ''fdt_addr'' = Some ''0x22000000''" "e ''fdt_file'' = Some d"
  unfolding e_def
  by (rule env_of_var [OF secure_names], simp add: himx0294_secure_env_def HIMX_DEFAULT_LINUX_DEV_def, simp)+

lemma signed_scripts:
  "script ''run setup_part_a; run do_fitboot; reset;'' =
     [Simple [Plain ''run'', Plain ''setup_part_a''], Simple [Plain ''run'', Plain ''do_fitboot''], Simple [Plain ''reset'']]"
  "script ''run setup_part_b; run do_fitboot; reset;'' =
     [Simple [Plain ''run'', Plain ''setup_part_b''], Simple [Plain ''run'', Plain ''do_fitboot''], Simple [Plain ''reset'']]"
  "script ''run setup_part_a; run do_fitboot; run do_legacyboot; reset;'' =
     [Simple [Plain ''run'', Plain ''setup_part_a''], Simple [Plain ''run'', Plain ''do_fitboot''],
      Simple [Plain ''run'', Plain ''do_legacyboot''], Simple [Plain ''reset'']]"
  "script ''run setup_part_b; run do_fitboot; run do_legacyboot; reset;'' =
     [Simple [Plain ''run'', Plain ''setup_part_b''], Simple [Plain ''run'', Plain ''do_fitboot''],
      Simple [Plain ''run'', Plain ''do_legacyboot''], Simple [Plain ''reset'']]"
  "script ''setenv boottype mmc; setenv bootdev 0; setenv bootpart 2; setenv firmwareslot b;'' =
     [Simple [Plain ''setenv'', Plain ''boottype'', Plain ''mmc''], Simple [Plain ''setenv'', Plain ''bootdev'', Plain ''0''],
      Simple [Plain ''setenv'', Plain ''bootpart'', Plain ''2''], Simple [Plain ''setenv'', Plain ''firmwareslot'', Plain ''b'']]"
  "script ''run load_kernel; run load_fdt; run setbootargs; bootm ${kernel_addr} - ${fdt_addr}'' =
     [Simple [Plain ''run'', Plain ''load_kernel''], Simple [Plain ''run'', Plain ''load_fdt''], Simple [Plain ''run'', Plain ''setbootargs''],
      Simple [Plain ''bootm'', Plain ''${kernel_addr}'', Plain ''-'', Plain ''${fdt_addr}'']]"
  "script ''ext4load ${boottype} ${bootdev}:${bootpart} ${kernel_addr} ${kernel_file}'' =
     [Simple [Plain ''ext4load'', Plain ''${boottype}'', Plain ''${bootdev}:${bootpart}'', Plain ''${kernel_addr}'', Plain ''${kernel_file}'']]"
  "script ''ext4load ${boottype} ${bootdev}:${bootpart} ${fdt_addr} ${fdt_file}'' =
     [Simple [Plain ''ext4load'', Plain ''${boottype}'', Plain ''${bootdev}:${bootpart}'', Plain ''${fdt_addr}'', Plain ''${fdt_file}'']]"
  "script ''setenv boottype mmc; setenv bootdev 0; setenv bootpart 1; setenv firmwareslot a;'' =
     [Simple [Plain ''setenv'', Plain ''boottype'', Plain ''mmc''], Simple [Plain ''setenv'', Plain ''bootdev'', Plain ''0''],
      Simple [Plain ''setenv'', Plain ''bootpart'', Plain ''1''], Simple [Plain ''setenv'', Plain ''firmwareslot'', Plain ''a'']]"
  "script ''run load_fitimage; run setbootargs; bootm ${fit_addr}#${fit_conf}'' =
     [Simple [Plain ''run'', Plain ''load_fitimage''], Simple [Plain ''run'', Plain ''setbootargs''],
      Simple [Plain ''bootm'', Plain ''${fit_addr}#${fit_conf}'']]"
  "script ''ext4load ${boottype} ${bootdev}:${bootpart} ${fit_addr} ${fit_file}'' =
     [Simple [Plain ''ext4load'', Plain ''${boottype}'', Plain ''${bootdev}:${bootpart}'', Plain ''${fit_addr}'', Plain ''${fit_file}'']]"
  "script ''setenv bootargs console=ttymxc1,115200 root=${bootroot} rootwait mxc_hdmi.only_cea=0 firmwareslot=${firmwareslot}'' =
     [Simple [Plain ''setenv'', Plain ''bootargs'', Plain ''console=ttymxc1,115200'', Plain ''root=${bootroot}'', Plain ''rootwait'',
        Plain ''mxc_hdmi.only_cea=0'', Plain ''firmwareslot=${firmwareslot}'']]"
  by code_simp+

text \<open>Both boot commands, in the default environment with the variables \<open>board_late_init\<close> sets.\<close>

lemma signed_runs:
  fixes others b d f fc y
  assumes fc: "\<not> list_ex blank fc" "fc \<noteq> []" and f: "\<not> list_ex blank f" "f \<noteq> []"
    and s: "s \<in> {CHR ''a'', CHR ''b''}"
  defines "e \<equiv> (env_of others (himx0294_secure_env b d))(''fdt_file'' \<mapsto> f, ''fit_conf'' \<mapsto> fc)"
  shows "run_var ok (e(''bootcmd'' \<mapsto> fitboot_cmd s, ''altbootcmd'' \<mapsto> y)) ''bootcmd'' = Some (fit_start s fc @ then_reset)"
    and "run_var ok (e(''bootcmd'' \<mapsto> y, ''altbootcmd'' \<mapsto> fitboot_cmd s)) ''altbootcmd'' = Some (fit_start s fc @ then_reset)"
    and "run_var ok (e(''bootcmd'' \<mapsto> y, ''altbootcmd'' \<mapsto> legacy_cmd s)) ''altbootcmd''
      = Some (fit_start s fc @ legacy_start s f @ then_reset)"
proof -
  note simps = run_simps secure_vars signed_scripts fitboot_cmd_def legacy_cmd_def fit_start_def legacy_start_def
    part_of_def signed_args_def then_reset_def e_def
  show "run_var ok (e(''bootcmd'' \<mapsto> fitboot_cmd s, ''altbootcmd'' \<mapsto> y)) ''bootcmd'' = Some (fit_start s fc @ then_reset)"
    using s fc by (elim insertE) (simp_all add: simps cong: bind_first del: run_dels)
  show "run_var ok (e(''bootcmd'' \<mapsto> y, ''altbootcmd'' \<mapsto> fitboot_cmd s)) ''altbootcmd'' = Some (fit_start s fc @ then_reset)"
    using s fc by (elim insertE) (simp_all add: simps cong: bind_first del: run_dels)
  show "run_var ok (e(''bootcmd'' \<mapsto> y, ''altbootcmd'' \<mapsto> legacy_cmd s)) ''altbootcmd''
      = Some (fit_start s fc @ legacy_start s f @ then_reset)"
    using s fc f by (elim insertE) (simp_all add: simps cong: bind_first del: run_dels)
qed

text \<open>
  The name of a device tree that the scripts can pass on: without blanks, in a directory,
  and short enough for the buffer of \<open>board_generate_fit_conf\<close>.
\<close>

definition plain_name :: "string \<Rightarrow> bool" where
  "plain_name f \<longleftrightarrow> f \<noteq> [] \<and> \<not> list_ex blank f \<and> NUL \<notin> set f
     \<and> (case basename f of Some x \<Rightarrow> length x \<le> 26 | None \<Rightarrow> False)"

lemma board_files_plain: "f \<in> board_files b \<Longrightarrow> plain_name f"
  by (cases b) (auto simp: board_files_def plain_name_def NUL_def blank_def basename_def
      HIMX_DEFAULT_FDT_FILE_DVREC_def HIMX_DEFAULT_FDT_FILE_DVREC_P_def HIMX_DEFAULT_FDT_FILE_DVMON_2_def)

lemma plain_name_conf:
  assumes "plain_name f"
  shows "(case basename f of Some x \<Rightarrow> ''conf-'' @ take 26 x | None \<Rightarrow> f) = ''conf-'' @ the (basename f)"
    and "\<not> list_ex blank (''conf-'' @ the (basename f))" "\<not> list_ex blank f" "f \<noteq> []" "NUL \<notin> set f"
proof -
  obtain x where x: "basename f = Some x" "length x \<le> 26"
    using assms by (auto simp: plain_name_def split: option.splits)
  then show "(case basename f of Some x \<Rightarrow> ''conf-'' @ take 26 x | None \<Rightarrow> f) = ''conf-'' @ the (basename f)"
    by simp
  show "\<not> list_ex blank (''conf-'' @ the (basename f))"
    using x basename_subset [OF x(1)] assms by (auto simp: plain_name_def list_ex_iff blank_def)
qed (use assms in \<open>simp_all add: plain_name_def\<close>)

lemma slot_cases: "slot v \<in> {CHR ''a'', CHR ''b''}" "other_slot (slot v) \<in> {CHR ''a'', CHR ''b''}"
  by (simp_all add: slot_def other_slot_def)

lemma late_init_runs:
  fixes cfg pl others numbers
  defines "e0 \<equiv> env_of others (himx0294_secure_env (board cfg) (default_fdt_file cfg))"
  assumes env: "has_env pl e0 numbers" and d: "plain_name (default_fdt_file cfg)"
  obtains h0 h fdt where "board_late_init cfg pl [] = Ret (fst (get_hab_state pl h0)) h"
    "fdt \<in> insert (default_fdt_file cfg) (board_files (board cfg))"
    "\<And>ok. run_var ok (env_texts e0 h) ''bootcmd''
       = Some (fit_start (slot (env_numbers numbers h ''firmware'')) (''conf-'' @ the (basename fdt)) @ then_reset)"
    "\<And>ok. run_var ok (env_texts e0 h) ''altbootcmd''
       = Some (fit_start (other_slot (slot (env_numbers numbers h ''firmware''))) (''conf-'' @ the (basename fdt))
           @ (if numbers ''upgrade_available'' \<noteq> 0 \<and> fst (get_hab_state pl h0) = 0
              then legacy_start (other_slot (slot (env_numbers numbers h ''firmware''))) fdt else [])
           @ then_reset)"
proof -
  have f: "env_texts e0 [] ''fdt_file'' = Some (default_fdt_file cfg)"
    by (simp add: e0_def secure_vars)
  obtain h0 h fdt where r: "board_late_init cfg pl [] = Ret (fst (get_hab_state pl h0)) h"
    "fdt = default_fdt_file cfg \<or> default_fdt_file cfg = default_fdt_file cfg \<and> fdt \<in> board_files (board cfg)"
    "env_texts e0 h = (env_texts e0 [])
       (''fdt_file'' \<mapsto> fdt,
        ''fit_conf'' \<mapsto> (case basename fdt of Some b \<Rightarrow> ''conf-'' @ take 26 b | None \<Rightarrow> fdt),
        ''bootcmd'' \<mapsto> fitboot_cmd (slot (env_numbers numbers h ''firmware'')),
        ''altbootcmd'' \<mapsto>
          (if env_numbers numbers [] ''upgrade_available'' \<noteq> 0 \<and> fst (get_hab_state pl h0) = 0
           then legacy_cmd else fitboot_cmd)
            (other_slot (slot (env_numbers numbers h ''firmware''))))"
    by (rule late_init_result [OF env f plain_name_conf(5) [OF d], of cfg])
  have "plain_name fdt"
    using r(2) d board_files_plain by blast
  note p = plain_name_conf [OF this]
  have e: "env_texts e0 h = (e0(''fdt_file'' \<mapsto> fdt, ''fit_conf'' \<mapsto> ''conf-'' @ the (basename fdt)))
      (''bootcmd'' \<mapsto> fitboot_cmd (slot (env_numbers numbers h ''firmware'')),
       ''altbootcmd'' \<mapsto> (if numbers ''upgrade_available'' \<noteq> 0 \<and> fst (get_hab_state pl h0) = 0
           then legacy_cmd else fitboot_cmd)
            (other_slot (slot (env_numbers numbers h ''firmware''))))"
    unfolding r(3) p(1) by simp
  note runs = signed_runs [OF p(2) _ p(3,4)]
  show ?thesis
  proof (rule that [of h0 h fdt])
    show "board_late_init cfg pl [] = Ret (fst (get_hab_state pl h0)) h"
      by (rule r(1))
    show "fdt \<in> insert (default_fdt_file cfg) (board_files (board cfg))"
      using r(2) by blast
  qed (unfold e, unfold e0_def, use runs slot_cases in \<open>auto simp del: append.simps\<close>)
qed

end
