(* ===== verification/Plain_Boot.thy ===== *)
theory Plain_Boot
  imports Boot_Script
begin

text \<open>
  What the boards without signed boot start: their kernel and device tree are files of the
  same partition that becomes the root file system.
\<close>

section \<open>Scripts\<close>

text \<open>The boot command of the headers \<open>himx0294/himx0294.h\<close> and \<open>himx0432.h\<close>.\<close>

definition CONFIG_BOOTCOMMAND :: string where
  "CONFIG_BOOTCOMMAND = ''setenv bootcmd run x_bootA; saveenv; boot''"

lemma plain_names:
  "distinct (names (himx0294_env b d))" "distinct (names (himx0432_env d))"
  by (cases b; hypsubst; code_simp) code_simp

lemma himx0294_vars:
  fixes b d others
  defines "e \<equiv> env_of others (himx0294_env b d)"
  shows "e ''boot_usb'' = Some ''usb start; setenv boottype usb; setenv bootdev 0; setenv bootpart 2; setenv bootroot /dev/sda2; run do_boot''"
    "e ''x_bootA'' = Some ''setenv boottype mmc; setenv bootdev 0; setenv bootpart 1; setenv bootroot /dev/mmcblk2p1; run do_boot''"
    "e ''x_bootB'' = Some ''setenv boottype mmc; setenv bootdev 0; setenv bootpart 2; setenv bootroot /dev/mmcblk2p2; run do_boot''"
    "e ''do_boot'' = Some ''run load_kernel; run load_fdt; run setbootargs; bootm ${kernel_addr} - ${fdt_addr}''"
    "e ''load_kernel'' = Some ''ext4load ${boottype} ${bootdev}:${bootpart} ${kernel_addr} ${kernel_file}''"
    "e ''load_fdt'' = Some ''ext4load ${boottype} ${bootdev}:${bootpart} ${fdt_addr} ${fdt_file}''"
    "e ''setbootargs'' = Some ''setenv bootargs noinitrd console=ttymxc1,115200 root=${bootroot} rootwait mxc_hdmi.only_cea=0''"
    "e ''kernel_addr'' = Some ''0x12000000''" "e ''kernel_file'' = Some ''/boot/uImage''"
    "e ''fdt_addr'' = Some ''0x22000000''" "e ''fdt_file'' = Some d"
  unfolding e_def
  by (rule env_of_var [OF plain_names(1)], simp add: himx0294_env_def HIMX_DEFAULT_LINUX_DEV_def, simp)+

lemma himx0432_vars:
  fixes d others
  defines "e \<equiv> env_of others (himx0432_env d)"
  shows "e ''boot_usb'' = Some ''usb start; setenv boottype usb; setenv bootdev 0; setenv bootpart 2; setenv bootroot /dev/sda2; run do_boot''"
    "e ''x_bootA'' = Some ''setenv boottype mmc; setenv bootdev 0; setenv bootpart 1; setenv bootroot /dev/mmcblk0p1; run do_boot''"
    "e ''x_bootB'' = Some ''setenv boottype mmc; setenv bootdev 0; setenv bootpart 2; setenv bootroot /dev/mmcblk0p2; run do_boot''"
    "e ''do_boot'' = Some ''run load_kernel; run load_fdt; run setbootargs; bootz ${kernel_addr} - ${fdt_addr}''"
    "e ''load_kernel'' = Some ''ext4load ${boottype} ${bootdev}:${bootpart} ${kernel_addr} ${kernel_file}''"
    "e ''load_fdt'' = Some ''ext4load ${boottype} ${bootdev}:${bootpart} ${fdt_addr} ${fdt_file}''"
    "e ''setbootargs'' = Some ''setenv bootargs noinitrd console=ttymxc1,115200 root=${bootroot} rootwait''"
    "e ''kernel_addr'' = Some ''0x83800000''" "e ''kernel_file'' = Some ''/boot/zImage''"
    "e ''fdt_addr'' = Some ''0x83000000''" "e ''fdt_file'' = Some d"
  unfolding e_def
  by (rule env_of_var [OF plain_names(2)], simp add: himx0432_env_def, simp)+

text \<open>The parsed scripts. \<open>run x\<close> and \<open>setenv x v\<close> stand for the commands of that form.\<close>

abbreviation run_cmd :: "string \<Rightarrow> cmd" where
  "run_cmd v \<equiv> Simple [Plain ''run'', Plain v]"

abbreviation set_cmd :: "string \<Rightarrow> string \<Rightarrow> cmd" where
  "set_cmd n v \<equiv> Simple [Plain ''setenv'', Plain n, Plain v]"

lemma plain_scripts:
  "script ''setenv bootcmd run x_bootA; saveenv; boot'' =
     [Simple [Plain ''setenv'', Plain ''bootcmd'', Plain ''run'', Plain ''x_bootA''], Simple [Plain ''saveenv''], Simple [Plain ''boot'']]"
  "script ''run x_bootA'' = [run_cmd ''x_bootA'']"
  "script ''usb start; setenv boottype usb; setenv bootdev 0; setenv bootpart 2; setenv bootroot /dev/sda2; run do_boot'' =
     [Simple [Plain ''usb'', Plain ''start''], set_cmd ''boottype'' ''usb'', set_cmd ''bootdev'' ''0'', set_cmd ''bootpart'' ''2'',
      set_cmd ''bootroot'' ''/dev/sda2'', run_cmd ''do_boot'']"
  "script ''setenv boottype mmc; setenv bootdev 0; setenv bootpart 1; setenv bootroot /dev/mmcblk2p1; run do_boot'' =
     [set_cmd ''boottype'' ''mmc'', set_cmd ''bootdev'' ''0'', set_cmd ''bootpart'' ''1'', set_cmd ''bootroot'' ''/dev/mmcblk2p1'', run_cmd ''do_boot'']"
  "script ''setenv boottype mmc; setenv bootdev 0; setenv bootpart 2; setenv bootroot /dev/mmcblk2p2; run do_boot'' =
     [set_cmd ''boottype'' ''mmc'', set_cmd ''bootdev'' ''0'', set_cmd ''bootpart'' ''2'', set_cmd ''bootroot'' ''/dev/mmcblk2p2'', run_cmd ''do_boot'']"
  "script ''setenv boottype mmc; setenv bootdev 0; setenv bootpart 1; setenv bootroot /dev/mmcblk0p1; run do_boot'' =
     [set_cmd ''boottype'' ''mmc'', set_cmd ''bootdev'' ''0'', set_cmd ''bootpart'' ''1'', set_cmd ''bootroot'' ''/dev/mmcblk0p1'', run_cmd ''do_boot'']"
  "script ''setenv boottype mmc; setenv bootdev 0; setenv bootpart 2; setenv bootroot /dev/mmcblk0p2; run do_boot'' =
     [set_cmd ''boottype'' ''mmc'', set_cmd ''bootdev'' ''0'', set_cmd ''bootpart'' ''2'', set_cmd ''bootroot'' ''/dev/mmcblk0p2'', run_cmd ''do_boot'']"
  "script ''run load_kernel; run load_fdt; run setbootargs; bootz ${kernel_addr} - ${fdt_addr}'' =
     [run_cmd ''load_kernel'', run_cmd ''load_fdt'', run_cmd ''setbootargs'',
      Simple [Plain ''bootz'', Plain ''${kernel_addr}'', Plain ''-'', Plain ''${fdt_addr}'']]"
  "script ''setenv bootargs noinitrd console=ttymxc1,115200 root=${bootroot} rootwait'' =
     [Simple [Plain ''setenv'', Plain ''bootargs'', Plain ''noinitrd'', Plain ''console=ttymxc1,115200'', Plain ''root=${bootroot}'', Plain ''rootwait'']]"
  "script ''setenv bootargs noinitrd console=ttymxc1,115200 root=${bootroot} rootwait mxc_hdmi.only_cea=0'' =
     [Simple [Plain ''setenv'', Plain ''bootargs'', Plain ''noinitrd'', Plain ''console=ttymxc1,115200'', Plain ''root=${bootroot}'', Plain ''rootwait'',
        Plain ''mxc_hdmi.only_cea=0'']]"
  by code_simp+

section \<open>What is started\<close>

text \<open>Kernel and device tree from a partition \<open>part\<close> of \<open>dev\<close>, started by \<open>boot\<close> with \<open>args\<close>.\<close>

definition kernel_start ::
  "string \<Rightarrow> string \<Rightarrow> string \<times> string \<Rightarrow> string \<times> string \<Rightarrow> string \<Rightarrow> string \<Rightarrow> (string list \<times> string option) list" where
  "kernel_start dev part kfile ffile boot args =
     [([''ext4load'', dev, part, fst kfile, snd kfile], None),
      ([''ext4load'', dev, part, fst ffile, snd ffile], None),
      ([boot, fst kfile, ''-'', fst ffile], Some args)]"

definition himx0294_start :: "string \<Rightarrow> string \<Rightarrow> string \<Rightarrow> string \<Rightarrow> (string list \<times> string option) list" where
  "himx0294_start dev part root fdt =
     kernel_start dev part (''0x12000000'', ''/boot/uImage'') (''0x22000000'', fdt) ''bootm''
       (''noinitrd console=ttymxc1,115200 root='' @ root @ '' rootwait mxc_hdmi.only_cea=0'')"

definition himx0432_start :: "string \<Rightarrow> string \<Rightarrow> string \<Rightarrow> string \<Rightarrow> (string list \<times> string option) list" where
  "himx0432_start dev part root fdt =
     kernel_start dev part (''0x83800000'', ''/boot/zImage'') (''0x83000000'', fdt) ''bootz''
       (''noinitrd console=ttymxc1,115200 root='' @ root @ '' rootwait'')"

lemmas start_simps = himx0294_start_def himx0432_start_def kernel_start_def

lemma himx0294_runs:
  fixes others b d f
  assumes f: "\<not> list_ex blank f" "f \<noteq> []"
  defines "e \<equiv> (env_of others (himx0294_env b d))(''fdt_file'' \<mapsto> f)"
  shows "run_var ok e ''x_bootA'' = Some (himx0294_start ''mmc'' ''0:1'' ''/dev/mmcblk2p1'' f)"
    "run_var ok e ''x_bootB'' = Some (himx0294_start ''mmc'' ''0:2'' ''/dev/mmcblk2p2'' f)"
    "run_var ok e ''boot_usb'' = Some (([''usb'', ''start''], None) # himx0294_start ''usb'' ''0:2'' ''/dev/sda2'' f)"
    "run_var ok (e(''bootcmd'' \<mapsto> CONFIG_BOOTCOMMAND)) ''bootcmd''
       = Some (([''saveenv''], Some ''run x_bootA'') # himx0294_start ''mmc'' ''0:1'' ''/dev/mmcblk2p1'' f)"
    "run_var ok (e(''bootcmd'' \<mapsto> ''run x_bootA'')) ''bootcmd''
       = Some (himx0294_start ''mmc'' ''0:1'' ''/dev/mmcblk2p1'' f)"
proof -
  note simps = run_simps himx0294_vars plain_scripts signed_scripts start_simps CONFIG_BOOTCOMMAND_def e_def
  show "run_var ok e ''x_bootA'' = Some (himx0294_start ''mmc'' ''0:1'' ''/dev/mmcblk2p1'' f)"
    using f by (simp add: simps cong: bind_first del: run_dels)
  show "run_var ok e ''x_bootB'' = Some (himx0294_start ''mmc'' ''0:2'' ''/dev/mmcblk2p2'' f)"
    using f by (simp add: simps cong: bind_first del: run_dels)
  show "run_var ok e ''boot_usb'' = Some (([''usb'', ''start''], None) # himx0294_start ''usb'' ''0:2'' ''/dev/sda2'' f)"
    using f by (simp add: simps cong: bind_first del: run_dels)
  show "run_var ok (e(''bootcmd'' \<mapsto> CONFIG_BOOTCOMMAND)) ''bootcmd''
      = Some (([''saveenv''], Some ''run x_bootA'') # himx0294_start ''mmc'' ''0:1'' ''/dev/mmcblk2p1'' f)"
    using f by (simp add: simps cong: bind_first del: run_dels)
  show "run_var ok (e(''bootcmd'' \<mapsto> ''run x_bootA'')) ''bootcmd''
      = Some (himx0294_start ''mmc'' ''0:1'' ''/dev/mmcblk2p1'' f)"
    using f by (simp add: simps cong: bind_first del: run_dels)
qed

lemma himx0432_runs:
  fixes others d f
  assumes f: "\<not> list_ex blank f" "f \<noteq> []"
  defines "e \<equiv> (env_of others (himx0432_env d))(''fdt_file'' \<mapsto> f)"
  shows "run_var ok e ''x_bootA'' = Some (himx0432_start ''mmc'' ''0:1'' ''/dev/mmcblk0p1'' f)"
    "run_var ok e ''x_bootB'' = Some (himx0432_start ''mmc'' ''0:2'' ''/dev/mmcblk0p2'' f)"
    "run_var ok e ''boot_usb'' = Some (([''usb'', ''start''], None) # himx0432_start ''usb'' ''0:2'' ''/dev/sda2'' f)"
    "run_var ok (e(''bootcmd'' \<mapsto> CONFIG_BOOTCOMMAND)) ''bootcmd''
       = Some (([''saveenv''], Some ''run x_bootA'') # himx0432_start ''mmc'' ''0:1'' ''/dev/mmcblk0p1'' f)"
    "run_var ok (e(''bootcmd'' \<mapsto> ''run x_bootA'')) ''bootcmd''
       = Some (himx0432_start ''mmc'' ''0:1'' ''/dev/mmcblk0p1'' f)"
proof -
  note simps = run_simps himx0432_vars plain_scripts signed_scripts start_simps CONFIG_BOOTCOMMAND_def e_def
  show "run_var ok e ''x_bootA'' = Some (himx0432_start ''mmc'' ''0:1'' ''/dev/mmcblk0p1'' f)"
    using f by (simp add: simps cong: bind_first del: run_dels)
  show "run_var ok e ''x_bootB'' = Some (himx0432_start ''mmc'' ''0:2'' ''/dev/mmcblk0p2'' f)"
    using f by (simp add: simps cong: bind_first del: run_dels)
  show "run_var ok e ''boot_usb'' = Some (([''usb'', ''start''], None) # himx0432_start ''usb'' ''0:2'' ''/dev/sda2'' f)"
    using f by (simp add: simps cong: bind_first del: run_dels)
  show "run_var ok (e(''bootcmd'' \<mapsto> CONFIG_BOOTCOMMAND)) ''bootcmd''
      = Some (([''saveenv''], Some ''run x_bootA'') # himx0432_start ''mmc'' ''0:1'' ''/dev/mmcblk0p1'' f)"
    using f by (simp add: simps cong: bind_first del: run_dels)
  show "run_var ok (e(''bootcmd'' \<mapsto> ''run x_bootA'')) ''bootcmd''
      = Some (himx0432_start ''mmc'' ''0:1'' ''/dev/mmcblk0p1'' f)"
    using f by (simp add: simps cong: bind_first del: run_dels)
qed

lemma himx0432_unnamed: "\<not> list_ex (\<lambda>n. n \<in> set (names (himx0432_env d))) [''board_name'', ''board_rev'', ''bootcmd'']"
  by code_simp

end
