(* ===== verification/Boot_Correct.thy ===== *)
theory Boot_Correct
  imports Plain_Boot Board_Correct
begin

text \<open>What the boards start, from the C code over the default environment to the kernel.\<close>

section \<open>Signed boot\<close>

text \<open>
  C4: On every board with signed boot, whatever numbers are stored, \<open>board_late_init\<close> returns
  and leaves two boot commands that do what they are for. \<open>bootcmd\<close> loads the signed image from
  the partition of the slot that \<open>firmware\<close> names, starts its configuration for the device tree
  of the board, and tells the kernel the slot; \<open>altbootcmd\<close> does the same for the other slot.
  Only with an update pending and the device open the unsigned kernel of that slot is tried
  after it. Then the board is reset.
\<close>

theorem late_init_boots_slot:
  assumes e0: "e0 = env_of others (himx0294_secure_env (board cfg) (default_fdt_file cfg))"
    and env: "has_env pl e0 numbers" and d: "plain_name (default_fdt_file cfg)"
  shows "\<exists>hab h fdt s. board_late_init cfg pl [] = Ret hab h
    \<and> fdt \<in> insert (default_fdt_file cfg) (board_files (board cfg))
    \<and> s = slot (env_numbers numbers h ''firmware'')
    \<and> run_var ok (env_texts e0 h) ''bootcmd''
        = Some (fit_start s (''conf-'' @ the (basename fdt)) @ then_reset)
    \<and> run_var ok (env_texts e0 h) ''altbootcmd''
        = Some (fit_start (other_slot s) (''conf-'' @ the (basename fdt))
            @ (if numbers ''upgrade_available'' \<noteq> 0 \<and> hab = 0 then legacy_start (other_slot s) fdt else [])
            @ then_reset)"
proof -
  obtain h0 h fdt where r: "board_late_init cfg pl [] = Ret (fst (get_hab_state pl h0)) h"
    "fdt \<in> insert (default_fdt_file cfg) (board_files (board cfg))"
    and log: "\<And>ok. run_var ok (env_texts e0 h) ''bootcmd''
       = Some (fit_start (slot (env_numbers numbers h ''firmware'')) (''conf-'' @ the (basename fdt)) @ then_reset)"
      "\<And>ok. run_var ok (env_texts e0 h) ''altbootcmd''
       = Some (fit_start (other_slot (slot (env_numbers numbers h ''firmware''))) (''conf-'' @ the (basename fdt))
           @ (if numbers ''upgrade_available'' \<noteq> 0 \<and> fst (get_hab_state pl h0) = 0
              then legacy_start (other_slot (slot (env_numbers numbers h ''firmware''))) fdt else [])
           @ then_reset)"
    by (rule late_init_runs [OF env [unfolded e0] d, folded e0], rule that)
  show ?thesis
    by (rule exI [of _ "fst (get_hab_state pl h0)"], rule exI [of _ h], rule exI [of _ fdt],
        intro exI conjI, (rule r refl log)+)
qed

text \<open>
  C2: On a device the HAB does not report as open, the only commands that either boot command
  gives to a device load the signed image, start it, or reset the board: no stored
  environment, no failing device and no variable of the boot loader leads to an unsigned kernel.
\<close>

theorem locked_device_runs_signed:
  assumes e0: "e0 = env_of others (himx0294_secure_env (board cfg) (default_fdt_file cfg))"
    and env: "has_env pl e0 numbers" and d: "plain_name (default_fdt_file cfg)"
    and locked: "\<And>g. hab_status pl g \<noteq> (HAB_SUCCESS, HAB_CFG_OPEN, HAB_STATE_NONSECURE)"
  shows "\<exists>hab h. board_late_init cfg pl [] = Ret hab h \<and> (\<forall>cmd\<in>{''bootcmd'', ''altbootcmd''}.
    \<exists>log. run_var ok (env_texts e0 h) cmd = Some log
      \<and> (\<forall>c\<in>fst ` set log. (\<exists>part. c = [''ext4load'', ''mmc'', part, ''0x28000000'', ''fitImage.signed''])
            \<or> (\<exists>conf. c = [''bootm'', ''0x28000000#conf-'' @ conf]) \<or> c = [''reset'']))"
proof -
  have nz: "fst (get_hab_state pl g) \<noteq> 0" for g
    using locked [of "g @ [Hab_is_enabled]"]
    by (auto simp: get_hab_state_def answer_def Let_def split: prod.split)
  obtain h0 h fdt where r: "board_late_init cfg pl [] = Ret (fst (get_hab_state pl h0)) h"
    and log: "\<And>ok. run_var ok (env_texts e0 h) ''bootcmd''
       = Some (fit_start (slot (env_numbers numbers h ''firmware'')) (''conf-'' @ the (basename fdt)) @ then_reset)"
      "\<And>ok. run_var ok (env_texts e0 h) ''altbootcmd''
       = Some (fit_start (other_slot (slot (env_numbers numbers h ''firmware''))) (''conf-'' @ the (basename fdt))
           @ (if numbers ''upgrade_available'' \<noteq> 0 \<and> fst (get_hab_state pl h0) = 0
              then legacy_start (other_slot (slot (env_numbers numbers h ''firmware''))) fdt else [])
           @ then_reset)"
    by (rule late_init_runs [OF env [unfolded e0] d, folded e0], rule that)
  show ?thesis
    by (rule exI [of _ "fst (get_hab_state pl h0)"], rule exI [of _ h])
      (simp add: r log nz fit_start_def then_reset_def)
qed

text \<open>A locked device with nothing stored.\<close>

definition locked_env :: vars where
  "locked_env = env_of Map.empty (himx0294_secure_env IVAP ''/boot/imx6q-himx0294-ivap.dtb'')"

definition locked_board :: platform where
  "locked_board = (sim_pl locked_env update_numbers)
     \<lparr>hab_status := \<lambda>h. (HAB_SUCCESS, HAB_CFG_CLOSED, HAB_STATE_TRUSTED)\<rparr>"

lemma locked_board_env: "has_env locked_board locked_env update_numbers"
  using sim_pl_env by (simp add: has_env_def locked_board_def)

lemma ivap_config:
  "board (sim_config IVAP) = IVAP" "default_fdt_file (sim_config IVAP) = ''/boot/imx6q-himx0294-ivap.dtb''"
  by (simp_all add: sim_config_def)

lemma ivap_env:
  "locked_env = env_of Map.empty (himx0294_secure_env (board (sim_config IVAP)) (default_fdt_file (sim_config IVAP)))"
  by (simp only: locked_env_def ivap_config)

lemma ivap_plain: "plain_name (default_fdt_file (sim_config IVAP))"
  by (simp add: ivap_config plain_name_def blank_def NUL_def basename_def)

lemma locked_board_state: "hab_status locked_board g \<noteq> (HAB_SUCCESS, HAB_CFG_OPEN, HAB_STATE_NONSECURE)"
  by (simp add: locked_board_def)

theorem locked_device_runs_signed_witness:
  "\<exists>hab h. board_late_init (sim_config IVAP) locked_board [] = Ret hab h \<and> (\<forall>cmd\<in>{''bootcmd'', ''altbootcmd''}.
    \<exists>log. run_var (\<lambda>_ _. False) (env_texts locked_env h) cmd = Some log
      \<and> (\<forall>c\<in>fst ` set log. (\<exists>part. c = [''ext4load'', ''mmc'', part, ''0x28000000'', ''fitImage.signed''])
            \<or> (\<exists>conf. c = [''bootm'', ''0x28000000#conf-'' @ conf]) \<or> c = [''reset'']))"
  by (rule locked_device_runs_signed [OF ivap_env locked_board_env ivap_plain locked_board_state])

theorem late_init_boots_slot_witness:
  "\<exists>hab h fdt s. board_late_init (sim_config IVAP) locked_board [] = Ret hab h
    \<and> fdt \<in> insert (default_fdt_file (sim_config IVAP)) (board_files (board (sim_config IVAP)))
    \<and> s = slot (env_numbers update_numbers h ''firmware'')
    \<and> run_var (\<lambda>_ _. True) (env_texts locked_env h) ''bootcmd''
        = Some (fit_start s (''conf-'' @ the (basename fdt)) @ then_reset)
    \<and> run_var (\<lambda>_ _. True) (env_texts locked_env h) ''altbootcmd''
        = Some (fit_start (other_slot s) (''conf-'' @ the (basename fdt))
            @ (if update_numbers ''upgrade_available'' \<noteq> 0 \<and> hab = 0 then legacy_start (other_slot s) fdt else [])
            @ then_reset)"
  by (rule late_init_boots_slot [OF ivap_env locked_board_env ivap_plain])

section \<open>Boards without signed boot\<close>

text \<open>
  C8: A board without signed boot that starts for the first time loads kernel and device tree
  from the first partition and tells the kernel to use the same partition as its root file
  system; before that it saves a boot command that does the same at every later start. The
  device tree is the one that \<open>board_late_init\<close> has chosen. \<open>x_bootB\<close> and \<open>boot_usb\<close> do so with
  the second partition and with the second one of a USB device.
\<close>

theorem plain_boot_selects_slot:
  assumes e0: "e0 = env_of others (himx0294_env (board cfg) (default_fdt_file cfg))"
    and env: "has_env pl e0 numbers" and d: "plain_name (default_fdt_file cfg)"
    and first: "e0 ''bootcmd'' = Some CONFIG_BOOTCOMMAND"
  shows "\<exists>h fdt e. himx0294_late_init cfg pl [] = Ret 0 h \<and> e = env_texts e0 h
    \<and> fdt \<in> insert (default_fdt_file cfg) (board_files (board cfg))
    \<and> run_var ok e ''bootcmd'' = Some (([''saveenv''], Some ''run x_bootA'')
        # himx0294_start ''mmc'' ''0:1'' ''/dev/mmcblk2p1'' fdt)
    \<and> run_var ok (e(''bootcmd'' \<mapsto> ''run x_bootA'')) ''bootcmd''
        = Some (himx0294_start ''mmc'' ''0:1'' ''/dev/mmcblk2p1'' fdt)
    \<and> run_var ok e ''x_bootB'' = Some (himx0294_start ''mmc'' ''0:2'' ''/dev/mmcblk2p2'' fdt)
    \<and> run_var ok e ''boot_usb'' = Some (([''usb'', ''start''], None)
        # himx0294_start ''usb'' ''0:2'' ''/dev/sda2'' fdt)"
proof -
  have f: "env_texts e0 [] ''fdt_file'' = Some (default_fdt_file cfg)"
    by (simp add: e0 himx0294_vars)
  obtain h fdt where h:
    "(case board cfg of IVAP \<Rightarrow> ivap_fdt cfg pl [] | DVMON \<Rightarrow> dvmon_fdt cfg pl [] | _ \<Rightarrow> Ret () []) = Ret () h"
    "env_texts e0 h = (env_texts e0 [])(''fdt_file'' \<mapsto> fdt)"
    "fdt = default_fdt_file cfg \<or> default_fdt_file cfg = default_fdt_file cfg \<and> fdt \<in> board_files (board cfg)"
    by (rule board_fdt_result [OF env f, of cfg])
  have "plain_name fdt"
    using h(3) d board_files_plain by blast
  note fdt = plain_name_conf(3,4) [OF this]
  have e: "env_texts e0 h = (env_of others (himx0294_env (board cfg) (default_fdt_file cfg)))(''fdt_file'' \<mapsto> fdt)"
    using h(2) by (simp add: e0)
  have first': "(env_texts e0 h)(''bootcmd'' \<mapsto> CONFIG_BOOTCOMMAND) = env_texts e0 h"
    using first h(2) by (simp add: fun_upd_idem)
  note runs = himx0294_runs [OF fdt, of _ others "board cfg" "default_fdt_file cfg", folded e]
  show ?thesis
    by (rule exI [of _ h], rule exI [of _ fdt], rule exI [of _ "env_texts e0 h"])
      (use h(1,3) runs [unfolded first'] in \<open>auto simp: himx0294_late_init_def\<close>)
qed

definition plain_env :: vars where
  "plain_env = env_of [''bootcmd'' \<mapsto> CONFIG_BOOTCOMMAND] (himx0294_env IVAP ''/boot/imx6q-himx0294-ivap.dtb'')"

lemma plain_env_eq:
  "plain_env = env_of [''bootcmd'' \<mapsto> CONFIG_BOOTCOMMAND]
     (himx0294_env (board (sim_config IVAP)) (default_fdt_file (sim_config IVAP)))"
  by (simp only: plain_env_def ivap_config)

lemma plain_env_bootcmd: "plain_env ''bootcmd'' = Some CONFIG_BOOTCOMMAND"
proof -
  have "''bootcmd'' \<notin> set (names (himx0294_env IVAP d))" for d
    by code_simp
  then show ?thesis
    by (simp add: plain_env_def env_of_other)
qed

theorem plain_boot_selects_slot_witness:
  "\<exists>h fdt e. himx0294_late_init (sim_config IVAP) (sim_pl plain_env (\<lambda>_. 0)) [] = Ret 0 h \<and> e = env_texts plain_env h
    \<and> fdt \<in> insert (default_fdt_file (sim_config IVAP)) (board_files (board (sim_config IVAP)))
    \<and> run_var (\<lambda>_ _. True) e ''bootcmd'' = Some (([''saveenv''], Some ''run x_bootA'')
        # himx0294_start ''mmc'' ''0:1'' ''/dev/mmcblk2p1'' fdt)
    \<and> run_var (\<lambda>_ _. True) (e(''bootcmd'' \<mapsto> ''run x_bootA'')) ''bootcmd''
        = Some (himx0294_start ''mmc'' ''0:1'' ''/dev/mmcblk2p1'' fdt)
    \<and> run_var (\<lambda>_ _. True) e ''x_bootB'' = Some (himx0294_start ''mmc'' ''0:2'' ''/dev/mmcblk2p2'' fdt)
    \<and> run_var (\<lambda>_ _. True) e ''boot_usb'' = Some (([''usb'', ''start''], None)
        # himx0294_start ''usb'' ''0:2'' ''/dev/sda2'' fdt)"
  by (rule plain_boot_selects_slot [OF plain_env_eq sim_pl_env ivap_plain plain_env_bootcmd])

text \<open>
  C23: The i.MX6ULL board starts its slots in the same way, with the device tree its
  \<open>board_late_init\<close> leaves, also when variables are set at run time.
\<close>

theorem himx0432_boot_selects_slot:
  assumes e0: "e0 = env_of others (himx0432_env (default_fdt_file cfg))"
    and env: "has_env pl e0 numbers" and d: "default_fdt_file cfg \<noteq> []" "\<not> list_ex blank (default_fdt_file cfg)" "NUL \<notin> set (default_fdt_file cfg)"
    and first: "e0 ''bootcmd'' = Some CONFIG_BOOTCOMMAND"
  shows "\<exists>h fdt e. himx0432_late_init runtime cfg pl [] = Ret 0 h \<and> e = env_texts e0 h
    \<and> fdt \<in> {default_fdt_file cfg, HIMX_DEFAULT_FDT_FILE_IMPEC_1}
    \<and> run_var ok e ''bootcmd'' = Some (([''saveenv''], Some ''run x_bootA'')
        # himx0432_start ''mmc'' ''0:1'' ''/dev/mmcblk0p1'' fdt)
    \<and> run_var ok (e(''bootcmd'' \<mapsto> ''run x_bootA'')) ''bootcmd''
        = Some (himx0432_start ''mmc'' ''0:1'' ''/dev/mmcblk0p1'' fdt)
    \<and> run_var ok e ''x_bootB'' = Some (himx0432_start ''mmc'' ''0:2'' ''/dev/mmcblk0p2'' fdt)
    \<and> run_var ok e ''boot_usb'' = Some (([''usb'', ''start''], None)
        # himx0432_start ''usb'' ''0:2'' ''/dev/sda2'' fdt)"
proof -
  have f: "env_texts e0 [] ''fdt_file'' = Some (default_fdt_file cfg)"
    by (simp add: e0 himx0432_vars)
  obtain h fdt where h: "himx0432_late_init runtime cfg pl [] = Ret 0 h"
    "env_texts e0 h = (runtime_vars runtime (env_texts e0 []))(''fdt_file'' \<mapsto> fdt)"
    "fdt = default_fdt_file cfg \<or> default_fdt_file cfg = default_fdt_file cfg \<and> fdt = HIMX_DEFAULT_FDT_FILE_IMPEC_1"
    by (rule himx0432_late_result [OF env f, of runtime cfg])
  have fdt: "\<not> list_ex blank fdt" "fdt \<noteq> []"
    using h(3) d by (auto simp: HIMX_DEFAULT_FDT_FILE_IMPEC_1_def blank_def)
  have e: "env_texts e0 h = (env_of (runtime_vars runtime others) (himx0432_env (default_fdt_file cfg)))(''fdt_file'' \<mapsto> fdt)"
    using h(2) himx0432_unnamed [of "default_fdt_file cfg"] by (auto simp: e0 runtime_vars_def env_of_upd)
  have first': "(env_texts e0 h)(''bootcmd'' \<mapsto> CONFIG_BOOTCOMMAND) = env_texts e0 h"
    using first h(2) by (simp add: fun_upd_idem runtime_vars_def)
  note runs = himx0432_runs [OF fdt, of _ "runtime_vars runtime others" "default_fdt_file cfg", folded e]
  show ?thesis
    by (rule exI [of _ h], rule exI [of _ fdt], rule exI [of _ "env_texts e0 h"])
      (use h(1,3) runs [unfolded first'] in auto)
qed

definition impec_config :: config where
  "impec_config = (sim_config OTHER)\<lparr>default_fdt_file := ''/boot/imx6ull-himx0294-impec-2.dtb''\<rparr>"

definition impec_env :: vars where
  "impec_env = env_of [''bootcmd'' \<mapsto> CONFIG_BOOTCOMMAND] (himx0432_env (default_fdt_file impec_config))"

lemma impec_plain:
  "default_fdt_file impec_config \<noteq> []" "\<not> list_ex blank (default_fdt_file impec_config)"
  "NUL \<notin> set (default_fdt_file impec_config)"
  by (simp_all add: impec_config_def blank_def NUL_def)

lemma impec_env_bootcmd: "impec_env ''bootcmd'' = Some CONFIG_BOOTCOMMAND"
  using himx0432_unnamed by (simp add: impec_env_def env_of_other)

theorem himx0432_boot_selects_slot_witness:
  "\<exists>h fdt e. himx0432_late_init True impec_config (sim_pl impec_env (\<lambda>_. 0)) [] = Ret 0 h \<and> e = env_texts impec_env h
    \<and> fdt \<in> {default_fdt_file impec_config, HIMX_DEFAULT_FDT_FILE_IMPEC_1}
    \<and> run_var (\<lambda>_ _. True) e ''bootcmd'' = Some (([''saveenv''], Some ''run x_bootA'')
        # himx0432_start ''mmc'' ''0:1'' ''/dev/mmcblk0p1'' fdt)
    \<and> run_var (\<lambda>_ _. True) (e(''bootcmd'' \<mapsto> ''run x_bootA'')) ''bootcmd''
        = Some (himx0432_start ''mmc'' ''0:1'' ''/dev/mmcblk0p1'' fdt)
    \<and> run_var (\<lambda>_ _. True) e ''x_bootB'' = Some (himx0432_start ''mmc'' ''0:2'' ''/dev/mmcblk0p2'' fdt)
    \<and> run_var (\<lambda>_ _. True) e ''boot_usb'' = Some (([''usb'', ''start''], None)
        # himx0432_start ''usb'' ''0:2'' ''/dev/sda2'' fdt)"
  by (rule himx0432_boot_selects_slot [OF impec_env_def sim_pl_env impec_plain impec_env_bootcmd])

end
