(* ===== verification/Imx8_Boot.thy ===== *)
theory Imx8_Boot
  imports Plain_Boot
begin

text \<open>
  The start of the i.MX8M Plus board: its switch is set up first, the device tree is loaded
  and, when asked for, changed by an overlay, and the kernel is loaded last.
\<close>

lemma env_of_append: "env_of others (a @ b) = env_of (env_of others a) b"
  by (simp add: env_of_def)

lemma imx8mp_names: "distinct (names (imx8mp_board_env l d))"
  by code_simp

lemma imx8mp_vars:
  fixes l d mfg bootenv others
  defines "e \<equiv> env_of others (imx8mp_env mfg bootenv l d)"
  shows "e ''x_bootA'' = Some ''setenv boottype mmc; setenv bootdev 2; setenv bootpart 1; setenv bootroot /dev/mmcblk2p1; run do_boot''"
    "e ''x_bootB'' = Some ''setenv boottype mmc; setenv bootdev 2; setenv bootpart 2; setenv bootroot /dev/mmcblk2p2; run do_boot''"
    "e ''do_boot'' = Some ''run switch_init; run loadfdt; run load_bt_overlay; run loadimage; run setbootargs; booti ${loadaddr} - ${fdt_addr}''"
    "e ''switch_init'' = Some ''run switch_reset; run switch_ctrl; run switch_speed_port2''"
    "e ''switch_reset'' = Some ''gpio clear 97; sleep 0.1; gpio set 97; sleep 0.1''"
    "e ''switch_ctrl'' = Some switch_ctrl"
    "e ''switch_speed_port2'' = Some switch_speed_port2"
    "e ''load_bt_overlay'' = Some load_bt_overlay"
    "e ''loadimage'' = Some ''ext4load ${boottype} ${bootdev}:${bootpart} ${loadaddr} ${image}''"
    "e ''loadfdt'' = Some ''ext4load ${boottype} ${bootdev}:${bootpart} ${fdt_addr_r} ${fdtfile}''"
    "e ''setbootargs'' = Some ''setenv bootargs noinitrd root=${bootroot} rootwait''"
    "e ''image'' = Some ''/boot/Image''" "e ''fdt_addr_r'' = Some ''0x43000000''" "e ''fdt_addr'' = Some ''0x43000000''"
    "e ''fdtfile'' = Some (''/boot/'' @ d)" "e ''bt_enabled'' = Some ''0''"
  unfolding e_def imx8mp_env_def env_of_append
  by (rule env_of_var [OF imx8mp_names], simp add: imx8mp_board_env_def switch_ctrl_def switch_speed_port2_def load_bt_overlay_def, simp)+

lemma imx8mp_scripts:
  "script ''setenv boottype mmc; setenv bootdev 2; setenv bootpart 1; setenv bootroot /dev/mmcblk2p1; run do_boot'' =
     [set_cmd ''boottype'' ''mmc'', set_cmd ''bootdev'' ''2'', set_cmd ''bootpart'' ''1'', set_cmd ''bootroot'' ''/dev/mmcblk2p1'', run_cmd ''do_boot'']"
  "script ''setenv boottype mmc; setenv bootdev 2; setenv bootpart 2; setenv bootroot /dev/mmcblk2p2; run do_boot'' =
     [set_cmd ''boottype'' ''mmc'', set_cmd ''bootdev'' ''2'', set_cmd ''bootpart'' ''2'', set_cmd ''bootroot'' ''/dev/mmcblk2p2'', run_cmd ''do_boot'']"
  "script ''run switch_init; run loadfdt; run load_bt_overlay; run loadimage; run setbootargs; booti ${loadaddr} - ${fdt_addr}'' =
     [run_cmd ''switch_init'', run_cmd ''loadfdt'', run_cmd ''load_bt_overlay'', run_cmd ''loadimage'', run_cmd ''setbootargs'',
      Simple [Plain ''booti'', Plain ''${loadaddr}'', Plain ''-'', Plain ''${fdt_addr}'']]"
  "script ''run switch_reset; run switch_ctrl; run switch_speed_port2'' =
     [run_cmd ''switch_reset'', run_cmd ''switch_ctrl'', run_cmd ''switch_speed_port2'']"
  "script ''gpio clear 97; sleep 0.1; gpio set 97; sleep 0.1'' =
     [Simple [Plain ''gpio'', Plain ''clear'', Plain ''97''], Simple [Plain ''sleep'', Plain ''0.1''],
      Simple [Plain ''gpio'', Plain ''set'', Plain ''97''], Simple [Plain ''sleep'', Plain ''0.1'']]"
  "script switch_ctrl =
     [Simple [Plain ''mii'', Plain ''device'', Plain ''ethernet@30bf0000''], Simple [Plain ''mii'', Plain ''write'', Plain ''0x15'', Plain ''1'', Plain ''0xc0ff''],
      Simple [Plain ''mii'', Plain ''write'', Plain ''0x16'', Plain ''1'', Plain ''0xc0ff'']]"
  "script switch_speed_port2 =
     [Simple [Plain ''mii'', Plain ''write'', Plain ''0x1c'', Plain ''0x19'', Plain ''0x0''],
      Simple [Plain ''mii'', Plain ''write'', Plain ''0x1c'', Plain ''0x18'', Plain ''0x9449''], Simple [Plain ''sleep'', Plain ''0.1''],
      Simple [Plain ''mii'', Plain ''write'', Plain ''0x1c'', Plain ''0x19'', Plain ''0x9140''],
      Simple [Plain ''mii'', Plain ''write'', Plain ''0x1c'', Plain ''0x18'', Plain ''0x9440'']]"
  "script load_bt_overlay =
     [Cond [Simple [Plain ''itest.s'', Quoted ''${bt_enabled}'', Plain ''=='', Quoted ''1'']]
        [Simple [Plain ''echo'', Quoted ''Loading BT Overlay...''],
         Both (Simple [Plain ''ext4load'', Plain ''${boottype}'', Plain ''${bootdev}:${bootpart}'', Plain ''${loadaddr}'',
                 Plain ''/boot/imx8mp-himx8-repro-uart2-bt.dtbo''])
           (Both (Simple [Plain ''fdt'', Plain ''addr'', Plain ''${fdt_addr_r}''])
             (Both (Simple [Plain ''fdt'', Plain ''resize'', Plain ''8192''])
               (Simple [Plain ''fdt'', Plain ''apply'', Plain ''${loadaddr}''])))] []]"
  "script ''ext4load ${boottype} ${bootdev}:${bootpart} ${loadaddr} ${image}'' =
     [Simple [Plain ''ext4load'', Plain ''${boottype}'', Plain ''${bootdev}:${bootpart}'', Plain ''${loadaddr}'', Plain ''${image}'']]"
  "script ''ext4load ${boottype} ${bootdev}:${bootpart} ${fdt_addr_r} ${fdtfile}'' =
     [Simple [Plain ''ext4load'', Plain ''${boottype}'', Plain ''${bootdev}:${bootpart}'', Plain ''${fdt_addr_r}'', Plain ''${fdtfile}'']]"
  "script ''setenv bootargs noinitrd root=${bootroot} rootwait'' =
     [Simple [Plain ''setenv'', Plain ''bootargs'', Plain ''noinitrd'', Plain ''root=${bootroot}'', Plain ''rootwait'']]"
  by code_simp+

section \<open>What is started\<close>

definition switch_cmds :: "string list list" where
  "switch_cmds =
     [[''gpio'', ''clear'', ''97''], [''sleep'', ''0.1''], [''gpio'', ''set'', ''97''], [''sleep'', ''0.1''],
      [''mii'', ''device'', ''ethernet@30bf0000''], [''mii'', ''write'', ''0x15'', ''1'', ''0xc0ff''],
      [''mii'', ''write'', ''0x16'', ''1'', ''0xc0ff''], [''mii'', ''write'', ''0x1c'', ''0x19'', ''0x0''],
      [''mii'', ''write'', ''0x1c'', ''0x18'', ''0x9449''], [''sleep'', ''0.1''], [''mii'', ''write'', ''0x1c'', ''0x19'', ''0x9140''],
      [''mii'', ''write'', ''0x1c'', ''0x18'', ''0x9440'']]"

text \<open>Commands that are given as long as each one succeeds.\<close>

fun while_ok :: "(string list \<Rightarrow> bool) \<Rightarrow> string list list \<Rightarrow> string list list" where
  "while_ok P [] = []"
| "while_ok P (c # cs) = c # (if P c then while_ok P cs else [])"

definition overlay_cmds :: "(string list \<Rightarrow> bool) \<Rightarrow> string \<Rightarrow> string \<Rightarrow> string list list" where
  "overlay_cmds P part la =
     [''echo'', ''Loading BT Overlay...''] #
     while_ok P
       [[''ext4load'', ''mmc'', part, la, ''/boot/imx8mp-himx8-repro-uart2-bt.dtbo''],
        [''fdt'', ''addr'', ''0x43000000''], [''fdt'', ''resize'', ''8192''], [''fdt'', ''apply'', la]]"

definition imx8mp_start ::
  "(string list \<Rightarrow> bool) \<Rightarrow> string \<Rightarrow> string \<Rightarrow> string \<Rightarrow> string \<Rightarrow> string \<Rightarrow> (string list \<times> string option) list" where
  "imx8mp_start P bt la part root fdt =
     map (\<lambda>c. (c, None))
       (switch_cmds @ [[''ext4load'', ''mmc'', part, ''0x43000000'', ''/boot/'' @ fdt]]
        @ (if bt = ''1'' then overlay_cmds P part la else [])
        @ [[''ext4load'', ''mmc'', part, la, ''/boot/Image'']])
     @ [([''booti'', la, ''-'', ''0x43000000''], Some (''noinitrd root='' @ root @ '' rootwait''))]"

text \<open>
  One start of either slot, by the value of \<open>bt_enabled\<close> and the first command of the overlay
  that fails, with less fuel than a boot command has.
\<close>

definition start_slot ::
  "(string list \<Rightarrow> bool) \<Rightarrow> vars \<Rightarrow> string \<Rightarrow> (string list \<times> string option) list option" where
  "start_slot P e name =
     map_option (\<lambda>(r, e, log). log) (exec 56 (\<lambda>_. P) [Simple [Quoted ''run'', Quoted name]] True (e, []))"

lemmas imx8mp_simps = run_simps imx8mp_vars imx8mp_scripts imx8mp_start_def overlay_cmds_def switch_cmds_def start_slot_def

definition imx8mp_slots :: "(string \<times> string \<times> string) set" where
  "imx8mp_slots = {(''x_bootA'', ''2:1'', ''/dev/mmcblk2p1''), (''x_bootB'', ''2:2'', ''/dev/mmcblk2p2'')}"

lemma start_off:
  assumes "(name, part, root) \<in> imx8mp_slots" "env_of others (imx8mp_env mfg bootenv l d) ''loadaddr'' = Some la"
    "\<not> list_ex blank la" "la \<noteq> []" "\<not> list_ex blank d"
    "bt \<noteq> ''1''"
  shows "start_slot P ((env_of others (imx8mp_env mfg bootenv l d))(''bt_enabled'' \<mapsto> bt, ''bootcmd'' \<mapsto> y)) name
    = Some (imx8mp_start P bt la part root d)"
  using assms unfolding imx8mp_slots_def
  by (elim insertE) (simp_all add: imx8mp_simps cong: bind_first del: run_dels)

lemma start_no_load:
  assumes "(name, part, root) \<in> imx8mp_slots" "env_of others (imx8mp_env mfg bootenv l d) ''loadaddr'' = Some la"
    "\<not> list_ex blank la" "la \<noteq> []" "\<not> list_ex blank d"
    "bt = ''1''" "\<not> P [''ext4load'', ''mmc'', part, la, ''/boot/imx8mp-himx8-repro-uart2-bt.dtbo'']"
  shows "start_slot P ((env_of others (imx8mp_env mfg bootenv l d))(''bt_enabled'' \<mapsto> bt, ''bootcmd'' \<mapsto> y)) name
    = Some (imx8mp_start P bt la part root d)"
  using assms unfolding imx8mp_slots_def
  by (elim insertE) (simp_all add: imx8mp_simps cong: bind_first del: run_dels)

lemma start_no_addr:
  assumes "(name, part, root) \<in> imx8mp_slots" "env_of others (imx8mp_env mfg bootenv l d) ''loadaddr'' = Some la"
    "\<not> list_ex blank la" "la \<noteq> []" "\<not> list_ex blank d"
    "bt = ''1''" "P [''ext4load'', ''mmc'', part, la, ''/boot/imx8mp-himx8-repro-uart2-bt.dtbo'']" "\<not> P [''fdt'', ''addr'', ''0x43000000'']"
  shows "start_slot P ((env_of others (imx8mp_env mfg bootenv l d))(''bt_enabled'' \<mapsto> bt, ''bootcmd'' \<mapsto> y)) name
    = Some (imx8mp_start P bt la part root d)"
  using assms unfolding imx8mp_slots_def
  by (elim insertE) (simp_all add: imx8mp_simps cong: bind_first del: run_dels)

lemma start_no_resize:
  assumes "(name, part, root) \<in> imx8mp_slots" "env_of others (imx8mp_env mfg bootenv l d) ''loadaddr'' = Some la"
    "\<not> list_ex blank la" "la \<noteq> []" "\<not> list_ex blank d"
    "bt = ''1''" "P [''ext4load'', ''mmc'', part, la, ''/boot/imx8mp-himx8-repro-uart2-bt.dtbo'']" "P [''fdt'', ''addr'', ''0x43000000'']" "\<not> P [''fdt'', ''resize'', ''8192'']"
  shows "start_slot P ((env_of others (imx8mp_env mfg bootenv l d))(''bt_enabled'' \<mapsto> bt, ''bootcmd'' \<mapsto> y)) name
    = Some (imx8mp_start P bt la part root d)"
  using assms unfolding imx8mp_slots_def
  by (elim insertE) (simp_all add: imx8mp_simps cong: bind_first del: run_dels)

lemma start_all_ok:
  assumes "(name, part, root) \<in> imx8mp_slots" "env_of others (imx8mp_env mfg bootenv l d) ''loadaddr'' = Some la"
    "\<not> list_ex blank la" "la \<noteq> []" "\<not> list_ex blank d"
    "bt = ''1''" "P [''ext4load'', ''mmc'', part, la, ''/boot/imx8mp-himx8-repro-uart2-bt.dtbo'']" "P [''fdt'', ''addr'', ''0x43000000'']" "P [''fdt'', ''resize'', ''8192'']"
  shows "start_slot P ((env_of others (imx8mp_env mfg bootenv l d))(''bt_enabled'' \<mapsto> bt, ''bootcmd'' \<mapsto> y)) name
    = Some (imx8mp_start P bt la part root d)"
  using assms unfolding imx8mp_slots_def
  by (elim insertE) (simp_all add: imx8mp_simps cong: bind_first del: run_dels)

lemma start_any:
  assumes "(name, part, root) \<in> imx8mp_slots" "env_of others (imx8mp_env mfg bootenv l d) ''loadaddr'' = Some la"
    "\<not> list_ex blank la" "la \<noteq> []" "\<not> list_ex blank d"
  shows "start_slot P ((env_of others (imx8mp_env mfg bootenv l d))(''bt_enabled'' \<mapsto> bt, ''bootcmd'' \<mapsto> y)) name
    = Some (imx8mp_start P bt la part root d)"
proof (cases "bt = ''1''")
  case on: True
  let ?load = "[''ext4load'', ''mmc'', part, la, ''/boot/imx8mp-himx8-repro-uart2-bt.dtbo'']"
  show ?thesis
  proof (cases "P ?load")
    case load: True
    then show ?thesis
      using start_no_addr [where P = P, OF assms on load] start_no_resize [where P = P, OF assms on load] start_all_ok [where P = P, OF assms on load]
      by (cases "P [''fdt'', ''addr'', ''0x43000000'']"; cases "P [''fdt'', ''resize'', ''8192'']") (simp_all only: simp_thms)
  qed (rule start_no_load [where P = P, OF assms on])
qed (rule start_off [OF assms])

lemma start_slot_exec:
  assumes "start_slot P e name = Some log"
  obtains r e' where "\<And>m. 56 \<le> m \<Longrightarrow>
    exec m (\<lambda>_. P) [Simple [Quoted ''run'', Quoted name]] True (e, []) = Some (r, e', log)"
proof -
  obtain x where x: "exec 56 (\<lambda>_. P) [Simple [Quoted ''run'', Quoted name]] True (e, []) = Some x"
    "(case x of (r, e, log) \<Rightarrow> log) = log"
    using assms unfolding start_slot_def map_option_eq_Some by blast
  obtain r e' where "x = (r, e', log)"
    using x(2) by (cases x) simp
  with x(1) show ?thesis
    using exec_mono that by blast
qed

lemma start_slot_run: 
  assumes "start_slot P e name = Some log" 
  shows "run_var (\<lambda>_. P) e name = Some log"
proof -
  obtain r e' where "\<And>m. 56 \<le> m \<Longrightarrow>
      exec m (\<lambda>_. P) [Simple [Quoted ''run'', Quoted name]] True (e, []) = Some (r, e', log)"
    by (rule start_slot_exec [OF assms], rule that)
  from this [of 64] show ?thesis
    unfolding run_var_def SCRIPT_FUEL_def by (simp del: exec.simps)
qed


text \<open>The first start saves the boot command and goes on with the first slot.\<close>

lemma first_start:
  assumes "start_slot P (e(''bootcmd'' \<mapsto> ''run x_bootA'')) ''x_bootA'' = Some log"
    and "e ''bootcmd'' = Some CONFIG_BOOTCOMMAND"
  shows "run_var (\<lambda>_. P) e ''bootcmd'' = Some (([''saveenv''], Some ''run x_bootA'') # log)"
proof -
  let ?e = "e(''bootcmd'' \<mapsto> ''run x_bootA'')" and ?saved = "[([''saveenv''], Some ''run x_bootA'')]"
  obtain r e' where r: "\<And>m. 56 \<le> m \<Longrightarrow>
      exec m (\<lambda>_. P) [Simple [Quoted ''run'', Quoted ''x_bootA'']] True (?e, []) = Some (r, e', log)"
    by (rule start_slot_exec [OF assms(1)], rule that)
  have quoted: "exec (Suc m) ok [run_cmd ''x_bootA''] st (e, l)
      = exec (Suc m) ok [Simple [Quoted ''run'', Quoted ''x_bootA'']] st (e, l)" for m ok st e l
    by (simp add: blank_def)
  have boot: "exec m (\<lambda>_. P) [run_cmd ''x_bootA''] True (?e, ?saved) = Some (r, e', ?saved @ log)" if m: "57 \<le> m" for m
  proof -
    obtain k where k: "m = Suc k" "56 \<le> k"
      using m by (cases m) auto
    then show ?thesis
      using exec_after [OF r [of "Suc k"], of ?saved] unfolding k(1) quoted by simp
  qed
  have nil: "exec m ok [] st s = Some (st, s)" if "57 \<le> m" for m ok st s
    using that by (cases m) auto
  have "exec (Suc (Suc (Suc (Suc m)))) (\<lambda>_. P) [Simple [Quoted ''run'', Quoted ''bootcmd'']] True (e, [])
      = Some (r, e', ?saved @ log)" if "57 \<le> m" for m
    using assms(2) boot [of m] nil that
    by (simp add: action_def noted_def setenv_def blank_def CONFIG_BOOTCOMMAND_def plain_scripts(1,2) cong: bind_first)
  from this [of 60] have "exec 64 (\<lambda>_. P) [Simple [Quoted ''run'', Quoted ''bootcmd'']] True (e, []) = Some (r, e', ?saved @ log)"
    by simp
  then show ?thesis
    by (simp add: run_var_def SCRIPT_FUEL_def)
qed
lemma switch_no_overlay: "[''fdt'', ''apply'', la] \<notin> set switch_cmds"
  by (simp add: switch_cmds_def)

lemma while_ok_last: "l \<noteq> c \<Longrightarrow> l \<notin> set cs \<Longrightarrow> l \<in> set (while_ok P (cs @ [l])) \<longleftrightarrow> list_all P cs"
  by (induction cs) auto

lemma overlay_applied:
  "([''fdt'', ''apply'', la], None) \<in> set (imx8mp_start P bt la part root fdt) \<longleftrightarrow>
     bt = ''1'' \<and> P [''ext4load'', ''mmc'', part, la, ''/boot/imx8mp-himx8-repro-uart2-bt.dtbo'']
     \<and> P [''fdt'', ''addr'', ''0x43000000''] \<and> P [''fdt'', ''resize'', ''8192'']"
proof -
  let ?cs = "[[''ext4load'', ''mmc'', part, la, ''/boot/imx8mp-himx8-repro-uart2-bt.dtbo''],
    [''fdt'', ''addr'', ''0x43000000''], [''fdt'', ''resize'', ''8192'']]"
  have "([''fdt'', ''apply'', la], None) \<in> set (imx8mp_start P bt la part root fdt) \<longleftrightarrow>
      bt = ''1'' \<and> [''fdt'', ''apply'', la] \<in> set (while_ok P (?cs @ [[''fdt'', ''apply'', la]]))"
    unfolding imx8mp_start_def overlay_cmds_def
    by (simp add: image_iff switch_no_overlay)
  also have "\<dots> \<longleftrightarrow> bt = ''1'' \<and> list_all P ?cs"
    using while_ok_last [of "[''fdt'', ''apply'', la]" "[]" ?cs P] by simp
  finally show ?thesis
    by simp
qed

text \<open>
  C9: The i.MX8M Plus board sets its switch up before it loads anything, then loads device tree
  and kernel from the partition of the slot and starts the kernel with that partition as its
  root file system. The first start saves a boot command for the first slot. The Bluetooth
  overlay is applied exactly when \<open>bt_enabled\<close> is 1 and each of the three commands before it has
  succeeded, and always before the kernel is loaded, because both are loaded to the same address.
\<close>

theorem imx8mp_boot_selects_slot:
  assumes e: "e = (env_of others (imx8mp_env mfg bootenv l d))(''bt_enabled'' \<mapsto> bt)"
    and la: "e ''loadaddr'' = Some la" "\<not> list_ex blank la" "la \<noteq> []" and d: "\<not> list_ex blank d"
    and first: "e ''bootcmd'' = Some CONFIG_BOOTCOMMAND"
  shows "run_var (\<lambda>_. P) e ''bootcmd''
      = Some (([''saveenv''], Some ''run x_bootA'') # imx8mp_start P bt la ''2:1'' ''/dev/mmcblk2p1'' d)
    \<and> run_var (\<lambda>_. P) e ''x_bootA'' = Some (imx8mp_start P bt la ''2:1'' ''/dev/mmcblk2p1'' d)
    \<and> run_var (\<lambda>_. P) e ''x_bootB'' = Some (imx8mp_start P bt la ''2:2'' ''/dev/mmcblk2p2'' d)
    \<and> (\<exists>start. imx8mp_start P bt la ''2:1'' ''/dev/mmcblk2p1'' d =
         map (\<lambda>c. (c, None)) (switch_cmds @ [[''ext4load'', ''mmc'', ''2:1'', ''0x43000000'', ''/boot/'' @ d]]) @ start
         @ [([''ext4load'', ''mmc'', ''2:1'', la, ''/boot/Image''], None),
            ([''booti'', la, ''-'', ''0x43000000''], Some ''noinitrd root=/dev/mmcblk2p1 rootwait'')])
    \<and> (([''fdt'', ''apply'', la], None) \<in> set (imx8mp_start P bt la ''2:1'' ''/dev/mmcblk2p1'' d) \<longleftrightarrow>
         bt = ''1'' \<and> P [''ext4load'', ''mmc'', ''2:1'', la, ''/boot/imx8mp-himx8-repro-uart2-bt.dtbo'']
         \<and> P [''fdt'', ''addr'', ''0x43000000''] \<and> P [''fdt'', ''resize'', ''8192''])"
proof -
  have la': "env_of others (imx8mp_env mfg bootenv l d) ''loadaddr'' = Some la"
    using la(1) by (simp add: e)
  have start: "start_slot P (e(''bootcmd'' \<mapsto> y)) name = Some (imx8mp_start P bt la part root d)"
    if "(name, part, root) \<in> imx8mp_slots" for name part root y
    unfolding e by (rule start_any [OF that la' la(2,3) d])
  have boot: "e(''bootcmd'' \<mapsto> CONFIG_BOOTCOMMAND) = e"
    using first by (simp add: fun_upd_idem)
  have a: "(''x_bootA'', ''2:1'', ''/dev/mmcblk2p1'') \<in> imx8mp_slots"
    and b: "(''x_bootB'', ''2:2'', ''/dev/mmcblk2p2'') \<in> imx8mp_slots"
    by (simp_all add: imx8mp_slots_def)
  show ?thesis
    unfolding overlay_applied
    by (intro conjI first_start [OF start [OF a] first] start_slot_run start [OF a, of CONFIG_BOOTCOMMAND, unfolded boot]
        start [OF b, of CONFIG_BOOTCOMMAND, unfolded boot] refl) (simp add: imx8mp_start_def)
qed

text \<open>The environment of the board with the overlay asked for.\<close>

definition imx8_env :: vars where
  "imx8_env = (env_of [''loadaddr'' \<mapsto> ''0x40400000'', ''bootcmd'' \<mapsto> CONFIG_BOOTCOMMAND]
     (imx8mp_env [] [] ''0x40400000'' ''imx8mp-himx8-repro.dtb''))(''bt_enabled'' \<mapsto> ''1'')"

lemma board_unnamed: "list_all (\<lambda>n. n \<noteq> ''loadaddr'' \<and> n \<noteq> ''bootcmd'') (names (imx8mp_board_env l d))"
  by code_simp

lemma mfg_unnamed: "list_all (\<lambda>n. n \<noteq> ''loadaddr'' \<and> n \<noteq> ''bootcmd'') (names (mfg_env []))"
  by code_simp

lemma imx8_env_vars: "imx8_env ''loadaddr'' = Some ''0x40400000''" "imx8_env ''bootcmd'' = Some CONFIG_BOOTCOMMAND"
proof -
  have "n \<notin> set (names (mfg_env []))" "n \<notin> set (names (imx8mp_board_env l d))"
    if "n \<in> {''loadaddr'', ''bootcmd''}" for n l d
    using that mfg_unnamed board_unnamed [of l d] unfolding list_all_iff by blast+
  then show "imx8_env ''loadaddr'' = Some ''0x40400000''" "imx8_env ''bootcmd'' = Some CONFIG_BOOTCOMMAND"
    by (simp_all add: imx8_env_def imx8mp_env_def env_of_append env_of_other)
qed

theorem imx8mp_boot_selects_slot_witness:
  "run_var (\<lambda>_ _. True) imx8_env ''bootcmd''
      = Some (([''saveenv''], Some ''run x_bootA'')
          # imx8mp_start (\<lambda>_. True) ''1'' ''0x40400000'' ''2:1'' ''/dev/mmcblk2p1'' ''imx8mp-himx8-repro.dtb'')
   \<and> ([''fdt'', ''apply'', ''0x40400000''], None)
      \<in> set (imx8mp_start (\<lambda>_. True) ''1'' ''0x40400000'' ''2:1'' ''/dev/mmcblk2p1'' ''imx8mp-himx8-repro.dtb'')"
  using imx8mp_boot_selects_slot [where P = "\<lambda>_. True", OF imx8_env_def imx8_env_vars(1) _ _ _ imx8_env_vars(2)]
  by (simp add: blank_def)

end
