(* ===== verification/Imx8_Memory.thy ===== *)
theory Imx8_Memory
  imports Imx8_Boot
begin

text \<open>
  The other settings of \<open>imx8mp_evk.h\<close>: the environment of the board when it boots from NAND,
  that of the Jailhouse hypervisor, and the memory of the board that both rely on.
\<close>

section \<open>Boot from NAND\<close>

definition MFG_NAND_PARTITION :: string where
  "MFG_NAND_PARTITION =
     ''mtdparts=gpmi-nand:64m(nandboot),16m(nandfit),64m(nandkernel),16m(nanddtb),8m(nandtee),-(nandrootfs)''"

definition imx8mp_nand_env :: "string list \<Rightarrow> string list" where
  "imx8mp_nand_env mfg =
     mfg_env mfg @
     [''splashimage=0x50000000'',
      ''fdt_addr_r=0x43000000'',
      ''fdt_addr=0x43000000'',
      ''fdt_high=0xffffffffffffffff'',
      ''mtdparts='' @ MFG_NAND_PARTITION,
      ''console=ttymxc1,115200 earlycon=ec_imx6q,0x30890000,115200'',
      ''bootargs=console=ttymxc1,115200 earlycon=ec_imx6q,0x30890000,115200 ubi.mtd=nandrootfs '' @
        ''root=ubi0:nandrootfs rootfstype=ubifs '' @
        MFG_NAND_PARTITION,
      ''bootcmd=nand read ${loadaddr} 0x5000000 0x4000000;'' @
        ''nand read ${fdt_addr_r} 0x9000000 0x100000;'' @
        ''booti ${loadaddr} - ${fdt_addr_r}'']"

text \<open>
  The partitions that such a text names, with start and size in bytes. The last one, whose
  size is \<open>-\<close>, takes the rest of the device and has no size here.
\<close>

definition after :: "char \<Rightarrow> string \<Rightarrow> string" where
  "after c s = tl (dropWhile (\<lambda>d. d \<noteq> c) s)"

definition megabytes :: "string \<Rightarrow> nat option" where
  "megabytes s =
     (if s \<noteq> [] \<and> last s = CHR ''m'' \<and> list_all (\<lambda>c. c \<in> set ''0123456789'') (butlast s)
      then Some (foldl (\<lambda>v c. 10 * v + length (takeWhile (\<lambda>d. d \<noteq> c) ''0123456789'')) 0 (butlast s) * 2 ^ 20) else None)"

fun partitions_at :: "nat \<Rightarrow> string list \<Rightarrow> (string \<times> nat \<times> nat option) list" where
  "partitions_at a [] = []"
| "partitions_at a (p # ps) =
     (let n = megabytes (takeWhile (\<lambda>c. c \<noteq> CHR ''('') p)
      in (butlast (after (CHR ''('') p), a, n) # (case n of None \<Rightarrow> [] | Some k \<Rightarrow> partitions_at (a + k) ps))"

definition partitions :: "string \<Rightarrow> (string \<times> nat \<times> nat option) list" where
  "partitions s = partitions_at 0 (fields_from [] (after (CHR '':'') s))"

lemma partition_fields:
  "fields_from [] (after (CHR '':'') MFG_NAND_PARTITION) =
     [''64m(nandboot)'', ''16m(nandfit)'', ''64m(nandkernel)'', ''16m(nanddtb)'', ''8m(nandtee)'', ''-(nandrootfs)'']"
  by code_simp

lemma nand_partitions:
  "partitions MFG_NAND_PARTITION =
     [(''nandboot'', 0, Some 0x4000000), (''nandfit'', 0x4000000, Some 0x1000000), (''nandkernel'', 0x5000000, Some 0x4000000),
      (''nanddtb'', 0x9000000, Some 0x1000000), (''nandtee'', 0xA000000, Some 0x800000), (''nandrootfs'', 0xA800000, None)]"
  unfolding partitions_def partition_fields by (simp add: megabytes_def after_def Let_def)

lemma nand_names: "distinct (names (imx8mp_nand_env []))"
  by code_simp

definition nand_args :: string where
  "nand_args = ''console=ttymxc1,115200 earlycon=ec_imx6q,0x30890000,115200 ubi.mtd=nandrootfs root=ubi0:nandrootfs rootfstype=ubifs ''
     @ MFG_NAND_PARTITION"

lemma nand_vars:
  fixes others
  defines "e \<equiv> env_of others (imx8mp_nand_env [])"
  shows "e ''bootcmd'' = Some ''nand read ${loadaddr} 0x5000000 0x4000000;nand read ${fdt_addr_r} 0x9000000 0x100000;booti ${loadaddr} - ${fdt_addr_r}''"
    "e ''fdt_addr_r'' = Some ''0x43000000''"
    "e ''bootargs'' = Some nand_args"
  unfolding e_def
  by (rule env_of_var [OF nand_names], simp add: imx8mp_nand_env_def nand_args_def, simp)+

lemma nand_script:
  "script ''nand read ${loadaddr} 0x5000000 0x4000000;nand read ${fdt_addr_r} 0x9000000 0x100000;booti ${loadaddr} - ${fdt_addr_r}'' =
     [Simple [Plain ''nand'', Plain ''read'', Plain ''${loadaddr}'', Plain ''0x5000000'', Plain ''0x4000000''],
      Simple [Plain ''nand'', Plain ''read'', Plain ''${fdt_addr_r}'', Plain ''0x9000000'', Plain ''0x100000''],
      Simple [Plain ''booti'', Plain ''${loadaddr}'', Plain ''-'', Plain ''${fdt_addr_r}'']]"
  by code_simp


definition nand_board_env :: vars where
  "nand_board_env = env_of [''loadaddr'' \<mapsto> ''0x40400000''] (imx8mp_nand_env [])"

lemma nand_unnamed: "list_all (\<lambda>n. n \<noteq> ''loadaddr'') (names (imx8mp_nand_env []))"
  by code_simp

lemma nand_loadaddr: "nand_board_env ''loadaddr'' = Some ''0x40400000''"
  using nand_unnamed env_of_other [of "''loadaddr''" "imx8mp_nand_env []"]
  unfolding list_all_iff nand_board_env_def by fastforce


section \<open>Memory\<close>

definition PHYS_SDRAM_IMX8 :: nat where "PHYS_SDRAM_IMX8 = 0x40000000"

definition PHYS_SDRAM_SIZE :: nat where "PHYS_SDRAM_SIZE = 0xC0000000"

definition PHYS_SDRAM_2 :: nat where "PHYS_SDRAM_2 = 0x100000000"

text \<open>The same for both kinds of memory.\<close>

definition PHYS_SDRAM_2_SIZE :: nat where "PHYS_SDRAM_2_SIZE = 0x40000000"

definition in_sdram :: "nat \<times> nat \<Rightarrow> bool" where
  "in_sdram r \<longleftrightarrow>
     (\<exists>(a, n) \<in> {(PHYS_SDRAM_IMX8, PHYS_SDRAM_SIZE), (PHYS_SDRAM_2, PHYS_SDRAM_2_SIZE)}. a \<le> fst r \<and> fst r + snd r \<le> a + n)"

text \<open>The settings for Jailhouse, with the blanks around the terminators as they are.\<close>

definition JAILHOUSE_ENV :: "string list" where
  "JAILHOUSE_ENV =
     [''jh_clk= '',
      '' jh_root_dtb=imx8mp-evk-root.dtb'',
      ''jh_mmcboot=setenv fdtfile ${jh_root_dtb};'' @
        ''setenv jh_clk kvm.enable_virt_at_load=false clk_ignore_unused; '' @
        ''setenv jh_root_mem 0x16000000@0x40000000,0x62000000@0x58000000,0xc0000000@0x100000000; '' @
        ''if run loadimage; then '' @
        ''run mmcboot; '' @
        ''else run jh_netboot; fi; '',
      ''jh_netboot=setenv fdtfile ${jh_root_dtb}; '' @
        ''setenv jh_root_mem 0x16000000@0x40000000,0x62000000@0x58000000,0xc0000000@0x100000000; '' @
        ''setenv jh_clk kvm.enable_virt_at_load=false clk_ignore_unused; run netboot; '',
      '' '']"

text \<open>The regions (start and size) that a script gives to \<open>jh_root_mem\<close>.\<close>

fun set_to :: "string \<Rightarrow> string list \<Rightarrow> string list" where
  "set_to n (c # m # v # ws) = (if c = ''setenv'' \<and> m = n then [v] else []) @ set_to n (m # v # ws)"
| "set_to n ws = []"

definition region :: "string \<Rightarrow> nat \<times> nat" where
  "region s = (nat (hex_num (after (CHR ''@'') s)), nat (hex_num (takeWhile (\<lambda>c. c \<noteq> CHR ''@'') s)))"

definition root_mem :: "string \<Rightarrow> (nat \<times> nat) list" where
  "root_mem e = concat (map (\<lambda>v. map region (fields_from [] v)) (set_to ''jh_root_mem'' (words_from [] (entry_value e))))"

lemma root_mem_fields:
  "map (\<lambda>e. map (fields_from []) (set_to ''jh_root_mem'' (words_from [] (entry_value e)))) JAILHOUSE_ENV
     = [[], [], [[''0x16000000@0x40000000'', ''0x62000000@0x58000000'', ''0xc0000000@0x100000000'']],
        [[''0x16000000@0x40000000'', ''0x62000000@0x58000000'', ''0xc0000000@0x100000000'']], []]"
  by code_simp

lemma regions:
  "region ''0x16000000@0x40000000'' = (0x40000000, 0x16000000)" "region ''0x62000000@0x58000000'' = (0x58000000, 0x62000000)"
  "region ''0xc0000000@0x100000000'' = (0x100000000, 0xC0000000)"
  by (simp_all add: region_def after_def hex_num_def hex_digit_def)

lemma root_mem_regions:
  "map root_mem JAILHOUSE_ENV =
     [[], [], [(0x40000000, 0x16000000), (0x58000000, 0x62000000), (0x100000000, 0xC0000000)],
      [(0x40000000, 0x16000000), (0x58000000, 0x62000000), (0x100000000, 0xC0000000)], []]"
proof -
  have "map root_mem JAILHOUSE_ENV =
      map (\<lambda>fs. concat (map (map region) fs))
        (map (\<lambda>e. map (fields_from []) (set_to ''jh_root_mem'' (words_from [] (entry_value e)))) JAILHOUSE_ENV)"
    by (simp add: root_mem_def comp_def)
  then show ?thesis
    unfolding root_mem_fields by (simp add: regions)
qed

text \<open>
  The settings for Jailhouse are not those of this board. Of the memory they give to the
  root cell the third region ends above the memory the board has, which is 4 GB and not the
  6 GB they were made for; and the scripts \<open>mmcboot\<close> and \<open>netboot\<close> that they run are not
  in the environment. The addresses that the board itself loads to are in its memory.
\<close>

theorem jailhouse_settings_stale:
  "PHYS_SDRAM_SIZE + PHYS_SDRAM_2_SIZE = 4 * 2 ^ 30
   \<and> map (filter (\<lambda>r. \<not> in_sdram r)) (map root_mem JAILHOUSE_ENV)
       = [[], [], [(PHYS_SDRAM_2, 3 * 2 ^ 30)], [(PHYS_SDRAM_2, 3 * 2 ^ 30)], []]
   \<and> undefined_runs (imx8mp_env [] [] ''0x40400000'' ''imx8mp-himx8-repro.dtb'' @ JAILHOUSE_ENV) = [''mmcboot'', ''netboot'']
   \<and> list_all (\<lambda>a. in_sdram (nat (hex_num a), 0x100000)) [''0x40400000'', ''0x43000000'', ''0x43800000'']"
proof (intro conjI)
  show "undefined_runs (imx8mp_env [] [] ''0x40400000'' ''imx8mp-himx8-repro.dtb'' @ JAILHOUSE_ENV) = [''mmcboot'', ''netboot'']"
    by code_simp
qed (simp_all add: root_mem_regions in_sdram_def PHYS_SDRAM_IMX8_def PHYS_SDRAM_SIZE_def PHYS_SDRAM_2_def PHYS_SDRAM_2_SIZE_def
    hex_num_def hex_digit_def)

end
