(* ===== verification/Spec2Isabelle.thy ===== *)
theory Spec2Isabelle
  imports Main_Correct Run_Cut Healthy_Cut Phy_Config Hab Power_Loss Board_Correct Switch_Reset Uboot_Vars Lpddr4_Correct
    Himx0294_Plain Boot_Correct Imx8_Memory
begin

text \<open>
  Verification library of the C code of the meta-hipos layer.

  The layer builds the system of several embedded boards. Its C code has two parts, and both
  decide which of two copies of the system a board starts:

    \<^item> \<open>bootconfig\<close> (\<open>recipes-hipos/bootconfig\<close>), a tool under Linux. It keeps the boot
      configuration in a ring of boot blocks on a NAND partition: each block holds an epoch and,
      for the kernel and the root file system, the partition in use and two flags. The block with
      the largest epoch is current, and an update writes the next good block of the ring.
    \<^item> the board code of the boot loader U-Boot (\<open>recipes-bsp/u-boot\<close>): the boards himx0294
      (i.MX6, in a version with and one without signed boot), himx0432 (i.MX6ULL) and the
      memory tables and environment of an i.MX8M Plus board.

  They share no state; only \<open>Prelude\<close> is common to their models.

  \<^bold>\<open>bootconfig.\<close> The state is \<open>world\<close>: the flash, its bad blocks, the number of calls made so
  far, the log and the output. What libmtd and libc answer is a parameter (\<open>env_ops\<close>), a
  function of the number of calls so far, so a device may fail at any call and differently
  each time. Outcomes are values of \<open>res\<close>: a function returns, calls \<open>exit\<close> or has undefined
  behaviour.

    \<^item> \<open>Btblock\<close>: \<open>struct btinfo\<close>, \<open>btblock\<close>, \<open>bootconfig\<close> of \<open>lowlevel.h\<close> with their image in
      memory. \<open>Logging\<close>: \<open>logging.c\<close>, \<open>logging.h\<close>. \<open>Mtd_Env\<close>: the calls and their answers.
    \<^item> \<open>Block_IO\<close>, \<open>Lowlevel\<close>: every function of \<open>lowlevel.c\<close>. \<open>Bootconfig_Main\<close>: \<open>main.c\<close>.
    \<^item> \<open>Frame\<close> (what each operation leaves alone on any device), \<open>Flash\<close> and \<open>Flash_Config\<close> (a
      working NAND and the configuration it holds), \<open>Current\<close> (the current block),
      \<open>Set_Partition\<close>, \<open>Healthy\<close>, \<open>Init\<close>, \<open>Faults\<close> (failing devices): the lemmas.
      The locales \<open>healthy_flag\<close> and \<open>healthy_command\<close> hold what the two images share and are
      interpreted for the kernel and for the root file system. \<open>Sim_Nand\<close> is a working device
      for the witnesses.
    \<^item> \<open>Lowlevel_Correct\<close>, \<open>Main_Correct\<close>: the properties. \<open>bc_ll_set_partition\<close> implements its
      contract on the abstract configuration, never touches the current block on any device,
      and what the program reports when the device fails is stated as it is.
    \<^item> \<open>Power_Cut\<close>, \<open>Retry\<close>, \<open>Run_Cut\<close>: the power may fail at any call of \<open>bc_ll_set_partition\<close>, or
      of a whole run of the program; the flash then holds the old configuration or the new one. This
      takes a page to be programmed as a whole or not at all: a boot block has no checksum. The
      same command run again completes the update. A device that loses power (\<open>power_cut\<close>, \<open>lives\<close>) does what is
      documented until it is dead; \<open>revived\<close> is the device that would not have died.
    \<^item> \<open>Healthy_Cut\<close>: marking an image healthy clears one bit and so is atomic even when a page is
      programmed only in part (\<open>bit_cut\<close>). The locale \<open>one_bit_command\<close> is interpreted for both images.

  The loop over the ring ends because the distance to the starting block shrinks
  (\<open>ring_dist\<close>); the other loops run over lists.

  \<^bold>\<open>U-Boot.\<close> The board code talks to the hardware and to U-Boot by calls. A run is the list of
  the calls so far (\<open>trace\<close> of \<open>Uboot\<close>), and what a call answers is a function of the calls
  before it (\<open>platform\<close>), again unknown. \<open>config\<close> holds what is chosen at compile time.

    \<^item> \<open>Marvell\<close>, \<open>Marvell_Correct\<close>, \<open>Phy_Config\<close>: the PHYs behind the network switch
      (\<open>marvell_phy_read\<close> to \<open>board_phy_config\<close> of \<open>hipos-cyber-security/himx0294.c\<close>). The loops that
      wait for the device have no bound in the code; they are partial functions, where \<open>None\<close>
      is a run that hangs. That they return is proved for a switch that follows its documented
      protocol (\<open>smi_switch\<close>, \<open>self_clearing\<close>, \<open>has_ports\<close>).
    \<^item> \<open>Late_Init\<close>, \<open>Late_Correct\<close>, \<open>Fdt_Choice\<close>, \<open>Hab\<close>, \<open>Power_Loss\<close>: the late start of the same
      file: the device tree, whether the device is locked, the configuration of the FIT image, the boot
      commands of the two slots, and what the kernel is told. The environment is \<open>has_env\<close>: a
      variable reads as it was last written; \<open>stored_numbers\<close> is what a restart finds, and
      the relations \<open>cut_start\<close> and \<open>full_start\<close> are starts that the power cuts off, or not. The
      three boards that may replace the default device tree share the locale \<open>fdt_choice\<close>. The
      probe of the I2C bus has five rounds, as in the code.
    \<^item> \<open>Board\<close>, \<open>Board_Correct\<close>: the other functions of the file, pads, USB, SPI, display. Masks
      and offsets from headers of U-Boot are parameters.
    \<^item> \<open>Himx0294_Plain\<close>: \<open>himx0294/himx0294.c\<close>, the file without signed boot, translated for itself
      and shown to agree with the other one in every function they share; its own
      \<open>board_late_init\<close> is \<open>himx0294_late_init\<close> of \<open>Late_Init\<close>.
    \<^item> \<open>Himx0432\<close>, \<open>Switch_Reset\<close>: \<open>himx0294/himx0432.c\<close>; the order in which the board resets its
      switch is checked by an automaton over the trace.
    \<^item> \<open>Uboot_Vars\<close>: the default environments of the headers, as lists of strings, and which
      scripts run which; one script of the i.MX8M Plus board is shown to do what the C code
      of the other boards does.
    \<^item> \<open>Hush\<close>: the language of those scripts, from the text to the commands a device gets. Whether
      such a command succeeds is a parameter. Scripts can run themselves, so there is fuel;
      more fuel changes nothing (\<open>exec_mono\<close>), and the 64 of a boot command (\<open>SCRIPT_FUEL\<close>) are enough for
      every script that is run here, since the theorems give the result. The list of commands goes on after a
      kernel has been started: what follows is what happens when it cannot be started.
    \<^item> \<open>Boot_Script\<close>, \<open>Plain_Boot\<close>, \<open>Boot_Correct\<close>, \<open>Imx8_Boot\<close>: the boot commands run in the default
      environments, for each board from its \<open>board_late_init\<close> to the kernel and its arguments. On
      the boards with signed boot this rests on the stored environment holding no scripts:
      only the numbers of \<open>CFG_ENV_FLAGS_LIST_STATIC\<close> are loaded from it. \<open>Imx8_Memory\<close>: the settings of
      the i.MX8M Plus board for NAND and Jailhouse, against its partitions and its memory.
    \<^item> \<open>Lpddr4\<close>, \<open>Lpddr4_Phy\<close>, \<open>Lpddr4_Correct\<close>: the tables of \<open>u-boot-imx/lpddr4_timing.c\<close> and
      the relations between them.

  \<^bold>\<open>Not modelled.\<close> How \<open>printf\<close> and the log render a format: events hold the format and the
  values, of the place of a message in the source only that it is given. \<open>miiphy_read\<close> is
  taken to store a value at every call. Of the board headers the default environments, the boot
  command, the memory of the i.MX8M Plus board and the names the code uses are modelled, not the
  plain configuration constants, which are values for the build, nor \<open>SR_IR_V2_COMMAND\<close>, which
  nothing uses. What the commands of the boot loader do to a device (\<open>ext4load\<close>, \<open>bootm\<close>) is code
  of U-Boot; the authentication of a signed image is its own. The unit tests of \<open>bootconfig\<close>, recipes,
  shell scripts, device trees and patches of third-party sources are no part of the model.
\<close>

end
